(* ===== verification/Prelude.thy ===== *)
theory Prelude
  imports Main "HOL-Library.Word"
begin

text \<open>
  The vocabulary that every component of the development shares.

  \<^item> Machine words: an address, an \<^verbatim>\<open>oop\<close> and a \<^verbatim>\<open>void*\<close> are 64-bit words, memory is a
    total map from addresses to bytes, and 32- and 64-bit accesses are little endian and may be
    unaligned, as they are on x86-64.
  \<^item> Failures: \<^verbatim>\<open>guarantee\<close>, \<^verbatim>\<open>fatal\<close>, \<^verbatim>\<open>abort\<close>, \<^verbatim>\<open>vm_exit_during_initialization\<close> and a Rust
    \<^verbatim>\<open>assert!\<close> end the process; an operation that can fail returns the failure as the left
    injection of a sum.
  \<^item> Transition systems: reachability and the locale \<open>safety_system\<close> that lifts an inductive
    invariant to every reachable state; each protocol of the binding interprets it, and its
    extension \<open>simulation\<close> relates the runs of two systems. The locale
    \<open>functional_refinement\<close> lifts a refinement of single operations to sequences of operations.
  \<^item> Collections: \<open>word_bits\<close> (bit arithmetic of the metadata computations) and \<open>mem_access\<close>
    (what a load returns after a store).
\<close>

unbundle bit_operations_syntax

section \<open>Words and memory\<close>

named_theorems word_bits \<open>bit-level facts on addresses and metadata bytes\<close>
named_theorems mem_access \<open>loads after stores\<close>

type_synonym addr = "64 word"
type_synonym size_t = "64 word"
type_synonym byte = "8 word"
type_synonym mem = "addr \<Rightarrow> byte"

abbreviation (input) NULL :: addr where "NULL \<equiv> 0"

text \<open>Addresses of the lower canonical half: the sign bit of the pointer is clear.\<close>

definition user_addr :: "addr \<Rightarrow> bool" where
  "user_addr a \<longleftrightarrow> \<not> bit a 63"

definition load32 :: "mem \<Rightarrow> addr \<Rightarrow> 32 word" where
  "load32 m a = ucast (m a) OR push_bit 8 (ucast (m (a + 1)))
     OR push_bit 16 (ucast (m (a + 2))) OR push_bit 24 (ucast (m (a + 3)))"

definition store32 :: "mem \<Rightarrow> addr \<Rightarrow> 32 word \<Rightarrow> mem" where
  "store32 m a v = m(a := ucast v, a + 1 := ucast (drop_bit 8 v),
     a + 2 := ucast (drop_bit 16 v), a + 3 := ucast (drop_bit 24 v))"

definition load64 :: "mem \<Rightarrow> addr \<Rightarrow> 64 word" where
  "load64 m a = ucast (load32 m a) OR push_bit 32 (ucast (load32 m (a + 4)))"

definition store64 :: "mem \<Rightarrow> addr \<Rightarrow> 64 word \<Rightarrow> mem" where
  "store64 m a v = store32 (store32 m a (ucast v)) (a + 4) (ucast (drop_bit 32 v))"

section \<open>Failures\<close>

datatype vm_error =
    Guarantee_failed string
  | Fatal string
  | Assert_failed string
  | Abort string
  | Vm_exit string
  | Panic string

type_synonym 'a result = "vm_error + 'a"

section \<open>Reachable states of a transition system\<close>

inductive reachable :: "('s \<Rightarrow> bool) \<Rightarrow> ('s \<Rightarrow> 's \<Rightarrow> bool) \<Rightarrow> 's \<Rightarrow> bool"
  for start :: "'s \<Rightarrow> bool" and step :: "'s \<Rightarrow> 's \<Rightarrow> bool" where
  reach_start: "start s \<Longrightarrow> reachable start step s"
| reach_step: "reachable start step s \<Longrightarrow> step s t \<Longrightarrow> reachable start step t"

locale safety_system =
  fixes start :: "'s \<Rightarrow> bool"
    and step :: "'s \<Rightarrow> 's \<Rightarrow> bool"
    and inv :: "'s \<Rightarrow> bool"
  assumes inv_start: "start s \<Longrightarrow> inv s"
    and inv_step: "inv s \<Longrightarrow> step s t \<Longrightarrow> inv t"
begin

lemma reachable_inv: "reachable start step s \<Longrightarrow> inv s"
  by (induction rule: reachable.induct) (auto intro: inv_start inv_step)

lemma steps_inv: "step\<^sup>*\<^sup>* s t \<Longrightarrow> inv s \<Longrightarrow> inv t"
  by (induction rule: rtranclp_induct) (auto intro: inv_step)

end

text \<open>A system whose steps, seen through \<open>view\<close>, are steps of another system or invisible in it.\<close>

locale simulation = safety_system start step inv
  for start :: "'s \<Rightarrow> bool" and step :: "'s \<Rightarrow> 's \<Rightarrow> bool" and inv :: "'s \<Rightarrow> bool" +
  fixes view :: "'s \<Rightarrow> 't"
    and astart :: "'t \<Rightarrow> bool"
    and astep :: "'t \<Rightarrow> 't \<Rightarrow> bool"
  assumes view_start: "start s \<Longrightarrow> astart (view s)"
    and view_step: "inv s \<Longrightarrow> step s t \<Longrightarrow> view t = view s \<or> astep (view s) (view t)"
begin

lemma reachable_view: "reachable start step s \<Longrightarrow> reachable astart astep (view s)"
proof (induction rule: reachable.induct)
  case (reach_step s t)
  from view_step[OF reachable_inv[OF reach_step.hyps(1)] reach_step.hyps(2)] show ?case
    using reach_step.IH by (auto intro: reachable.reach_step)
qed (auto intro: reach_start view_start)

end

lemma reachable_steps:
  "reachable start step s \<Longrightarrow> step\<^sup>*\<^sup>* s t \<Longrightarrow> reachable start step t"
  by (rotate_tac, induction rule: rtranclp_induct) (auto intro: reach_step)

text \<open>
  Operations that implement those of an abstract specification, on the states that satisfy the invariant
  and for the arguments that are allowed, implement sequences of them.
\<close>

locale functional_refinement =
  fixes inv :: "'s \<Rightarrow> bool"
    and allowed :: "'o \<Rightarrow> bool"
    and step :: "'o \<Rightarrow> 's \<Rightarrow> 's"
    and abs :: "'s \<Rightarrow> 'a"
    and spec :: "'o \<Rightarrow> 'a \<Rightarrow> 'a"
  assumes step_inv: "inv s \<Longrightarrow> allowed x \<Longrightarrow> inv (step x s)"
    and step_abs: "inv s \<Longrightarrow> allowed x \<Longrightarrow> abs (step x s) = spec x (abs s)"
begin

lemma run_refines:
  "inv s \<Longrightarrow> list_all allowed xs \<Longrightarrow> inv (fold step xs s) \<and> abs (fold step xs s) = fold spec xs (abs s)"
  by (induction xs arbitrary: s) (auto simp: step_inv step_abs)

end

section \<open>Bit arithmetic\<close>

lemma and_7_take_bit: "(x :: 64 word) AND 7 = take_bit 3 x"
  by (simp add: take_bit_eq_mask mask_eq_exp_minus_1)

lemma unat_and_7: "unat ((x :: 64 word) AND 7) = unat x mod 8"
  unfolding and_7_take_bit unsigned_take_bit_eq by (simp add: take_bit_eq_mod)

lemma and_7_less_8: "unat ((x :: 64 word) AND 7) < 8"
  by (simp add: unat_and_7)

lemma drop_bit_and_1 [word_bits]: "(drop_bit n (w :: 'a::len word) AND 1 = 1) \<longleftrightarrow> bit w n"
  by (simp add: and_one_eq bit_iff_odd_drop_bit odd_iff_mod_2_eq_one)

lemma drop_bit_and_1_zero [word_bits]:
  "(drop_bit n (w :: 'a::len word) AND 1 \<noteq> 0) \<longleftrightarrow> bit w n"
  by (simp add: and_one_eq bit_iff_odd_drop_bit even_iff_mod_2_eq_zero)

lemma drop_bit_and_1_of_bool: "drop_bit n (w :: 'a::len word) AND 1 = of_bool (bit w n)"
  by (simp add: and_one_eq bit_iff_odd_drop_bit mod_2_eq_odd)

lemma signed_drop_bit_user [word_bits]:
  "user_addr a \<Longrightarrow> signed_drop_bit n a = drop_bit n a"
  by (rule bit_word_eqI)
    (auto simp: user_addr_def bit_signed_drop_bit_iff bit_drop_bit_eq dest: bit_imp_le_length)

lemma unat_drop_bit_64: "unat (drop_bit n (a :: 64 word)) = unat a div 2 ^ n"
  by (simp add: unat_drop_bit_eq flip: drop_bit_eq_div)

lemma nat_split_64: "(n :: nat) = 64 * (n div 64) + 8 * (n div 8 mod 8) + n mod 8"
proof -
  have "n div 64 = n div 8 div 8" by (simp add: div_mult2_eq [of n 8 8, symmetric])
  then show ?thesis
    using div_mult_mod_eq [of n 8] div_mult_mod_eq [of "n div 8" 8] by linarith
qed

lemma unat_ucast_byte: "unat (ucast (b :: byte) :: 64 word) = unat b"
proof -
  have "unat b < 2 ^ LENGTH(8)" by (rule unsigned_less)
  then show ?thesis by (simp add: unsigned_ucast_eq take_bit_nat_eq_self_iff)
qed

lemma ucast_byte_eq_1: "(ucast (b :: byte) :: 64 word) = 1 \<longleftrightarrow> b = 1"
  by (simp add: word_unat_eq_iff unat_ucast_byte)
lemma sint_nonneg_64: "unat (w :: 64 word) < 2 ^ 63 \<Longrightarrow> sint w = int (unat w)"
proof -
  assume a: "unat w < 2 ^ 63"
  have "sint w = signed_take_bit 63 (uint w)" by (simp add: sint_uint)
  also have "\<dots> = uint w"
  proof (rule signed_take_bit_int_eq_self)
    show "- (2 ^ 63) \<le> uint w" by (rule order_trans[OF _ uint_ge_0]) simp
    have "int (unat w) < int (2 ^ 63)" using a by (simp only: of_nat_less_iff)
    then show "uint w < 2 ^ 63" by simp
  qed
  finally show ?thesis by simp
qed

lemma or_one_nonzero: "(1 :: 32 word) OR x \<noteq> 0"
proof
  assume "(1 :: 32 word) OR x = 0"
  then have "bit ((1 :: 32 word) OR x) 0 = bit (0 :: 32 word) 0" by simp
  then show False by (simp add: bit_or_iff)
qed

section \<open>Memory accesses\<close>

lemma load32_store32 [mem_access]: "load32 (store32 m a v) a = v"
proof (rule bit_word_eqI)
  fix n assume "n < LENGTH(32)"
  then consider "n < 8" | "8 \<le> n" "n < 16" | "16 \<le> n" "n < 24" | "24 \<le> n" "n < 32"
    by fastforce
  then show "bit (load32 (store32 m a v) a) n = bit v n"
    by cases (auto simp: load32_def store32_def bit_simps)
qed

lemma store32_frame:
  assumes "\<And>i. i \<in> {0, 1, 2, 3} \<Longrightarrow> b \<noteq> a + i"
  shows "store32 m a v b = m b"
  using assms[of 0] assms[of 1] assms[of 2] assms[of 3] by (simp add: store32_def)

lemma load32_store32_other [mem_access]:
  assumes "4 \<le> unat (b - a)" and "4 \<le> unat (a - b)"
  shows "load32 (store32 m a v) b = load32 m b"
proof -
  have "store32 m a v (b + j) = m (b + j)" if "j \<in> {0, 1, 2, 3}" for j
  proof (rule store32_frame, rule notI)
    fix i :: addr
    assume i: "i \<in> {0, 1, 2, 3}" and "b + j = a + i"
    then have "b - a = i - j" "a - b = j - i" by (simp_all add: algebra_simps)
    with i that assms show False by auto
  qed
  from this[of 0] this[of 1] this[of 2] this[of 3] show ?thesis by (simp add: load32_def)
qed

lemma load64_store64 [mem_access]: "load64 (store64 m a v) a = v"
proof -
  have "load32 (store64 m a v) a = ucast v"
    by (simp add: store64_def load32_store32_other load32_store32)
  moreover have "load32 (store64 m a v) (a + 4) = ucast (drop_bit 32 v)"
    by (simp add: store64_def load32_store32)
  ultimately show ?thesis unfolding load64_def
    by (intro bit_word_eqI) (auto simp: bit_simps)
qed

lemma load64_byte_update:
  assumes "8 \<le> unat (b - a)"
  shows "load64 (m(b := v)) a = load64 m a"
proof -
  have "a + i \<noteq> b" if "i \<in> {0,1,2,3,4,5,6,7}" for i
    using assms that by auto
  from this[of 0] this[of 1] this[of 2] this[of 3] this[of 4] this[of 5] this[of 6] this[of 7]
  show ?thesis by (simp add: load64_def load32_def ac_simps)
qed

lemma store64_frame:
  assumes "8 \<le> unat (b - a)"
  shows "store64 m a v b = m b"
proof -
  have "b \<noteq> a + i" if "i \<in> {0,1,2,3,4,5,6,7}" for i
    using assms that by auto
  from this[of 0] this[of 1] this[of 2] this[of 3] this[of 4] this[of 5] this[of 6] this[of 7]
  show ?thesis by (simp add: store64_def store32_def ac_simps)
qed

lemma load64_store64_other:
  assumes "8 \<le> unat (b - a)" and "8 \<le> unat (a - b)"
  shows "load64 (store64 m a v) b = load64 m b"
proof -
  have "store64 m a v (b + j) = m (b + j)" if "j \<in> {0,1,2,3,4,5,6,7}" for j
  proof -
    have "b + j \<noteq> a + i" if "i \<in> {0,1,2,3,4,5,6,7}" for i
    proof
      assume "b + j = a + i"
      then have "b - a = i - j" "a - b = j - i" by (simp_all add: algebra_simps)
      with \<open>i \<in> _\<close> \<open>j \<in> _\<close> assms show False by auto
    qed
    from this[of 0] this[of 1] this[of 2] this[of 3] this[of 4] this[of 5] this[of 6] this[of 7]
    show ?thesis by (simp add: store64_def store32_def ac_simps)
  qed
  from this[of 0] this[of 1] this[of 2] this[of 3] this[of 4] this[of 5] this[of 6] this[of 7]
  show ?thesis by (simp add: load64_def load32_def ac_simps)
qed

end
