(* ===== verification/Side_Metadata.thy ===== *)
theory Side_Metadata
  imports Prelude
begin

text \<open>
  One-bit-per-word side metadata: the unlog bit that the write barriers test and the
  valid-object (VO) bit that allocation sets. mmtk-core chooses the base address of a metadata
  table; an object at address \<open>a\<close> owns bit \<open>(a >> 3) & 7\<close> of the byte at \<open>base + (a >> 6)\<close>.

  The abstract view is \<open>meta_bit\<close>, \<open>set_meta_bit\<close> and \<open>clear_meta_bit\<close>; the test as the C++
  runtime computes it is \<open>runtime_unlog_test\<close>. The locale \<open>unlog_test\<close> is the contract of a
  barrier fast path: the runtime, the interpreter's assembly, C1 and C2 each interpret it.
\<close>

section \<open>The metadata table\<close>

definition meta_byte_addr :: "addr \<Rightarrow> addr \<Rightarrow> addr" where
  "meta_byte_addr base a = base + drop_bit 6 a"

definition meta_bit_index :: "addr \<Rightarrow> nat" where
  "meta_bit_index a = unat (drop_bit 3 a AND 7)"

definition meta_bit :: "addr \<Rightarrow> mem \<Rightarrow> addr \<Rightarrow> bool" where
  "meta_bit base m a \<longleftrightarrow> bit (m (meta_byte_addr base a)) (meta_bit_index a)"

definition set_meta_bit :: "addr \<Rightarrow> mem \<Rightarrow> addr \<Rightarrow> mem" where
  "set_meta_bit base m a =
     m(meta_byte_addr base a := m (meta_byte_addr base a) OR push_bit (meta_bit_index a) 1)"

definition clear_meta_bit :: "addr \<Rightarrow> mem \<Rightarrow> addr \<Rightarrow> mem" where
  "clear_meta_bit base m a =
     m(meta_byte_addr base a := m (meta_byte_addr base a) AND NOT (push_bit (meta_bit_index a) 1))"

section \<open>The test as the C++ runtime computes it\<close>

text \<open>
  \<^verbatim>\<open>intptr_t\<close> is signed, so both shifts of the address are arithmetic; the metadata byte is
  promoted to a 32-bit \<^verbatim>\<open>int\<close> before it is shifted.
\<close>

definition runtime_unlog_test :: "addr \<Rightarrow> mem \<Rightarrow> addr \<Rightarrow> bool" where
  "runtime_unlog_test base m obj =
     (let addr = obj;
          meta_addr = base + signed_drop_bit 6 addr;
          shift = signed_drop_bit 3 addr AND 0b111;
          byte_val = m meta_addr
      in drop_bit (unat shift) (ucast byte_val :: 32 word) AND 1 = 1)"

section \<open>Laws of the table\<close>

lemma meta_bit_index_less [simp]: "meta_bit_index a < 8"
  by (simp add: meta_bit_index_def and_7_less_8)

lemma meta_bit_index_eq: "meta_bit_index a = unat a div 8 mod 8"
  by (simp add: meta_bit_index_def unat_and_7 unat_drop_bit_64)

text \<open>The index as the 32-bit code of the compilers computes it.\<close>

lemma meta_bit_index_32:
  "unat (ucast (drop_bit 3 a AND 7) :: 32 word) = meta_bit_index a"
  "unat ((ucast (drop_bit 3 a AND 7) :: 32 word) AND 31) = meta_bit_index a"
proof -
  show eq: "unat (ucast (drop_bit 3 a AND 7) :: 32 word) = meta_bit_index a"
    using and_7_less_8[of "drop_bit 3 a"]
    by (simp add: unsigned_ucast_eq take_bit_nat_eq_self_iff meta_bit_index_def)
  have "(31 :: 32 word) = mask 5" by (simp add: mask_eq_exp_minus_1)
  moreover have "(ucast (drop_bit 3 a AND 7) :: 32 word) AND mask 5 = ucast (drop_bit 3 a AND 7)"
    by (rule bit_word_eqI) (auto simp: and_7_take_bit bit_simps)
  ultimately have "(ucast (drop_bit 3 a AND 7) :: 32 word) AND 31 = ucast (drop_bit 3 a AND 7)"
    by simp
  with eq show "unat ((ucast (drop_bit 3 a AND 7) :: 32 word) AND 31) = meta_bit_index a" by simp
qed

text \<open>Two word-aligned addresses own the same bit only if they are equal.\<close>

lemma meta_location_inject:
  assumes "a AND 7 = 0" and "b AND 7 = 0"
    and "meta_byte_addr base a = meta_byte_addr base b"
    and "meta_bit_index a = meta_bit_index b"
  shows "a = b"
proof -
  have low: "unat a mod 8 = 0" "unat b mod 8 = 0"
    using assms(1,2) unat_and_7[of a] unat_and_7[of b] by simp_all
  have "drop_bit 6 a = drop_bit 6 b"
    using assms(3) by (simp add: meta_byte_addr_def)
  then have "unat a div 64 = unat b div 64"
    using unat_drop_bit_64[of 6 a] unat_drop_bit_64[of 6 b] by simp
  moreover have "unat a div 8 mod 8 = unat b div 8 mod 8"
    using assms(4) by (simp add: meta_bit_index_eq)
  ultimately have "unat a = unat b"
    using low nat_split_64 [of "unat a"] nat_split_64 [of "unat b"] by simp
  then show ?thesis by (simp add: word_unat_eq_iff)
qed

lemma meta_bit_set_same [simp]: "meta_bit base (set_meta_bit base m a) a"
  by (simp add: meta_bit_def set_meta_bit_def bit_simps)

lemma meta_bit_clear_same [simp]: "\<not> meta_bit base (clear_meta_bit base m a) a"
  by (simp add: meta_bit_def clear_meta_bit_def bit_simps)

lemma meta_bit_set_other:
  assumes "a AND 7 = 0" and "b AND 7 = 0" and "a \<noteq> b"
  shows "meta_bit base (set_meta_bit base m a) b = meta_bit base m b"
  using meta_location_inject[OF assms(1,2), of base] assms(3)
  by (auto simp: meta_bit_def set_meta_bit_def bit_simps)

lemma meta_bit_clear_other:
  assumes "a AND 7 = 0" and "b AND 7 = 0" and "a \<noteq> b"
  shows "meta_bit base (clear_meta_bit base m a) b = meta_bit base m b"
  using meta_location_inject[OF assms(1,2), of base] assms(3)
  by (auto simp: meta_bit_def clear_meta_bit_def bit_simps dest: bit_imp_le_length)

section \<open>The contract of a fast-path test\<close>

locale unlog_test =
  fixes test :: "addr \<Rightarrow> mem \<Rightarrow> addr \<Rightarrow> bool"
  assumes test_sound: "user_addr a \<Longrightarrow> test base m a \<longleftrightarrow> meta_bit base m a"
begin

text \<open>A test never confuses two objects: changing another object's bit does not change it.\<close>

lemma test_clear_other:
  assumes "user_addr b" and "a AND 7 = 0" and "b AND 7 = 0" and "a \<noteq> b"
  shows "test base (clear_meta_bit base m a) b = test base m b"
  using assms by (simp add: test_sound meta_bit_clear_other)

lemma test_clear_same: "user_addr a \<Longrightarrow> \<not> test base (clear_meta_bit base m a) a"
  by (simp add: test_sound)

end

lemma runtime_unlog_test_sound:
  assumes "user_addr a"
  shows "runtime_unlog_test base m a \<longleftrightarrow> meta_bit base m a"
proof -
  have "meta_bit_index a < 32" by (rule less_trans[OF meta_bit_index_less]) simp
  with assms show ?thesis
    by (simp add: runtime_unlog_test_def word_bits meta_bit_def meta_byte_addr_def
        bit_simps flip: meta_bit_index_def)
qed

interpretation runtime_test: unlog_test runtime_unlog_test
  by unfold_locales (rule runtime_unlog_test_sound)

end
