(* ===== verification/Barrier_Runtime.thy ===== *)
theory Barrier_Runtime
  imports Side_Metadata
begin

text \<open>
  The barrier set of the binding as the C++ runtime executes it:
  \<^verbatim>\<open>openjdk/mmtkBarrierSet.{hpp,cpp}\<close> and the runtime classes of \<^verbatim>\<open>openjdk/barriers\<close>.

  mmtk-core is not part of this repository. Each of its entry points is a \<open>core_call\<close>, and its
  effect on memory is the parameter \<open>core\<close>; the state records every call together with the
  memory the callee sees, so that the order of barrier and access is observable. HotSpot's raw
  accesses (\<^verbatim>\<open>BarrierSet::AccessBarrier\<close>, called \<^verbatim>\<open>Raw\<close> in the source) are the fields of
  \<open>raw_access\<close>.
\<close>

section \<open>State, environment and calls\<close>

datatype core_call =
    Mmtk_object_reference_write_pre addr addr addr addr
  | Mmtk_object_reference_write_post addr addr addr addr
  | Mmtk_object_reference_write_slow addr addr addr addr
  | Mmtk_array_copy_pre addr addr addr size_t
  | Mmtk_array_copy_post addr addr addr size_t
  | Mmtk_load_reference addr addr
  | Mmtk_object_probable_write addr addr
  | Flush_mutator addr
  | Destroy_mutator addr

type_synonym core_effect = "core_call \<Rightarrow> mem \<Rightarrow> mem"

record vm_state =
  mem :: mem
  calls :: "(core_call \<times> mem) list"

text \<open>
  What a barrier reads besides the state: the flag \<^verbatim>\<open>mmtk_enable_barrier_fastpath\<close>, the base of
  the unlog-bit table, the address of the byte \<^verbatim>\<open>CONCURRENT_MARKING_ACTIVE\<close> that mmtk-core sets
  while it marks concurrently, and the mutator of the current thread
  (\<^verbatim>\<open>&Thread::current()->third_party_heap_mutator\<close>).
\<close>

record barrier_env =
  mmtk_enable_barrier_fastpath :: bool
  SIDE_METADATA_BASE_ADDRESS :: addr
  CONCURRENT_MARKING_ACTIVE :: addr
  current_mutator :: addr

datatype decorator =
    IN_HEAP | AS_NORMAL | AS_NO_KEEPALIVE | IS_NOT_NULL | IS_ARRAY | IS_DEST_UNINITIALIZED
  | ON_STRONG_OOP_REF | ON_WEAK_OOP_REF | ON_PHANTOM_OOP_REF | ON_UNKNOWN_OOP_REF
  | ARRAYCOPY_CHECKCAST | ARRAYCOPY_DISJOINT | MO_UNORDERED
  | C1_NEEDS_PATCHING | C1_WRITE_ACCESS | C2_MISMATCHED

type_synonym DecoratorSet = "decorator set"

definition core_invoke :: "core_effect \<Rightarrow> core_call \<Rightarrow> vm_state \<Rightarrow> vm_state" where
  "core_invoke core c s = s\<lparr>mem := core c (mem s), calls := calls s @ [(c, mem s)]\<rparr>"

section \<open>MMTkBarrierSetRuntime: the static entry points\<close>

definition object_reference_write_pre_call ::
    "core_effect \<Rightarrow> barrier_env \<Rightarrow> addr \<Rightarrow> addr \<Rightarrow> addr \<Rightarrow> vm_state \<Rightarrow> vm_state" where
  "object_reference_write_pre_call core env src slot target =
     core_invoke core (Mmtk_object_reference_write_pre (current_mutator env) src slot target)"

definition object_reference_write_post_call ::
    "core_effect \<Rightarrow> barrier_env \<Rightarrow> addr \<Rightarrow> addr \<Rightarrow> addr \<Rightarrow> vm_state \<Rightarrow> vm_state" where
  "object_reference_write_post_call core env src slot target =
     core_invoke core (Mmtk_object_reference_write_post (current_mutator env) src slot target)"

definition object_reference_write_slow_call ::
    "core_effect \<Rightarrow> barrier_env \<Rightarrow> addr \<Rightarrow> addr \<Rightarrow> addr \<Rightarrow> vm_state \<Rightarrow> vm_state" where
  "object_reference_write_slow_call core env src slot target =
     core_invoke core (Mmtk_object_reference_write_slow (current_mutator env) src slot target)"

definition object_reference_array_copy_pre_call ::
    "core_effect \<Rightarrow> barrier_env \<Rightarrow> addr \<Rightarrow> addr \<Rightarrow> size_t \<Rightarrow> vm_state \<Rightarrow> vm_state" where
  "object_reference_array_copy_pre_call core env src dst count =
     core_invoke core (Mmtk_array_copy_pre (current_mutator env) src dst count)"

definition object_reference_array_copy_post_call ::
    "core_effect \<Rightarrow> barrier_env \<Rightarrow> addr \<Rightarrow> addr \<Rightarrow> size_t \<Rightarrow> vm_state \<Rightarrow> vm_state" where
  "object_reference_array_copy_post_call core env src dst count =
     core_invoke core (Mmtk_array_copy_post (current_mutator env) src dst count)"

definition load_reference_call ::
    "core_effect \<Rightarrow> barrier_env \<Rightarrow> addr \<Rightarrow> vm_state \<Rightarrow> vm_state" where
  "load_reference_call core env ref =
     core_invoke core (Mmtk_load_reference (current_mutator env) ref)"

datatype runtime_fn =
    Fn_object_reference_write_pre_call
  | Fn_object_reference_write_post_call
  | Fn_object_reference_write_slow_call
  | Fn_object_reference_array_copy_pre_call
  | Fn_object_reference_array_copy_post_call
  | Fn_load_reference_call

text \<open>\<open>fn_addr\<close> is where the linker put the static functions (\<^verbatim>\<open>CAST_FROM_FN_PTR\<close>).\<close>

definition is_slow_path_call :: "(runtime_fn \<Rightarrow> addr) \<Rightarrow> addr \<Rightarrow> bool" where
  "is_slow_path_call fn_addr call \<longleftrightarrow>
     call = fn_addr Fn_object_reference_write_pre_call
   \<or> call = fn_addr Fn_object_reference_write_post_call
   \<or> call = fn_addr Fn_object_reference_write_slow_call
   \<or> call = fn_addr Fn_object_reference_array_copy_pre_call
   \<or> call = fn_addr Fn_object_reference_array_copy_post_call
   \<or> call = fn_addr Fn_load_reference_call"

section \<open>MMTkObjectBarrierSetRuntime\<close>

definition ObjectRuntime_object_probable_write ::
    "core_effect \<Rightarrow> barrier_env \<Rightarrow> addr \<Rightarrow> vm_state \<Rightarrow> vm_state" where
  "ObjectRuntime_object_probable_write core env new_obj s =
     (if mmtk_enable_barrier_fastpath env then
        if runtime_unlog_test (SIDE_METADATA_BASE_ADDRESS env) (mem s) new_obj then
          core_invoke core (Mmtk_object_probable_write (current_mutator env) new_obj) s
        else s
      else core_invoke core (Mmtk_object_probable_write (current_mutator env) new_obj) s)"

definition ObjectRuntime_object_reference_write_post ::
    "core_effect \<Rightarrow> barrier_env \<Rightarrow> addr \<Rightarrow> addr \<Rightarrow> addr \<Rightarrow> vm_state \<Rightarrow> vm_state" where
  "ObjectRuntime_object_reference_write_post core env src slot target s =
     (if mmtk_enable_barrier_fastpath env then
        if runtime_unlog_test (SIDE_METADATA_BASE_ADDRESS env) (mem s) src then
          object_reference_write_slow_call core env src slot target s
        else s
      else object_reference_write_post_call core env src slot target s)"

definition ObjectRuntime_object_reference_array_copy_post ::
    "core_effect \<Rightarrow> barrier_env \<Rightarrow> addr \<Rightarrow> addr \<Rightarrow> size_t \<Rightarrow> vm_state \<Rightarrow> vm_state" where
  "ObjectRuntime_object_reference_array_copy_post core env src dst count =
     object_reference_array_copy_post_call core env src dst count"

section \<open>MMTkSATBBarrierSetRuntime\<close>

definition SATBRuntime_object_reference_write_pre ::
    "core_effect \<Rightarrow> barrier_env \<Rightarrow> addr \<Rightarrow> addr \<Rightarrow> addr \<Rightarrow> vm_state \<Rightarrow> vm_state" where
  "SATBRuntime_object_reference_write_pre core env src slot target s =
     (if mmtk_enable_barrier_fastpath env then
        if runtime_unlog_test (SIDE_METADATA_BASE_ADDRESS env) (mem s) src then
          object_reference_write_slow_call core env src slot target s
        else s
      else object_reference_write_pre_call core env src slot target s)"

definition SATBRuntime_object_reference_array_copy_pre ::
    "core_effect \<Rightarrow> barrier_env \<Rightarrow> addr \<Rightarrow> addr \<Rightarrow> size_t \<Rightarrow> vm_state \<Rightarrow> vm_state" where
  "SATBRuntime_object_reference_array_copy_pre core env src dst count s =
     (if count = 0 then s
      else core_invoke core (Mmtk_array_copy_pre (current_mutator env) src dst count) s)"

definition SATBRuntime_load_reference ::
    "core_effect \<Rightarrow> barrier_env \<Rightarrow> DecoratorSet \<Rightarrow> addr \<Rightarrow> vm_state \<Rightarrow> vm_state" where
  "SATBRuntime_load_reference core env decorators value s =
     (if mem s (CONCURRENT_MARKING_ACTIVE env) = 1 \<and> value \<noteq> NULL then
        core_invoke core (Mmtk_load_reference (current_mutator env) value) s
      else s)"

definition SATBRuntime_object_probable_write ::
    "core_effect \<Rightarrow> barrier_env \<Rightarrow> addr \<Rightarrow> vm_state \<Rightarrow> vm_state" where
  "SATBRuntime_object_probable_write core env new_obj s = s"

section \<open>Selecting a barrier and dispatching on it\<close>

datatype barrier_kind = MMTkNoBarrier | MMTkObjectBarrier | MMTkSATBBarrier

text \<open>
  The Rust side names the barrier of the active plan; the C++ side compares the name and caches
  the selected barrier in a function-local static (\<open>selected\<close>).
\<close>

datatype BarrierSelector = NoBarrier | ObjectBarrier | SATBBarrier

fun mmtk_active_barrier :: "BarrierSelector \<Rightarrow> string" where
  "mmtk_active_barrier NoBarrier = ''NoBarrier''"
| "mmtk_active_barrier ObjectBarrier = ''ObjectBarrier''"
| "mmtk_active_barrier SATBBarrier = ''SATBBarrier''"

definition get_selected_barrier ::
    "string \<Rightarrow> barrier_kind option \<Rightarrow> (barrier_kind \<times> barrier_kind option) result" where
  "get_selected_barrier barrier selected =
     (case selected of
        Some b \<Rightarrow> Inr (b, selected)
      | None \<Rightarrow>
          if barrier = ''NoBarrier'' then Inr (MMTkNoBarrier, Some MMTkNoBarrier)
          else if barrier = ''ObjectBarrier'' then Inr (MMTkObjectBarrier, Some MMTkObjectBarrier)
          else if barrier = ''SATBBarrier'' then Inr (MMTkSATBBarrier, Some MMTkSATBBarrier)
          else Inl (Guarantee_failed ''Unimplemented''))"

record MMTkBarrierSet =
  bs_assembler :: barrier_kind
  bs_c1 :: barrier_kind
  bs_c2 :: barrier_kind
  bs_whole_heap :: "addr \<times> addr"
  bs_runtime :: barrier_kind

text \<open>The constructor asks for the selected barrier four times, once per part.\<close>

definition new_MMTkBarrierSet ::
    "string \<Rightarrow> addr \<times> addr \<Rightarrow> barrier_kind option
       \<Rightarrow> (MMTkBarrierSet \<times> barrier_kind option) result" where
  "new_MMTkBarrierSet barrier whole_heap selected =
     (case get_selected_barrier barrier selected of Inl e \<Rightarrow> Inl e | Inr (assembler, sel1) \<Rightarrow>
     (case get_selected_barrier barrier sel1 of Inl e \<Rightarrow> Inl e | Inr (c1, sel2) \<Rightarrow>
     (case get_selected_barrier barrier sel2 of Inl e \<Rightarrow> Inl e | Inr (c2, sel3) \<Rightarrow>
     (case get_selected_barrier barrier sel3 of Inl e \<Rightarrow> Inl e | Inr (rt, sel4) \<Rightarrow>
        Inr (\<lparr>bs_assembler = assembler, bs_c1 = c1, bs_c2 = c2,
              bs_whole_heap = whole_heap, bs_runtime = rt\<rparr>, sel4)))))"

text \<open>Virtual methods: a class that does not override a method inherits the empty one.\<close>

fun object_reference_write_pre ::
    "barrier_kind \<Rightarrow> core_effect \<Rightarrow> barrier_env \<Rightarrow> addr \<Rightarrow> addr \<Rightarrow> addr \<Rightarrow> vm_state \<Rightarrow> vm_state" where
  "object_reference_write_pre MMTkSATBBarrier core env src slot target s =
     SATBRuntime_object_reference_write_pre core env src slot target s"
| "object_reference_write_pre _ core env src slot target s = s"

fun object_reference_write_post ::
    "barrier_kind \<Rightarrow> core_effect \<Rightarrow> barrier_env \<Rightarrow> addr \<Rightarrow> addr \<Rightarrow> addr \<Rightarrow> vm_state \<Rightarrow> vm_state" where
  "object_reference_write_post MMTkObjectBarrier core env src slot target s =
     ObjectRuntime_object_reference_write_post core env src slot target s"
| "object_reference_write_post _ core env src slot target s = s"

fun object_reference_array_copy_pre ::
    "barrier_kind \<Rightarrow> core_effect \<Rightarrow> barrier_env \<Rightarrow> addr \<Rightarrow> addr \<Rightarrow> size_t \<Rightarrow> vm_state \<Rightarrow> vm_state" where
  "object_reference_array_copy_pre MMTkSATBBarrier core env src dst count s =
     SATBRuntime_object_reference_array_copy_pre core env src dst count s"
| "object_reference_array_copy_pre _ core env src dst count s = s"

fun object_reference_array_copy_post ::
    "barrier_kind \<Rightarrow> core_effect \<Rightarrow> barrier_env \<Rightarrow> addr \<Rightarrow> addr \<Rightarrow> size_t \<Rightarrow> vm_state \<Rightarrow> vm_state" where
  "object_reference_array_copy_post MMTkObjectBarrier core env src dst count s =
     ObjectRuntime_object_reference_array_copy_post core env src dst count s"
| "object_reference_array_copy_post _ core env src dst count s = s"

fun load_reference ::
    "barrier_kind \<Rightarrow> core_effect \<Rightarrow> barrier_env \<Rightarrow> DecoratorSet \<Rightarrow> addr \<Rightarrow> vm_state \<Rightarrow> vm_state" where
  "load_reference MMTkSATBBarrier core env decorators value s =
     SATBRuntime_load_reference core env decorators value s"
| "load_reference _ core env decorators value s = s"

fun object_probable_write ::
    "barrier_kind \<Rightarrow> core_effect \<Rightarrow> barrier_env \<Rightarrow> addr \<Rightarrow> vm_state \<Rightarrow> vm_state" where
  "object_probable_write MMTkObjectBarrier core env new_obj s =
     ObjectRuntime_object_probable_write core env new_obj s"
| "object_probable_write MMTkSATBBarrier core env new_obj s =
     SATBRuntime_object_probable_write core env new_obj s"
| "object_probable_write MMTkNoBarrier core env new_obj s = s"

section \<open>MMTkBarrierSet: thread and allocation hooks\<close>

definition on_slowpath_allocation_exit ::
    "barrier_kind \<Rightarrow> core_effect \<Rightarrow> barrier_env \<Rightarrow> addr \<Rightarrow> vm_state \<Rightarrow> vm_state" where
  "on_slowpath_allocation_exit k core env new_obj s = object_probable_write k core env new_obj s"

text \<open>\<open>mutator\<close> is the address of the thread's \<^verbatim>\<open>third_party_heap_mutator\<close>.\<close>

definition on_thread_destroy :: "core_effect \<Rightarrow> addr \<Rightarrow> vm_state \<Rightarrow> vm_state" where
  "on_thread_destroy core mutator s =
     core_invoke core (Destroy_mutator mutator) (core_invoke core (Flush_mutator mutator) s)"

definition on_thread_attach :: "core_effect \<Rightarrow> addr \<Rightarrow> vm_state \<Rightarrow> vm_state" where
  "on_thread_attach core mutator s = core_invoke core (Flush_mutator mutator) s"

definition on_thread_detach :: "core_effect \<Rightarrow> addr \<Rightarrow> vm_state \<Rightarrow> vm_state" where
  "on_thread_detach core mutator s = core_invoke core (Flush_mutator mutator) s"

definition write_ref_array_work :: "addr \<times> addr \<Rightarrow> vm_state \<Rightarrow> vm_state result" where
  "write_ref_array_work mr s = Inl (Guarantee_failed ''NoBarrier::write_ref_arrey_work not supported'')"

definition resize_covered_region :: "addr \<times> addr \<Rightarrow> vm_state \<Rightarrow> vm_state result" where
  "resize_covered_region new_region s =
     Inl (Guarantee_failed ''NoBarrier::resize_covered_region not supported'')"

definition is_aligned :: "addr \<Rightarrow> bool" where
  "is_aligned a = True"

section \<open>MMTkBarrierSet::AccessBarrier\<close>

record raw_access =
  raw_load_in_heap_at :: "addr \<Rightarrow> addr \<Rightarrow> mem \<Rightarrow> addr"
  raw_load :: "addr \<Rightarrow> mem \<Rightarrow> addr"
  raw_store_at :: "addr \<Rightarrow> addr \<Rightarrow> addr \<Rightarrow> mem \<Rightarrow> mem"
  raw_cmpxchg_at :: "addr \<Rightarrow> addr \<Rightarrow> addr \<Rightarrow> addr \<Rightarrow> mem \<Rightarrow> addr \<times> mem"
  raw_xchg_at :: "addr \<Rightarrow> addr \<Rightarrow> addr \<Rightarrow> mem \<Rightarrow> addr \<times> mem"
  raw_obj_offset_to_raw :: "addr \<Rightarrow> size_t \<Rightarrow> addr \<Rightarrow> addr"
  raw_arraycopy :: "addr \<Rightarrow> size_t \<Rightarrow> addr \<Rightarrow> addr \<Rightarrow> size_t \<Rightarrow> addr \<Rightarrow> size_t \<Rightarrow> mem \<Rightarrow> bool \<times> mem"
  raw_clone :: "addr \<Rightarrow> addr \<Rightarrow> size_t \<Rightarrow> mem \<Rightarrow> mem"

definition needs_enqueue :: "DecoratorSet \<Rightarrow> bool" where
  "needs_enqueue decorators \<longleftrightarrow> AS_NO_KEEPALIVE \<notin> decorators \<and> ON_STRONG_OOP_REF \<notin> decorators"

definition oop_load_in_heap_at ::
    "barrier_kind \<Rightarrow> core_effect \<Rightarrow> barrier_env \<Rightarrow> raw_access \<Rightarrow> DecoratorSet \<Rightarrow> addr \<Rightarrow> addr
       \<Rightarrow> vm_state \<Rightarrow> addr \<times> vm_state" where
  "oop_load_in_heap_at k core env raw decorators base offset s =
     (let value = raw_load_in_heap_at raw base offset (mem s)
      in (value, if needs_enqueue decorators \<and> value \<noteq> NULL
                 then load_reference k core env decorators value s else s))"

definition oop_load_not_in_heap ::
    "barrier_kind \<Rightarrow> core_effect \<Rightarrow> barrier_env \<Rightarrow> raw_access \<Rightarrow> DecoratorSet \<Rightarrow> addr
       \<Rightarrow> vm_state \<Rightarrow> addr \<times> vm_state" where
  "oop_load_not_in_heap k core env raw decorators ad s =
     (let value = raw_load raw ad (mem s)
      in (value, if needs_enqueue decorators \<and> value \<noteq> NULL
                 then load_reference k core env decorators value s else s))"

text \<open>The address-only variants on the heap are guarded by \<^verbatim>\<open>UNREACHABLE()\<close>.\<close>

definition oop_load_in_heap :: "addr \<Rightarrow> vm_state \<Rightarrow> (addr \<times> vm_state) result" where
  "oop_load_in_heap ad s = Inl (Guarantee_failed ''UNREACHABLE'')"

definition oop_store_in_heap :: "addr \<Rightarrow> addr \<Rightarrow> vm_state \<Rightarrow> vm_state result" where
  "oop_store_in_heap ad value s = Inl (Guarantee_failed ''UNREACHABLE'')"

definition oop_store_in_heap_at ::
    "barrier_kind \<Rightarrow> core_effect \<Rightarrow> barrier_env \<Rightarrow> raw_access \<Rightarrow> addr \<Rightarrow> addr \<Rightarrow> addr
       \<Rightarrow> vm_state \<Rightarrow> vm_state" where
  "oop_store_in_heap_at k core env raw base offset value s =
     (let s1 = object_reference_write_pre k core env base (base + offset) value s;
          s2 = s1\<lparr>mem := raw_store_at raw base offset value (mem s1)\<rparr>
      in object_reference_write_post k core env base (base + offset) value s2)"

definition oop_atomic_cmpxchg_in_heap :: "addr \<Rightarrow> addr \<Rightarrow> addr \<Rightarrow> vm_state \<Rightarrow> (addr \<times> vm_state) result" where
  "oop_atomic_cmpxchg_in_heap new_value ad compare_value s = Inl (Guarantee_failed ''UNREACHABLE'')"

definition oop_atomic_xchg_in_heap :: "addr \<Rightarrow> addr \<Rightarrow> vm_state \<Rightarrow> (addr \<times> vm_state) result" where
  "oop_atomic_xchg_in_heap new_value ad s = Inl (Guarantee_failed ''UNREACHABLE'')"

definition oop_atomic_cmpxchg_in_heap_at ::
    "barrier_kind \<Rightarrow> core_effect \<Rightarrow> barrier_env \<Rightarrow> raw_access \<Rightarrow> addr \<Rightarrow> addr \<Rightarrow> addr \<Rightarrow> addr
       \<Rightarrow> vm_state \<Rightarrow> addr \<times> vm_state" where
  "oop_atomic_cmpxchg_in_heap_at k core env raw new_value base offset compare_value s =
     (let s1 = object_reference_write_pre k core env base (base + offset) new_value s;
          (res, m) = raw_cmpxchg_at raw new_value base offset compare_value (mem s1);
          s2 = s1\<lparr>mem := m\<rparr>
      in (res, object_reference_write_post k core env base (base + offset) new_value s2))"

definition oop_atomic_xchg_in_heap_at ::
    "barrier_kind \<Rightarrow> core_effect \<Rightarrow> barrier_env \<Rightarrow> raw_access \<Rightarrow> addr \<Rightarrow> addr \<Rightarrow> addr
       \<Rightarrow> vm_state \<Rightarrow> addr \<times> vm_state" where
  "oop_atomic_xchg_in_heap_at k core env raw new_value base offset s =
     (let s1 = object_reference_write_pre k core env base (base + offset) new_value s;
          (res, m) = raw_xchg_at raw new_value base offset (mem s1);
          s2 = s1\<lparr>mem := m\<rparr>
      in (res, object_reference_write_post k core env base (base + offset) new_value s2))"

text \<open>\<^verbatim>\<open>arrayOopDesc::obj_offset_to_raw\<close> is HotSpot's, hence a field of \<open>raw_access\<close>.\<close>

definition oop_arraycopy_in_heap ::
    "barrier_kind \<Rightarrow> core_effect \<Rightarrow> barrier_env \<Rightarrow> raw_access \<Rightarrow> addr \<Rightarrow> size_t \<Rightarrow> addr
       \<Rightarrow> addr \<Rightarrow> size_t \<Rightarrow> addr \<Rightarrow> size_t \<Rightarrow> vm_state \<Rightarrow> bool \<times> vm_state" where
  "oop_arraycopy_in_heap k core env raw src_obj src_offset_in_bytes src_raw
       dst_obj dst_offset_in_bytes dst_raw len s =
     (let src = raw_obj_offset_to_raw raw src_obj src_offset_in_bytes src_raw;
          dst = raw_obj_offset_to_raw raw dst_obj dst_offset_in_bytes dst_raw;
          s1 = object_reference_array_copy_pre k core env src dst len s;
          (res, m) = raw_arraycopy raw src_obj src_offset_in_bytes src_raw
                       dst_obj dst_offset_in_bytes dst_raw len (mem s1);
          s2 = s1\<lparr>mem := m\<rparr>
      in (res, object_reference_array_copy_post k core env src dst len s2))"

definition clone_in_heap ::
    "raw_access \<Rightarrow> addr \<Rightarrow> addr \<Rightarrow> size_t \<Rightarrow> vm_state \<Rightarrow> vm_state" where
  "clone_in_heap raw src dst sz s = s\<lparr>mem := raw_clone raw src dst sz (mem s)\<rparr>"

section \<open>Sequences of heap writes\<close>

text \<open>
  Every reference write to the heap goes through one of the three operations above. A
  \<open>heap_write\<close> names one of them with its arguments, so that a mutator's run is a list.
\<close>

datatype heap_write =
    Store_at (write_base: addr) (write_offset: addr) (write_value: addr)
  | Cmpxchg_at (write_value: addr) (write_base: addr) (write_offset: addr) addr
  | Xchg_at (write_value: addr) (write_base: addr) (write_offset: addr)

fun raw_write :: "raw_access \<Rightarrow> heap_write \<Rightarrow> mem \<Rightarrow> mem" where
  "raw_write raw (Store_at base offset value) m = raw_store_at raw base offset value m"
| "raw_write raw (Cmpxchg_at new_value base offset compare_value) m =
     snd (raw_cmpxchg_at raw new_value base offset compare_value m)"
| "raw_write raw (Xchg_at new_value base offset) m = snd (raw_xchg_at raw new_value base offset m)"

fun access_write ::
    "barrier_kind \<Rightarrow> core_effect \<Rightarrow> barrier_env \<Rightarrow> raw_access \<Rightarrow> heap_write \<Rightarrow> vm_state \<Rightarrow> vm_state" where
  "access_write k core env raw (Store_at base offset value) s =
     oop_store_in_heap_at k core env raw base offset value s"
| "access_write k core env raw (Cmpxchg_at new_value base offset compare_value) s =
     snd (oop_atomic_cmpxchg_in_heap_at k core env raw new_value base offset compare_value s)"
| "access_write k core env raw (Xchg_at new_value base offset) s =
     snd (oop_atomic_xchg_in_heap_at k core env raw new_value base offset s)"

definition access_writes ::
    "barrier_kind \<Rightarrow> core_effect \<Rightarrow> barrier_env \<Rightarrow> raw_access \<Rightarrow> heap_write list \<Rightarrow> vm_state \<Rightarrow> vm_state" where
  "access_writes k core env raw ws s = fold (access_write k core env raw) ws s"

text \<open>
  What the barriers rely on. \<open>content o m\<close> is whatever one observes of object \<open>o\<close> (its
  reference fields). The slow path of mmtk-core clears the unlog bit of the source object and
  writes no object; a raw write changes the object it is given and no unlog bit; the full
  barriers repeat the unlog-bit test, as the comments of \<^verbatim>\<open>object_probable_write\<close> say.
\<close>

definition core_logs :: "core_effect \<Rightarrow> addr \<Rightarrow> addr set \<Rightarrow> (addr \<Rightarrow> mem \<Rightarrow> 'c) \<Rightarrow> bool" where
  "core_logs core base objs content \<longleftrightarrow>
     (\<forall>src \<in> objs. \<forall>mt slot tgt m. \<forall>ob \<in> objs.
        content ob (core (Mmtk_object_reference_write_slow mt src slot tgt) m) = content ob m
      \<and> meta_bit base (core (Mmtk_object_reference_write_slow mt src slot tgt) m) ob
          = (ob \<noteq> src \<and> meta_bit base m ob))"

definition raw_frames ::
    "raw_access \<Rightarrow> addr \<Rightarrow> addr set \<Rightarrow> (addr \<Rightarrow> mem \<Rightarrow> 'c) \<Rightarrow> heap_write list \<Rightarrow> bool" where
  "raw_frames raw base objs content ws \<longleftrightarrow>
     (\<forall>w \<in> set ws. write_base w \<in> objs \<and> user_addr (write_base w) \<and>
        (\<forall>m. \<forall>ob \<in> objs. meta_bit base (raw_write raw w m) ob = meta_bit base m ob
           \<and> (ob \<noteq> write_base w \<longrightarrow> content ob (raw_write raw w m) = content ob m)))"

definition full_barriers_retest :: "core_effect \<Rightarrow> addr \<Rightarrow> bool" where
  "full_barriers_retest core base \<longleftrightarrow>
     (\<forall>mt src slot tgt m.
        core (Mmtk_object_reference_write_pre mt src slot tgt) m =
          (if meta_bit base m src then core (Mmtk_object_reference_write_slow mt src slot tgt) m else m)
      \<and> core (Mmtk_object_reference_write_post mt src slot tgt) m =
          (if meta_bit base m src then core (Mmtk_object_reference_write_slow mt src slot tgt) m else m)
      \<and> (\<not> meta_bit base m src \<longrightarrow> core (Mmtk_object_probable_write mt src) m = m))"

text \<open>What was observed of object \<open>ob\<close> at each slow-path call made for it.\<close>

fun is_slow_of :: "addr \<Rightarrow> core_call \<Rightarrow> bool" where
  "is_slow_of ob (Mmtk_object_reference_write_slow mt src slot tgt) \<longleftrightarrow> src = ob"
| "is_slow_of ob _ \<longleftrightarrow> False"

definition slow_log :: "(addr \<Rightarrow> mem \<Rightarrow> 'c) \<Rightarrow> addr \<Rightarrow> (core_call \<times> mem) list \<Rightarrow> 'c list" where
  "slow_log content ob cs = map (\<lambda>(c, m). content ob m) (filter (\<lambda>(c, m). is_slow_of ob c) cs)"

section \<open>A concrete instance\<close>

text \<open>
  A core that does nothing but maintain the unlog bits, and raw accesses on uncompressed 64-bit
  references: the instance at which the properties below are evaluated. The heap has two objects,
  each with one reference field at offset 16.
\<close>

definition bitmap_core :: "addr \<Rightarrow> core_effect" where
  "bitmap_core base c m =
     (case c of
        Mmtk_object_reference_write_pre mt src slot tgt \<Rightarrow>
          if meta_bit base m src then clear_meta_bit base m src else m
      | Mmtk_object_reference_write_post mt src slot tgt \<Rightarrow>
          if meta_bit base m src then clear_meta_bit base m src else m
      | Mmtk_object_reference_write_slow mt src slot tgt \<Rightarrow> clear_meta_bit base m src
      | Mmtk_object_probable_write mt ob \<Rightarrow>
          if meta_bit base m ob then clear_meta_bit base m ob else m
      | _ \<Rightarrow> m)"

definition word_raw :: raw_access where
  "word_raw =
     \<lparr>raw_load_in_heap_at = (\<lambda>base offset m. load64 m (base + offset)),
      raw_load = (\<lambda>a m. load64 m a),
      raw_store_at = (\<lambda>base offset v m. store64 m (base + offset) v),
      raw_cmpxchg_at = (\<lambda>new base offset cmp m.
        (load64 m (base + offset),
         if load64 m (base + offset) = cmp then store64 m (base + offset) new else m)),
      raw_xchg_at = (\<lambda>new base offset m.
        (load64 m (base + offset), store64 m (base + offset) new)),
      raw_obj_offset_to_raw = (\<lambda>ob offset raw. if ob = NULL then raw else ob + offset),
      raw_arraycopy = (\<lambda>so soff sraw do' doff draw len m. (True, m)),
      raw_clone = (\<lambda>src dst sz m. m)\<rparr>"

definition demo_env :: barrier_env where
  "demo_env = \<lparr>mmtk_enable_barrier_fastpath = True, SIDE_METADATA_BASE_ADDRESS = 0x10000000,
     CONCURRENT_MARKING_ACTIVE = 0x8000, current_mutator = 0x1000\<rparr>"

definition demo_objs :: "addr set" where
  "demo_objs = {0x40000000, 0x40000040}"

definition demo_field :: "addr \<Rightarrow> mem \<Rightarrow> addr" where
  "demo_field ob m = load64 m (ob + 16)"

text \<open>All unlog bits are set, and every field holds the reference \<open>0xff...ff\<close>.\<close>

definition demo_state :: vm_state where
  "demo_state = \<lparr>mem = (\<lambda>a. 0xff), calls = []\<rparr>"

definition demo_writes :: "heap_write list" where
  "demo_writes = [Store_at 0x40000000 16 0x40000040, Xchg_at 0 0x40000000 16]"

lemmas demo_defs = demo_env_def demo_objs_def demo_field_def demo_state_def demo_writes_def

section \<open>Laws of single operations\<close>

named_theorems barrier_defs \<open>definitions of the runtime barriers\<close>

lemmas runtime_calls [barrier_defs] =
  core_invoke_def object_reference_write_pre_call_def object_reference_write_post_call_def
  object_reference_write_slow_call_def object_reference_array_copy_pre_call_def
  object_reference_array_copy_post_call_def load_reference_call_def

lemma slow_log_snoc [simp]:
  "slow_log content ob (cs @ [(c, m)]) =
     slow_log content ob cs @ (if is_slow_of ob c then [content ob m] else [])"
  by (simp add: slow_log_def)

text \<open>The three writing operations have one shape.\<close>

lemma access_write_eq:
  "access_write k core env raw w s =
     (let slot = write_base w + write_offset w;
          s1 = object_reference_write_pre k core env (write_base w) slot (write_value w) s
      in object_reference_write_post k core env (write_base w) slot (write_value w)
           (s1\<lparr>mem := raw_write raw w (mem s1)\<rparr>))"
  by (cases w)
    (simp_all add: oop_store_in_heap_at_def oop_atomic_cmpxchg_in_heap_at_def
      oop_atomic_xchg_in_heap_at_def Let_def split: prod.splits)

text \<open>With the fast path enabled, both barriers make at most the slow call.\<close>

definition slow_if_unlogged :: "core_effect \<Rightarrow> barrier_env \<Rightarrow> addr \<Rightarrow> addr \<Rightarrow> addr \<Rightarrow> vm_state \<Rightarrow> vm_state" where
  "slow_if_unlogged core env src slot target s =
     (if meta_bit (SIDE_METADATA_BASE_ADDRESS env) (mem s) src
      then object_reference_write_slow_call core env src slot target s else s)"

lemma SATB_write_pre_fast:
  assumes "mmtk_enable_barrier_fastpath env" and "user_addr src"
  shows "SATBRuntime_object_reference_write_pre core env src slot target s =
           slow_if_unlogged core env src slot target s"
  using assms
  by (simp add: SATBRuntime_object_reference_write_pre_def slow_if_unlogged_def
      runtime_test.test_sound)

lemma Object_write_post_fast:
  assumes "mmtk_enable_barrier_fastpath env" and "user_addr src"
  shows "ObjectRuntime_object_reference_write_post core env src slot target s =
           slow_if_unlogged core env src slot target s"
  using assms
  by (simp add: ObjectRuntime_object_reference_write_post_def slow_if_unlogged_def
      runtime_test.test_sound)

text \<open>One SATB write: what it logs and how it moves the observable state.\<close>

lemma SATB_write_effect:
  fixes env defines "B \<equiv> SIDE_METADATA_BASE_ADDRESS env"
  assumes fp: "mmtk_enable_barrier_fastpath env"
    and cl: "core_logs core B objs content"
    and rf: "raw_frames raw B objs content (w # ws)"
    and ob: "ob \<in> objs"
    and s': "s' = access_write MMTkSATBBarrier core env raw w s"
  shows "slow_log content ob (calls s') = slow_log content ob (calls s) @
           (if write_base w = ob \<and> meta_bit B (mem s) ob then [content ob (mem s)] else [])"
    and "meta_bit B (mem s') ob \<longleftrightarrow> meta_bit B (mem s) ob \<and> ob \<noteq> write_base w"
    and "ob \<noteq> write_base w \<Longrightarrow> content ob (mem s') = content ob (mem s)"
proof -
  have base: "write_base w \<in> objs" "user_addr (write_base w)"
    using rf by (simp_all add: raw_frames_def)
  have eq: "s' = (let s1 = slow_if_unlogged core env (write_base w) (write_base w + write_offset w)
                       (write_value w) s in s1\<lparr>mem := raw_write raw w (mem s1)\<rparr>)"
    unfolding s' access_write_eq by (simp add: Let_def SATB_write_pre_fast[OF fp base(2)])
  show "slow_log content ob (calls s') = slow_log content ob (calls s) @
           (if write_base w = ob \<and> meta_bit B (mem s) ob then [content ob (mem s)] else [])"
    by (simp add: eq Let_def slow_if_unlogged_def barrier_defs B_def)
  show "meta_bit B (mem s') ob \<longleftrightarrow> meta_bit B (mem s) ob \<and> ob \<noteq> write_base w"
    using rf ob cl base(1)
    by (auto simp: eq Let_def slow_if_unlogged_def barrier_defs core_logs_def raw_frames_def B_def)
  show "content ob (mem s') = content ob (mem s)" if "ob \<noteq> write_base w"
    using rf ob cl base(1) that
    by (auto simp: eq Let_def slow_if_unlogged_def barrier_defs core_logs_def raw_frames_def)
qed

text \<open>One object-barrier write: the slow call comes after the store.\<close>

lemma Object_write_effect:
  fixes env defines "B \<equiv> SIDE_METADATA_BASE_ADDRESS env"
  assumes fp: "mmtk_enable_barrier_fastpath env"
    and cl: "core_logs core B objs content"
    and rf: "raw_frames raw B objs content (w # ws)"
    and ob: "ob \<in> objs"
    and s': "s' = access_write MMTkObjectBarrier core env raw w s"
  shows "slow_log content ob (calls s') = slow_log content ob (calls s) @
           (if write_base w = ob \<and> meta_bit B (mem s) ob
            then [content ob (raw_write raw w (mem s))] else [])"
    and "meta_bit B (mem s') ob \<longleftrightarrow> meta_bit B (mem s) ob \<and> ob \<noteq> write_base w"
proof -
  have base: "write_base w \<in> objs" "user_addr (write_base w)"
    using rf by (simp_all add: raw_frames_def)
  have eq: "s' = slow_if_unlogged core env (write_base w) (write_base w + write_offset w)
                   (write_value w) (s\<lparr>mem := raw_write raw w (mem s)\<rparr>)"
    unfolding s' access_write_eq by (simp add: Let_def Object_write_post_fast[OF fp base(2)])
  have keep: "meta_bit B (raw_write raw w (mem s)) ob' = meta_bit B (mem s) ob'"
    if "ob' \<in> objs" for ob'
    using rf that by (simp add: raw_frames_def)
  show "slow_log content ob (calls s') = slow_log content ob (calls s) @
           (if write_base w = ob \<and> meta_bit B (mem s) ob
            then [content ob (raw_write raw w (mem s))] else [])"
    using keep[OF ob] keep[OF base(1)]
    by (simp add: eq slow_if_unlogged_def barrier_defs B_def)
  show "meta_bit B (mem s') ob \<longleftrightarrow> meta_bit B (mem s) ob \<and> ob \<noteq> write_base w"
    using keep[OF ob] keep[OF base(1)] ob cl base(1)
    by (auto simp: eq slow_if_unlogged_def barrier_defs core_logs_def B_def)
qed

lemma access_writes_simps [simp]:
  "access_writes k core env raw [] s = s"
  "access_writes k core env raw (w # ws) s =
     access_writes k core env raw ws (access_write k core env raw w s)"
  by (simp_all add: access_writes_def)

lemma raw_frames_tl: "raw_frames raw B objs content (w # ws) \<Longrightarrow> raw_frames raw B objs content ws"
  by (simp add: raw_frames_def)

lemma Object_writes_log:
  assumes "mmtk_enable_barrier_fastpath env"
    and "core_logs core (SIDE_METADATA_BASE_ADDRESS env) objs content"
    and "raw_frames raw (SIDE_METADATA_BASE_ADDRESS env) objs content ws"
    and "ob \<in> objs"
  shows "length (slow_log content ob (calls (access_writes MMTkObjectBarrier core env raw ws s))) =
           length (slow_log content ob (calls s)) +
           (if ob \<in> write_base ` set ws \<and> meta_bit (SIDE_METADATA_BASE_ADDRESS env) (mem s) ob
            then 1 else 0)
       \<and> (meta_bit (SIDE_METADATA_BASE_ADDRESS env)
              (mem (access_writes MMTkObjectBarrier core env raw ws s)) ob \<longleftrightarrow>
            meta_bit (SIDE_METADATA_BASE_ADDRESS env) (mem s) ob \<and> ob \<notin> write_base ` set ws)"
  using assms(3)
proof (induction ws arbitrary: s)
  case (Cons w ws)
  note eff = Object_write_effect[OF assms(1,2) Cons.prems assms(4) refl, where s = s]
  show ?case
    using Cons.IH[OF raw_frames_tl[OF Cons.prems], of "access_write MMTkObjectBarrier core env raw w s"]
    by (auto simp: eff)
qed simp

lemma slow_if_unlogged_full:
  assumes "full_barriers_retest core (SIDE_METADATA_BASE_ADDRESS env)"
  shows "mem (object_reference_write_pre_call core env src slot target s) =
           mem (slow_if_unlogged core env src slot target s)"
    and "mem (object_reference_write_post_call core env src slot target s) =
           mem (slow_if_unlogged core env src slot target s)"
  using assms by (simp_all add: barrier_defs slow_if_unlogged_def full_barriers_retest_def)

lemma slow_if_unlogged_mem_cong:
  "mem s = mem t \<Longrightarrow> mem (slow_if_unlogged core env src slot target s) =
     mem (slow_if_unlogged core env src slot target t)"
  by (simp add: slow_if_unlogged_def barrier_defs)

text \<open>The instance satisfies what the barriers rely on.\<close>

lemma demo_core_logs:
  "core_logs (bitmap_core (SIDE_METADATA_BASE_ADDRESS demo_env))
     (SIDE_METADATA_BASE_ADDRESS demo_env) demo_objs demo_field"
  by (simp add: core_logs_def bitmap_core_def demo_defs clear_meta_bit_def meta_byte_addr_def
      load64_byte_update meta_bit_def meta_bit_index_def bit_simps)

lemma demo_raw_frames:
  "raw_frames word_raw (SIDE_METADATA_BASE_ADDRESS demo_env) demo_objs demo_field demo_writes"
  by (simp add: raw_frames_def word_raw_def demo_defs meta_byte_addr_def user_addr_def
      meta_bit_def store64_frame load64_store64_other)
lemma demo_full_barriers_retest:
  "full_barriers_retest (bitmap_core base) base"
  by (simp add: full_barriers_retest_def bitmap_core_def)

section \<open>Properties\<close>

text \<open>
  C1. Snapshot at the beginning. Run any list of heap writes (stores, compare-and-exchanges,
  exchanges) under the SATB barrier with the fast path on. For every object, mmtk-core receives
  exactly one slow-path call if the object was unlogged and is written, and none otherwise; and at
  that call the object still has the content it had before the whole run.
\<close>

theorem satb_snapshot_at_beginning:
  assumes "mmtk_enable_barrier_fastpath env"
    and "core_logs core (SIDE_METADATA_BASE_ADDRESS env) objs content"
    and "raw_frames raw (SIDE_METADATA_BASE_ADDRESS env) objs content ws"
    and "ob \<in> objs"
  shows "slow_log content ob (calls (access_writes MMTkSATBBarrier core env raw ws s)) =
           slow_log content ob (calls s) @
           (if ob \<in> write_base ` set ws \<and> meta_bit (SIDE_METADATA_BASE_ADDRESS env) (mem s) ob
            then [content ob (mem s)] else [])"
  using assms(3)
proof (induction ws arbitrary: s)
  case (Cons w ws)
  note eff = SATB_write_effect[OF assms(1,2) Cons.prems assms(4) refl, where s = s]
  show ?case
    using Cons.IH[OF raw_frames_tl[OF Cons.prems], of "access_write MMTkSATBBarrier core env raw w s"]
    by (auto simp: eff)
qed simp

theorem satb_snapshot_at_beginning_witness:
  "slow_log demo_field 0x40000000
     (calls (access_writes MMTkSATBBarrier (bitmap_core (SIDE_METADATA_BASE_ADDRESS demo_env)) demo_env word_raw demo_writes
        demo_state)) = [0xffffffffffffffff]"
proof -
  have "mmtk_enable_barrier_fastpath demo_env" "0x40000000 \<in> demo_objs"
    by (simp_all add: demo_defs)
  from satb_snapshot_at_beginning[OF this(1) demo_core_logs demo_raw_frames this(2), of demo_state]
  show ?thesis
    by (simp add: demo_defs slow_log_def meta_bit_def load64_def load32_def meta_bit_index_def)
qed

text \<open>
  C14. The object barrier remembers every mutated old object once. After any list of heap writes
  under the object barrier with the fast path on, an object that was unlogged (promoted) and is
  written has been handed to the slow path exactly once and is logged; an object that was already
  logged, or is not written, causes no slow-path call and keeps its unlog bit.
\<close>

theorem object_barrier_remembers_once:
  assumes "mmtk_enable_barrier_fastpath env"
    and "core_logs core (SIDE_METADATA_BASE_ADDRESS env) objs content"
    and "raw_frames raw (SIDE_METADATA_BASE_ADDRESS env) objs content ws"
    and "ob \<in> objs"
    and "calls s = []"
  shows "length (slow_log content ob (calls (access_writes MMTkObjectBarrier core env raw ws s))) =
           (if ob \<in> write_base ` set ws \<and> meta_bit (SIDE_METADATA_BASE_ADDRESS env) (mem s) ob
            then 1 else 0)
       \<and> (meta_bit (SIDE_METADATA_BASE_ADDRESS env)
              (mem (access_writes MMTkObjectBarrier core env raw ws s)) ob \<longleftrightarrow>
            meta_bit (SIDE_METADATA_BASE_ADDRESS env) (mem s) ob \<and> ob \<notin> write_base ` set ws)"
  using Object_writes_log[OF assms(1-4), of s] assms(5) by (simp add: slow_log_def)

theorem object_barrier_remembers_once_witness:
  "length (slow_log demo_field 0x40000000
     (calls (access_writes MMTkObjectBarrier (bitmap_core (SIDE_METADATA_BASE_ADDRESS demo_env)) demo_env word_raw demo_writes
        demo_state))) = 1"
proof -
  have "mmtk_enable_barrier_fastpath demo_env" "0x40000000 \<in> demo_objs" "calls demo_state = []"
    by (simp_all add: demo_defs)
  from object_barrier_remembers_once[OF this(1) demo_core_logs demo_raw_frames this(2,3)]
  show ?thesis
    by (simp add: demo_defs meta_bit_def meta_bit_index_def)
qed

text \<open>
  C15. The inlined fast path is transparent. For every barrier, if mmtk-core's full barriers repeat
  the unlog-bit test, then a run of heap writes ends in the same memory whether
  \<^verbatim>\<open>MMTK_ENABLE_BARRIER_FASTPATH\<close> is on or off.
\<close>

theorem barrier_fastpath_transparent:
  assumes "full_barriers_retest core (SIDE_METADATA_BASE_ADDRESS env)"
    and "\<forall>w \<in> set ws. user_addr (write_base w)"
    and "mem s = mem t"
  shows "mem (access_writes k core (env\<lparr>mmtk_enable_barrier_fastpath := True\<rparr>) raw ws s) =
         mem (access_writes k core (env\<lparr>mmtk_enable_barrier_fastpath := False\<rparr>) raw ws t)"
  using assms(2,3)
proof (induction ws arbitrary: s t)
  case (Cons w ws)
  let ?e = "\<lambda>b. env\<lparr>mmtk_enable_barrier_fastpath := b\<rparr>"
  have base: "user_addr (write_base w)" using Cons.prems by simp
  have full: "full_barriers_retest core (SIDE_METADATA_BASE_ADDRESS (?e b))" for b
    using assms(1) by simp
  have env: "slow_if_unlogged core (?e True) = slow_if_unlogged core (?e False)"
    by (intro ext) (simp add: slow_if_unlogged_def barrier_defs)
  have "mem (access_write k core (?e True) raw w s) = mem (access_write k core (?e False) raw w t)"
    using Cons.prems(2) base slow_if_unlogged_full[OF full]
    by (cases k)
      (simp_all add: access_write_eq Let_def SATB_write_pre_fast Object_write_post_fast env
        SATBRuntime_object_reference_write_pre_def[of _ "?e False"]
        ObjectRuntime_object_reference_write_post_def[of _ "?e False"]
        slow_if_unlogged_mem_cong[of s t] slow_if_unlogged_mem_cong
          [of "s\<lparr>mem := raw_write raw w (mem t)\<rparr>" "t\<lparr>mem := raw_write raw w (mem t)\<rparr>"])
  with Cons show ?case by simp
qed simp

theorem barrier_fastpath_transparent_witness:
  "mem (access_writes MMTkSATBBarrier (bitmap_core 0x10000000)
      (demo_env\<lparr>mmtk_enable_barrier_fastpath := True\<rparr>) word_raw demo_writes demo_state) =
   mem (access_writes MMTkSATBBarrier (bitmap_core 0x10000000)
      (demo_env\<lparr>mmtk_enable_barrier_fastpath := False\<rparr>) word_raw demo_writes demo_state)"
  by (rule barrier_fastpath_transparent)
    (simp_all add: demo_full_barriers_retest demo_defs user_addr_def)

text \<open>
  Barrier selection is consistent. For every barrier the Rust side can name, the constructor of
  the barrier set succeeds, gives the assembler, C1, C2 and the runtime one and the same barrier,
  the one named, and leaves it cached.
\<close>

lemma new_MMTkBarrierSet_consistent:
  "new_MMTkBarrierSet (mmtk_active_barrier sel) heap None =
     (let k = (case sel of NoBarrier \<Rightarrow> MMTkNoBarrier | ObjectBarrier \<Rightarrow> MMTkObjectBarrier
                 | SATBBarrier \<Rightarrow> MMTkSATBBarrier)
      in Inr (\<lparr>bs_assembler = k, bs_c1 = k, bs_c2 = k, bs_whole_heap = heap, bs_runtime = k\<rparr>, Some k))"
  by (cases sel) (simp_all add: new_MMTkBarrierSet_def get_selected_barrier_def Let_def)

end
