(* ===== verification/X86_Machine.thy ===== *)
theory X86_Machine
  imports Barrier_Runtime
begin

text \<open>
  The machine that executes what the binding's macro-assembler code emits: the general-purpose
  registers, the outcome of the last comparison, a stack of saved registers and the VM state of
  \<open>Barrier_Runtime\<close>. An instruction is one \<^verbatim>\<open>MacroAssembler\<close> method the binding calls, with the
  operand widths it has on x86-64.

  Emitted code only jumps forward, so execution is structural: a taken jump skips instructions
  until its label is bound, and a label that is not bound in the code is an exit to the caller's
  label (\<^verbatim>\<open>slow_case\<close>, a stub's continuation). A conditional jump that does not follow a comparison,
  or a pop that does not match its push, is \<open>Stuck\<close>; every theorem on emitted code shows that it
  does not get there.

  HotSpot's part is a parameter: the register assignment of its calling convention (\<open>abi\<close>), what
  a C call leaves in the registers (\<open>clobber\<close>) and code HotSpot itself emits (\<open>Hotspot\<close>).
\<close>

section \<open>Registers, operands and instructions\<close>

datatype reg = RAX | RCX | RDX | RBX | RSP | RBP | RSI | RDI
  | R8 | R9 | R10 | R11 | R12 | R13 | R14 | R15

type_synonym regfile = "reg \<Rightarrow> 64 word"

text \<open>\<^verbatim>\<open>Address(base, index, scale, disp)\<close>; \<^verbatim>\<open>noreg\<close> is \<open>None\<close>.\<close>

datatype amode = Amode (am_base: reg) (am_index: "reg option") (am_scale: nat) (am_disp: "64 word")

definition ea :: "regfile \<Rightarrow> amode \<Rightarrow> addr" where
  "ea rf a = rf (am_base a)
     + (case am_index a of None \<Rightarrow> 0 | Some i \<Rightarrow> push_bit (am_scale a) (rf i)) + am_disp a"

datatype cond = Equal | NotEqual | Below | AboveEqual | Above

datatype label = L_done | L_slow_case | L_continuation

datatype saved = All_regs regfile | One_reg "64 word"

record x86 =
  regs :: regfile
  compared :: "(64 word \<times> 64 word) option"
  frames :: "saved list"
  parameters :: "nat \<Rightarrow> 64 word"
  vm :: vm_state

datatype instr =
    Mov reg reg | Mov_imm reg "64 word" | Movl reg reg
  | Movb_load reg amode | Movzbl reg amode | Movb_store amode reg
  | Load reg amode | Store amode reg | Lea reg amode
  | Shr reg nat | Shr_cl reg | Shl_cl reg
  | And_imm reg "32 word" | Or_reg reg reg | Xor_reg reg reg | Add_imm reg "32 word"
  | Addq_mem amode reg | Addq_mem_imm amode "32 word"
  | Cmp_imm reg "32 word" | Cmp_reg reg reg | Cmp_mem reg amode
  | Jcc cond label | Jmp label | Bind label
  | Pusha | Popa | Push reg | Pop reg
  | Load_parameter nat reg | Store_parameter reg nat
  | Save_live_registers | Restore_live_registers
  | Call_VM_leaf runtime_fn nat
  | Hotspot "x86 \<Rightarrow> x86"

section \<open>Execution\<close>

record abi =
  c_rarg0 :: reg
  c_rarg1 :: reg
  c_rarg2 :: reg
  rscratch1 :: reg
  rscratch2 :: reg
  r15_thread :: reg

record machine =
  m_abi :: abi
  m_core :: core_effect
  m_env :: barrier_env
  m_clobber :: "runtime_fn \<Rightarrow> regfile \<Rightarrow> regfile"

fun cond_holds :: "cond \<Rightarrow> 64 word \<times> 64 word \<Rightarrow> bool" where
  "cond_holds Equal (a, b) \<longleftrightarrow> a = b"
| "cond_holds NotEqual (a, b) \<longleftrightarrow> a \<noteq> b"
| "cond_holds Below (a, b) \<longleftrightarrow> a < b"
| "cond_holds AboveEqual (a, b) \<longleftrightarrow> b \<le> a"
| "cond_holds Above (a, b) \<longleftrightarrow> b < a"

fun runtime_call ::
    "core_effect \<Rightarrow> barrier_env \<Rightarrow> runtime_fn \<Rightarrow> addr \<Rightarrow> addr \<Rightarrow> addr \<Rightarrow> vm_state \<Rightarrow> vm_state" where
  "runtime_call core env Fn_object_reference_write_pre_call a b c =
     object_reference_write_pre_call core env a b c"
| "runtime_call core env Fn_object_reference_write_post_call a b c =
     object_reference_write_post_call core env a b c"
| "runtime_call core env Fn_object_reference_write_slow_call a b c =
     object_reference_write_slow_call core env a b c"
| "runtime_call core env Fn_object_reference_array_copy_pre_call a b c =
     object_reference_array_copy_pre_call core env a b c"
| "runtime_call core env Fn_object_reference_array_copy_post_call a b c =
     object_reference_array_copy_post_call core env a b c"
| "runtime_call core env Fn_load_reference_call a b c = load_reference_call core env a"

abbreviation mem_of :: "x86 \<Rightarrow> mem" where "mem_of s \<equiv> vm_state.mem (vm s)"

definition set_mem :: "mem \<Rightarrow> x86 \<Rightarrow> x86" where
  "set_mem m s = s\<lparr>vm := (vm s)\<lparr>vm_state.mem := m\<rparr>\<rparr>"

definition set_reg :: "reg \<Rightarrow> 64 word \<Rightarrow> x86 \<Rightarrow> x86" where
  "set_reg r v s = s\<lparr>regs := (regs s)(r := v)\<rparr>"

text \<open>Arithmetic sets the flags to something no emitted branch may rely on.\<close>

definition set_arith :: "reg \<Rightarrow> 64 word \<Rightarrow> x86 \<Rightarrow> x86" where
  "set_arith r v s = (set_reg r v s)\<lparr>compared := None\<rparr>"

definition set_low_byte :: "64 word \<Rightarrow> byte \<Rightarrow> 64 word" where
  "set_low_byte w b = (w AND NOT (mask 8)) OR ucast b"

definition shift_count :: "regfile \<Rightarrow> nat" where
  "shift_count rf = unat (rf RCX AND 63)"

definition sx32 :: "32 word \<Rightarrow> 64 word" where
  "sx32 i = scast i"

fun step :: "machine \<Rightarrow> instr \<Rightarrow> x86 \<Rightarrow> x86 option" where
  "step M (Mov d r) s = Some (set_reg d (regs s r) s)"
| "step M (Mov_imm d v) s = Some (set_reg d v s)"
| "step M (Movl d r) s = Some (set_reg d (ucast (ucast (regs s r) :: 32 word)) s)"
| "step M (Movb_load d a) s =
     Some (set_reg d (set_low_byte (regs s d) (mem_of s (ea (regs s) a))) s)"
| "step M (Movzbl d a) s = Some (set_reg d (ucast (mem_of s (ea (regs s) a))) s)"
| "step M (Movb_store a r) s =
     Some (set_mem ((mem_of s)(ea (regs s) a := ucast (regs s r))) s)"
| "step M (Load d a) s = Some (set_reg d (load64 (mem_of s) (ea (regs s) a)) s)"
| "step M (Store a r) s = Some (set_mem (store64 (mem_of s) (ea (regs s) a) (regs s r)) s)"
| "step M (Lea d a) s = Some (set_reg d (ea (regs s) a) s)"
| "step M (Shr d n) s = Some (set_arith d (drop_bit n (regs s d)) s)"
| "step M (Shr_cl d) s = Some (set_arith d (drop_bit (shift_count (regs s)) (regs s d)) s)"
| "step M (Shl_cl d) s = Some (set_arith d (push_bit (shift_count (regs s)) (regs s d)) s)"
| "step M (And_imm d i) s = Some (set_arith d (regs s d AND sx32 i) s)"
| "step M (Or_reg d r) s = Some (set_arith d (regs s d OR regs s r) s)"
| "step M (Xor_reg d r) s = Some (set_arith d (regs s d XOR regs s r) s)"
| "step M (Add_imm d i) s = Some (set_arith d (regs s d + sx32 i) s)"
| "step M (Addq_mem a r) s =
     Some ((set_mem (store64 (mem_of s) (ea (regs s) a)
        (load64 (mem_of s) (ea (regs s) a) + regs s r)) s)\<lparr>compared := None\<rparr>)"
| "step M (Addq_mem_imm a i) s =
     Some ((set_mem (store64 (mem_of s) (ea (regs s) a)
        (load64 (mem_of s) (ea (regs s) a) + sx32 i)) s)\<lparr>compared := None\<rparr>)"
| "step M (Cmp_imm r i) s = Some (s\<lparr>compared := Some (regs s r, sx32 i)\<rparr>)"
| "step M (Cmp_reg r r') s = Some (s\<lparr>compared := Some (regs s r, regs s r')\<rparr>)"
| "step M (Cmp_mem r a) s =
     Some (s\<lparr>compared := Some (regs s r, load64 (mem_of s) (ea (regs s) a))\<rparr>)"
| "step M Pusha s = Some (s\<lparr>frames := All_regs (regs s) # frames s\<rparr>)"
| "step M Popa s =
     (case frames s of All_regs rf # fs \<Rightarrow> Some (s\<lparr>regs := rf, frames := fs\<rparr>) | _ \<Rightarrow> None)"
| "step M (Push r) s = Some (s\<lparr>frames := One_reg (regs s r) # frames s\<rparr>)"
| "step M (Pop r) s =
     (case frames s of One_reg v # fs \<Rightarrow> Some ((set_reg r v s)\<lparr>frames := fs\<rparr>) | _ \<Rightarrow> None)"
| "step M (Load_parameter i r) s = Some (set_reg r (parameters s i) s)"
| "step M (Store_parameter r i) s = Some (s\<lparr>parameters := (parameters s)(i := regs s r)\<rparr>)"
| "step M Save_live_registers s = Some (s\<lparr>frames := All_regs (regs s) # frames s\<rparr>)"
| "step M Restore_live_registers s =
     (case frames s of All_regs rf # fs \<Rightarrow> Some (s\<lparr>regs := rf, frames := fs\<rparr>) | _ \<Rightarrow> None)"
| "step M (Call_VM_leaf f n) s =
     Some (s\<lparr>vm := runtime_call (m_core M) (m_env M) f (regs s (c_rarg0 (m_abi M)))
                   (regs s (c_rarg1 (m_abi M))) (regs s (c_rarg2 (m_abi M))) (vm s),
             regs := m_clobber M f (regs s), compared := None\<rparr>)"
| "step M (Hotspot f) s = Some (f s)"
| "step M (Bind l) s = Some s"
| "step M (Jcc c l) s = None"
| "step M (Jmp l) s = None"

datatype outcome = Done x86 | Goto label x86 | Stuck

text \<open>\<open>exec M code skip s\<close>: \<open>skip\<close> is the label a taken jump is looking for.\<close>

fun exec :: "machine \<Rightarrow> instr list \<Rightarrow> label option \<Rightarrow> x86 \<Rightarrow> outcome" where
  "exec M [] None s = Done s"
| "exec M [] (Some l) s = Goto l s"
| "exec M (i # code) (Some l) s = exec M code (if i = Bind l then None else Some l) s"
| "exec M (Jcc c l # code) None s =
     (case compared s of None \<Rightarrow> Stuck
      | Some ab \<Rightarrow> exec M code (if cond_holds c ab then Some l else None) s)"
| "exec M (Jmp l # code) None s = exec M code (Some l) s"
| "exec M (i # code) None s =
     (case step M i s of None \<Rightarrow> Stuck | Some s' \<Rightarrow> exec M code None s')"

section \<open>Laws of execution\<close>

lemma exec_append:
  "exec M (xs @ ys) k s =
     (case exec M xs k s of Done s' \<Rightarrow> exec M ys None s' | Goto l s' \<Rightarrow> exec M ys (Some l) s'
        | Stuck \<Rightarrow> Stuck)"
  by (induction M xs k s rule: exec.induct) (auto split: option.splits)

lemma exec_skip: "Bind l \<notin> set code \<Longrightarrow> exec M code (Some l) s = Goto l s"
  by (induction code arbitrary: s) auto

named_theorems asm_simps \<open>symbolic execution of emitted code\<close>

lemmas machine_updates [asm_simps] = set_reg_def set_arith_def set_mem_def

lemma sx32_small [simp]: "sx32 0 = 0" "sx32 1 = 1" "sx32 7 = 7"
  by (simp_all add: sx32_def)

text \<open>The count of a shift after \<^verbatim>\<open>movl(rcx, (obj >> 3) & 7)\<close>.\<close>

lemma take_bit3_le_32: "ucast (ucast (drop_bit 3 a AND 7 :: 64 word) :: 32 word) = (drop_bit 3 a AND 7 :: 64 word)"
  by (rule bit_word_eqI) (auto simp: and_7_take_bit bit_simps)

lemma and_7_and_63: "(x AND 7) AND 63 = (x AND 7 :: 64 word)"
  by (simp add: and.assoc)

lemma shift_count_index [asm_simps]:
  "shift_count (rf(RCX := ucast (ucast (drop_bit 3 a AND 7 :: 64 word) :: 32 word))) = meta_bit_index a"
  "shift_count (rf(RCX := drop_bit 3 a AND 7)) = meta_bit_index a"
  by (simp_all add: shift_count_def take_bit3_le_32 and_7_and_63 meta_bit_index_def)

lemma metadata_test_zx [asm_simps]:
  "drop_bit (meta_bit_index a) (ucast (m (meta_byte_addr base a)) :: 64 word) AND 1 =
     of_bool (meta_bit base m a)"
proof -
  have "meta_bit_index a < 64" by (rule less_trans[OF meta_bit_index_less]) simp
  then show ?thesis by (simp add: drop_bit_and_1_of_bool meta_bit_def bit_simps)
qed

text \<open>\<^verbatim>\<open>movb\<close> keeps the upper bytes of the register, but the shift is below 8.\<close>

lemma bit_set_low_byte: "n < 8 \<Longrightarrow> bit (set_low_byte w b) n \<longleftrightarrow> bit b n"
  by (auto simp: set_low_byte_def bit_simps)

lemma metadata_test_low_byte [asm_simps]:
  "drop_bit (meta_bit_index a) (set_low_byte w (m (meta_byte_addr base a))) AND 1 =
     of_bool (meta_bit base m a)"
  by (simp add: drop_bit_and_1_of_bool bit_set_low_byte meta_bit_def)

end
