(* ===== verification/Barrier_Assembler.thy ===== *)
theory Barrier_Assembler
  imports X86_Machine
begin

text \<open>
  The barriers of interpreted code: the macro-assembler code of
  \<^verbatim>\<open>MMTkBarrierSetAssembler\<close> and of its object and SATB subclasses. A generator is a function that
  returns the list of instructions it emits, or the assertion it violates (a debug build stops
  there). The theorems execute the emitted code on \<open>X86_Machine\<close> and relate it to the runtime
  barriers of \<open>Barrier_Runtime\<close>: the interpreter makes the calls the C++ runtime would make, and
  outside its scratch registers it leaves every register as it was.
\<close>

section \<open>Generators\<close>

datatype BasicType = T_BOOLEAN | T_CHAR | T_FLOAT | T_DOUBLE | T_BYTE | T_SHORT | T_INT | T_LONG
  | T_OBJECT | T_ARRAY

definition is_oop_type :: "BasicType \<Rightarrow> bool" where
  "is_oop_type type \<longleftrightarrow> type = T_OBJECT \<or> type = T_ARRAY"

definition Asm_can_remove_barrier :: "DecoratorSet \<Rightarrow> reg option \<Rightarrow> bool \<Rightarrow> bool result" where
  "Asm_can_remove_barrier decorators val skip_const_null =
     (if IS_DEST_UNINITIALIZED \<in> decorators then Inl (Assert_failed ''unsupported'')
      else Inr (IN_HEAP \<notin> decorators \<or> (skip_const_null \<and> val = None)))"

subsection \<open>MMTkObjectBarrierSetAssembler\<close>

definition ObjectAsm_object_reference_write_post ::
    "abi \<Rightarrow> barrier_env \<Rightarrow> DecoratorSet \<Rightarrow> amode \<Rightarrow> reg option \<Rightarrow> reg \<Rightarrow> reg \<Rightarrow> bool
       \<Rightarrow> instr list result" where
  "ObjectAsm_object_reference_write_post A env decorators dst val tmp1 tmp2 compensate_val_reg =
     (case Asm_can_remove_barrier decorators val True of
        Inl e \<Rightarrow> Inl e
      | Inr True \<Rightarrow> Inr []
      | Inr False \<Rightarrow>
         (let obj = am_base dst; tmp3 = rscratch1 A; tmp4 = rscratch2 A;
              args = [Mov (c_rarg0 A) obj, Xor_reg (c_rarg1 A) (c_rarg1 A),
                      Xor_reg (c_rarg2 A) (c_rarg2 A)]
          in if mmtk_enable_barrier_fastpath env then
               if \<not> distinct [obj, tmp2, tmp3] \<or> tmp4 = RCX
               then Inl (Assert_failed ''assert_different_registers'')
               else Inr (
                 [Mov tmp3 obj,
                  Shr tmp3 6,
                  Mov_imm tmp2 (SIDE_METADATA_BASE_ADDRESS env),
                  Movb_load tmp2 (Amode tmp2 (Some tmp3) 0 0),
                  Mov tmp3 obj,
                  Shr tmp3 3,
                  And_imm tmp3 7,
                  Mov tmp4 RCX,
                  Movl RCX tmp3,
                  Shr_cl tmp2,
                  Mov RCX tmp4,
                  And_imm tmp2 1,
                  Cmp_imm tmp2 1,
                  Jcc NotEqual L_done]
                 @ args @ [Call_VM_leaf Fn_object_reference_write_slow_call 3, Bind L_done])
             else Inr (args @ [Call_VM_leaf Fn_object_reference_write_post_call 3])))"

text \<open>
  \<^verbatim>\<open>arraycopy_prologue\<close> saves what the copy loop may overwrite in \<^verbatim>\<open>r11\<close>; \<^verbatim>\<open>arraycopy_epilogue\<close>
  uses the saved value.
\<close>

definition ObjectAsm_arraycopy_prologue ::
    "bool \<Rightarrow> DecoratorSet \<Rightarrow> BasicType \<Rightarrow> reg \<Rightarrow> reg \<Rightarrow> reg \<Rightarrow> instr list" where
  "ObjectAsm_arraycopy_prologue UseCompressedOops decorators type src dst count =
     (let checkcast = ARRAYCOPY_CHECKCAST \<in> decorators;
          disjoint = ARRAYCOPY_DISJOINT \<in> decorators;
          obj_int = (type = T_OBJECT \<and> UseCompressedOops)
      in if is_oop_type type then
           if \<not> checkcast then
             if \<not> obj_int then [Mov R11 count]
             else if disjoint then [Mov R11 dst]
             else []
           else []
         else [])"

definition ObjectAsm_arraycopy_epilogue ::
    "abi \<Rightarrow> bool \<Rightarrow> DecoratorSet \<Rightarrow> BasicType \<Rightarrow> reg \<Rightarrow> reg \<Rightarrow> reg \<Rightarrow> instr list" where
  "ObjectAsm_arraycopy_epilogue A UseCompressedOops decorators type src dst0 count0 =
     (let checkcast = ARRAYCOPY_CHECKCAST \<in> decorators;
          disjoint = ARRAYCOPY_DISJOINT \<in> decorators;
          obj_int = (type = T_OBJECT \<and> UseCompressedOops);
          dest_uninitialized = IS_DEST_UNINITIALIZED \<in> decorators
      in if is_oop_type type \<and> \<not> dest_uninitialized then
           (let count = (if \<not> checkcast \<and> \<not> obj_int then R11 else count0);
                dst = (if \<not> checkcast \<and> obj_int \<and> disjoint then R11 else dst0)
            in [Pusha, Mov (c_rarg0 A) src, Mov (c_rarg1 A) dst, Mov (c_rarg2 A) count,
                Call_VM_leaf Fn_object_reference_array_copy_post_call 3, Popa])
         else [])"

subsection \<open>MMTkSATBBarrierSetAssembler\<close>

text \<open>\<open>hotspot_load\<close> is the code of \<^verbatim>\<open>BarrierSetAssembler::load_at\<close>.\<close>

definition SATBAsm_load_at ::
    "abi \<Rightarrow> barrier_env \<Rightarrow> instr list \<Rightarrow> DecoratorSet \<Rightarrow> BasicType \<Rightarrow> reg \<Rightarrow> instr list" where
  "SATBAsm_load_at A env hotspot_load decorators type dst =
     (let on_oop = is_oop_type type;
          on_weak = ON_WEAK_OOP_REF \<in> decorators;
          on_phantom = ON_PHANTOM_OOP_REF \<in> decorators;
          on_reference = (on_weak \<or> on_phantom);
          tmp = rscratch1 A; tmp2 = rscratch2 A
      in hotspot_load @
         (if on_oop \<and> on_reference then
            [Mov_imm tmp (CONCURRENT_MARKING_ACTIVE env),
             Xor_reg tmp2 tmp2,
             Movb_load tmp2 (Amode tmp None 0 0),
             Cmp_imm tmp2 1,
             Jcc NotEqual L_done,
             Cmp_imm dst 0,
             Jcc Equal L_done,
             Pusha,
             Mov (c_rarg0 A) dst,
             Call_VM_leaf Fn_load_reference_call 1,
             Popa,
             Bind L_done]
          else []))"

text \<open>
  \<^verbatim>\<open>val == noreg ? (int32_t) NULL_WORD : val\<close> has type \<^verbatim>\<open>Register\<close>, a pointer: the null constant
  is the register with number 0, \<^verbatim>\<open>rax\<close>, and not the value 0.
\<close>

definition SATBAsm_target :: "reg option \<Rightarrow> reg" where
  "SATBAsm_target val = (case val of None \<Rightarrow> RAX | Some v \<Rightarrow> v)"

definition SATBAsm_slow_args :: "abi \<Rightarrow> amode \<Rightarrow> reg option \<Rightarrow> runtime_fn \<Rightarrow> instr list" where
  "SATBAsm_slow_args A dst val fn =
     [Pusha, Mov (c_rarg0 A) (am_base dst), Lea (c_rarg1 A) dst,
      Mov (c_rarg2 A) (SATBAsm_target val), Call_VM_leaf fn 3, Popa]"

definition SATBAsm_tmp5 :: "amode \<Rightarrow> reg \<Rightarrow> reg \<Rightarrow> reg" where
  "SATBAsm_tmp5 dst tmp1 tmp2 =
     (if tmp1 = am_base dst \<or> Some tmp1 = am_index dst then tmp2 else tmp1)"

definition SATBAsm_object_reference_write_pre ::
    "abi \<Rightarrow> barrier_env \<Rightarrow> DecoratorSet \<Rightarrow> amode \<Rightarrow> reg option \<Rightarrow> reg \<Rightarrow> reg
       \<Rightarrow> instr list result" where
  "SATBAsm_object_reference_write_pre A env decorators dst val tmp1 tmp2 =
     (case Asm_can_remove_barrier decorators val False of
        Inl e \<Rightarrow> Inl e
      | Inr True \<Rightarrow> Inr []
      | Inr False \<Rightarrow>
          Inr (if mmtk_enable_barrier_fastpath env then
            (let obj = am_base dst; tmp3 = rscratch1 A; tmp4 = rscratch2 A;
                 tmp5 = SATBAsm_tmp5 dst tmp1 tmp2
             in [Mov tmp3 obj,
                 Shr tmp3 6,
                 Mov_imm tmp5 (SIDE_METADATA_BASE_ADDRESS env),
                 Movzbl tmp5 (Amode tmp5 (Some tmp3) 0 0),
                 Mov tmp3 obj,
                 Shr tmp3 3,
                 And_imm tmp3 7,
                 Mov tmp4 RCX,
                 Movl RCX tmp3,
                 Shr_cl tmp5,
                 Mov RCX tmp4,
                 And_imm tmp5 1,
                 Cmp_imm tmp5 1,
                 Jcc NotEqual L_done]
                @ SATBAsm_slow_args A dst val Fn_object_reference_write_slow_call
                @ [Bind L_done])
          else SATBAsm_slow_args A dst val Fn_object_reference_write_pre_call))"

definition SATBAsm_arraycopy_prologue :: "abi \<Rightarrow> BasicType \<Rightarrow> reg \<Rightarrow> reg \<Rightarrow> reg \<Rightarrow> instr list" where
  "SATBAsm_arraycopy_prologue A type src dst count =
     (if is_oop_type type then
        [Cmp_imm count 0,
         Jcc Equal L_done,
         Pusha,
         Mov (c_rarg0 A) src,
         Mov (c_rarg1 A) dst,
         Mov (c_rarg2 A) count,
         Call_VM_leaf Fn_object_reference_array_copy_pre_call 3,
         Popa,
         Bind L_done]
      else [])"

subsection \<open>MMTkBarrierSetAssembler\<close>

fun Asm_object_reference_write_pre ::
    "barrier_kind \<Rightarrow> abi \<Rightarrow> barrier_env \<Rightarrow> DecoratorSet \<Rightarrow> amode \<Rightarrow> reg option \<Rightarrow> reg \<Rightarrow> reg
       \<Rightarrow> instr list result" where
  "Asm_object_reference_write_pre MMTkSATBBarrier A env decorators dst val tmp1 tmp2 =
     SATBAsm_object_reference_write_pre A env decorators dst val tmp1 tmp2"
| "Asm_object_reference_write_pre _ A env decorators dst val tmp1 tmp2 = Inr []"

fun Asm_object_reference_write_post ::
    "barrier_kind \<Rightarrow> abi \<Rightarrow> barrier_env \<Rightarrow> DecoratorSet \<Rightarrow> amode \<Rightarrow> reg option \<Rightarrow> reg \<Rightarrow> reg \<Rightarrow> bool
       \<Rightarrow> instr list result" where
  "Asm_object_reference_write_post MMTkObjectBarrier A env decorators dst val tmp1 tmp2 c =
     ObjectAsm_object_reference_write_post A env decorators dst val tmp1 tmp2 c"
| "Asm_object_reference_write_post _ A env decorators dst val tmp1 tmp2 c = Inr []"

text \<open>\<open>hotspot_store\<close> is the code of \<^verbatim>\<open>BarrierSetAssembler::store_at\<close>.\<close>

definition Asm_store_at ::
    "barrier_kind \<Rightarrow> abi \<Rightarrow> barrier_env \<Rightarrow> instr list \<Rightarrow> DecoratorSet \<Rightarrow> BasicType \<Rightarrow> amode
       \<Rightarrow> reg option \<Rightarrow> reg \<Rightarrow> reg \<Rightarrow> instr list result" where
  "Asm_store_at k A env hotspot_store decorators type dst val tmp1 tmp2 =
     (case (if is_oop_type type
            then Asm_object_reference_write_pre k A env decorators dst val tmp1 tmp2 else Inr [])
      of Inl e \<Rightarrow> Inl e
       | Inr pre \<Rightarrow>
      (case (if is_oop_type type
             then Asm_object_reference_write_post k A env decorators dst val tmp1 tmp2 True else Inr [])
       of Inl e \<Rightarrow> Inl e
        | Inr post \<Rightarrow> Inr (pre @ hotspot_store @ post)))"

section \<open>Execution of the barriers\<close>

text \<open>Registers of the calling convention do not collide; HotSpot's assignment on Linux does not.\<close>

definition abi_ok :: "abi \<Rightarrow> bool" where
  "abi_ok A \<longleftrightarrow> distinct [c_rarg0 A, c_rarg1 A, c_rarg2 A, rscratch1 A, rscratch2 A]
     \<and> RCX \<notin> {rscratch1 A, rscratch2 A}"

definition sysv_abi :: abi where
  "sysv_abi = \<lparr>c_rarg0 = RDI, c_rarg1 = RSI, c_rarg2 = RDX, rscratch1 = R10, rscratch2 = R11,
     r15_thread = R15\<rparr>"

lemma sysv_abi_ok: "abi_ok sysv_abi"
  by (simp add: abi_ok_def sysv_abi_def)

definition reg_value :: "regfile \<Rightarrow> reg option \<Rightarrow> addr" where
  "reg_value rf v = (case v of None \<Rightarrow> 0 | Some r \<Rightarrow> rf r)"

text \<open>
  What the SATB barrier needs of its operands: \<open>t\<close>, the register it loads the metadata byte
  into, and the two scratch registers are not operands, and the arguments of the call can be set
  up in the order the code does it.
\<close>

definition SATB_operands_ok :: "abi \<Rightarrow> amode \<Rightarrow> reg option \<Rightarrow> reg \<Rightarrow> bool" where
  "SATB_operands_ok A dst val t \<longleftrightarrow>
     t \<notin> {am_base dst, rscratch1 A, rscratch2 A, RCX}
   \<and> am_base dst \<notin> {rscratch1 A, rscratch2 A}
   \<and> (\<forall>i. am_index dst = Some i \<longrightarrow> i \<notin> {t, rscratch1 A, rscratch2 A, c_rarg0 A})
   \<and> SATBAsm_target val \<notin> {t, rscratch1 A, rscratch2 A, c_rarg0 A, c_rarg1 A}"

lemma SATB_slow_args_exec:
  assumes "abi_ok (m_abi M)" and "SATB_operands_ok (m_abi M) dst val t"
  shows "exec M (SATBAsm_slow_args (m_abi M) dst val fn) None s =
     Done (s\<lparr>compared := None,
       vm := runtime_call (m_core M) (m_env M) fn (regs s (am_base dst)) (ea (regs s) dst)
         (regs s (SATBAsm_target val)) (vm s)\<rparr>)"
  using assms
  by (cases "am_index dst")
    (auto simp: SATBAsm_slow_args_def abi_ok_def SATB_operands_ok_def asm_simps ea_def)

text \<open>The check both barriers emit; \<open>ld\<close> loads the metadata byte into \<open>t\<close>.\<close>

definition unlog_check :: "abi \<Rightarrow> addr \<Rightarrow> instr \<Rightarrow> reg \<Rightarrow> reg \<Rightarrow> instr list" where
  "unlog_check A base ld t obj =
     [Mov (rscratch1 A) obj, Shr (rscratch1 A) 6, Mov_imm t base, ld,
      Mov (rscratch1 A) obj, Shr (rscratch1 A) 3, And_imm (rscratch1 A) 7,
      Mov (rscratch2 A) RCX, Movl RCX (rscratch1 A), Shr_cl t, Mov RCX (rscratch2 A),
      And_imm t 1, Cmp_imm t 1, Jcc NotEqual L_done]"

definition unlog_check_state :: "machine \<Rightarrow> reg \<Rightarrow> x86 \<Rightarrow> x86 \<Rightarrow> bool" where
  "unlog_check_state M t s s' \<longleftrightarrow>
     vm s' = vm s \<and> frames s' = frames s \<and> parameters s' = parameters s
   \<and> (\<forall>r. r \<notin> {t, rscratch1 (m_abi M), rscratch2 (m_abi M)} \<longrightarrow> regs s' r = regs s r)"

lemma unlog_check_exec:
  assumes "abi_ok (m_abi M)"
    and "obj \<notin> {t, rscratch1 (m_abi M), rscratch2 (m_abi M)}"
    and "t \<notin> {RCX, rscratch1 (m_abi M), rscratch2 (m_abi M)}"
    and "ld \<in> {Movb_load t (Amode t (Some (rscratch1 (m_abi M))) 0 0),
                Movzbl t (Amode t (Some (rscratch1 (m_abi M))) 0 0)}"
  shows "\<exists>s'. unlog_check_state M t s s' \<and>
     exec M (unlog_check (m_abi M) base ld t obj @ rest) None s =
       exec M rest (if meta_bit base (mem_of s) (regs s obj) then None else Some L_done) s'"
proof -
  let ?a = "regs s obj" and ?A = "m_abi M"
  let ?v = "of_bool (meta_bit base (mem_of s) ?a)"
  let ?fin = "s\<lparr>regs := (regs s)(rscratch1 ?A := drop_bit 3 ?a AND 7,
      rscratch2 ?A := regs s RCX, RCX := regs s RCX, t := ?v), compared := Some (?v, 1)\<rparr>"
  have byte: "base + drop_bit 6 ?a = meta_byte_addr base ?a"
    by (simp add: meta_byte_addr_def)
  have "unlog_check_state M t s ?fin"
    using assms(1,3) by (auto simp: unlog_check_state_def abi_ok_def)
  moreover have "exec M (unlog_check ?A base ld t obj @ rest) None s =
      exec M rest (if meta_bit base (mem_of s) ?a then None else Some L_done) ?fin"
    using assms by (auto simp: unlog_check_def abi_ok_def asm_simps ea_def byte)
  ultimately show ?thesis by blast
qed

lemma SATB_write_pre_code:
  assumes "SATBAsm_object_reference_write_pre A env decorators dst val tmp1 tmp2 = Inr code"
    and "IN_HEAP \<in> decorators"
  shows "code = (if mmtk_enable_barrier_fastpath env
     then unlog_check A (SIDE_METADATA_BASE_ADDRESS env)
            (Movzbl (SATBAsm_tmp5 dst tmp1 tmp2)
               (Amode (SATBAsm_tmp5 dst tmp1 tmp2) (Some (rscratch1 A)) 0 0))
            (SATBAsm_tmp5 dst tmp1 tmp2) (am_base dst)
          @ SATBAsm_slow_args A dst val Fn_object_reference_write_slow_call @ [Bind L_done]
     else SATBAsm_slow_args A dst val Fn_object_reference_write_pre_call)"
  using assms
  by (auto simp: SATBAsm_object_reference_write_pre_def Asm_can_remove_barrier_def
      unlog_check_def Let_def split: if_splits)

lemma Object_write_post_code:
  assumes "ObjectAsm_object_reference_write_post A env decorators dst (Some v) tmp1 tmp2 c = Inr code"
    and "IN_HEAP \<in> decorators"
  shows "code = (if mmtk_enable_barrier_fastpath env
     then unlog_check A (SIDE_METADATA_BASE_ADDRESS env)
            (Movb_load tmp2 (Amode tmp2 (Some (rscratch1 A)) 0 0)) tmp2 (am_base dst) else [])
     @ [Mov (c_rarg0 A) (am_base dst), Xor_reg (c_rarg1 A) (c_rarg1 A), Xor_reg (c_rarg2 A) (c_rarg2 A)]
     @ (if mmtk_enable_barrier_fastpath env
        then [Call_VM_leaf Fn_object_reference_write_slow_call 3, Bind L_done]
        else [Call_VM_leaf Fn_object_reference_write_post_call 3])"
    and "mmtk_enable_barrier_fastpath env \<Longrightarrow> distinct [am_base dst, tmp2, rscratch1 A]"
  using assms
  by (auto simp: ObjectAsm_object_reference_write_post_def Asm_can_remove_barrier_def
      unlog_check_def Let_def split: if_splits)

lemma skip_slow_args:
  "exec M (SATBAsm_slow_args A dst val fn) (Some L_done) s = Goto L_done s"
  by (simp add: SATBAsm_slow_args_def)

lemma slow_args_kept:
  "rf (SATBAsm_target val) = rf' (SATBAsm_target val)" "ea rf dst = ea rf' dst"
  "reg_value rf val = reg_value rf' val"
  if "SATB_operands_ok A dst val t" "\<forall>r. r \<notin> {t, rscratch1 A, rscratch2 A} \<longrightarrow> rf r = rf' r"
  using that
  by (auto simp: SATB_operands_ok_def reg_value_def ea_def SATBAsm_target_def split: option.splits)

lemma SATB_write_pre_exec:
  fixes M dst val tmp1 tmp2
  defines "A \<equiv> m_abi M" and "t \<equiv> SATBAsm_tmp5 dst tmp1 tmp2"
  assumes ok: "abi_ok A" "SATB_operands_ok A dst val t"
    and code: "SATBAsm_object_reference_write_pre A (m_env M) decorators dst val tmp1 tmp2 = Inr code"
    and heap: "IN_HEAP \<in> decorators" "user_addr (regs s (am_base dst))"
  shows "\<exists>s'. exec M code None s = Done s' \<and> frames s' = frames s \<and>
     vm s' = SATBRuntime_object_reference_write_pre (m_core M) (m_env M) (regs s (am_base dst))
               (ea (regs s) dst) (regs s (SATBAsm_target val)) (vm s) \<and>
     (\<forall>r. r \<notin> {t, rscratch1 A, rscratch2 A} \<longrightarrow> regs s' r = regs s r)"
proof (cases "mmtk_enable_barrier_fastpath (m_env M)")
  case False
  then show ?thesis
    using SATB_write_pre_code[OF code heap(1)] SATB_slow_args_exec[of M dst val t] ok
    by (simp add: A_def SATBRuntime_object_reference_write_pre_def)
next
  case True
  let ?B = "SIDE_METADATA_BASE_ADDRESS (m_env M)" and ?obj = "regs s (am_base dst)"
  let ?args = "SATBAsm_slow_args A dst val Fn_object_reference_write_slow_call"
  have "am_base dst \<notin> {t, rscratch1 A, rscratch2 A}" "t \<notin> {RCX, rscratch1 A, rscratch2 A}"
    using ok by (auto simp: SATB_operands_ok_def)
  from unlog_check_exec[OF ok(1)[unfolded A_def] this[unfolded A_def], of "Movzbl t (Amode t (Some (rscratch1 A)) 0 0)"
      s ?B "?args @ [Bind L_done]"]
  obtain s1 where s1: "unlog_check_state M t s s1"
    and ex: "exec M code None s =
      exec M (?args @ [Bind L_done]) (if meta_bit ?B (mem_of s) ?obj then None else Some L_done) s1"
    using SATB_write_pre_code[OF code heap(1)] True by (auto simp: A_def t_def)
  have kept: "\<forall>r. r \<notin> {t, rscratch1 A, rscratch2 A} \<longrightarrow> regs s1 r = regs s r"
    and same: "vm s1 = vm s" "frames s1 = frames s"
    using s1 by (auto simp: unlog_check_state_def A_def)
  have base: "regs s1 (am_base dst) = ?obj"
    using kept ok by (auto simp: SATB_operands_ok_def)
  show ?thesis
    using ex kept same base slow_args_kept[OF ok(2) kept]
      SATB_slow_args_exec[OF ok[unfolded A_def], of Fn_object_reference_write_slow_call s1]
    by (cases "meta_bit ?B (mem_of s) ?obj")
      (simp_all add: A_def exec_append skip_slow_args SATB_write_pre_fast[OF True heap(2)]
        slow_if_unlogged_def)
qed

lemma Object_write_post_exec:
  fixes M defines "A \<equiv> m_abi M"
  assumes ok: "abi_ok A" "am_base dst \<noteq> rscratch2 A" "tmp2 \<notin> {RCX, rscratch2 A}"
    and code: "ObjectAsm_object_reference_write_post A (m_env M) decorators dst (Some v) tmp1 tmp2 c
                 = Inr code"
    and heap: "IN_HEAP \<in> decorators" "user_addr (regs s (am_base dst))"
  shows "\<exists>s'. exec M code None s = Done s' \<and> frames s' = frames s \<and>
     vm s' = ObjectRuntime_object_reference_write_post (m_core M) (m_env M)
               (regs s (am_base dst)) 0 0 (vm s)"
proof -
  let ?B = "SIDE_METADATA_BASE_ADDRESS (m_env M)" and ?obj = "regs s (am_base dst)"
  let ?args = "\<lambda>fn. [Mov (c_rarg0 A) (am_base dst), Xor_reg (c_rarg1 A) (c_rarg1 A),
    Xor_reg (c_rarg2 A) (c_rarg2 A), Call_VM_leaf fn 3]"
  have args: "\<exists>s'. exec M (?args fn) None s1 = Done s' \<and> frames s' = frames s1 \<and>
      vm s' = runtime_call (m_core M) (m_env M) fn (regs s1 (am_base dst)) 0 0 (vm s1)" for fn s1
    using ok(1) by (auto simp: A_def abi_ok_def asm_simps)
  show ?thesis
  proof (cases "mmtk_enable_barrier_fastpath (m_env M)")
    case False
    then show ?thesis
      using Object_write_post_code(1)[OF code heap(1)] args[of Fn_object_reference_write_post_call s]
      by (simp add: ObjectRuntime_object_reference_write_post_def)
  next
    case True
    have "am_base dst \<notin> {tmp2, rscratch1 A, rscratch2 A}" "tmp2 \<notin> {RCX, rscratch1 A, rscratch2 A}"
      using ok Object_write_post_code(2)[OF code heap(1) True] by auto
    from unlog_check_exec[OF ok(1)[unfolded A_def] this[unfolded A_def],
        of "Movb_load tmp2 (Amode tmp2 (Some (rscratch1 A)) 0 0)" s ?B
          "?args Fn_object_reference_write_slow_call @ [Bind L_done]"]
    obtain s1 where s1: "vm s1 = vm s" "frames s1 = frames s" "regs s1 (am_base dst) = ?obj"
      and ex: "exec M code None s = exec M (?args Fn_object_reference_write_slow_call @ [Bind L_done])
        (if meta_bit ?B (mem_of s) ?obj then None else Some L_done) s1"
      using Object_write_post_code(1)[OF code heap(1)] True \<open>am_base dst \<notin> _\<close>
      by (auto simp: A_def unlog_check_state_def)
    show ?thesis
      using ex s1 args[of Fn_object_reference_write_slow_call s1]
      by (cases "meta_bit ?B (mem_of s) ?obj")
        (auto simp: exec_append Object_write_post_fast[OF True heap(2)] slow_if_unlogged_def
          simp del: append.simps)
  qed
qed


section \<open>Properties\<close>

text \<open>
  What the generic store of HotSpot (\<^verbatim>\<open>BarrierSetAssembler::store_at\<close>) does: it performs the raw
  store of the value in \<open>val\<close> and keeps the base register. The object barrier of mmtk-core logs
  the source object and looks at neither \<open>slot\<close> nor \<open>target\<close>, as the comment in
  \<^verbatim>\<open>object_reference_write_post\<close> states.
\<close>

definition hotspot_store_ok :: "machine \<Rightarrow> raw_access \<Rightarrow> amode \<Rightarrow> reg option \<Rightarrow> instr list \<Rightarrow> bool" where
  "hotspot_store_ok M raw dst val store \<longleftrightarrow>
     (\<forall>s. \<exists>s'. exec M store None s = Done s' \<and> frames s' = frames s
        \<and> regs s' (am_base dst) = regs s (am_base dst)
        \<and> vm s' = (vm s)\<lparr>vm_state.mem := raw_store_at raw (regs s (am_base dst))
              (ea (regs s) dst - regs s (am_base dst)) (reg_value (regs s) val) (mem_of s)\<rparr>)"

definition slot_target_ignored :: "core_effect \<Rightarrow> bool" where
  "slot_target_ignored core \<longleftrightarrow> (\<forall>mt src slot target m.
     core (Mmtk_object_reference_write_slow mt src slot target) m =
       core (Mmtk_object_reference_write_slow mt src 0 0) m
   \<and> core (Mmtk_object_reference_write_post mt src slot target) m =
       core (Mmtk_object_reference_write_post mt src 0 0) m)"

text \<open>What the operands of a reference store have to satisfy for the emitted code to be right.\<close>

definition store_operands_ok :: "abi \<Rightarrow> amode \<Rightarrow> reg option \<Rightarrow> reg \<Rightarrow> reg \<Rightarrow> bool" where
  "store_operands_ok A dst val tmp1 tmp2 \<longleftrightarrow>
     abi_ok A \<and> SATB_operands_ok A dst val (SATBAsm_tmp5 dst tmp1 tmp2)
   \<and> tmp2 \<notin> {RCX, rscratch2 A}"

lemma Object_write_post_slot_target:
  assumes "slot_target_ignored core"
  shows "vm_state.mem (ObjectRuntime_object_reference_write_post core env src slot target s) =
         vm_state.mem (ObjectRuntime_object_reference_write_post core env src 0 0 s)"
proof -
  have slow: "core (Mmtk_object_reference_write_slow mt src slot target) m =
        core (Mmtk_object_reference_write_slow mt src 0 0) m"
    and post: "core (Mmtk_object_reference_write_post mt src slot target) m =
        core (Mmtk_object_reference_write_post mt src 0 0) m" for mt m
    using assms unfolding slot_target_ignored_def by blast+
  show ?thesis
    by (simp add: ObjectRuntime_object_reference_write_post_def barrier_defs
        slow[of _ "vm_state.mem s"] post[of _ "vm_state.mem s"])
qed

text \<open>Both halves of a store, for every barrier.\<close>

lemma Asm_write_pre_exec:
  fixes M dst tmp1 tmp2
  defines "A \<equiv> m_abi M" and "t \<equiv> SATBAsm_tmp5 dst tmp1 tmp2"
  assumes "abi_ok A" "SATB_operands_ok A dst val t"
    and "Asm_object_reference_write_pre k A (m_env M) decorators dst val tmp1 tmp2 = Inr code"
    and "IN_HEAP \<in> decorators" "user_addr (regs s (am_base dst))"
  shows "\<exists>s'. exec M code None s = Done s' \<and> frames s' = frames s \<and>
     vm s' = object_reference_write_pre k (m_core M) (m_env M) (regs s (am_base dst))
               (ea (regs s) dst) (regs s (SATBAsm_target val)) (vm s) \<and>
     (\<forall>r. r \<notin> {t, rscratch1 A, rscratch2 A} \<longrightarrow> regs s' r = regs s r)"
  using assms SATB_write_pre_exec[of M dst val tmp1 tmp2 decorators code s] by (cases k) auto

lemma Asm_write_post_exec:
  fixes M defines "A \<equiv> m_abi M"
  assumes "abi_ok A" "am_base dst \<noteq> rscratch2 A" "tmp2 \<notin> {RCX, rscratch2 A}"
    and "Asm_object_reference_write_post k A (m_env M) decorators dst (Some v) tmp1 tmp2 c = Inr code"
    and "IN_HEAP \<in> decorators" "user_addr (regs s (am_base dst))"
    and "slot_target_ignored (m_core M)"
  shows "\<exists>s'. exec M code None s = Done s' \<and> frames s' = frames s \<and>
     mem_of s' = vm_state.mem (object_reference_write_post k (m_core M) (m_env M)
       (regs s (am_base dst)) slot target (vm s))"
  using assms Object_write_post_exec[of M dst tmp2 decorators v tmp1 c code s]
    Object_write_post_slot_target[of "m_core M" "m_env M" "regs s (am_base dst)" slot target "vm s"]
  by (cases k) auto

text \<open>A store of null (\<^verbatim>\<open>val == noreg\<close>) has no barrier after it.\<close>

lemma Asm_write_post_null:
  assumes "Asm_object_reference_write_post k A env decorators dst None tmp1 tmp2 c = Inr code"
  shows "code = []"
  using assms
  by (cases k) (auto simp: ObjectAsm_object_reference_write_post_def Asm_can_remove_barrier_def
      split: if_splits)

text \<open>
  The memory a reference store of interpreted code ends in. Storing a register is the runtime's
  store. Storing null runs the barrier before the store, whose \<^verbatim>\<open>target\<close> argument is what \<^verbatim>\<open>rax\<close>
  holds, stores null, and runs no barrier after it.
\<close>

definition interpreter_store_memory ::
    "barrier_kind \<Rightarrow> core_effect \<Rightarrow> barrier_env \<Rightarrow> raw_access \<Rightarrow> addr \<Rightarrow> addr \<Rightarrow> reg option \<Rightarrow> regfile
       \<Rightarrow> vm_state \<Rightarrow> mem" where
  "interpreter_store_memory k core env raw obj offset val rf s =
     (case val of
        Some v \<Rightarrow> vm_state.mem (oop_store_in_heap_at k core env raw obj offset (rf v) s)
      | None \<Rightarrow> raw_store_at raw obj offset 0
          (vm_state.mem (object_reference_write_pre k core env obj (obj + offset) (rf RAX) s)))"

text \<open>
  C9. A reference store of interpreted code refines the runtime's. For every barrier and every
  value operand, null included, if the operands are in registers the emitted code can handle, the
  code that \<^verbatim>\<open>store_at\<close> emits runs to its end without getting stuck and leaves the stack balanced.
  A store of a register ends in the memory that \<^verbatim>\<open>AccessBarrier::oop_store_in_heap_at\<close> computes for
  the same object, offset and value. A store of null ends in the memory of the runtime's barrier
  before the store, called with the content of \<^verbatim>\<open>rax\<close> as the target, followed by the raw store of
  null; the barrier after the store is elided.
\<close>

theorem interpreter_store_refines_runtime:
  assumes "store_operands_ok (m_abi M) dst val tmp1 tmp2"
    and "Asm_store_at k (m_abi M) (m_env M) store decorators type dst val tmp1 tmp2 = Inr code"
    and "is_oop_type type" and "IN_HEAP \<in> decorators"
    and "user_addr (regs s (am_base dst))"
    and "hotspot_store_ok M raw dst val store"
    and "slot_target_ignored (m_core M)"
  shows "\<exists>s'. exec M code None s = Done s' \<and> frames s' = frames s \<and>
     mem_of s' = interpreter_store_memory k (m_core M) (m_env M) raw (regs s (am_base dst))
                   (ea (regs s) dst - regs s (am_base dst)) val (regs s) (vm s)"
proof -
  let ?A = "m_abi M" and ?obj = "regs s (am_base dst)" and ?slot = "ea (regs s) dst"
  let ?t = "SATBAsm_tmp5 dst tmp1 tmp2" and ?v = "reg_value (regs s) val"
  have ok: "abi_ok ?A" "SATB_operands_ok ?A dst val ?t" "tmp2 \<notin> {RCX, rscratch2 ?A}"
    using assms(1) by (simp_all add: store_operands_ok_def)
  obtain pre post where code: "code = pre @ store @ post"
    and pre: "Asm_object_reference_write_pre k ?A (m_env M) decorators dst val tmp1 tmp2 = Inr pre"
    and post: "Asm_object_reference_write_post k ?A (m_env M) decorators dst val tmp1 tmp2 True
                 = Inr post"
    using assms(2,3) by (auto simp: Asm_store_at_def split: sum.splits)
  obtain s1 where s1: "exec M pre None s = Done s1" "frames s1 = frames s"
      "vm s1 = object_reference_write_pre k (m_core M) (m_env M) ?obj ?slot
                 (regs s (SATBAsm_target val)) (vm s)"
    and keep: "\<forall>r. r \<notin> {?t, rscratch1 ?A, rscratch2 ?A} \<longrightarrow> regs s1 r = regs s r"
    using Asm_write_pre_exec[OF ok(1,2) pre assms(4,5)] by auto
  have kept: "regs s1 (am_base dst) = ?obj" "ea (regs s1) dst = ?slot" "reg_value (regs s1) val = ?v"
    using keep ok(2) slow_args_kept(2,3)[OF ok(2) keep] by (auto simp: SATB_operands_ok_def)
  obtain s2 where s2: "exec M store None s1 = Done s2" "frames s2 = frames s"
      "regs s2 (am_base dst) = ?obj"
      "vm s2 = (vm s1)\<lparr>vm_state.mem := raw_store_at raw ?obj (?slot - ?obj) ?v (mem_of s1)\<rparr>"
    using assms(6) s1(2) kept unfolding hotspot_store_ok_def by metis
  show ?thesis
  proof (cases val)
    case None
    then show ?thesis
      using s1 s2 post Asm_write_post_null
      by (fastforce simp: code exec_append interpreter_store_memory_def reg_value_def SATBAsm_target_def)
  next
    case (Some v)
    obtain s3 where "exec M post None s2 = Done s3" "frames s3 = frames s2"
      "mem_of s3 = vm_state.mem (object_reference_write_post k (m_core M) (m_env M) ?obj ?slot
         (regs s v) (vm s2))"
      using Asm_write_post_exec[OF ok(1) _ ok(3) post[unfolded Some] assms(4) _ assms(7), of s2 ?slot "regs s v"]
        ok(2) s2(3) assms(5) by (auto simp: SATB_operands_ok_def)
    then show ?thesis
      using s1 s2 Some by (simp add: code exec_append oop_store_in_heap_at_def Let_def
          interpreter_store_memory_def reg_value_def SATBAsm_target_def)
  qed
qed

text \<open>The instance: an \<^verbatim>\<open>aastore\<close> of the template interpreter, with HotSpot's register choice.\<close>

definition demo_machine :: machine where
  "demo_machine = \<lparr>m_abi = sysv_abi, m_core = bitmap_core 0x10000000, m_env = demo_env,
     m_clobber = (\<lambda>fn rf r. if r \<in> {RAX, RCX, RDX, RSI, RDI, R8, R9, R10, R11} then 0 else rf r)\<rparr>"

definition demo_dst :: amode where
  "demo_dst = Amode RDX (Some RCX) 3 16"

definition demo_x86 :: x86 where
  "demo_x86 = \<lparr>regs = (\<lambda>r. 0)(RDX := 0x40000000, RCX := 0, RAX := 0x40000040), compared = None,
     frames = [], parameters = (\<lambda>i. 0), vm = demo_state\<rparr>"

lemma demo_store_operands:
  "store_operands_ok (m_abi demo_machine) demo_dst (Some RAX) RDX RBX"
  "store_operands_ok (m_abi demo_machine) demo_dst None RDX RBX"
  by (simp add: store_operands_ok_def demo_machine_def sysv_abi_ok SATB_operands_ok_def
      SATBAsm_tmp5_def SATBAsm_target_def demo_dst_def, simp add: sysv_abi_def)+

theorem interpreter_store_refines_runtime_witness:
  "\<exists>code s'. Asm_store_at MMTkSATBBarrier sysv_abi demo_env [Store demo_dst RAX] {IN_HEAP, IS_ARRAY}
        T_OBJECT demo_dst (Some RAX) RDX RBX = Inr code
     \<and> exec demo_machine code None demo_x86 = Done s'
     \<and> mem_of s' = vm_state.mem (oop_store_in_heap_at MMTkSATBBarrier (bitmap_core 0x10000000)
          demo_env word_raw 0x40000000 16 0x40000040 demo_state)"
proof -
  obtain code where code: "Asm_store_at MMTkSATBBarrier (m_abi demo_machine) (m_env demo_machine)
      [Store demo_dst RAX] {IN_HEAP, IS_ARRAY} T_OBJECT demo_dst (Some RAX) RDX RBX = Inr code"
    by (simp add: Asm_store_at_def is_oop_type_def SATBAsm_object_reference_write_pre_def
        Asm_can_remove_barrier_def)
  have "user_addr (regs demo_x86 (am_base demo_dst))"
    by (simp add: demo_x86_def demo_dst_def user_addr_def)
  moreover have "hotspot_store_ok demo_machine word_raw demo_dst (Some RAX) [Store demo_dst RAX]"
    by (simp add: hotspot_store_ok_def word_raw_def reg_value_def demo_dst_def asm_simps)
  moreover have "slot_target_ignored (m_core demo_machine)"
    by (simp add: slot_target_ignored_def demo_machine_def bitmap_core_def)
  ultimately have "\<exists>s'. exec demo_machine code None demo_x86 = Done s' \<and> frames s' = frames demo_x86 \<and>
     mem_of s' = interpreter_store_memory MMTkSATBBarrier (m_core demo_machine)
       (m_env demo_machine) word_raw (regs demo_x86 (am_base demo_dst))
       (ea (regs demo_x86) demo_dst - regs demo_x86 (am_base demo_dst)) (Some RAX) (regs demo_x86) (vm demo_x86)"
    by (intro interpreter_store_refines_runtime[OF demo_store_operands(1) code])
      (simp_all add: is_oop_type_def)
  with code show ?thesis
    by (auto simp: demo_machine_def demo_x86_def demo_dst_def ea_def interpreter_store_memory_def)
qed


text \<open>
  A store of null that is not preceded by a clearing of \<^verbatim>\<open>rax\<close>: the SATB barrier reports the
  object in \<^verbatim>\<open>rax\<close> as the value being stored.
\<close>

lemma satb_null_store_reports_rax:
  "\<exists>code s'. Asm_store_at MMTkSATBBarrier sysv_abi demo_env [Mov_imm RBX 0, Store demo_dst RBX]
        {IN_HEAP, IS_ARRAY} T_OBJECT demo_dst None RDX RBX = Inr code
     \<and> exec demo_machine code None demo_x86 = Done s'
     \<and> map fst (calls (vm s')) =
         [Mmtk_object_reference_write_slow 0x1000 0x40000000 0x40000010 0x40000040]"
  by (simp add: Asm_store_at_def is_oop_type_def SATBAsm_object_reference_write_pre_def
      Asm_can_remove_barrier_def SATBAsm_slow_args_def SATBAsm_tmp5_def SATBAsm_target_def
      demo_dst_def demo_machine_def demo_x86_def sysv_abi_def demo_defs barrier_defs asm_simps ea_def Let_def
      shift_count_def)

text \<open>
  What is asked of HotSpot's copy loop: it ends, with a balanced stack, leaves in \<^verbatim>\<open>r11\<close> what the
  prologue saved there, and has the effect \<open>copied\<close> on memory. It may overwrite any other register.
\<close>

definition copy_loop_ok :: "machine \<Rightarrow> (vm_state \<Rightarrow> vm_state) \<Rightarrow> instr list \<Rightarrow> bool" where
  "copy_loop_ok M copied loop \<longleftrightarrow>
     (\<forall>s. \<exists>s'. exec M loop None s = Done s' \<and> frames s' = frames s \<and> vm s' = copied (vm s)
         \<and> regs s' R11 = regs s R11)"

definition copy_operands_ok :: "abi \<Rightarrow> reg \<Rightarrow> reg \<Rightarrow> reg \<Rightarrow> bool" where
  "copy_operands_ok A src dst count \<longleftrightarrow>
     abi_ok A \<and> R11 \<notin> {src, dst, count, c_rarg0 A, c_rarg1 A, c_rarg2 A}
   \<and> dst \<noteq> c_rarg0 A \<and> count \<notin> {c_rarg0 A, c_rarg1 A}"

text \<open>
  C36. The object barrier's array copy reports what it saved. Around a copy loop that may overwrite
  every register but \<^verbatim>\<open>r11\<close>, prologue and epilogue report one range after the copy: its count is the
  one the copy was called with when references are uncompressed, its destination the one the copy
  was called with when they are compressed and the copy is disjoint (neither for a checkcast copy),
  and the source and whatever was not saved are what the loop left in their registers. The
  epilogue leaves every register as the loop left it.
\<close>

theorem object_arraycopy_reports_saved_range:
  assumes "copy_operands_ok (m_abi M) src dst count"
    and "is_oop_type type" and "IS_DEST_UNINITIALIZED \<notin> decorators"
    and "copy_loop_ok M copied loop"
  shows "\<exists>s' s2. exec M (ObjectAsm_arraycopy_prologue UseCompressedOops decorators type src dst count
              @ loop) None s = Done s2
     \<and> exec M (ObjectAsm_arraycopy_prologue UseCompressedOops decorators type src dst count
          @ loop @ ObjectAsm_arraycopy_epilogue (m_abi M) UseCompressedOops decorators type src dst count)
          None s = Done s'
     \<and> regs s' = regs s2 \<and> frames s' = frames s
     \<and> vm s' = object_reference_array_copy_post_call (m_core M) (m_env M) (regs s2 src)
          (if ARRAYCOPY_CHECKCAST \<notin> decorators \<and> (type = T_OBJECT \<and> UseCompressedOops)
              \<and> ARRAYCOPY_DISJOINT \<in> decorators then regs s dst else regs s2 dst)
          (if ARRAYCOPY_CHECKCAST \<notin> decorators \<and> \<not> (type = T_OBJECT \<and> UseCompressedOops)
           then regs s count else regs s2 count)
          (copied (vm s))"
proof -
  let ?pro = "ObjectAsm_arraycopy_prologue UseCompressedOops decorators type src dst count"
  let ?epi = "ObjectAsm_arraycopy_epilogue (m_abi M) UseCompressedOops decorators type src dst count"
  let ?obj_int = "type = T_OBJECT \<and> UseCompressedOops"
  let ?save_count = "ARRAYCOPY_CHECKCAST \<notin> decorators \<and> \<not> ?obj_int"
  let ?save_dst = "ARRAYCOPY_CHECKCAST \<notin> decorators \<and> ?obj_int \<and> ARRAYCOPY_DISJOINT \<in> decorators"
  obtain s1 where s1: "exec M ?pro None s = Done s1" "frames s1 = frames s" "vm s1 = vm s"
      "regs s1 = (if ?save_count then (regs s)(R11 := regs s count)
                  else if ?save_dst then (regs s)(R11 := regs s dst) else regs s)"
    using assms(2)
    by (intro that[of "s\<lparr>regs := (if ?save_count then (regs s)(R11 := regs s count)
        else if ?save_dst then (regs s)(R11 := regs s dst) else regs s)\<rparr>"])
      (auto simp: ObjectAsm_arraycopy_prologue_def Let_def asm_simps)
  obtain s2 where s2: "exec M loop None s1 = Done s2" "frames s2 = frames s1" "vm s2 = copied (vm s1)"
      "regs s2 R11 = regs s1 R11"
    using assms(4) unfolding copy_loop_ok_def by blast
  have saved: "regs s2 (if ?save_count then R11 else count) =
        (if ?save_count then regs s count else regs s2 count)"
      "regs s2 (if ?save_dst then R11 else dst) = (if ?save_dst then regs s dst else regs s2 dst)"
    using s1(4) s2(4) by auto
  have "\<exists>s3. exec M ?epi None s2 = Done s3 \<and> frames s3 = frames s2 \<and> regs s3 = regs s2 \<and>
      vm s3 = object_reference_array_copy_post_call (m_core M) (m_env M) (regs s2 src)
        (regs s2 (if ?save_dst then R11 else dst)) (regs s2 (if ?save_count then R11 else count)) (vm s2)"
    using assms(1-3)
    by (auto simp: ObjectAsm_arraycopy_epilogue_def Let_def asm_simps copy_operands_ok_def abi_ok_def)
  then show ?thesis
    using s1(1-3) s2(1-3) unfolding saved by (auto simp: exec_append)
qed

theorem object_arraycopy_reports_saved_range_witness:
  "\<exists>s'. exec demo_machine (ObjectAsm_arraycopy_prologue False {IS_ARRAY} T_OBJECT RDI RSI RDX
        @ [Mov_imm RDX 0]
        @ ObjectAsm_arraycopy_epilogue sysv_abi False {IS_ARRAY} T_OBJECT RDI RSI RDX) None
        (demo_x86\<lparr>regs := (\<lambda>r. 0)(RDI := 0x40000010, RSI := 0x40000050, RDX := 6)\<rparr>) = Done s'
     \<and> calls (vm s') = [(Mmtk_array_copy_post 0x1000 0x40000010 0x40000050 6, \<lambda>a. 0xff)]"
proof -
  have "copy_operands_ok (m_abi demo_machine) RDI RSI RDX"
    by (simp add: copy_operands_ok_def demo_machine_def sysv_abi_ok) (simp add: sysv_abi_def)
  moreover have "copy_loop_ok demo_machine id [Mov_imm RDX 0]"
    by (simp add: copy_loop_ok_def asm_simps)
  moreover have "is_oop_type T_OBJECT" "IS_DEST_UNINITIALIZED \<notin> {IS_ARRAY}"
    by (simp_all add: is_oop_type_def)
  ultimately show ?thesis
    using object_arraycopy_reports_saved_range[of demo_machine RDI RSI RDX T_OBJECT "{IS_ARRAY}"
        id "[Mov_imm RDX 0]" False
        "demo_x86\<lparr>regs := (\<lambda>r. 0)(RDI := 0x40000010, RSI := 0x40000050, RDX := 6)\<rparr>"]
    by (auto simp: demo_machine_def demo_x86_def demo_defs barrier_defs
        ObjectAsm_arraycopy_prologue_def is_oop_type_def set_reg_def)
qed

text \<open>
  The SATB array-copy barrier of interpreted code is the runtime's: it reports a non-empty
  range before the copy, skips an empty one, and changes no register.
\<close>

lemma satb_arraycopy_prologue_refines_runtime:
  assumes "abi_ok (m_abi M)" and "is_oop_type type"
    and "dst \<noteq> c_rarg0 (m_abi M)" and "count \<notin> {c_rarg0 (m_abi M), c_rarg1 (m_abi M)}"
  shows "\<exists>s'. exec M (SATBAsm_arraycopy_prologue (m_abi M) type src dst count) None s = Done s'
     \<and> regs s' = regs s \<and> frames s' = frames s
     \<and> vm s' = SATBRuntime_object_reference_array_copy_pre (m_core M) (m_env M)
          (regs s src) (regs s dst) (regs s count) (vm s)"
  using assms
  by (auto simp: SATBAsm_arraycopy_prologue_def SATBRuntime_object_reference_array_copy_pre_def
      asm_simps abi_ok_def object_reference_array_copy_pre_call_def)

lemma satb_arraycopy_prologue_refines_runtime_instance:
  "\<exists>s'. exec demo_machine (SATBAsm_arraycopy_prologue sysv_abi T_ARRAY RDI RSI RDX) None
        (demo_x86\<lparr>regs := (\<lambda>r. 0)(RDI := 0x40000010, RSI := 0x40000050, RDX := 6)\<rparr>) = Done s'
     \<and> calls (vm s') = [(Mmtk_array_copy_pre 0x1000 0x40000010 0x40000050 6, \<lambda>a. 0xff)]"
  using satb_arraycopy_prologue_refines_runtime[of demo_machine T_ARRAY RSI RDX RDI
      "demo_x86\<lparr>regs := (\<lambda>r. 0)(RDI := 0x40000010, RSI := 0x40000050, RDX := 6)\<rparr>"]
  by (auto simp: demo_machine_def sysv_abi_ok is_oop_type_def demo_x86_def demo_defs barrier_defs
      SATBRuntime_object_reference_array_copy_pre_def) (auto simp: sysv_abi_def)

text \<open>
  The SATB reference-load barrier of interpreted code. After HotSpot's load has put a referent
  into \<open>dst\<close>, the emitted code hands it to mmtk-core exactly when the runtime's load barrier would
  (marking is active and the referent is not null), and changes no register but the two scratch
  registers.
\<close>

lemma satb_load_at_refines_runtime:
  assumes "abi_ok (m_abi M)" and "is_oop_type type"
    and "ON_WEAK_OOP_REF \<in> decorators \<or> ON_PHANTOM_OOP_REF \<in> decorators"
    and "dst \<notin> {rscratch1 (m_abi M), rscratch2 (m_abi M)}"
    and "exec M load None s = Done s1"
  shows "\<exists>s'. exec M (SATBAsm_load_at (m_abi M) (m_env M) load decorators type dst) None s = Done s'
     \<and> frames s' = frames s1
     \<and> vm s' = SATBRuntime_load_reference (m_core M) (m_env M) decorators (regs s1 dst) (vm s1)
     \<and> (\<forall>r. r \<notin> {rscratch1 (m_abi M), rscratch2 (m_abi M)} \<longrightarrow> regs s' r = regs s1 r)"
proof -
  have byte: "set_low_byte 0 b = ucast b" for b by (simp add: set_low_byte_def)
  show ?thesis
    using assms
    by (auto simp: SATBAsm_load_at_def Let_def exec_append asm_simps abi_ok_def ea_def byte ucast_byte_eq_1
        SATBRuntime_load_reference_def load_reference_call_def)
qed

lemma satb_load_at_refines_runtime_instance:
  "\<exists>s'. exec demo_machine
        (SATBAsm_load_at sysv_abi demo_env [Load RAX demo_dst] {ON_WEAK_OOP_REF} T_OBJECT RAX)
        None demo_x86 = Done s'
     \<and> vm s' = SATBRuntime_load_reference (bitmap_core 0x10000000) demo_env {ON_WEAK_OOP_REF}
          0xffffffffffffffff demo_state"
proof -
  have "exec demo_machine [Load RAX demo_dst] None demo_x86 =
      Done (set_reg RAX 0xffffffffffffffff demo_x86)"
    by (simp add: demo_x86_def demo_dst_def demo_defs ea_def load64_def load32_def)
  from satb_load_at_refines_runtime[OF _ _ _ _ this, of T_OBJECT "{ON_WEAK_OOP_REF}" RAX]
  show ?thesis
    by (auto simp: demo_machine_def sysv_abi_ok is_oop_type_def set_reg_def)
      (auto simp: sysv_abi_def demo_x86_def)
qed

end
