(* ===== verification/Barrier_C1.thy ===== *)
theory Barrier_C1
  imports Barrier_Assembler
begin

text \<open>
  The barriers of code compiled by C1: \<^verbatim>\<open>mmtkBarrierSetC1.{hpp,cpp}\<close>, the C1 classes of the object
  and SATB barrier, and the stubs the assembler generates for them.

  C1 code is a list of LIR operations on virtual registers; an operand carries the type that
  fixes the width of an operation, so a \<^verbatim>\<open>T_INT\<close> register is shifted, masked and compared with 32
  bits and a byte is loaded with sign extension. A slow path is a stub: machine code, executed on
  \<open>X86_Machine\<close>, that stores its operands as parameters, calls the runtime stub and jumps to the
  stub's continuation. \<open>ra\<close>, the register allocator's assignment, is HotSpot's.
\<close>

section \<open>Runtime stubs and code stubs\<close>

definition ObjectAsm_generate_c1_post_write_barrier_runtime_stub :: "abi \<Rightarrow> barrier_env \<Rightarrow> instr list" where
  "ObjectAsm_generate_c1_post_write_barrier_runtime_stub A env =
     [Push (c_rarg0 A), Push (c_rarg1 A), Push (c_rarg2 A), Push RAX,
      Load_parameter 0 (c_rarg0 A), Load_parameter 1 (c_rarg1 A), Load_parameter 2 (c_rarg2 A),
      Save_live_registers,
      (if mmtk_enable_barrier_fastpath env
       then Call_VM_leaf Fn_object_reference_write_slow_call 3
       else Call_VM_leaf Fn_object_reference_write_post_call 3),
      Restore_live_registers,
      Pop RAX, Pop (c_rarg2 A), Pop (c_rarg1 A), Pop (c_rarg0 A)]"

definition SATBAsm_generate_c1_pre_write_barrier_runtime_stub :: "abi \<Rightarrow> barrier_env \<Rightarrow> instr list" where
  "SATBAsm_generate_c1_pre_write_barrier_runtime_stub A env =
     [Push (c_rarg0 A), Push (c_rarg1 A), Push (c_rarg2 A), Push RAX,
      Load_parameter 0 (c_rarg0 A), Load_parameter 1 (c_rarg1 A), Load_parameter 2 (c_rarg2 A),
      Save_live_registers,
      (if mmtk_enable_barrier_fastpath env
       then Call_VM_leaf Fn_object_reference_write_slow_call 3
       else Call_VM_leaf Fn_object_reference_write_pre_call 3),
      Restore_live_registers,
      Pop RAX, Pop (c_rarg2 A), Pop (c_rarg1 A), Pop (c_rarg0 A)]"

definition Asm_generate_c1_ref_load_barrier_runtime_stub :: "abi \<Rightarrow> instr list" where
  "Asm_generate_c1_ref_load_barrier_runtime_stub A =
     [Push (c_rarg0 A), Push RAX,
      Load_parameter 0 (c_rarg0 A),
      Save_live_registers,
      Call_VM_leaf Fn_load_reference_call 1,
      Restore_live_registers,
      Pop RAX, Pop (c_rarg0 A)]"

text \<open>
  The stubs' slow calls: the call of the runtime stub's code blob is the execution of its code.
  With patching, \<open>mem2reg\<close> is HotSpot's patched load, after which \<^verbatim>\<open>lea\<close> puts the resolved address
  of the slot into the scratch register.
\<close>

definition ObjectAsm_generate_c1_post_write_barrier_stub ::
    "abi \<Rightarrow> barrier_env \<Rightarrow> reg \<Rightarrow> reg \<Rightarrow> reg \<Rightarrow> instr list" where
  "ObjectAsm_generate_c1_post_write_barrier_stub A env src slot new_val =
     [Store_parameter src 0, Store_parameter slot 1, Store_parameter new_val 2]
     @ ObjectAsm_generate_c1_post_write_barrier_runtime_stub A env @ [Jmp L_continuation]"

definition SATBAsm_generate_c1_pre_write_barrier_stub ::
    "abi \<Rightarrow> barrier_env \<Rightarrow> (x86 \<Rightarrow> x86) \<Rightarrow> reg \<Rightarrow> reg + amode \<Rightarrow> reg \<Rightarrow> reg \<Rightarrow> instr list" where
  "SATBAsm_generate_c1_pre_write_barrier_stub A env mem2reg src slot scratch new_val =
     (case slot of
        Inr from_addr \<Rightarrow> [Hotspot mem2reg, Lea scratch from_addr, Store_parameter scratch 1]
      | Inl slot_reg \<Rightarrow> [Store_parameter slot_reg 1])
     @ [Store_parameter src 0, Store_parameter new_val 2]
     @ SATBAsm_generate_c1_pre_write_barrier_runtime_stub A env @ [Jmp L_continuation]"

definition Asm_generate_c1_ref_load_barrier_stub_call :: "abi \<Rightarrow> reg \<Rightarrow> instr list" where
  "Asm_generate_c1_ref_load_barrier_stub_call A val_reg =
     [Cmp_imm val_reg 0, Jcc Equal L_continuation, Store_parameter val_reg 0]
     @ Asm_generate_c1_ref_load_barrier_runtime_stub A @ [Jmp L_continuation]"

section \<open>LIR\<close>

datatype LIR_Opr =
    LReg nat BasicType
  | LIntConst "32 word"
  | LLongConst "64 word"
  | LOopConst addr
  | LAddress nat "nat option" "64 word" BasicType

fun is_register :: "LIR_Opr \<Rightarrow> bool" where
  "is_register (LReg r t) = True" | "is_register _ = False"

fun is_constant :: "LIR_Opr \<Rightarrow> bool" where
  "is_constant (LIntConst c) = True" | "is_constant (LLongConst c) = True"
| "is_constant (LOopConst c) = True" | "is_constant _ = False"

text \<open>A pre-barrier stub with \<open>patch\<close> resolves its slot (an address) in the stub.\<close>

datatype c1_stub =
    MMTkC1PreBarrierStub (stub_src: LIR_Opr) (stub_slot: LIR_Opr) (stub_new_val: LIR_Opr)
      (patch: bool) (scratch: "nat option")
  | MMTkC1PostBarrierStub (stub_src: LIR_Opr) (stub_slot: LIR_Opr) (stub_new_val: LIR_Opr)
  | MMTkC1ReferenceLoadBarrierStub (stub_val: LIR_Opr)

record lir_state =
  lregs :: "nat \<Rightarrow> 64 word"
  lcmp :: "(32 word \<times> 32 word) option"
  lvm :: vm_state

datatype lir_op =
    L_move LIR_Opr LIR_Opr
  | L_leal LIR_Opr LIR_Opr
  | L_unsigned_shift_right_const LIR_Opr nat LIR_Opr
  | L_unsigned_shift_right LIR_Opr LIR_Opr LIR_Opr
  | L_logical_and LIR_Opr LIR_Opr LIR_Opr
  | L_cmp LIR_Opr LIR_Opr
  | L_branch_equal c1_stub
  | L_jump c1_stub
  | L_branch_destination c1_stub
  | L_hotspot "lir_state \<Rightarrow> lir_state"
  | L_referent_check "lir_state \<Rightarrow> bool"
  | L_anonymous_destination

fun lir_addr :: "(nat \<Rightarrow> 64 word) \<Rightarrow> LIR_Opr \<Rightarrow> addr" where
  "lir_addr rf (LAddress b i d t) = rf b + (case i of None \<Rightarrow> 0 | Some x \<Rightarrow> rf x) + d"
| "lir_addr rf _ = 0"

text \<open>The value of an operand: a byte in memory is sign-extended to an int.\<close>

fun lir_val :: "lir_state \<Rightarrow> LIR_Opr \<Rightarrow> 64 word" where
  "lir_val s (LReg r t) = lregs s r"
| "lir_val s (LIntConst c) = ucast c"
| "lir_val s (LLongConst c) = c"
| "lir_val s (LOopConst c) = c"
| "lir_val s (LAddress b i d t) =
     (if t = T_BYTE
      then ucast (scast (vm_state.mem (lvm s) (lir_addr (lregs s) (LAddress b i d t))) :: 32 word)
      else load64 (vm_state.mem (lvm s)) (lir_addr (lregs s) (LAddress b i d t)))"

fun opr_type :: "LIR_Opr \<Rightarrow> BasicType" where
  "opr_type (LReg r t) = t" | "opr_type (LIntConst c) = T_INT" | "opr_type (LLongConst c) = T_LONG"
| "opr_type (LOopConst c) = T_OBJECT" | "opr_type (LAddress b i d t) = t"

text \<open>Arithmetic at the width of the operand: 32 bits for \<^verbatim>\<open>T_INT\<close>, else 64.\<close>

definition lir_ushr :: "BasicType \<Rightarrow> 64 word \<Rightarrow> nat \<Rightarrow> 64 word" where
  "lir_ushr t v n = (if t = T_INT then ucast (drop_bit n (ucast v :: 32 word)) else drop_bit n v)"

fun set_lreg :: "LIR_Opr \<Rightarrow> 64 word \<Rightarrow> lir_state \<Rightarrow> lir_state" where
  "set_lreg (LReg r t) v s = s\<lparr>lregs := (lregs s)(r := v)\<rparr>"
| "set_lreg _ v s = s"

fun lir_step :: "lir_op \<Rightarrow> lir_state \<Rightarrow> lir_state option" where
  "lir_step (L_move a d) s = Some (set_lreg d (lir_val s a) s)"
| "lir_step (L_leal a d) s = Some (set_lreg d (lir_addr (lregs s) a) s)"
| "lir_step (L_unsigned_shift_right_const a n d) s =
     Some (set_lreg d (lir_ushr (opr_type a) (lir_val s a) n) s)"
| "lir_step (L_unsigned_shift_right a c d) s =
     Some (set_lreg d (lir_ushr (opr_type a) (lir_val s a)
       (unat (lir_val s c AND (if opr_type a = T_INT then 31 else 63)))) s)"
| "lir_step (L_logical_and a b d) s = Some (set_lreg d (lir_val s a AND lir_val s b) s)"
| "lir_step (L_cmp a b) s = Some (s\<lparr>lcmp := Some (ucast (lir_val s a), ucast (lir_val s b))\<rparr>)"
| "lir_step (L_hotspot f) s = Some (f s)"
| "lir_step (L_branch_destination l) s = Some s"
| "lir_step L_anonymous_destination s = Some s"
| "lir_step _ s = None"

section \<open>Running a stub\<close>

text \<open>The machine registers that hold the virtual registers a stub reads.\<close>

definition stub_regs :: "(nat \<Rightarrow> reg) \<Rightarrow> lir_state \<Rightarrow> nat list \<Rightarrow> regfile" where
  "stub_regs ra s vs r = (case find (\<lambda>v. ra v = r) vs of None \<Rightarrow> 0 | Some v \<Rightarrow> lregs s v)"

fun vreg :: "LIR_Opr \<Rightarrow> nat" where "vreg (LReg r t) = r" | "vreg _ = 0"

fun lir_amode :: "(nat \<Rightarrow> reg) \<Rightarrow> LIR_Opr \<Rightarrow> amode" where
  "lir_amode ra (LAddress b i d t) = Amode (ra b) (map_option ra i) 0 d"
| "lir_amode ra _ = Amode RAX None 0 0"

fun addr_vregs :: "LIR_Opr \<Rightarrow> nat list" where
  "addr_vregs (LAddress b i d t) = b # (case i of None \<Rightarrow> [] | Some x \<Rightarrow> [x])"
| "addr_vregs _ = []"

record c1_backend =
  c1_machine :: machine
  register_allocation :: "nat \<Rightarrow> reg"
  patched_load :: "x86 \<Rightarrow> x86"

text \<open>\<^verbatim>\<open>MMTkC1PreBarrierStub::emit_code\<close>, \<^verbatim>\<open>MMTkC1PostBarrierStub::emit_code\<close> and \<^verbatim>\<open>MMTkC1ReferenceLoadBarrierStub::emit_code\<close>.\<close>

fun emit_code :: "c1_backend \<Rightarrow> c1_stub \<Rightarrow> instr list" where
  "emit_code B (MMTkC1PostBarrierStub src slot new_val) =
     ObjectAsm_generate_c1_post_write_barrier_stub (m_abi (c1_machine B)) (m_env (c1_machine B))
       (register_allocation B (vreg src)) (register_allocation B (vreg slot))
       (register_allocation B (vreg new_val))"
| "emit_code B (MMTkC1PreBarrierStub src slot new_val p sc) =
     SATBAsm_generate_c1_pre_write_barrier_stub (m_abi (c1_machine B)) (m_env (c1_machine B))
       (patched_load B) (register_allocation B (vreg src))
       (if p then Inr (lir_amode (register_allocation B) slot)
        else Inl (register_allocation B (vreg slot)))
       (register_allocation B (case sc of None \<Rightarrow> 0 | Some v \<Rightarrow> v))
       (register_allocation B (vreg new_val))"
| "emit_code B (MMTkC1ReferenceLoadBarrierStub val) =
     Asm_generate_c1_ref_load_barrier_stub_call (m_abi (c1_machine B)) (register_allocation B (vreg val))"

fun stub_vregs :: "c1_stub \<Rightarrow> nat list" where
  "stub_vregs (MMTkC1PostBarrierStub src slot new_val) = [vreg src, vreg slot, vreg new_val]"
| "stub_vregs (MMTkC1PreBarrierStub src slot new_val p sc) =
     vreg src # vreg new_val # (if p then addr_vregs slot else [vreg slot])"
| "stub_vregs (MMTkC1ReferenceLoadBarrierStub val) = [vreg val]"

definition run_stub :: "c1_backend \<Rightarrow> c1_stub \<Rightarrow> lir_state \<Rightarrow> lir_state option" where
  "run_stub B stub s =
     (case exec (c1_machine B) (emit_code B stub) None
        \<lparr>regs = stub_regs (register_allocation B) s (stub_vregs stub), compared = None, frames = [],
         parameters = (\<lambda>i. 0), vm = lvm s\<rparr>
      of Goto L_continuation x \<Rightarrow> Some (s\<lparr>lvm := vm x\<rparr>) | _ \<Rightarrow> None)"

datatype lir_target = To_stub c1_stub | To_anonymous

fun binds :: "lir_op \<Rightarrow> lir_target \<Rightarrow> bool" where
  "binds (L_branch_destination st) (To_stub st') \<longleftrightarrow> st = st'"
| "binds L_anonymous_destination To_anonymous \<longleftrightarrow> True"
| "binds _ _ \<longleftrightarrow> False"

text \<open>A taken branch runs the stub and goes on at the stub's continuation.\<close>

fun lir_exec :: "c1_backend \<Rightarrow> lir_op list \<Rightarrow> lir_target option \<Rightarrow> lir_state \<Rightarrow> lir_state option" where
  "lir_exec B [] None s = Some s"
| "lir_exec B [] (Some l) s = None"
| "lir_exec B (i # ops) (Some l) s = lir_exec B ops (if binds i l then None else Some l) s"
| "lir_exec B (L_branch_equal st # ops) None s =
     (case lcmp s of None \<Rightarrow> None
      | Some (a, b) \<Rightarrow>
          if a = b then (case run_stub B st s of None \<Rightarrow> None | Some s' \<Rightarrow> lir_exec B ops (Some (To_stub st)) s')
          else lir_exec B ops None s)"
| "lir_exec B (L_jump st # ops) None s =
     (case run_stub B st s of None \<Rightarrow> None | Some s' \<Rightarrow> lir_exec B ops (Some (To_stub st)) s')"
| "lir_exec B (L_referent_check p # ops) None s =
     lir_exec B ops (if p s then None else Some To_anonymous) s"
| "lir_exec B (i # ops) None s =
     (case lir_step i s of None \<Rightarrow> None | Some s' \<Rightarrow> lir_exec B ops None s')"

section \<open>Generators\<close>

text \<open>
  A generator threads the number of the next virtual register (\<^verbatim>\<open>gen->new_register\<close>). An operand
  that is not in a register is moved there (a constant) or its address is loaded.
\<close>

definition to_register :: "nat \<Rightarrow> BasicType \<Rightarrow> LIR_Opr \<Rightarrow> lir_op list \<times> LIR_Opr \<times> nat" where
  "to_register n t opr =
     (if is_register opr then ([], opr, n)
      else ([if is_constant opr then L_move opr (LReg n t) else L_leal opr (LReg n t)], LReg n t, n + 1))"

definition c1_unlog_check :: "barrier_env \<Rightarrow> nat \<Rightarrow> LIR_Opr \<Rightarrow> c1_stub \<Rightarrow> lir_op list" where
  "c1_unlog_check env n addr slow =
     (let offset = LReg n T_LONG; base = LReg (n + 1) T_LONG;
          meta_addr = LAddress (n + 1) (Some n) 0 T_BYTE;
          byte_val = LReg (n + 2) T_INT; shift = LReg (n + 3) T_INT
      in [L_move addr offset,
          L_unsigned_shift_right_const offset 6 offset,
          L_move (LLongConst (SIDE_METADATA_BASE_ADDRESS env)) base,
          L_move meta_addr byte_val,
          L_move addr shift,
          L_unsigned_shift_right_const shift 3 shift,
          L_logical_and shift (LIntConst 0b111) shift,
          L_unsigned_shift_right byte_val shift byte_val,
          L_logical_and byte_val (LIntConst 1) byte_val,
          L_cmp byte_val (LIntConst 1),
          L_branch_equal slow])"

definition ObjectC1_object_reference_write_post ::
    "barrier_env \<Rightarrow> DecoratorSet \<Rightarrow> LIR_Opr \<Rightarrow> LIR_Opr \<Rightarrow> LIR_Opr \<Rightarrow> nat \<Rightarrow> lir_op list \<times> nat" where
  "ObjectC1_object_reference_write_post env decorators src0 slot0 new_val0 n0 =
     (if IN_HEAP \<notin> decorators then ([], n0)
      else
        (let (ops1, src, n1) = to_register n0 T_LONG src0;
             (ops2, slot, n2) = to_register n1 T_LONG slot0;
             (ops3, new_val, n3) = to_register n2 T_OBJECT new_val0;
             slow = MMTkC1PostBarrierStub src slot new_val
         in (ops1 @ ops2 @ ops3
             @ (if mmtk_enable_barrier_fastpath env then c1_unlog_check env n3 src slow else [L_jump slow])
             @ [L_branch_destination slow],
             if mmtk_enable_barrier_fastpath env then n3 + 4 else n3)))"

abbreviation max_jint :: "64 word" where "max_jint \<equiv> 0x7fffffff"

text \<open>The slot of a pre-barrier stays an address while the code still needs patching.\<close>

definition SATBC1_slot ::
    "bool \<Rightarrow> LIR_Opr \<Rightarrow> nat \<Rightarrow> (lir_op list \<times> LIR_Opr \<times> nat) result" where
  "SATBC1_slot needs_patching slot n =
     (if \<not> is_register slot \<and> \<not> needs_patching then
        (case slot of
           LAddress b i d t \<Rightarrow>
             if i = None \<and> d = 0 then Inr ([L_move (LReg b T_LONG) (LReg n T_LONG)], LReg n T_LONG, n + 1)
             else if d = max_jint then Inl (Assert_failed ''lea does not support patched addresses!'')
             else Inr ([L_leal slot (LReg n T_LONG)], LReg n T_LONG, n + 1)
         | _ \<Rightarrow> Inl (Assert_failed ''as_address_ptr''))
      else if needs_patching \<and> is_register slot then Inr ([], LAddress (vreg slot) None 0 T_OBJECT, n)
      else Inr ([], slot, n))"

definition SATBC1_object_reference_write_pre ::
    "barrier_env \<Rightarrow> DecoratorSet \<Rightarrow> LIR_Opr \<Rightarrow> LIR_Opr \<Rightarrow> LIR_Opr \<Rightarrow> nat \<Rightarrow> (lir_op list \<times> nat) result" where
  "SATBC1_object_reference_write_pre env decorators src0 slot0 new_val0 n0 =
     (if IN_HEAP \<notin> decorators then Inr ([], n0)
      else
        (let needs_patching = C1_NEEDS_PATCHING \<in> decorators;
             (ops1, src, n1) = to_register n0 T_LONG src0
         in case SATBC1_slot needs_patching slot0 n1 of
              Inl e \<Rightarrow> Inl e
            | Inr (ops2, slot, n2) \<Rightarrow>
                (let (ops3, new_val, n3) = to_register n2 T_OBJECT new_val0;
                     slow = MMTkC1PreBarrierStub src slot new_val needs_patching
                              (if needs_patching then Some n3 else None);
                     n4 = (if needs_patching then n3 + 1 else n3)
                 in Inr (ops1 @ ops2 @ ops3
                      @ (if mmtk_enable_barrier_fastpath env then
                           if needs_patching then [L_jump slow] else c1_unlog_check env n4 src slow
                         else [L_jump slow])
                      @ [L_branch_destination slow], n4 + 4))))"

text \<open>\<open>referent_check\<close> is HotSpot's \<^verbatim>\<open>generate_referent_check\<close>; \<open>load\<close> is \<^verbatim>\<open>BarrierSetC1::load_at_resolved\<close>.\<close>

definition SATBC1_load_at_resolved ::
    "barrier_env \<Rightarrow> DecoratorSet \<Rightarrow> bool \<Rightarrow> (lir_state \<Rightarrow> bool) \<Rightarrow> (lir_state \<Rightarrow> lir_state) \<Rightarrow> LIR_Opr \<Rightarrow> nat
       \<Rightarrow> lir_op list" where
  "SATBC1_load_at_resolved env decorators is_oop referent_check load res n =
     (let is_weak = ON_WEAK_OOP_REF \<in> decorators;
          is_phantom = ON_PHANTOM_OOP_REF \<in> decorators;
          is_anonymous = ON_UNKNOWN_OOP_REF \<in> decorators;
          slow = MMTkC1ReferenceLoadBarrierStub res
      in [L_hotspot load] @
         (if is_oop \<and> (is_weak \<or> is_phantom \<or> is_anonymous) then
            (if is_anonymous then [L_referent_check referent_check] else [])
            @ [L_move (LLongConst (CONCURRENT_MARKING_ACTIVE env)) (LReg n T_LONG),
               L_move (LAddress n None 0 T_BYTE) (LReg (n + 1) T_INT),
               L_cmp (LReg (n + 1) T_INT) (LIntConst 1),
               L_branch_equal slow,
               L_branch_destination slow]
            @ (if is_anonymous then [L_anonymous_destination] else [])
          else []))"

fun C1_object_reference_write_pre ::
    "barrier_kind \<Rightarrow> barrier_env \<Rightarrow> DecoratorSet \<Rightarrow> LIR_Opr \<Rightarrow> LIR_Opr \<Rightarrow> LIR_Opr \<Rightarrow> nat
       \<Rightarrow> (lir_op list \<times> nat) result" where
  "C1_object_reference_write_pre MMTkSATBBarrier env decorators src slot new_val n =
     SATBC1_object_reference_write_pre env decorators src slot new_val n"
| "C1_object_reference_write_pre _ env decorators src slot new_val n = Inr ([], n)"

fun C1_object_reference_write_post ::
    "barrier_kind \<Rightarrow> barrier_env \<Rightarrow> DecoratorSet \<Rightarrow> LIR_Opr \<Rightarrow> LIR_Opr \<Rightarrow> LIR_Opr \<Rightarrow> nat
       \<Rightarrow> lir_op list \<times> nat" where
  "C1_object_reference_write_post MMTkObjectBarrier env decorators src slot new_val n =
     ObjectC1_object_reference_write_post env decorators src slot new_val n"
| "C1_object_reference_write_post _ env decorators src slot new_val n = ([], n)"

text \<open>
  \<^verbatim>\<open>store_at_resolved\<close>, \<^verbatim>\<open>atomic_cmpxchg_at_resolved\<close> and \<^verbatim>\<open>atomic_xchg_at_resolved\<close> put the barriers
  around the access \<open>raw_op\<close> that \<^verbatim>\<open>BarrierSetC1\<close> generates.
\<close>

definition C1_write_at_resolved ::
    "barrier_kind \<Rightarrow> barrier_env \<Rightarrow> DecoratorSet \<Rightarrow> bool \<Rightarrow> (lir_state \<Rightarrow> lir_state) \<Rightarrow> LIR_Opr \<Rightarrow> LIR_Opr
       \<Rightarrow> LIR_Opr \<Rightarrow> nat \<Rightarrow> lir_op list result" where
  "C1_write_at_resolved k env decorators is_oop raw_op base resolved_addr value n =
     (case (if is_oop then C1_object_reference_write_pre k env decorators base resolved_addr value n
            else Inr ([], n)) of
        Inl e \<Rightarrow> Inl e
      | Inr (pre, n1) \<Rightarrow>
          Inr (pre @ [L_hotspot raw_op]
               @ (if is_oop then fst (C1_object_reference_write_post k env decorators base resolved_addr value n1)
                  else [])))"

definition C1_resolve_address_in_register :: "DecoratorSet \<Rightarrow> bool \<Rightarrow> bool \<Rightarrow> bool" where
  "C1_resolve_address_in_register decorators is_oop resolve_in_register =
     (let needs_patching = C1_NEEDS_PATCHING \<in> decorators;
          is_write = C1_WRITE_ACCESS \<in> decorators;
          is_array = IS_ARRAY \<in> decorators;
          on_anonymous = ON_UNKNOWN_OOP_REF \<in> decorators;
          precise = (is_array \<or> on_anonymous)
      in resolve_in_register \<or> (\<not> needs_patching \<and> is_write \<and> is_oop \<and> precise))"

section \<open>The fast-path test\<close>

text \<open>The value the LIR compares, as a function of the object: the contract of a fast-path test.\<close>

definition c1_unlog_test :: "addr \<Rightarrow> mem \<Rightarrow> addr \<Rightarrow> bool" where
  "c1_unlog_test base m a =
     (let byte_val = ucast (scast (m (base + drop_bit 6 a)) :: 32 word) :: 64 word;
          shift = lir_ushr T_INT a 3 AND ucast (7 :: 32 word)
      in (ucast (lir_ushr T_INT byte_val (unat (shift AND 31)) AND ucast (1 :: 32 word)) :: 32 word) = 1)"

lemma lir_shift_eq: "lir_ushr T_INT a 3 AND 7 = drop_bit 3 a AND 7"
  by (rule bit_word_eqI) (auto simp: lir_ushr_def and_7_take_bit bit_simps)

lemma and_7_and_31: "(x AND 7) AND 31 = (x AND 7 :: 64 word)"
  by (simp add: and.assoc)

lemma sign_extended_byte_bit:
  assumes "i < 8"
  shows "(ucast (lir_ushr T_INT (ucast (scast (b :: byte) :: 32 word)) i AND 1) :: 32 word) =
     of_bool (bit b i)"
  by (rule bit_word_eqI) (use assms in \<open>auto simp: lir_ushr_def bit_simps min_absorb2\<close>)

lemma c1_unlog_test_sound: "c1_unlog_test base m a \<longleftrightarrow> meta_bit base m a"
  using sign_extended_byte_bit[OF meta_bit_index_less, of "m (meta_byte_addr base a)" a]
  by (simp add: c1_unlog_test_def Let_def lir_shift_eq and_7_and_31 meta_bit_def
      flip: meta_byte_addr_def meta_bit_index_def)

interpretation c1_test: unlog_test c1_unlog_test
  by unfold_locales (rule c1_unlog_test_sound)

section \<open>Execution\<close>

lemma lir_exec_append:
  "lir_exec B xs k s = Some s' \<Longrightarrow> lir_exec B (xs @ ys) k s = lir_exec B ys None s'"
  by (induction B xs k s rule: lir_exec.induct) (auto split: option.splits prod.splits if_splits)

text \<open>What a stub reads is in the registers the allocator gave it.\<close>

lemma stub_regs_lookup:
  assumes "inj_on ra (set vs)" and "v \<in> set vs"
  shows "stub_regs ra s vs (ra v) = lregs s v"
proof -
  have "find (\<lambda>u. ra u = ra v) vs = Some v"
    using assms
  proof (induction vs)
    case (Cons u us)
    then show ?case by (cases "u = v") (auto simp: inj_on_def)
  qed simp
  then show ?thesis by (simp add: stub_regs_def)
qed

definition c1_abi_ok :: "abi \<Rightarrow> bool" where
  "c1_abi_ok A \<longleftrightarrow> distinct [c_rarg0 A, c_rarg1 A, c_rarg2 A, RAX]"

text \<open>The runtime stubs: they call with the parameters and restore every register.\<close>

lemma restored_regs:
  fixes rf :: regfile
  shows "rf(r0 := p0, r1 := p1, r2 := p2, RAX := rf RAX, r2 := rf r2, r1 := rf r1, r0 := rf r0) = rf"
    and "rf(r0 := p0, RAX := rf RAX, r0 := rf r0) = rf"
  by auto

lemma runtime_stub_exec:
  fixes s :: x86
  assumes "c1_abi_ok (m_abi M)"
  shows "exec M (ObjectAsm_generate_c1_post_write_barrier_runtime_stub (m_abi M) (m_env M)) None s =
     Done (s\<lparr>compared := None, vm := runtime_call (m_core M) (m_env M)
       (if mmtk_enable_barrier_fastpath (m_env M) then Fn_object_reference_write_slow_call
        else Fn_object_reference_write_post_call) (parameters s 0) (parameters s 1) (parameters s 2) (vm s)\<rparr>)"
   and "exec M (SATBAsm_generate_c1_pre_write_barrier_runtime_stub (m_abi M) (m_env M)) None s =
     Done (s\<lparr>compared := None, vm := runtime_call (m_core M) (m_env M)
       (if mmtk_enable_barrier_fastpath (m_env M) then Fn_object_reference_write_slow_call
        else Fn_object_reference_write_pre_call) (parameters s 0) (parameters s 1) (parameters s 2) (vm s)\<rparr>)"
   and "exec M (Asm_generate_c1_ref_load_barrier_runtime_stub (m_abi M)) None s =
     Done (s\<lparr>compared := None, vm := load_reference_call (m_core M) (m_env M) (parameters s 0) (vm s)\<rparr>)"
  using assms restored_regs[of "regs s"]
  by (auto simp: ObjectAsm_generate_c1_post_write_barrier_runtime_stub_def
      SATBAsm_generate_c1_pre_write_barrier_runtime_stub_def
      Asm_generate_c1_ref_load_barrier_runtime_stub_def asm_simps c1_abi_ok_def)

text \<open>Running the stubs of the two write barriers and of the load barrier.\<close>

abbreviation c1_fn :: "c1_backend \<Rightarrow> runtime_fn \<Rightarrow> runtime_fn" where
  "c1_fn B full \<equiv> if mmtk_enable_barrier_fastpath (m_env (c1_machine B))
     then Fn_object_reference_write_slow_call else full"

lemma run_post_stub:
  assumes "c1_abi_ok (m_abi (c1_machine B))" and "inj_on (register_allocation B) {a, b, c}"
  shows "run_stub B (MMTkC1PostBarrierStub (LReg a ta) (LReg b tb) (LReg c tc)) s =
     Some (s\<lparr>lvm := runtime_call (m_core (c1_machine B)) (m_env (c1_machine B))
       (c1_fn B Fn_object_reference_write_post_call) (lregs s a) (lregs s b) (lregs s c) (lvm s)\<rparr>)"
  using stub_regs_lookup[of "register_allocation B" "[a, b, c]"] assms
  by (simp add: run_stub_def ObjectAsm_generate_c1_post_write_barrier_stub_def exec_append
      runtime_stub_exec(1))

lemma run_pre_stub:
  assumes "c1_abi_ok (m_abi (c1_machine B))" and "inj_on (register_allocation B) {a, b, c}"
  shows "run_stub B (MMTkC1PreBarrierStub (LReg a ta) (LReg b tb) (LReg c tc) False sc) s =
     Some (s\<lparr>lvm := runtime_call (m_core (c1_machine B)) (m_env (c1_machine B))
       (c1_fn B Fn_object_reference_write_pre_call) (lregs s a) (lregs s b) (lregs s c) (lvm s)\<rparr>)"
  using stub_regs_lookup[of "register_allocation B" "[a, c, b]"] assms
  by (simp add: run_stub_def SATBAsm_generate_c1_pre_write_barrier_stub_def exec_append
      runtime_stub_exec(2) insert_commute)

lemma run_ref_load_stub:
  assumes "c1_abi_ok (m_abi (c1_machine B))"
  shows "run_stub B (MMTkC1ReferenceLoadBarrierStub (LReg a ta)) s =
     Some (if lregs s a = NULL then s
       else s\<lparr>lvm := load_reference_call (m_core (c1_machine B)) (m_env (c1_machine B)) (lregs s a) (lvm s)\<rparr>)"
proof -
  have "exec M (Asm_generate_c1_ref_load_barrier_runtime_stub A) (Some L_continuation) x =
      Goto L_continuation x" for M A x
    by (rule exec_skip) (simp add: Asm_generate_c1_ref_load_barrier_runtime_stub_def)
  then show ?thesis
    using stub_regs_lookup[of "register_allocation B" "[a]" a s] assms
    by (simp add: run_stub_def Asm_generate_c1_ref_load_barrier_stub_call_def exec_append
        runtime_stub_exec(3))
qed

text \<open>The check: it goes to the stub exactly for an unlogged object.\<close>

definition agree_below :: "nat \<Rightarrow> lir_state \<Rightarrow> lir_state \<Rightarrow> bool" where
  "agree_below n s s' \<longleftrightarrow> lvm s' = lvm s \<and> (\<forall>i < n. lregs s' i = lregs s i)"

lemma c1_unlog_check_exec:
  assumes "a < n"
  shows "\<exists>s'. agree_below n s s' \<and>
     lir_exec B (c1_unlog_check env n (LReg a t) slow @ [L_branch_destination slow]) None s =
       (if meta_bit (SIDE_METADATA_BASE_ADDRESS env) (vm_state.mem (lvm s)) (lregs s a)
        then run_stub B slow s' else Some s')"
proof -
  let ?B = "SIDE_METADATA_BASE_ADDRESS env" and ?m = "vm_state.mem (lvm s)" and ?a = "lregs s a"
  let ?byte = "ucast (scast (?m (?B + drop_bit 6 ?a)) :: 32 word) :: 64 word"
  let ?shift = "lir_ushr T_INT ?a 3 AND 7"
  let ?v = "lir_ushr T_INT ?byte (unat (?shift AND 31)) AND 1"
  define s' where "s' = s\<lparr>lregs := (lregs s)(n := drop_bit 6 ?a, n + 1 := ?B, n + 3 := ?shift,
      n + 2 := ?v), lcmp := Some (ucast ?v, 1)\<rparr>"
  have test: "(ucast ?v :: 32 word) = 1 \<longleftrightarrow> meta_bit ?B ?m ?a"
    using c1_unlog_test_sound[of ?B ?m ?a] by (simp add: c1_unlog_test_def Let_def)
  have "agree_below n s s'" by (simp add: agree_below_def s'_def)
  moreover have "lir_exec B (c1_unlog_check env n (LReg a t) slow @ [L_branch_destination slow]) None s =
       (if meta_bit ?B ?m ?a then run_stub B slow s' else Some s')"
    using assms test
    by (simp add: c1_unlog_check_def Let_def s'_def lir_ushr_def[of T_LONG] fun_upd_twist
        split: option.splits)
  ultimately show ?thesis by blast
qed

text \<open>An operand, and its value once it has been brought into a register.\<close>

fun opr_vregs :: "LIR_Opr \<Rightarrow> nat set" where
  "opr_vregs (LReg r t) = {r}"
| "opr_vregs (LAddress b i d t) = insert b (set_option i)"
| "opr_vregs _ = {}"

fun opr_value :: "lir_state \<Rightarrow> LIR_Opr \<Rightarrow> 64 word" where
  "opr_value s (LAddress b i d t) = lir_addr (lregs s) (LAddress b i d t)"
| "opr_value s opr = lir_val s opr"

lemma opr_value_agree:
  "\<forall>i \<in> opr_vregs opr. lregs s' i = lregs s i \<Longrightarrow> opr_value s' opr = opr_value s opr"
  by (cases opr) (auto split: option.splits)

text \<open>\<open>ops\<close> brings operand \<open>opr\<close> into register \<open>r\<close>, using registers from \<open>n\<close> up to \<open>n'\<close>.\<close>

definition brings :: "c1_backend \<Rightarrow> nat \<Rightarrow> LIR_Opr \<Rightarrow> lir_op list \<Rightarrow> LIR_Opr \<Rightarrow> nat \<Rightarrow> bool" where
  "brings B n opr ops r n' \<longleftrightarrow> n \<le> n' \<and> (opr_vregs opr \<subseteq> {..<n} \<longrightarrow>
     (\<exists>i ti. r = LReg i ti \<and> i < n' \<and> (\<forall>s. \<exists>s'. lir_exec B ops None s = Some s'
        \<and> agree_below n s s' \<and> lregs s' i = opr_value s opr)))"

lemma brings_to_register: "to_register n t opr = (ops, r, n') \<Longrightarrow> brings B n opr ops r n'"
  by (cases opr) (auto simp: brings_def to_register_def agree_below_def)

lemma brings_slot: "SATBC1_slot False opr n = Inr (ops, r, n') \<Longrightarrow> brings B n opr ops r n'"
  by (cases opr) (auto simp: brings_def SATBC1_slot_def agree_below_def split: if_splits)

lemma three_operands_exec:
  assumes br: "brings B n src ops1 r1 n1" "brings B n1 slot ops2 r2 n2" "brings B n2 new_val ops3 r3 n3"
    and below: "opr_vregs src \<union> opr_vregs slot \<union> opr_vregs new_val \<subseteq> {..<n}"
  shows "\<exists>a ta b tb c tc. r1 = LReg a ta \<and> r2 = LReg b tb \<and> r3 = LReg c tc \<and> a < n3 \<and> b < n3 \<and> c < n3
     \<and> n \<le> n3 \<and> (\<forall>s. \<exists>s'. lir_exec B (ops1 @ ops2 @ ops3) None s = Some s' \<and> agree_below n s s'
        \<and> lregs s' a = opr_value s src \<and> lregs s' b = opr_value s slot \<and> lregs s' c = opr_value s new_val)"
proof -
  have le: "n \<le> n1" "n1 \<le> n2" "n2 \<le> n3" using br by (auto simp: brings_def)
  have sub: "opr_vregs src \<subseteq> {..<n}" "opr_vregs slot \<subseteq> {..<n1}" "opr_vregs new_val \<subseteq> {..<n2}"
    using below le by auto
  obtain a ta where a: "r1 = LReg a ta" "a < n1"
      "\<And>s. \<exists>s'. lir_exec B ops1 None s = Some s' \<and> agree_below n s s' \<and> lregs s' a = opr_value s src"
    using br(1) sub(1) unfolding brings_def by blast
  obtain b tb where b: "r2 = LReg b tb" "b < n2"
      "\<And>s. \<exists>s'. lir_exec B ops2 None s = Some s' \<and> agree_below n1 s s' \<and> lregs s' b = opr_value s slot"
    using br(2) sub(2) unfolding brings_def by blast
  obtain c tc where c: "r3 = LReg c tc" "c < n3"
      "\<And>s. \<exists>s'. lir_exec B ops3 None s = Some s' \<and> agree_below n2 s s' \<and> lregs s' c = opr_value s new_val"
    using br(3) sub(3) unfolding brings_def by blast
  have "\<exists>s'. lir_exec B (ops1 @ ops2 @ ops3) None s = Some s' \<and> agree_below n s s'
        \<and> lregs s' a = opr_value s src \<and> lregs s' b = opr_value s slot \<and> lregs s' c = opr_value s new_val" for s
  proof -
    obtain s1 s2 s3 where ex: "lir_exec B ops1 None s = Some s1" "lir_exec B ops2 None s1 = Some s2"
        "lir_exec B ops3 None s2 = Some s3"
      and ag: "agree_below n s s1" "agree_below n1 s1 s2" "agree_below n2 s2 s3"
      and va: "lregs s1 a = opr_value s src" "lregs s2 b = opr_value s1 slot" "lregs s3 c = opr_value s2 new_val"
      using a(3) b(3) c(3) by metis
    have ag2: "agree_below n s s2" using ag le by (simp add: agree_below_def)
    have keep: "opr_value s1 slot = opr_value s slot" "opr_value s2 new_val = opr_value s new_val"
      using ag(1) ag2 below by (auto intro!: opr_value_agree simp: agree_below_def subset_eq)
    have "lregs s3 a = opr_value s src" "lregs s3 b = opr_value s slot"
      using ag va keep a(2) b(2) le by (simp_all add: agree_below_def)
    moreover have "agree_below n s s3" using ag le by (simp add: agree_below_def)
    ultimately show ?thesis using ex va keep by (simp add: lir_exec_append)
  qed
  then show ?thesis using a b c le by fastforce
qed

text \<open>HotSpot's register allocator keeps the operands of a stub apart.\<close>

definition allocation_ok :: "c1_backend \<Rightarrow> lir_op list \<Rightarrow> bool" where
  "allocation_ok B ops \<longleftrightarrow> c1_abi_ok (m_abi (c1_machine B)) \<and>
     (\<forall>st. L_branch_destination st \<in> set ops \<longrightarrow> inj_on (register_allocation B) (set (stub_vregs st)))"

text \<open>The end of both write barriers: the check, or the jump, and the continuation of the stub.\<close>

lemma c1_barrier_tail_exec:
  fixes B env
  assumes run: "\<And>s. run_stub B slow s = Some (s\<lparr>lvm := runtime_call (m_core (c1_machine B)) env
       (if mmtk_enable_barrier_fastpath env then Fn_object_reference_write_slow_call else full)
       (lregs s a) (lregs s b) (lregs s c) (lvm s)\<rparr>)"
    and regs: "a < n" "b < n" "c < n"
  shows "\<exists>s'. lir_exec B ((if mmtk_enable_barrier_fastpath env then c1_unlog_check env n (LReg a t) slow
              else [L_jump slow]) @ [L_branch_destination slow]) None s = Some s'
     \<and> (\<forall>i < n. lregs s' i = lregs s i)
     \<and> lvm s' = (if mmtk_enable_barrier_fastpath env
         then slow_if_unlogged (m_core (c1_machine B)) env (lregs s a) (lregs s b) (lregs s c) (lvm s)
         else runtime_call (m_core (c1_machine B)) env full (lregs s a) (lregs s b) (lregs s c) (lvm s))"
proof (cases "mmtk_enable_barrier_fastpath env")
  case True
  obtain s1 where s1: "agree_below n s s1"
    "lir_exec B (c1_unlog_check env n (LReg a t) slow @ [L_branch_destination slow]) None s =
       (if meta_bit (SIDE_METADATA_BASE_ADDRESS env) (vm_state.mem (lvm s)) (lregs s a)
        then run_stub B slow s1 else Some s1)"
    using c1_unlog_check_exec[OF regs(1)] by blast
  with True regs show ?thesis
    by (auto simp: agree_below_def run slow_if_unlogged_def)
qed (simp add: run)

lemma ObjectC1_write_post_exec:
  assumes ops: "ObjectC1_object_reference_write_post (m_env (c1_machine B)) decorators src slot new_val n
      = (ops, n')"
    and alloc: "allocation_ok B ops" and heap: "IN_HEAP \<in> decorators"
    and below: "opr_vregs src \<union> opr_vregs slot \<union> opr_vregs new_val \<subseteq> {..<n}"
    and user: "user_addr (opr_value s src)"
  shows "\<exists>s'. lir_exec B ops None s = Some s' \<and> (\<forall>i < n. lregs s' i = lregs s i)
     \<and> lvm s' = ObjectRuntime_object_reference_write_post (m_core (c1_machine B)) (m_env (c1_machine B))
          (opr_value s src) (opr_value s slot) (opr_value s new_val) (lvm s)"
proof -
  let ?env = "m_env (c1_machine B)"
  obtain ops1 r1 n1 ops2 r2 n2 ops3 r3 n3 where tr: "to_register n T_LONG src = (ops1, r1, n1)"
      "to_register n1 T_LONG slot = (ops2, r2, n2)" "to_register n2 T_OBJECT new_val = (ops3, r3, n3)"
    by (metis prod_cases3)
  let ?slow = "MMTkC1PostBarrierStub r1 r2 r3"
  let ?tail = "(if mmtk_enable_barrier_fastpath ?env then c1_unlog_check ?env n3 r1 ?slow
      else [L_jump ?slow]) @ [L_branch_destination ?slow]"
  have ops_eq: "ops = (ops1 @ ops2 @ ops3) @ ?tail"
    using ops heap tr by (auto simp: ObjectC1_object_reference_write_post_def Let_def)
  obtain a ta b tb c tc s3 where r: "r1 = LReg a ta" "r2 = LReg b tb" "r3 = LReg c tc"
    and lt: "a < n3" "b < n3" "c < n3" "n \<le> n3"
    and s3: "lir_exec B (ops1 @ ops2 @ ops3) None s = Some s3" "agree_below n s s3"
    and va: "lregs s3 a = opr_value s src" "lregs s3 b = opr_value s slot" "lregs s3 c = opr_value s new_val"
    using three_operands_exec[OF tr[THEN brings_to_register] below] by metis
  have "inj_on (register_allocation B) {a, b, c}" "c1_abi_ok (m_abi (c1_machine B))"
    using alloc by (auto simp: allocation_ok_def ops_eq r)
  note run = run_post_stub[OF this(2,1), where ta = ta and tb = tb and tc = tc, folded r]
  from c1_barrier_tail_exec[OF run lt(1-3), where t = ta and s = s3]
  obtain s4 where s4: "lir_exec B ?tail None s3 = Some s4" "\<forall>i < n3. lregs s4 i = lregs s3 i"
      "lvm s4 = (if mmtk_enable_barrier_fastpath ?env
         then slow_if_unlogged (m_core (c1_machine B)) ?env (lregs s3 a) (lregs s3 b) (lregs s3 c) (lvm s3)
         else object_reference_write_post_call (m_core (c1_machine B)) ?env (lregs s3 a) (lregs s3 b)
           (lregs s3 c) (lvm s3))"
    unfolding r by auto
  have "lir_exec B ops None s = Some s4"
    using lir_exec_append[OF s3(1), of ?tail] s4(1) by (simp only: ops_eq)
  then show ?thesis
    using s3(2) s4(2,3) va lt(4) user Object_write_post_fast[of ?env "opr_value s src"]
    by (auto simp: ObjectRuntime_object_reference_write_post_def agree_below_def)
qed

lemma SATBC1_write_pre_exec:
  assumes ops: "SATBC1_object_reference_write_pre (m_env (c1_machine B)) decorators src slot new_val n
      = Inr (ops, n')"
    and alloc: "allocation_ok B ops" and heap: "IN_HEAP \<in> decorators" "C1_NEEDS_PATCHING \<notin> decorators"
    and below: "opr_vregs src \<union> opr_vregs slot \<union> opr_vregs new_val \<subseteq> {..<n}"
    and user: "user_addr (opr_value s src)"
  shows "n \<le> n' \<and> (\<exists>s'. lir_exec B ops None s = Some s' \<and> (\<forall>i < n. lregs s' i = lregs s i)
     \<and> lvm s' = SATBRuntime_object_reference_write_pre (m_core (c1_machine B)) (m_env (c1_machine B))
          (opr_value s src) (opr_value s slot) (opr_value s new_val) (lvm s))"
proof -
  let ?env = "m_env (c1_machine B)"
  obtain ops1 r1 n1 where tr1: "to_register n T_LONG src = (ops1, r1, n1)" by (metis prod_cases3)
  obtain ops2 r2 n2 where tr2: "SATBC1_slot False slot n1 = Inr (ops2, r2, n2)"
    using ops heap tr1
    by (auto simp: SATBC1_object_reference_write_pre_def split: sum.splits)
  obtain ops3 r3 n3 where tr3: "to_register n2 T_OBJECT new_val = (ops3, r3, n3)" by (metis prod_cases3)
  let ?slow = "MMTkC1PreBarrierStub r1 r2 r3 False None"
  let ?tail = "(if mmtk_enable_barrier_fastpath ?env then c1_unlog_check ?env n3 r1 ?slow
      else [L_jump ?slow]) @ [L_branch_destination ?slow]"
  have ops_eq: "ops = (ops1 @ ops2 @ ops3) @ ?tail" "n' = n3 + 4"
    using ops heap tr1 tr2 tr3 by (auto simp: SATBC1_object_reference_write_pre_def Let_def)
  obtain a ta b tb c tc s3 where r: "r1 = LReg a ta" "r2 = LReg b tb" "r3 = LReg c tc"
    and lt: "a < n3" "b < n3" "c < n3" "n \<le> n3"
    and s3: "lir_exec B (ops1 @ ops2 @ ops3) None s = Some s3" "agree_below n s s3"
    and va: "lregs s3 a = opr_value s src" "lregs s3 b = opr_value s slot" "lregs s3 c = opr_value s new_val"
    using three_operands_exec[OF brings_to_register[OF tr1] brings_slot[OF tr2]
        brings_to_register[OF tr3] below] by metis
  have "inj_on (register_allocation B) {a, b, c}" "c1_abi_ok (m_abi (c1_machine B))"
    using alloc by (auto simp: allocation_ok_def ops_eq r insert_commute)
  note run = run_pre_stub[OF this(2,1), where ta = ta and tb = tb and tc = tc and sc = None, folded r]
  from c1_barrier_tail_exec[OF run lt(1-3), where t = ta and s = s3]
  obtain s4 where s4: "lir_exec B ?tail None s3 = Some s4" "\<forall>i < n3. lregs s4 i = lregs s3 i"
      "lvm s4 = (if mmtk_enable_barrier_fastpath ?env
         then slow_if_unlogged (m_core (c1_machine B)) ?env (lregs s3 a) (lregs s3 b) (lregs s3 c) (lvm s3)
         else object_reference_write_pre_call (m_core (c1_machine B)) ?env (lregs s3 a) (lregs s3 b)
           (lregs s3 c) (lvm s3))"
    unfolding r by auto
  have "lir_exec B ops None s = Some s4"
    using lir_exec_append[OF s3(1), of ?tail] s4(1) by (simp only: ops_eq(1))
  then show ?thesis
    using s3(2) s4(2,3) va lt(4) user SATB_write_pre_fast[of ?env "opr_value s src"]
    by (auto simp: ops_eq(2) SATBRuntime_object_reference_write_pre_def agree_below_def)
qed

section \<open>Properties\<close>

text \<open>
  What C1's own access does (\<^verbatim>\<open>BarrierSetC1::store_at_resolved\<close> and its atomic siblings): it performs
  the raw write and leaves the operands in their registers.
\<close>

definition c1_access_ok :: "raw_access \<Rightarrow> heap_write \<Rightarrow> nat \<Rightarrow> (lir_state \<Rightarrow> lir_state) \<Rightarrow> bool" where
  "c1_access_ok raw w n raw_op \<longleftrightarrow>
     (\<forall>s. lvm (raw_op s) = (lvm s)\<lparr>vm_state.mem := raw_write raw w (vm_state.mem (lvm s))\<rparr>
        \<and> (\<forall>i < n. lregs (raw_op s) i = lregs s i))"

text \<open>
  C10. A reference write compiled by C1 does what the runtime does. For every barrier, every kind of
  write (store, compare-and-exchange, exchange) to the heap whose code needs no patching: the LIR
  with its stubs runs to its end, and the resulting VM state, the calls to mmtk-core with their
  arguments included, is the one the runtime's access barrier gives for the object, slot and value
  in the operands.
\<close>

theorem c1_write_refines_runtime:
  fixes B n defines "env \<equiv> m_env (c1_machine B)" and "core \<equiv> m_core (c1_machine B)"
  assumes ops: "C1_write_at_resolved k env decorators True raw_op base resolved_addr newv n = Inr ops"
    and alloc: "allocation_ok B ops" and heap: "IN_HEAP \<in> decorators" "C1_NEEDS_PATCHING \<notin> decorators"
    and below: "opr_vregs base \<union> opr_vregs resolved_addr \<union> opr_vregs newv \<subseteq> {..<n}"
    and w: "write_base w = opr_value s base" "write_base w + write_offset w = opr_value s resolved_addr"
      "write_value w = opr_value s newv" "user_addr (write_base w)"
    and acc: "c1_access_ok raw w n raw_op"
  shows "\<exists>s'. lir_exec B ops None s = Some s' \<and> lvm s' = access_write k core env raw w (lvm s)"
proof -
  obtain pre n1 where pre: "C1_object_reference_write_pre k env decorators base resolved_addr newv n = Inr (pre, n1)"
    and ops_eq: "ops = pre @ [L_hotspot raw_op]
        @ fst (C1_object_reference_write_post k env decorators base resolved_addr newv n1)"
    using ops by (auto simp: C1_write_at_resolved_def split: sum.splits)
  obtain post n2 where post: "C1_object_reference_write_post k env decorators base resolved_addr newv n1 = (post, n2)"
    by fastforce
  have al: "allocation_ok B pre" "allocation_ok B post"
    using alloc post by (auto simp: allocation_ok_def ops_eq)
  have pre_ex: "n \<le> n1 \<and> (\<exists>s1. lir_exec B pre None s = Some s1 \<and> (\<forall>i < n. lregs s1 i = lregs s i)
      \<and> lvm s1 = object_reference_write_pre k core env (opr_value s base) (opr_value s resolved_addr)
           (opr_value s newv) (lvm s))"
    using pre SATBC1_write_pre_exec[of B decorators base resolved_addr newv n pre n1 s] al(1) heap below w
    by (cases k) (auto simp: env_def core_def)
  then obtain s1 where s1: "lir_exec B pre None s = Some s1" "\<forall>i < n. lregs s1 i = lregs s i"
      "lvm s1 = object_reference_write_pre k core env (opr_value s base) (opr_value s resolved_addr)
           (opr_value s newv) (lvm s)" and n1: "n \<le> n1" by blast
  let ?s2 = "raw_op s1"
  have s2: "\<forall>i < n. lregs ?s2 i = lregs s i"
      "lvm ?s2 = (lvm s1)\<lparr>vm_state.mem := raw_write raw w (vm_state.mem (lvm s1))\<rparr>"
    using acc s1(2) by (auto simp: c1_access_ok_def)
  have vals: "opr_value ?s2 base = opr_value s base" "opr_value ?s2 newv = opr_value s newv"
      "opr_value ?s2 resolved_addr = opr_value s resolved_addr"
    using s2(1) below by (auto intro!: opr_value_agree simp: subset_eq)
  have below1: "opr_vregs base \<union> opr_vregs resolved_addr \<union> opr_vregs newv \<subseteq> {..<n1}"
    using below n1 by (meson lessThan_subset_iff order_trans)
  obtain s3 where "lir_exec B post None ?s2 = Some s3"
      "lvm s3 = object_reference_write_post k core env (opr_value s base) (opr_value s resolved_addr)
           (opr_value s newv) (lvm ?s2)"
    using post ObjectC1_write_post_exec[of B decorators base resolved_addr newv n1 post n2 ?s2] al(2) heap
      below1 w vals
    by (cases k) (auto simp: env_def core_def)
  then show ?thesis
    using s1 s2(2) w post
    by (auto simp: ops_eq lir_exec_append[OF s1(1)] access_write_eq Let_def)
qed

text \<open>The instance: \<^verbatim>\<open>o.f = v\<close> with object and value in registers, the field at offset 16.\<close>

definition demo_c1 :: c1_backend where
  "demo_c1 = \<lparr>c1_machine = demo_machine,
     register_allocation = (\<lambda>i. if i = 0 then RBX else if i = 1 then R8 else R9), patched_load = id\<rparr>"

definition demo_lir :: lir_state where
  "demo_lir = \<lparr>lregs = (\<lambda>i. 0)(0 := 0x40000000, 1 := 0x40000040), lcmp = None, lvm = demo_state\<rparr>"

definition demo_c1_store :: "lir_state \<Rightarrow> lir_state" where
  "demo_c1_store s = s\<lparr>lvm := (lvm s)\<lparr>vm_state.mem :=
     store64 (vm_state.mem (lvm s)) 0x40000010 0x40000040\<rparr>\<rparr>"

theorem c1_write_refines_runtime_witness:
  "\<exists>ops s'. C1_write_at_resolved MMTkSATBBarrier demo_env {IN_HEAP} True demo_c1_store
        (LReg 0 T_OBJECT) (LAddress 0 None 16 T_OBJECT) (LReg 1 T_OBJECT) 2 = Inr ops
     \<and> lir_exec demo_c1 ops None demo_lir = Some s'
     \<and> lvm s' = access_write MMTkSATBBarrier (bitmap_core 0x10000000) demo_env word_raw
          (Store_at 0x40000000 16 0x40000040) demo_state"
proof -
  have env: "m_env (c1_machine demo_c1) = demo_env" "m_core (c1_machine demo_c1) = bitmap_core 0x10000000"
    by (simp_all add: demo_c1_def demo_machine_def)
  obtain ops where ops: "C1_write_at_resolved MMTkSATBBarrier (m_env (c1_machine demo_c1)) {IN_HEAP} True demo_c1_store
        (LReg 0 T_OBJECT) (LAddress 0 None 16 T_OBJECT) (LReg 1 T_OBJECT) 2 = Inr ops"
    by (simp add: C1_write_at_resolved_def SATBC1_object_reference_write_pre_def to_register_def
        SATBC1_slot_def env demo_env_def Let_def)
  have alloc: "allocation_ok demo_c1 ops"
    using ops
    by (auto simp: C1_write_at_resolved_def SATBC1_object_reference_write_pre_def to_register_def
        SATBC1_slot_def env demo_env_def Let_def c1_unlog_check_def allocation_ok_def demo_c1_def
        c1_abi_ok_def demo_machine_def sysv_abi_def)
  have acc: "c1_access_ok word_raw (Store_at 0x40000000 16 0x40000040) 2 demo_c1_store"
    by (simp add: c1_access_ok_def demo_c1_store_def word_raw_def)
  have "\<exists>s'. lir_exec demo_c1 ops None demo_lir = Some s'
     \<and> lvm s' = access_write MMTkSATBBarrier (m_core (c1_machine demo_c1)) (m_env (c1_machine demo_c1))
          word_raw (Store_at 0x40000000 16 0x40000040) (lvm demo_lir)"
    by (rule c1_write_refines_runtime[OF ops alloc _ _ _ _ _ _ _ acc])
      (simp_all add: demo_lir_def user_addr_def)
  with ops show ?thesis by (auto simp: env demo_lir_def)
qed

text \<open>
  While a field access still needs patching, C1's SATB barrier cannot test the unlog bit, so
  it always enters the stub; there the address of the slot is resolved, and mmtk-core's slow path
  (or, without fast paths, its full pre-barrier) is called with the object, the resolved slot and
  the new value.
\<close>

lemma c1_patched_write_always_logs:
  fixes B a b c n defines "env \<equiv> m_env (c1_machine B)"
  assumes dec: "IN_HEAP \<in> decorators" "C1_NEEDS_PATCHING \<in> decorators"
    and abi: "c1_abi_ok (m_abi (c1_machine B))"
    and inj: "inj_on (register_allocation B) {a, b, c, n}" "n \<notin> {a, b, c}"
    and load: "\<And>x. regs (patched_load B x) = (regs x)(register_allocation B n := q x)
            \<and> vm (patched_load B x) = vm x \<and> frames (patched_load B x) = frames x"
  shows "\<exists>ops n'. SATBC1_object_reference_write_pre env decorators (LReg a T_OBJECT)
        (LAddress b None d T_OBJECT) (LReg c T_OBJECT) n = Inr (ops, n')
     \<and> (\<exists>s'. lir_exec B ops None s = Some s'
        \<and> lvm s' = runtime_call (m_core (c1_machine B)) env (c1_fn B Fn_object_reference_write_pre_call)
            (lregs s a) (lregs s b + d) (lregs s c) (lvm s))"
proof -
  let ?ra = "register_allocation B"
  let ?slow = "MMTkC1PreBarrierStub (LReg a T_OBJECT) (LAddress b None d T_OBJECT) (LReg c T_OBJECT) True (Some n)"
  let ?x = "\<lparr>regs = stub_regs ?ra s (stub_vregs ?slow), compared = None, frames = [],
      parameters = (\<lambda>i. 0), vm = lvm s\<rparr>"
  have look: "stub_regs ?ra s [a, c, b] (?ra v) = lregs s v" if "v \<in> {a, b, c}" for v
    using stub_regs_lookup[of ?ra "[a, c, b]" v s] that inj_on_subset[OF inj(1), of "{a, c, b}"] by auto
  have ne: "?ra a \<noteq> ?ra n" "?ra c \<noteq> ?ra n"
    using inj by (auto simp: inj_on_def)
  have b: "regs (patched_load B ?x) (?ra b) = lregs s b"
    using inj load look[of b] by (auto simp: inj_on_def)
  have run: "\<exists>p. run_stub B ?slow s = Some p \<and> lvm p = runtime_call (m_core (c1_machine B)) env
      (c1_fn B Fn_object_reference_write_pre_call) (lregs s a) (lregs s b + d) (lregs s c) (lvm s)"
    using look ne b abi load
    by (simp add: run_stub_def SATBAsm_generate_c1_pre_write_barrier_stub_def exec_append
        runtime_stub_exec(2) asm_simps ea_def env_def)
  then show ?thesis
    using dec
    by (auto simp: SATBC1_object_reference_write_pre_def SATBC1_slot_def to_register_def Let_def)
qed

lemma c1_patched_write_always_logs_instance:
  "\<exists>ops n' s'. SATBC1_object_reference_write_pre demo_env {IN_HEAP, C1_NEEDS_PATCHING} (LReg 0 T_OBJECT)
        (LAddress 0 None 16 T_OBJECT) (LReg 1 T_OBJECT) 2 = Inr (ops, n')
     \<and> lir_exec demo_c1 ops None demo_lir = Some s'
     \<and> calls (lvm s') = [(Mmtk_object_reference_write_slow 0x1000 0x40000000 0x40000010 0x40000040, \<lambda>a. 0xff)]"
proof -
  have env: "m_env (c1_machine demo_c1) = demo_env" "m_core (c1_machine demo_c1) = bitmap_core 0x10000000"
    by (simp_all add: demo_c1_def demo_machine_def)
  have "c1_abi_ok (m_abi (c1_machine demo_c1))" "inj_on (register_allocation demo_c1) {0, 0, 1, 2}"
    by (simp_all add: demo_c1_def demo_machine_def sysv_abi_def c1_abi_ok_def)
  moreover have "\<And>x. regs (patched_load demo_c1 x) = (regs x)(register_allocation demo_c1 2 := regs x R9)
      \<and> vm (patched_load demo_c1 x) = vm x \<and> frames (patched_load demo_c1 x) = frames x"
    by (simp add: demo_c1_def)
  ultimately show ?thesis
    using c1_patched_write_always_logs[of "{IN_HEAP, C1_NEEDS_PATCHING}" demo_c1 0 0 1 2 "\<lambda>x. regs x R9"
        16 demo_lir]
    by (fastforce simp: env demo_lir_def demo_defs barrier_defs)
qed

text \<open>
  C37. The reference-load barrier of C1. After the load, the referent is handed to mmtk-core
  exactly when the runtime's load barrier would hand it over (marking is active, it is not null);
  for a load of unknown strength only if HotSpot's check says that the field is a referent.
\<close>

theorem c1_load_refines_runtime:
  fixes B r n defines "env \<equiv> m_env (c1_machine B)"
  assumes abi: "c1_abi_ok (m_abi (c1_machine B))" and r: "r < n"
    and ref: "decorators \<inter> {ON_WEAK_OOP_REF, ON_PHANTOM_OOP_REF, ON_UNKNOWN_OOP_REF} \<noteq> {}"
  shows "\<exists>s'. lir_exec B (SATBC1_load_at_resolved env decorators True check load (LReg r T_OBJECT) n) None s
        = Some s'
     \<and> lregs s' r = lregs (load s) r
     \<and> lvm s' = (if ON_UNKNOWN_OOP_REF \<in> decorators \<and> \<not> check (load s) then lvm (load s)
          else SATBRuntime_load_reference (m_core (c1_machine B)) env decorators (lregs (load s) r)
                 (lvm (load s)))"
proof -
  have flag: "(ucast (ucast (scast (b :: byte) :: 32 word) :: 64 word) :: 32 word) = 1 \<longleftrightarrow> b = 1" for b
  proof -
    have "(ucast (ucast (scast b :: 32 word) :: 64 word) :: 32 word) = scast b"
      by (rule bit_word_eqI) (auto simp: bit_simps)
    moreover have "(scast b :: 32 word) = 1 \<longleftrightarrow> b = 1"
    proof
      assume eq: "(scast b :: 32 word) = 1"
      show "b = 1"
      proof (rule bit_word_eqI)
        fix i assume "i < LENGTH(8)"
        then have "bit b i = bit (scast b :: 32 word) i" by (simp add: bit_simps min_absorb2)
        then show "bit b i = bit (1 :: byte) i" by (simp add: eq bit_simps)
      qed
    qed simp
    ultimately show ?thesis by simp
  qed
  show ?thesis
    using r ref run_ref_load_stub[OF abi, of r T_OBJECT]
    by (auto simp: SATBC1_load_at_resolved_def Let_def flag SATBRuntime_load_reference_def
        load_reference_call_def env_def split: if_splits)
qed

theorem c1_load_refines_runtime_witness:
  "\<exists>s'. lir_exec demo_c1 (SATBC1_load_at_resolved demo_env {ON_WEAK_OOP_REF} True (\<lambda>s. True) id
        (LReg 0 T_OBJECT) 2) None (demo_lir\<lparr>lvm := \<lparr>vm_state.mem = (\<lambda>a. 1), calls = []\<rparr>\<rparr>) = Some s'
     \<and> calls (lvm s') = [(Mmtk_load_reference 0x1000 0x40000000, \<lambda>a. 1)]"
proof -
  have "c1_abi_ok (m_abi (c1_machine demo_c1))"
    by (simp add: demo_c1_def demo_machine_def sysv_abi_def c1_abi_ok_def)
  from c1_load_refines_runtime[OF this, of 0 2 "{ON_WEAK_OOP_REF}" "\<lambda>s. True" id
      "demo_lir\<lparr>lvm := \<lparr>vm_state.mem = (\<lambda>a. 1), calls = []\<rparr>\<rparr>"]
  show ?thesis
    by (fastforce simp: demo_c1_def demo_machine_def demo_lir_def SATBRuntime_load_reference_def
        barrier_defs demo_env_def)
qed

end
