(* ===== verification/Barrier_C2.thy ===== *)
theory Barrier_C2
  imports Barrier_Assembler
begin

text \<open>
  The barriers of code compiled by C2: \<^verbatim>\<open>mmtkBarrierSetC2.{hpp,cpp}\<close> and the C2 classes of the
  object and SATB barrier. A barrier is a piece of ideal graph: expression nodes of 32 and 64 bits,
  conditionals and leaf calls. Expressions are evaluated in the state in which control reaches
  them; the parameters of the graph are the nodes of the compiled method (object, slot, value,
  offset). What C2 knows at compile time about a store or a load is a record of the questions the
  code asks HotSpot's graph.
\<close>

section \<open>Ideal nodes\<close>

datatype xnode = Param nat | ConX "64 word" | CastPX xnode | AddP xnode xnode | URShiftX xnode inode
  and inode = ConI "32 word" | LoadB xnode | ConvL2I xnode | AndI inode inode | URShiftI inode inode

fun eval_x :: "(nat \<Rightarrow> 64 word) \<Rightarrow> mem \<Rightarrow> xnode \<Rightarrow> 64 word"
  and eval_i :: "(nat \<Rightarrow> 64 word) \<Rightarrow> mem \<Rightarrow> inode \<Rightarrow> 32 word" where
  "eval_x ps m (Param i) = ps i"
| "eval_x ps m (ConX c) = c"
| "eval_x ps m (CastPX x) = eval_x ps m x"
| "eval_x ps m (AddP x y) = eval_x ps m x + eval_x ps m y"
| "eval_x ps m (URShiftX x i) = drop_bit (unat (eval_i ps m i AND 63)) (eval_x ps m x)"
| "eval_i ps m (ConI c) = c"
| "eval_i ps m (LoadB x) = scast (m (eval_x ps m x))"
| "eval_i ps m (ConvL2I x) = ucast (eval_x ps m x)"
| "eval_i ps m (AndI i j) = eval_i ps m i AND eval_i ps m j"
| "eval_i ps m (URShiftI i j) = drop_bit (unat (eval_i ps m j AND 31)) (eval_i ps m i)"

text \<open>\<open>If_instanceof\<close> is the run-time type check of HotSpot's \<^verbatim>\<open>gen_instanceof\<close>.\<close>

datatype ideal =
    If_ne inode inode "ideal list"
  | If_ne_ptr xnode xnode "ideal list"
  | If_eq_x xnode xnode "ideal list"
  | If_instanceof "mem \<Rightarrow> bool" "ideal list"
  | Leaf_call runtime_fn "xnode list"
  | MemBarCPUOrder

fun run_ideal :: "core_effect \<Rightarrow> barrier_env \<Rightarrow> (nat \<Rightarrow> 64 word) \<Rightarrow> ideal \<Rightarrow> vm_state \<Rightarrow> vm_state"
  and run_ideals :: "core_effect \<Rightarrow> barrier_env \<Rightarrow> (nat \<Rightarrow> 64 word) \<Rightarrow> ideal list \<Rightarrow> vm_state \<Rightarrow> vm_state" where
  "run_ideal core env ps (If_ne i j body) s =
     (if eval_i ps (mem s) i \<noteq> eval_i ps (mem s) j then run_ideals core env ps body s else s)"
| "run_ideal core env ps (If_ne_ptr x y body) s =
     (if eval_x ps (mem s) x \<noteq> eval_x ps (mem s) y then run_ideals core env ps body s else s)"
| "run_ideal core env ps (If_eq_x x y body) s =
     (if eval_x ps (mem s) x = eval_x ps (mem s) y then run_ideals core env ps body s else s)"
| "run_ideal core env ps (If_instanceof p body) s =
     (if p (mem s) then run_ideals core env ps body s else s)"
| "run_ideal core env ps (Leaf_call f xs) s =
     (let arg = (\<lambda>i. if i < length xs then eval_x ps (mem s) (xs ! i) else 0)
      in runtime_call core env f (arg 0) (arg 1) (arg 2) s)"
| "run_ideal core env ps MemBarCPUOrder s = s"
| "run_ideals core env ps [] s = s"
| "run_ideals core env ps (i # is) s = run_ideals core env ps is (run_ideal core env ps i s)"

section \<open>Write barriers\<close>

text \<open>
  What \<^verbatim>\<open>can_remove_barrier\<close> asks about a store: is the new value the constant null, is the object
  the one just allocated at this point, is the offset unknown, which allocation the object comes
  from, and which allocation's initialisation the store directly follows.
\<close>

record c2_store_site =
  val_is_null_con :: bool
  src_just_allocated :: bool
  offset_is_bottom :: bool
  ideal_allocation :: "nat option"
  control_initialize :: "nat option"

definition C2_can_remove_barrier :: "bool \<Rightarrow> c2_store_site \<Rightarrow> bool \<Rightarrow> bool" where
  "C2_can_remove_barrier alloc_fastpath site skip_const_null =
     (if skip_const_null \<and> val_is_null_con site then True
      else if \<not> alloc_fastpath then False
      else if src_just_allocated site then True
      else if offset_is_bottom site then False
      else case ideal_allocation site of
             None \<Rightarrow> False
           | Some alloc \<Rightarrow> (case control_initialize site of None \<Rightarrow> False | Some st_alloc \<Rightarrow> alloc = st_alloc))"

abbreviation "p_src \<equiv> Param 0"
abbreviation "p_slot \<equiv> Param 1"
abbreviation "p_val \<equiv> Param 2"
abbreviation "p_offset \<equiv> Param 3"

definition c2_unlog_check :: "barrier_env \<Rightarrow> inode" where
  "c2_unlog_check env =
     (let addr = CastPX p_src;
          meta_addr = AddP (ConX (SIDE_METADATA_BASE_ADDRESS env)) (URShiftX addr (ConI 6));
          byte = LoadB meta_addr;
          shift = AndI (ConvL2I (URShiftX addr (ConI 3))) (ConI 7)
      in AndI (URShiftI byte shift) (ConI 1))"

definition ObjectC2_object_reference_write_post :: "barrier_env \<Rightarrow> bool \<Rightarrow> c2_store_site \<Rightarrow> ideal list" where
  "ObjectC2_object_reference_write_post env alloc_fastpath site =
     (if C2_can_remove_barrier alloc_fastpath site True then []
      else if mmtk_enable_barrier_fastpath env then
        [If_ne (c2_unlog_check env) (ConI 0)
           [Leaf_call Fn_object_reference_write_slow_call [p_src, p_slot, p_val]]]
      else [Leaf_call Fn_object_reference_write_post_call [p_src, p_slot, p_val]])"

definition SATBC2_object_reference_write_pre :: "barrier_env \<Rightarrow> bool \<Rightarrow> c2_store_site \<Rightarrow> ideal list" where
  "SATBC2_object_reference_write_pre env alloc_fastpath site =
     (if C2_can_remove_barrier alloc_fastpath site False then []
      else if mmtk_enable_barrier_fastpath env then
        [If_ne (c2_unlog_check env) (ConI 0)
           [Leaf_call Fn_object_reference_write_slow_call [p_src, p_slot, p_val]]]
      else [Leaf_call Fn_object_reference_write_pre_call [p_src, p_slot, p_val]])"

fun C2_object_reference_write_pre :: "barrier_kind \<Rightarrow> barrier_env \<Rightarrow> bool \<Rightarrow> c2_store_site \<Rightarrow> ideal list" where
  "C2_object_reference_write_pre MMTkSATBBarrier env afp site = SATBC2_object_reference_write_pre env afp site"
| "C2_object_reference_write_pre _ env afp site = []"

fun C2_object_reference_write_post :: "barrier_kind \<Rightarrow> barrier_env \<Rightarrow> bool \<Rightarrow> c2_store_site \<Rightarrow> ideal list" where
  "C2_object_reference_write_post MMTkObjectBarrier env afp site = ObjectC2_object_reference_write_post env afp site"
| "C2_object_reference_write_post _ env afp site = []"

text \<open>
  \<^verbatim>\<open>store_at_resolved\<close>, \<^verbatim>\<open>atomic_cmpxchg_val_at_resolved\<close>, \<^verbatim>\<open>atomic_cmpxchg_bool_at_resolved\<close> and
  \<^verbatim>\<open>atomic_xchg_at_resolved\<close>: the barriers around the access that \<^verbatim>\<open>BarrierSetC2\<close> generates.
\<close>

definition C2_write_at_resolved ::
    "barrier_kind \<Rightarrow> core_effect \<Rightarrow> barrier_env \<Rightarrow> bool \<Rightarrow> c2_store_site \<Rightarrow> bool \<Rightarrow> (mem \<Rightarrow> mem)
       \<Rightarrow> (nat \<Rightarrow> 64 word) \<Rightarrow> vm_state \<Rightarrow> vm_state" where
  "C2_write_at_resolved k core env afp site is_oop raw_op ps s =
     (let s1 = (if is_oop then run_ideals core env ps (C2_object_reference_write_pre k env afp site) s else s);
          s2 = s1\<lparr>mem := raw_op (mem s1)\<rparr>
      in if is_oop then run_ideals core env ps (C2_object_reference_write_post k env afp site) s2 else s2)"

fun C2_array_copy_requires_gc_barriers :: "barrier_kind \<Rightarrow> bool" where
  "C2_array_copy_requires_gc_barriers MMTkSATBBarrier = False"
| "C2_array_copy_requires_gc_barriers _ = True"

text \<open>A call node is a barrier if it is a leaf call with the barriers' name.\<close>

definition C2_is_gc_barrier_node :: "bool \<Rightarrow> string option \<Rightarrow> bool" where
  "C2_is_gc_barrier_node is_call_leaf name \<longleftrightarrow>
     (if \<not> is_call_leaf then False
      else case name of None \<Rightarrow> False | Some nm \<Rightarrow> nm = ''mmtk_barrier_call'')"

section \<open>Reference loads\<close>

definition reference_load_barrier :: "barrier_env \<Rightarrow> bool \<Rightarrow> ideal list" where
  "reference_load_barrier env emit_barrier =
     [If_ne (LoadB (ConX (CONCURRENT_MARKING_ACTIVE env))) (ConI 0)
        [If_ne_ptr p_val (ConX 0) [Leaf_call Fn_load_reference_call [p_val]]]]
     @ (if emit_barrier then [MemBarCPUOrder] else [])"

text \<open>What is known at compile time of a load whose reference strength is not.\<close>

record c2_load_site =
  offset_con :: "64 word option"
  base_is_array :: bool
  base_klass_excluded :: bool
  instanceof_Reference :: "mem \<Rightarrow> bool"

definition reference_load_barrier_for_unknown_load ::
    "barrier_env \<Rightarrow> 64 word \<Rightarrow> c2_load_site \<Rightarrow> bool \<Rightarrow> ideal list" where
  "reference_load_barrier_for_unknown_load env referent_offset site need_mem_bar =
     (if (case offset_con site of None \<Rightarrow> False | Some c \<Rightarrow> c \<noteq> referent_offset) then []
      else if base_is_array site then []
      else if base_klass_excluded site then []
      else [If_eq_x p_offset (ConX referent_offset)
              [If_instanceof (instanceof_Reference site)
                 (reference_load_barrier env False @ (if need_mem_bar then [MemBarCPUOrder] else []))]])"

definition SATBC2_load_at_resolved ::
    "barrier_env \<Rightarrow> 64 word \<Rightarrow> DecoratorSet \<Rightarrow> bool \<Rightarrow> bool \<Rightarrow> c2_load_site \<Rightarrow> ideal list" where
  "SATBC2_load_at_resolved env referent_offset decorators is_oop offset_and_obj_known site =
     (let mismatched = C2_MISMATCHED \<in> decorators;
          unknown = ON_UNKNOWN_OOP_REF \<in> decorators;
          in_heap = IN_HEAP \<in> decorators;
          on_weak = ON_WEAK_OOP_REF \<in> decorators;
          is_unordered = MO_UNORDERED \<in> decorators;
          need_cpu_mem_bar = (\<not> is_unordered \<or> mismatched \<or> \<not> in_heap);
          need_read_barrier = (in_heap \<and> (on_weak \<or> (unknown \<and> offset_and_obj_known)))
      in if \<not> is_oop \<or> \<not> need_read_barrier then []
         else if on_weak then reference_load_barrier env True
         else if unknown then reference_load_barrier_for_unknown_load env referent_offset site (\<not> need_cpu_mem_bar)
         else [])"

section \<open>The fast-path test\<close>

definition c2_unlog_test :: "addr \<Rightarrow> mem \<Rightarrow> addr \<Rightarrow> bool" where
  "c2_unlog_test base m a \<longleftrightarrow>
     eval_i (\<lambda>i. a) m (c2_unlog_check
       \<lparr>mmtk_enable_barrier_fastpath = True, SIDE_METADATA_BASE_ADDRESS = base,
        CONCURRENT_MARKING_ACTIVE = 0, current_mutator = 0\<rparr>) \<noteq> 0"

lemma c2_index_eq: "(ucast (drop_bit 3 a :: 64 word) :: 32 word) AND 7 = ucast (drop_bit 3 a AND 7)"
proof -
  have "(7 :: 32 word) = mask 3" by (simp add: mask_eq_exp_minus_1)
  moreover have "(ucast (drop_bit 3 a :: 64 word) :: 32 word) AND mask 3 = ucast (drop_bit 3 a AND 7)"
    by (rule bit_word_eqI) (auto simp: and_7_take_bit bit_simps)
  ultimately show ?thesis by simp
qed

lemma c2_check_eval:
  "eval_i ps m (c2_unlog_check env) =
     of_bool (meta_bit (SIDE_METADATA_BASE_ADDRESS env) m (ps 0))"
proof -
  let ?a = "ps 0" and ?B = "SIDE_METADATA_BASE_ADDRESS env"
  have "drop_bit (meta_bit_index ?a) (scast (m (meta_byte_addr ?B ?a)) :: 32 word) AND 1 =
      of_bool (bit (m (meta_byte_addr ?B ?a)) (meta_bit_index ?a))"
  proof -
    have "bit (scast b :: 32 word) i = bit b i" if "i < 8" for b :: byte and i
      using that by (simp add: bit_simps min_absorb2)
    then show ?thesis by (simp add: drop_bit_and_1_of_bool)
  qed
  then show ?thesis
    by (simp add: c2_unlog_check_def Let_def c2_index_eq meta_bit_index_32 meta_bit_def
        flip: meta_byte_addr_def)
qed

interpretation c2_test: unlog_test c2_unlog_test
  by unfold_locales (simp add: c2_unlog_test_def c2_check_eval)

section \<open>Properties\<close>

text \<open>
  The write sites where a barrier may be left out, in terms of the site alone. A write of the null
  constant needs no object barrier (it creates no pointer to remember) but does need the SATB
  barrier (it destroys one). With the allocation fast path on, neither barrier is needed for a
  write into the object that was allocated at this point or whose initialisation the write directly
  follows.
\<close>

definition C2_write_elidable :: "barrier_kind \<Rightarrow> bool \<Rightarrow> c2_store_site \<Rightarrow> bool" where
  "C2_write_elidable k afp site \<longleftrightarrow>
     k = MMTkObjectBarrier \<and> val_is_null_con site
   \<or> k \<noteq> MMTkNoBarrier \<and> afp \<and> (src_just_allocated site
        \<or> \<not> offset_is_bottom site \<and> ideal_allocation site \<noteq> None
          \<and> control_initialize site = ideal_allocation site)"

lemma C2_can_remove_barrier_elidable:
  "C2_can_remove_barrier afp site True \<longleftrightarrow> C2_write_elidable MMTkObjectBarrier afp site"
  "C2_can_remove_barrier afp site False \<longleftrightarrow> C2_write_elidable MMTkSATBBarrier afp site"
  by (auto simp: C2_can_remove_barrier_def C2_write_elidable_def split: option.splits)

lemma C2_write_pre_run:
  assumes "user_addr (ps 0)"
  shows "run_ideals core env ps (C2_object_reference_write_pre k env afp site) s =
     object_reference_write_pre (if C2_write_elidable k afp site then MMTkNoBarrier else k) core env
       (ps 0) (ps 1) (ps 2) s"
  using assms
  by (cases k; cases "mmtk_enable_barrier_fastpath env")
    (simp_all add: SATBC2_object_reference_write_pre_def SATBRuntime_object_reference_write_pre_def
      C2_can_remove_barrier_elidable c2_check_eval runtime_test.test_sound Let_def)

lemma C2_write_post_run:
  assumes "user_addr (ps 0)"
  shows "run_ideals core env ps (C2_object_reference_write_post k env afp site) s =
     object_reference_write_post (if C2_write_elidable k afp site then MMTkNoBarrier else k) core env
       (ps 0) (ps 1) (ps 2) s"
  using assms
  by (cases k; cases "mmtk_enable_barrier_fastpath env")
    (simp_all add: ObjectC2_object_reference_write_post_def C2_can_remove_barrier_elidable
      ObjectRuntime_object_reference_write_post_def c2_check_eval runtime_test.test_sound Let_def)

text \<open>
  C11. A reference write compiled by C2 does what the runtime does. For every barrier, every kind
  of write and every write site, the compiled code ends in the VM state, with the calls to mmtk-core
  and their arguments, that the runtime's access barrier gives; only where the barrier may be left
  out does it end in the state of a plain write. A null constant written under the SATB barrier is
  not such a site.
\<close>

theorem c2_write_refines_runtime:
  assumes "user_addr (write_base w)"
    and "ps 0 = write_base w" and "ps 1 = write_base w + write_offset w" and "ps 2 = write_value w"
  shows "C2_write_at_resolved k core env afp site True (raw_write raw w) ps s =
     access_write (if C2_write_elidable k afp site then MMTkNoBarrier else k) core env raw w s"
  using assms
  by (simp add: C2_write_at_resolved_def Let_def C2_write_pre_run C2_write_post_run access_write_eq)

theorem c2_write_refines_runtime_witness:
  "C2_write_at_resolved MMTkSATBBarrier (bitmap_core 0x10000000) demo_env True
      \<lparr>val_is_null_con = True, src_just_allocated = False, offset_is_bottom = False,
       ideal_allocation = Some 7, control_initialize = Some 9\<rparr> True
      (raw_write word_raw (Xchg_at 0 0x40000000 16))
      (\<lambda>i. [0x40000000, 0x40000010, 0, 0] ! i) demo_state =
   access_write MMTkSATBBarrier (bitmap_core 0x10000000) demo_env word_raw
      (Xchg_at 0 0x40000000 16) demo_state"
  by (subst c2_write_refines_runtime) (simp_all add: C2_write_elidable_def user_addr_def)

text \<open>
  The reference-load barrier of C2. For a weak load from the heap, the compiled barrier hands
  the loaded referent to mmtk-core exactly when the runtime's load barrier would, given that the
  marking flag is 0 or 1 (the compiled code tests for non-zero, the runtime for 1).
\<close>

lemma c2_weak_load_refines_runtime:
  assumes "IN_HEAP \<in> decorators" and "ON_WEAK_OOP_REF \<in> decorators"
    and "mem s (CONCURRENT_MARKING_ACTIVE env) \<in> {0, 1}"
  shows "run_ideals core env ps (SATBC2_load_at_resolved env ro decorators True known site) s =
     SATBRuntime_load_reference core env decorators (ps 2) s"
  using assms
  by (auto simp: SATBC2_load_at_resolved_def reference_load_barrier_def Let_def
      SATBRuntime_load_reference_def load_reference_call_def)

lemma c2_weak_load_refines_runtime_instance:
  "run_ideals (bitmap_core 0x10000000) demo_env (\<lambda>i. 0x40000040)
      (SATBC2_load_at_resolved demo_env 16 {IN_HEAP, ON_WEAK_OOP_REF} True True
         \<lparr>offset_con = None, base_is_array = False, base_klass_excluded = False,
          instanceof_Reference = (\<lambda>m. True)\<rparr>) \<lparr>mem = (\<lambda>a. 1), calls = []\<rparr> =
   SATBRuntime_load_reference (bitmap_core 0x10000000) demo_env {IN_HEAP, ON_WEAK_OOP_REF}
      0x40000040 \<lparr>mem = (\<lambda>a. 1), calls = []\<rparr>"
  by (rule c2_weak_load_refines_runtime) simp_all

text \<open>
  A load of unknown strength. If the compile-time filters are right (a known offset is the
  offset, an array or an excluded class is never a \<^verbatim>\<open>Reference\<close>), the compiled barrier reports the
  loaded value exactly when the field is the referent of a \<^verbatim>\<open>Reference\<close> object and the runtime's load
  barrier would report it.
\<close>

lemma c2_unknown_load_reports_referents:
  assumes "mem s (CONCURRENT_MARKING_ACTIVE env) \<in> {0, 1}"
    and "\<forall>c. offset_con site = Some c \<longrightarrow> ps 3 = c"
    and "base_is_array site \<or> base_klass_excluded site \<longrightarrow> \<not> instanceof_Reference site (mem s)"
    and "{IN_HEAP, ON_UNKNOWN_OOP_REF} \<subseteq> decorators" and "ON_WEAK_OOP_REF \<notin> decorators"
  shows "run_ideals core env ps (SATBC2_load_at_resolved env ro decorators True True site) s =
     (if ps 3 = ro \<and> instanceof_Reference site (mem s)
      then SATBRuntime_load_reference core env decorators (ps 2) s else s)"
  using assms
  by (auto simp: SATBC2_load_at_resolved_def reference_load_barrier_for_unknown_load_def
      reference_load_barrier_def Let_def SATBRuntime_load_reference_def load_reference_call_def
      split: option.splits)

lemma c2_unknown_load_reports_referents_instance:
  "calls (run_ideals (bitmap_core 0x10000000) demo_env (\<lambda>i. if i = 3 then 16 else 0x40000040)
      (SATBC2_load_at_resolved demo_env 16 {IN_HEAP, ON_UNKNOWN_OOP_REF} True True
         \<lparr>offset_con = Some 16, base_is_array = False, base_klass_excluded = False,
          instanceof_Reference = (\<lambda>m. True)\<rparr>) \<lparr>mem = (\<lambda>a. 1), calls = []\<rparr>) =
   [(Mmtk_load_reference 0x1000 0x40000040, \<lambda>a. 1)]"
  by (subst c2_unknown_load_reports_referents)
    (simp_all add: SATBRuntime_load_reference_def barrier_defs demo_env_def)

end
