(* ===== verification/Mutator_Layout.thy ===== *)
theory Mutator_Layout
  imports Prelude
begin

text \<open>
  The mutator context the binding shares with mmtk-core (\<^verbatim>\<open>openjdk/mmtkMutator.hpp\<close>): the C++
  structs, laid out by the rules of the platform's C++ ABI, and
  \<^verbatim>\<open>get_tlab_top_and_end_offsets\<close>, which turns an allocator selector into the offsets of the
  allocation cursor and limit from the start of the thread. The generated allocation code loads
  and stores through these offsets.
\<close>

section \<open>Layout of C++ types\<close>

datatype ctype = Scalar nat | Arr ctype nat | Struct "(string \<times> ctype) list"

definition align_up :: "nat \<Rightarrow> nat \<Rightarrow> nat" where
  "align_up n a = (n + a - 1) div a * a"

fun alignof :: "ctype \<Rightarrow> nat" and alignof_fields :: "(string \<times> ctype) list \<Rightarrow> nat" where
  "alignof (Scalar n) = n"
| "alignof (Arr t n) = alignof t"
| "alignof (Struct fs) = alignof_fields fs"
| "alignof_fields [] = 1"
| "alignof_fields ((f, t) # fs) = max (alignof t) (alignof_fields fs)"

fun sizeof :: "ctype \<Rightarrow> nat" and fields_end :: "nat \<Rightarrow> (string \<times> ctype) list \<Rightarrow> nat" where
  "sizeof (Scalar n) = n"
| "sizeof (Arr t n) = n * sizeof t"
| "sizeof (Struct fs) = align_up (fields_end 0 fs) (alignof (Struct fs))"
| "fields_end off [] = off"
| "fields_end off ((f, t) # fs) = fields_end (align_up off (alignof t) + sizeof t) fs"

fun field_offset :: "nat \<Rightarrow> (string \<times> ctype) list \<Rightarrow> string \<Rightarrow> nat option" where
  "field_offset off [] name = None"
| "field_offset off ((f, t) # fs) name =
     (if f = name then Some (align_up off (alignof t))
      else field_offset (align_up off (alignof t) + sizeof t) fs name)"

text \<open>\<^verbatim>\<open>byte_offset_of(type, field)\<close>; a field that does not exist would not compile.\<close>

fun byte_offset_of :: "ctype \<Rightarrow> string \<Rightarrow> nat option" where
  "byte_offset_of (Struct fs) name = field_offset 0 fs name"
| "byte_offset_of _ name = None"

section \<open>The structs of mmtkMutator.hpp\<close>

abbreviation void_ptr :: ctype where "void_ptr \<equiv> Scalar 8"
abbreviation uint8_t :: ctype where "uint8_t \<equiv> Scalar 1"
abbreviation size_type :: ctype where "size_type \<equiv> Scalar 8"

datatype Allocator = AllocatorDefault | AllocatorImmortal | AllocatorLos | AllocatorCode
  | AllocatorReadOnly

definition RustDynPtr :: ctype where
  "RustDynPtr = Struct [(''data'', void_ptr), (''vtable'', void_ptr)]"

definition MAX_BUMP_ALLOCATORS :: nat where "MAX_BUMP_ALLOCATORS = 6"
definition MAX_LARGE_OBJECT_ALLOCATORS :: nat where "MAX_LARGE_OBJECT_ALLOCATORS = 2"
definition MAX_MALLOC_ALLOCATORS :: nat where "MAX_MALLOC_ALLOCATORS = 1"
definition MAX_IMMIX_ALLOCATORS :: nat where "MAX_IMMIX_ALLOCATORS = 2"
definition MAX_FREE_LIST_ALLOCATORS :: nat where "MAX_FREE_LIST_ALLOCATORS = 2"
definition MAX_MARK_COMPACT_ALLOCATORS :: nat where "MAX_MARK_COMPACT_ALLOCATORS = 1"

definition BumpAllocator :: ctype where
  "BumpAllocator = Struct [(''tls'', void_ptr), (''cursor'', void_ptr), (''limit'', void_ptr),
     (''space'', RustDynPtr), (''context'', void_ptr)]"

definition LargeObjectAllocator :: ctype where
  "LargeObjectAllocator = Struct [(''tls'', void_ptr), (''space'', void_ptr), (''context'', void_ptr)]"

definition ImmixAllocator :: ctype where
  "ImmixAllocator = Struct [(''tls'', void_ptr), (''cursor'', void_ptr), (''limit'', void_ptr),
     (''immix_space'', void_ptr), (''context'', void_ptr), (''hot'', uint8_t), (''copy'', uint8_t),
     (''large_cursor'', void_ptr), (''large_limit'', void_ptr), (''request_for_large'', uint8_t),
     (''_align'', Arr uint8_t 7), (''line_opt_tag'', uint8_t), (''line_opt'', Scalar 8)]"

definition FLBlock :: ctype where
  "FLBlock = Struct [(''Address'', void_ptr)]"

definition FLBlockList :: ctype where
  "FLBlockList = Struct [(''first'', FLBlock), (''last'', FLBlock), (''size'', size_type),
     (''lock'', Scalar 1)]"

definition FreeListAllocator :: ctype where
  "FreeListAllocator = Struct [(''tls'', void_ptr), (''space'', void_ptr), (''context'', void_ptr),
     (''available_blocks'', void_ptr), (''available_blocks_stress'', void_ptr),
     (''unswept_blocks'', void_ptr), (''consumed_blocks'', void_ptr)]"

definition MallocAllocator :: ctype where
  "MallocAllocator = Struct [(''tls'', void_ptr), (''space'', void_ptr), (''context'', void_ptr)]"

definition MarkCompactAllocator :: ctype where
  "MarkCompactAllocator = Struct [(''bump_allocator'', BumpAllocator)]"

definition Allocators :: ctype where
  "Allocators = Struct [(''bump_pointer'', Arr BumpAllocator MAX_BUMP_ALLOCATORS),
     (''large_object'', Arr LargeObjectAllocator MAX_LARGE_OBJECT_ALLOCATORS),
     (''malloc'', Arr MallocAllocator MAX_MALLOC_ALLOCATORS),
     (''immix'', Arr ImmixAllocator MAX_IMMIX_ALLOCATORS),
     (''free_list'', Arr FreeListAllocator MAX_FREE_LIST_ALLOCATORS),
     (''markcompact'', Arr MarkCompactAllocator MAX_MARK_COMPACT_ALLOCATORS)]"

definition MutatorConfig :: ctype where
  "MutatorConfig = Struct [(''allocator_mapping'', void_ptr), (''space_mapping'', void_ptr),
     (''prepare_func'', RustDynPtr), (''release_func'', RustDynPtr)]"

definition MMTkMutatorContext :: ctype where
  "MMTkMutatorContext = Struct [(''allocators'', Allocators), (''barrier'', RustDynPtr),
     (''mutator_tls'', void_ptr), (''plan'', RustDynPtr), (''config'', MutatorConfig)]"

section \<open>Offsets of the allocation area\<close>

record AllocatorSelector =
  tag :: byte
  index :: byte

definition TAG_BUMP_POINTER :: byte where "TAG_BUMP_POINTER = 0"
definition TAG_LARGE_OBJECT :: byte where "TAG_LARGE_OBJECT = 1"
definition TAG_MALLOC :: byte where "TAG_MALLOC = 2"
definition TAG_IMMIX :: byte where "TAG_IMMIX = 3"
definition TAG_MARK_COMPACT :: byte where "TAG_MARK_COMPACT = 4"
definition TAG_FREE_LIST :: byte where "TAG_FREE_LIST = 5"

record MMTkAllocatorOffsets =
  tlab_top_offset :: nat
  tlab_end_offset :: nat

definition off :: "ctype \<Rightarrow> string \<Rightarrow> nat" where
  "off t f = (case byte_offset_of t f of Some n \<Rightarrow> n | None \<Rightarrow> 0)"

text \<open>\<open>mutator_offset\<close> is \<^verbatim>\<open>JavaThread::third_party_heap_mutator_offset()\<close>.\<close>

definition get_tlab_top_and_end_offsets ::
    "nat \<Rightarrow> AllocatorSelector \<Rightarrow> MMTkAllocatorOffsets result" where
  "get_tlab_top_and_end_offsets mutator_offset selector =
     (let allocators_base_offset = mutator_offset + off MMTkMutatorContext ''allocators''
      in if tag selector = TAG_IMMIX then
           (let allocator_base_offset = allocators_base_offset + off Allocators ''immix''
                  + unat (index selector) * sizeof ImmixAllocator
            in Inr \<lparr>tlab_top_offset = allocator_base_offset + off ImmixAllocator ''cursor'',
                    tlab_end_offset = allocator_base_offset + off ImmixAllocator ''limit''\<rparr>)
         else if tag selector = TAG_BUMP_POINTER then
           (let allocator_base_offset = allocators_base_offset + off Allocators ''bump_pointer''
                  + unat (index selector) * sizeof BumpAllocator
            in Inr \<lparr>tlab_top_offset = allocator_base_offset + off BumpAllocator ''cursor'',
                    tlab_end_offset = allocator_base_offset + off BumpAllocator ''limit''\<rparr>)
         else if tag selector = TAG_MARK_COMPACT then
           (let allocator_base_offset = allocators_base_offset + off Allocators ''markcompact''
                  + unat (index selector) * sizeof MarkCompactAllocator
                  + off MarkCompactAllocator ''bump_allocator''
            in Inr \<lparr>tlab_top_offset = allocator_base_offset + off BumpAllocator ''cursor'',
                    tlab_end_offset = allocator_base_offset + off BumpAllocator ''limit''\<rparr>)
         else Inl (Fatal ''Unimplemented allocator fastpath''))"

text \<open>
  \<^verbatim>\<open>MMTkMutatorContext::bind\<close>: the size that mmtk-core was built with has to be the size of the
  C++ struct. \<open>bind_mutator\<close> is mmtk-core's.
\<close>

definition bind :: "(addr \<Rightarrow> 'ctx) \<Rightarrow> nat \<Rightarrow> addr \<Rightarrow> 'ctx result" where
  "bind bind_mutator FREE_LIST_ALLOCATOR_SIZE current =
     (if FREE_LIST_ALLOCATOR_SIZE \<noteq> sizeof FreeListAllocator then Inl (Guarantee_failed ''ERROR'')
      else Inr (bind_mutator current))"

section \<open>Laws of layout\<close>

lemmas layout_defs = RustDynPtr_def BumpAllocator_def LargeObjectAllocator_def ImmixAllocator_def
  FLBlock_def FLBlockList_def FreeListAllocator_def MallocAllocator_def MarkCompactAllocator_def
  Allocators_def MutatorConfig_def MMTkMutatorContext_def MAX_BUMP_ALLOCATORS_def
  MAX_LARGE_OBJECT_ALLOCATORS_def MAX_MALLOC_ALLOCATORS_def MAX_IMMIX_ALLOCATORS_def
  MAX_FREE_LIST_ALLOCATORS_def MAX_MARK_COMPACT_ALLOCATORS_def

lemmas tag_defs = TAG_BUMP_POINTER_def TAG_LARGE_OBJECT_def TAG_MALLOC_def TAG_IMMIX_def
  TAG_MARK_COMPACT_def TAG_FREE_LIST_def

lemma layout_sizes [simp]:
  "sizeof RustDynPtr = 16" "alignof RustDynPtr = 8"
  "sizeof BumpAllocator = 48" "alignof BumpAllocator = 8"
  "sizeof LargeObjectAllocator = 24" "alignof LargeObjectAllocator = 8"
  "sizeof MallocAllocator = 24" "alignof MallocAllocator = 8"
  "sizeof ImmixAllocator = 88" "alignof ImmixAllocator = 8"
  "sizeof FreeListAllocator = 56" "alignof FreeListAllocator = 8"
  "sizeof MarkCompactAllocator = 48" "alignof MarkCompactAllocator = 8"
  by (simp_all add: layout_defs align_up_def)

lemma layout_contexts [simp]:
  "sizeof Allocators = 696" "alignof Allocators = 8"
  "sizeof MMTkMutatorContext = 784"
  by (simp_all add: Allocators_def MMTkMutatorContext_def MutatorConfig_def layout_defs(13-18)
      align_up_def)

lemma layout_offsets [simp]:
  "off MMTkMutatorContext ''allocators'' = 0"
  "off Allocators ''bump_pointer'' = 0" "off Allocators ''immix'' = 360"
  "off Allocators ''markcompact'' = 648"
  "off ImmixAllocator ''cursor'' = 8" "off ImmixAllocator ''limit'' = 16"
  "off BumpAllocator ''cursor'' = 8" "off BumpAllocator ''limit'' = 16"
  "off MarkCompactAllocator ''bump_allocator'' = 0"
  by (simp_all add: off_def MMTkMutatorContext_def ImmixAllocator_def BumpAllocator_def
      MarkCompactAllocator_def Allocators_def layout_defs(13-18) align_up_def)

text \<open>A selector that names an allocator of the context with a bump-pointer fast path.\<close>

definition fast_selector :: "AllocatorSelector \<Rightarrow> bool" where
  "fast_selector sel \<longleftrightarrow>
     tag sel = TAG_IMMIX \<and> unat (index sel) < MAX_IMMIX_ALLOCATORS
   \<or> tag sel = TAG_BUMP_POINTER \<and> unat (index sel) < MAX_BUMP_ALLOCATORS
   \<or> tag sel = TAG_MARK_COMPACT \<and> unat (index sel) < MAX_MARK_COMPACT_ALLOCATORS"

lemma offsets_of_fast_selector:
  assumes "get_tlab_top_and_end_offsets d sel = Inr ofs"
  shows "tlab_end_offset ofs = tlab_top_offset ofs + 8"
    and "tlab_top_offset ofs = d + 8 +
      (if tag sel = TAG_IMMIX then 360 + unat (index sel) * 88
       else if tag sel = TAG_BUMP_POINTER then unat (index sel) * 48
       else 648 + unat (index sel) * 48)"
  using assms by (auto simp: get_tlab_top_and_end_offsets_def Let_def split: if_splits)

lemma fast_selector_offsets:
  "fast_selector sel \<Longrightarrow> \<exists>ofs. get_tlab_top_and_end_offsets d sel = Inr ofs"
  by (auto simp: fast_selector_def get_tlab_top_and_end_offsets_def Let_def tag_defs)

section \<open>Properties\<close>

text \<open>
  C31. The offsets of the allocation area. For a selector of an existing bump-pointer, Immix or
  mark-compact allocator, cursor and limit are two adjacent, pointer-aligned words inside the
  thread's mutator context, and two different selectors have disjoint cursor and limit words, so
  one allocator's fast path never touches another's area.
\<close>

theorem tlab_offsets_wf:
  assumes "fast_selector sel" and "fast_selector sel'" and "8 dvd d"
  shows "\<exists>ofs ofs'. get_tlab_top_and_end_offsets d sel = Inr ofs
     \<and> get_tlab_top_and_end_offsets d sel' = Inr ofs'
     \<and> 8 dvd tlab_top_offset ofs \<and> tlab_end_offset ofs = tlab_top_offset ofs + 8
     \<and> d \<le> tlab_top_offset ofs \<and> tlab_end_offset ofs + 8 \<le> d + sizeof MMTkMutatorContext
     \<and> (sel \<noteq> sel' \<longrightarrow> {tlab_top_offset ofs ..< tlab_end_offset ofs + 8}
                     \<inter> {tlab_top_offset ofs' ..< tlab_end_offset ofs' + 8} = {})"
proof -
  obtain ofs ofs' where ofs: "get_tlab_top_and_end_offsets d sel = Inr ofs"
      "get_tlab_top_and_end_offsets d sel' = Inr ofs'"
    using assms(1,2)[THEN fast_selector_offsets] by blast
  have dist: "tag sel \<noteq> tag sel' \<or> unat (index sel) \<noteq> unat (index sel')" if "sel \<noteq> sel'"
    using that by (auto simp: word_unat_eq_iff)
  note eqs = offsets_of_fast_selector[OF ofs(1)] offsets_of_fast_selector[OF ofs(2)]
  have "8 dvd tlab_top_offset ofs" using assms(3) by (auto simp: eqs)
  moreover have "tlab_end_offset ofs + 8 \<le> d + sizeof MMTkMutatorContext"
    using assms(1) by (auto simp: eqs fast_selector_def layout_defs(13-18) tag_defs)
  moreover have "tlab_top_offset ofs + 16 \<le> tlab_top_offset ofs'
      \<or> tlab_top_offset ofs' + 16 \<le> tlab_top_offset ofs" if "sel \<noteq> sel'"
    using assms(1,2) dist[OF that] unfolding eqs fast_selector_def layout_defs(13-18)
    by (auto simp: tag_defs)
  then have "sel \<noteq> sel' \<longrightarrow> {tlab_top_offset ofs ..< tlab_end_offset ofs + 8}
      \<inter> {tlab_top_offset ofs' ..< tlab_end_offset ofs' + 8} = {}"
    by (auto simp: eqs(1,3))
  ultimately show ?thesis using ofs eqs(1,2) by auto
qed

theorem tlab_offsets_wf_witness:
  "\<exists>ofs ofs'. get_tlab_top_and_end_offsets 0x200 \<lparr>tag = 3, index = 1\<rparr> = Inr ofs
     \<and> get_tlab_top_and_end_offsets 0x200 \<lparr>tag = 0, index = 5\<rparr> = Inr ofs'
     \<and> tlab_top_offset ofs = 968 \<and> tlab_top_offset ofs' = 760
     \<and> {tlab_top_offset ofs ..< tlab_end_offset ofs + 8}
         \<inter> {tlab_top_offset ofs' ..< tlab_end_offset ofs' + 8} = {}"
  using tlab_offsets_wf[of "\<lparr>tag = 3, index = 1\<rparr>" "\<lparr>tag = 0, index = 5\<rparr>" "0x200"]
  by (simp add: fast_selector_def tag_defs layout_defs(13-18) get_tlab_top_and_end_offsets_def)

text \<open>
  The offset computation fails exactly for allocators without a bump-pointer fast path
  (large-object, malloc, free-list and unknown tags), with the fatal error of the source.
\<close>

lemma tlab_offsets_fatal:
  "get_tlab_top_and_end_offsets d sel = Inl (Fatal ''Unimplemented allocator fastpath'')
     \<longleftrightarrow> tag sel \<notin> {TAG_IMMIX, TAG_BUMP_POINTER, TAG_MARK_COMPACT}"
  by (auto simp: get_tlab_top_and_end_offsets_def Let_def)

end
