(* ===== verification/Allocation.thy ===== *)
theory Allocation
  imports Barrier_Assembler Mutator_Layout
begin

text \<open>
  Allocation: the inline allocation code of the interpreter and C1's runtime stubs
  (\<^verbatim>\<open>MMTkBarrierSetAssembler::eden_allocate\<close>), the allocation C2 expands
  (\<^verbatim>\<open>MMTkBarrierSetC2::expand_allocate\<close>) and the slow path \<^verbatim>\<open>MMTkMutatorContext::alloc\<close>.

  The locale \<open>bump_allocator\<close> is the contract of a fast path on a thread's allocation area: it
  is interpreted by the two fast paths taken in any order, and gives that objects allocated by a
  run of fast-path allocations lie in the area, one after the other.
\<close>

section \<open>What allocation code is generated from\<close>

record alloc_env =
  mmtk_enable_allocation_fastpath :: bool
  max_non_los_default_alloc_bytes :: size_t
  MARK_COMPACT_HEADER_RESERVED_IN_BYTES :: size_t
  default_selector :: AllocatorSelector
  MMTK_ENABLE_VO_BIT :: bool
  VO_BIT_BASE_ADDRESS :: addr
  third_party_heap_mutator_offset :: nat
  allocated_bytes_offset :: nat

definition extra_header :: "alloc_env \<Rightarrow> size_t" where
  "extra_header E =
     (if tag (default_selector E) = TAG_MARK_COMPACT then MARK_COMPACT_HEADER_RESERVED_IN_BYTES E else 0)"

definition no_fastpath_tag :: "alloc_env \<Rightarrow> bool" where
  "no_fastpath_tag E \<longleftrightarrow> tag (default_selector E) \<in> {TAG_MALLOC, TAG_LARGE_OBJECT, TAG_FREE_LIST}"

section \<open>eden_allocate\<close>

definition vo_bit_code :: "abi \<Rightarrow> alloc_env \<Rightarrow> reg \<Rightarrow> instr list" where
  "vo_bit_code A E obj =
     (let tmp3 = RDI; tmp2 = rscratch1 A
      in [Mov tmp3 obj,
          Shr tmp3 6,
          Mov_imm tmp2 (VO_BIT_BASE_ADDRESS E),
          Movb_load tmp2 (Amode tmp2 (Some tmp3) 0 0),
          Mov RCX obj,
          Shr RCX 3,
          And_imm RCX 7,
          Mov_imm tmp3 1,
          Shl_cl tmp3,
          Or_reg tmp2 tmp3,
          Mov tmp3 obj,
          Shr tmp3 6,
          Mov_imm RCX (VO_BIT_BASE_ADDRESS E),
          Movb_store (Amode RCX (Some tmp3) 0 0) tmp2])"

definition eden_allocate ::
    "abi \<Rightarrow> alloc_env \<Rightarrow> reg \<Rightarrow> reg \<Rightarrow> reg option \<Rightarrow> 32 word \<Rightarrow> reg \<Rightarrow> instr list result" where
  "eden_allocate A E thread obj var_size_in_bytes con_size_in_bytes t1 =
     (if obj \<noteq> RAX then Inl (Assert_failed ''obj must be in rax, for cmpxchg'')
      else if obj = t1 \<or> var_size_in_bytes \<in> {Some obj, Some t1}
      then Inl (Assert_failed ''assert_different_registers'')
      else if \<not> mmtk_enable_allocation_fastpath E then Inr [Jmp L_slow_case]
      else if max_non_los_default_alloc_bytes E = 0
      then Inl (Assert_failed ''max_non_los_default_alloc_bytes has not been initialized'')
      else
        (let max_non_los_bytes = max_non_los_default_alloc_bytes E;
             extra = extra_header E;
             sel = default_selector E
         in if var_size_in_bytes = None \<and> max_non_los_bytes - extra < sx32 con_size_in_bytes
            then Inr [Jmp L_slow_case]
            else
              (let size_check = (case var_size_in_bytes of None \<Rightarrow> []
                     | Some v \<Rightarrow> [Cmp_imm v (ucast (max_non_los_bytes - extra)), Jcc AboveEqual L_slow_case])
               in if no_fastpath_tag E then Inr (size_check @ [Jmp L_slow_case])
                  else
                    (case get_tlab_top_and_end_offsets (third_party_heap_mutator_offset E) sel of
                       Inl e \<Rightarrow> Inl e
                     | Inr ofs \<Rightarrow>
                        (let cursor = Amode (r15_thread A) None 0 (of_nat (tlab_top_offset ofs));
                             limit = Amode (r15_thread A) None 0 (of_nat (tlab_end_offset ofs));
                             allocated = Amode (r15_thread A) None 0 (of_nat (allocated_bytes_offset E));
                             mc = (tag sel = TAG_MARK_COMPACT); vo = (MMTK_ENABLE_VO_BIT E \<or> mc)
                         in if vo \<and> \<not> distinct [obj, rscratch1 A, RDI, RCX]
                            then Inl (Assert_failed ''assert_different_registers'')
                            else Inr (size_check
                              @ [Load obj cursor]
                              @ (if mc then [Add_imm obj (ucast extra)] else [])
                              @ [(case var_size_in_bytes of
                                    None \<Rightarrow> Lea t1 (Amode obj None 0 (sx32 con_size_in_bytes))
                                  | Some v \<Rightarrow> Lea t1 (Amode obj (Some v) 0 0)),
                                 Cmp_reg t1 obj, Jcc Below L_slow_case,
                                 Cmp_mem t1 limit, Jcc Above L_slow_case,
                                 Store cursor t1]
                              @ (if vo then vo_bit_code A E obj else [])
                              @ [(case var_size_in_bytes of
                                    None \<Rightarrow> Addq_mem_imm allocated con_size_in_bytes
                                  | Some v \<Rightarrow> Addq_mem allocated v),
                                 Addq_mem_imm allocated (ucast extra)]))))))"

section \<open>MMTkMutatorContext::alloc\<close>

text \<open>\<open>core_alloc\<close> and \<open>core_post_alloc\<close> are mmtk-core's \<^verbatim>\<open>alloc\<close> and \<^verbatim>\<open>post_alloc\<close>.\<close>

type_synonym 's alloc_fn = "addr \<Rightarrow> size_t \<Rightarrow> size_t \<Rightarrow> size_t \<Rightarrow> Allocator \<Rightarrow> 's \<Rightarrow> addr \<times> 's"
type_synonym 's post_alloc_fn = "addr \<Rightarrow> addr \<Rightarrow> size_t \<Rightarrow> Allocator \<Rightarrow> 's \<Rightarrow> 's"

abbreviation HeapWordSize :: size_t where "HeapWordSize \<equiv> 8"

definition MMTkMutatorContext_alloc ::
    "'s alloc_fn \<Rightarrow> 's post_alloc_fn \<Rightarrow> alloc_env \<Rightarrow> addr \<Rightarrow> size_t \<Rightarrow> Allocator \<Rightarrow> 's
       \<Rightarrow> (addr \<times> 's) result" where
  "MMTkMutatorContext_alloc core_alloc core_post_alloc E this bytes allocator0 s =
     (if max_non_los_default_alloc_bytes E = 0
      then Inl (Assert_failed ''max_non_los_default_alloc_bytes has not been initialized'')
      else
        (let allocator = (if max_non_los_default_alloc_bytes E \<le> bytes then AllocatorLos else allocator0);
             (ob, s1) = core_alloc this bytes HeapWordSize 0 allocator s
         in Inr (ob, if ob \<noteq> NULL then core_post_alloc this ob bytes allocator s1 else s1)))"

section \<open>expand_allocate\<close>

text \<open>
  The decision C2 makes when it expands an allocation: \<open>tv\<close> is the constant value of the initial
  slow test (-1 if it is not constant), \<open>const_size\<close> the constant size (-1 if not constant). The
  result is whether only the slow call is emitted, and the test in front of the fast path.
\<close>

datatype c2_slow_test = Initial_slow_test | Size_test size_t | Or_test size_t

definition expand_allocate_tests ::
    "alloc_env \<Rightarrow> bool \<Rightarrow> int \<Rightarrow> int \<Rightarrow> (bool \<times> c2_slow_test option) result" where
  "expand_allocate_tests E dtrace_alloc_probes tv const_size =
     (if max_non_los_default_alloc_bytes E = 0
      then Inl (Assert_failed ''max_non_los_default_alloc_bytes has not been initialized'')
      else
        (let lim = max_non_los_default_alloc_bytes E - extra_header E;
             always0 = (0 \<le> tv \<and> tv = 1);
             test0 = (if 0 \<le> tv then None else Some Initial_slow_test);
             (always1, test1) =
               (if 0 \<le> const_size then
                  if lim < (of_int const_size :: size_t) then (True, None) else (always0, test0)
                else (always0, Some (case test0 of None \<Rightarrow> Size_test lim | Some t \<Rightarrow> Or_test lim)));
             (always2, test2) =
               (if dtrace_alloc_probes \<or> \<not> mmtk_enable_allocation_fastpath E \<or> no_fastpath_tag E
                then (True, None) else (always1, test1))
         in if test2 \<noteq> None \<and> always2 then Inl (Assert_failed ''arguments must be consistent'')
            else Inr (always2, test2)))"

text \<open>The test at run time: \<^verbatim>\<open>CmpL\<close> is signed, the cmov gives 0 or 1, \<^verbatim>\<open>OrI\<close> is bitwise.\<close>

fun c2_test_holds :: "c2_slow_test \<Rightarrow> 32 word \<Rightarrow> size_t \<Rightarrow> bool" where
  "c2_test_holds Initial_slow_test initial size_in_bytes \<longleftrightarrow> initial \<noteq> 0"
| "c2_test_holds (Size_test lim) initial size_in_bytes \<longleftrightarrow> sint lim \<le> sint size_in_bytes"
| "c2_test_holds (Or_test lim) initial size_in_bytes \<longleftrightarrow>
     (if sint lim \<le> sint size_in_bytes then 1 else 0 :: 32 word) OR initial \<noteq> 0"

text \<open>The nodes that set the valid-object bit: 64-bit shifts and masks, then 32-bit arithmetic.\<close>

definition c2_set_vo_bit :: "addr \<Rightarrow> mem \<Rightarrow> addr \<Rightarrow> mem" where
  "c2_set_vo_bit base m obj =
     (let meta_addr = base + drop_bit 6 obj;
          meta_val = (ucast (m meta_addr) :: 32 word);
          shifted_masked_addr = drop_bit 3 obj AND 0b111;
          shifted_masked_addr_i = (ucast shifted_masked_addr :: 32 word);
          set_bit = push_bit (unat (shifted_masked_addr_i AND 31)) (1 :: 32 word);
          new_meta_val = meta_val OR set_bit
      in m(meta_addr := ucast new_meta_val))"

text \<open>\<open>extra\<close> is the mark-compact header, \<open>eden_top\<close> and \<open>eden_end\<close> the words the fast path loads.\<close>

definition c2_fast_path :: "size_t \<Rightarrow> addr \<Rightarrow> addr \<Rightarrow> size_t \<Rightarrow> (addr \<times> addr) option" where
  "c2_fast_path extra eden_top eden_end size_in_bytes =
     (let old_eden_top = eden_top + extra; new_eden_top = old_eden_top + size_in_bytes
      in if eden_end \<le> new_eden_top then None else Some (old_eden_top, new_eden_top))"

text \<open>
  Running the expanded code: \<open>None\<close> is the slow call; the fast path stores the new top and sets
  the valid-object bit. Initialising the object is HotSpot's \<^verbatim>\<open>initialize_object\<close>.
\<close>

definition c2_allocate ::
    "alloc_env \<Rightarrow> bool \<Rightarrow> int \<Rightarrow> int \<Rightarrow> addr \<Rightarrow> 32 word \<Rightarrow> size_t \<Rightarrow> mem \<Rightarrow> (addr \<times> mem) option result" where
  "c2_allocate E dtrace tv const_size thread initial size_in_bytes m =
     (case expand_allocate_tests E dtrace tv const_size of
        Inl e \<Rightarrow> Inl e
      | Inr (always_slow, test) \<Rightarrow>
          if always_slow then Inr None
          else if (case test of None \<Rightarrow> False | Some t \<Rightarrow> c2_test_holds t initial size_in_bytes)
          then Inr None
          else
            (case get_tlab_top_and_end_offsets (third_party_heap_mutator_offset E) (default_selector E) of
               Inl e \<Rightarrow> Inl e
             | Inr ofs \<Rightarrow>
                 (let top_adr = thread + of_nat (tlab_top_offset ofs);
                      end_adr = thread + of_nat (tlab_end_offset ofs)
                  in case c2_fast_path (extra_header E) (load64 m top_adr) (load64 m end_adr) size_in_bytes of
                       None \<Rightarrow> Inr None
                     | Some (obj, new_top) \<Rightarrow>
                         (let m1 = store64 m top_adr new_top
                          in Inr (Some (obj,
                               if MMTK_ENABLE_VO_BIT E \<or> tag (default_selector E) = TAG_MARK_COMPACT
                               then c2_set_vo_bit (VO_BIT_BASE_ADDRESS E) m1 obj else m1))))))"

section \<open>The fast path of eden_allocate as a function\<close>

definition eden_fast_path :: "size_t \<Rightarrow> addr \<Rightarrow> addr \<Rightarrow> size_t \<Rightarrow> (addr \<times> addr) option" where
  "eden_fast_path extra cursor limit sz =
     (let obj = cursor + extra; end' = obj + sz
      in if end' < obj \<or> limit < end' then None else Some (obj, end'))"

definition eden_memory :: "alloc_env \<Rightarrow> MMTkAllocatorOffsets \<Rightarrow> addr \<Rightarrow> addr \<Rightarrow> addr \<Rightarrow> size_t \<Rightarrow> mem \<Rightarrow> mem" where
  "eden_memory E ofs thread obj end' sz m =
     (let m1 = store64 m (thread + of_nat (tlab_top_offset ofs)) end';
          m2 = (if MMTK_ENABLE_VO_BIT E \<or> tag (default_selector E) = TAG_MARK_COMPACT
                then set_meta_bit (VO_BIT_BASE_ADDRESS E) m1 obj else m1);
          al = thread + of_nat (allocated_bytes_offset E);
          m3 = store64 m2 al (load64 m2 al + sz)
      in store64 m3 al (load64 m3 al + extra_header E))"

section \<open>The valid-object bit\<close>

lemma vo_byte: "ucast (set_low_byte w b OR push_bit (meta_bit_index a) (1 :: 64 word)) =
    b OR push_bit (meta_bit_index a) (1 :: byte)"
  by (rule bit_word_eqI) (auto simp: bit_simps bit_set_low_byte)

lemma c2_set_vo_bit_eq: "c2_set_vo_bit base m obj = set_meta_bit base m obj"
proof -
  have "ucast (ucast b OR push_bit (meta_bit_index obj) (1 :: 32 word)) =
      b OR push_bit (meta_bit_index obj) (1 :: byte)" for b :: byte
    by (rule bit_word_eqI) (auto simp: bit_simps)
  then show ?thesis
    by (simp add: c2_set_vo_bit_def set_meta_bit_def meta_byte_addr_def meta_bit_index_32(2) Let_def)
qed

section \<open>Executing eden_allocate\<close>

lemma vo_bit_code_exec:
  fixes M E defines "A \<equiv> m_abi M"
  assumes "distinct [obj, rscratch1 A, RDI, RCX]"
  shows "\<exists>s'. exec M (vo_bit_code A E obj) None s = Done s'
     \<and> vm s' = (vm s)\<lparr>vm_state.mem := set_meta_bit (VO_BIT_BASE_ADDRESS E) (mem_of s) (regs s obj)\<rparr>
     \<and> frames s' = frames s \<and> (\<forall>r. r \<notin> {RDI, RCX, rscratch1 A} \<longrightarrow> regs s' r = regs s r)"
proof -
  have "VO_BIT_BASE_ADDRESS E + drop_bit 6 (regs s obj) =
      meta_byte_addr (VO_BIT_BASE_ADDRESS E) (regs s obj)"
    by (simp add: meta_byte_addr_def)
  moreover have "shift_count (rf(RCX := drop_bit 3 a AND 7, RDI := 1)) = meta_bit_index a" for rf a
    by (simp add: shift_count_def and_7_and_63 meta_bit_index_def)
  ultimately show ?thesis
    using assms
    by (auto simp: vo_bit_code_def Let_def asm_simps ea_def vo_byte[simplified] set_meta_bit_def)
qed

definition alloc_size :: "regfile \<Rightarrow> reg option \<Rightarrow> 32 word \<Rightarrow> size_t" where
  "alloc_size rf var con = (case var of None \<Rightarrow> sx32 con | Some v \<Rightarrow> rf v)"

definition eden_too_big :: "alloc_env \<Rightarrow> regfile \<Rightarrow> reg option \<Rightarrow> 32 word \<Rightarrow> bool" where
  "eden_too_big E rf var con \<longleftrightarrow>
     (let lim = max_non_los_default_alloc_bytes E - extra_header E
      in case var of None \<Rightarrow> lim < sx32 con | Some v \<Rightarrow> lim \<le> rf v)"

text \<open>
  What the code relies on: the thread register and the size are not among the registers it
  overwrites, and the size limit and the header fit the immediates they are encoded in.
\<close>

definition eden_operands_ok :: "abi \<Rightarrow> alloc_env \<Rightarrow> reg \<Rightarrow> reg option \<Rightarrow> reg \<Rightarrow> bool" where
  "eden_operands_ok A E obj var t1 \<longleftrightarrow>
     r15_thread A \<notin> {obj, t1, RDI, RCX, rscratch1 A}
   \<and> (MMTK_ENABLE_VO_BIT E \<or> tag (default_selector E) = TAG_MARK_COMPACT \<longrightarrow>
        var \<notin> {Some RDI, Some RCX, Some (rscratch1 A)})
   \<and> sx32 (ucast (extra_header E)) = extra_header E
   \<and> sx32 (ucast (max_non_los_default_alloc_bytes E - extra_header E)) =
       max_non_los_default_alloc_bytes E - extra_header E"

text \<open>The code between the size check and the valid-object bit.\<close>

definition eden_bump_code :: "abi \<Rightarrow> alloc_env \<Rightarrow> MMTkAllocatorOffsets \<Rightarrow> reg \<Rightarrow> reg option \<Rightarrow> 32 word \<Rightarrow> reg \<Rightarrow> instr list" where
  "eden_bump_code A E ofs obj var con t1 =
     [Load obj (Amode (r15_thread A) None 0 (of_nat (tlab_top_offset ofs)))]
     @ (if tag (default_selector E) = TAG_MARK_COMPACT then [Add_imm obj (ucast (extra_header E))] else [])
     @ [(case var of None \<Rightarrow> Lea t1 (Amode obj None 0 (sx32 con)) | Some v \<Rightarrow> Lea t1 (Amode obj (Some v) 0 0)),
        Cmp_reg t1 obj, Jcc Below L_slow_case,
        Cmp_mem t1 (Amode (r15_thread A) None 0 (of_nat (tlab_end_offset ofs))), Jcc Above L_slow_case,
        Store (Amode (r15_thread A) None 0 (of_nat (tlab_top_offset ofs))) t1]"

lemma eden_bump_exec:
  fixes M s ofs defines "A \<equiv> m_abi M" and "th \<equiv> regs s (r15_thread (m_abi M))"
  assumes ok: "eden_operands_ok A E obj var t1" "obj \<noteq> t1" "var \<notin> {Some obj, Some t1}"
  shows "case eden_fast_path (extra_header E) (load64 (mem_of s) (th + of_nat (tlab_top_offset ofs)))
             (load64 (mem_of s) (th + of_nat (tlab_end_offset ofs))) (alloc_size (regs s) var con) of
      None \<Rightarrow> \<exists>s'. exec M (eden_bump_code A E ofs obj var con t1) None s = Goto L_slow_case s'
         \<and> vm s' = vm s \<and> frames s' = frames s \<and> (\<forall>r. r \<notin> {obj, t1} \<longrightarrow> regs s' r = regs s r)
    | Some (ob, end') \<Rightarrow> \<exists>s'. exec M (eden_bump_code A E ofs obj var con t1) None s = Done s'
         \<and> vm s' = (vm s)\<lparr>vm_state.mem := store64 (mem_of s) (th + of_nat (tlab_top_offset ofs)) end'\<rparr>
         \<and> frames s' = frames s \<and> regs s' obj = ob \<and> (\<forall>r. r \<notin> {obj, t1} \<longrightarrow> regs s' r = regs s r)"
proof (cases "tag (default_selector E) = TAG_MARK_COMPACT")
  case True
  then show ?thesis
    using assms
    by (cases var)
      (auto simp: eden_bump_code_def eden_fast_path_def Let_def asm_simps ea_def alloc_size_def
        eden_operands_ok_def)
next
  case False
  then have "extra_header E = 0" by (simp add: extra_header_def)
  with False show ?thesis
    using assms
    by (cases var)
      (auto simp: eden_bump_code_def eden_fast_path_def Let_def asm_simps ea_def alloc_size_def
        eden_operands_ok_def)
qed


text \<open>The code around it: the size check, the valid-object bit and the accounting.\<close>

definition eden_size_check :: "alloc_env \<Rightarrow> reg option \<Rightarrow> instr list" where
  "eden_size_check E var = (case var of None \<Rightarrow> []
     | Some v \<Rightarrow> [Cmp_imm v (ucast (max_non_los_default_alloc_bytes E - extra_header E)),
                  Jcc AboveEqual L_slow_case])"

definition eden_account :: "abi \<Rightarrow> alloc_env \<Rightarrow> reg option \<Rightarrow> 32 word \<Rightarrow> instr list" where
  "eden_account A E var con =
     (let al = Amode (r15_thread A) None 0 (of_nat (allocated_bytes_offset E))
      in [(case var of None \<Rightarrow> Addq_mem_imm al con | Some v \<Rightarrow> Addq_mem al v),
          Addq_mem_imm al (ucast (extra_header E))])"

definition vo_enabled :: "alloc_env \<Rightarrow> bool" where
  "vo_enabled E \<longleftrightarrow> MMTK_ENABLE_VO_BIT E \<or> tag (default_selector E) = TAG_MARK_COMPACT"

definition eden_vo :: "abi \<Rightarrow> alloc_env \<Rightarrow> reg \<Rightarrow> instr list" where
  "eden_vo A E obj = (if vo_enabled E then vo_bit_code A E obj else [])"

abbreviation const_too_big :: "alloc_env \<Rightarrow> reg option \<Rightarrow> 32 word \<Rightarrow> bool" where
  "const_too_big E var con \<equiv>
     var = None \<and> max_non_los_default_alloc_bytes E - extra_header E < sx32 con"

lemma eden_allocate_code:
  assumes "eden_allocate A E thread obj var con t1 = Inr code"
    and "mmtk_enable_allocation_fastpath E" and "\<not> no_fastpath_tag E"
    and "get_tlab_top_and_end_offsets (third_party_heap_mutator_offset E) (default_selector E) = Inr ofs"
  shows "obj \<noteq> t1" and "var \<notin> {Some obj, Some t1}"
    and "const_too_big E var con \<Longrightarrow> code = [Jmp L_slow_case]"
    and "\<not> const_too_big E var con \<Longrightarrow> vo_enabled E \<longrightarrow> distinct [obj, rscratch1 A, RDI, RCX]"
    and "\<not> const_too_big E var con \<Longrightarrow> code = eden_size_check E var
        @ eden_bump_code A E ofs obj var con t1
        @ eden_vo A E obj @ eden_account A E var con"
  using assms
  by (auto simp: eden_allocate_def eden_vo_def vo_enabled_def eden_bump_code_def eden_size_check_def eden_account_def Let_def
      split: if_splits option.splits)

lemma skip_to_slow_case:
  "exec M (eden_bump_code A E ofs obj var con t1) (Some L_slow_case) s = Goto L_slow_case s"
  "exec M (eden_vo A E obj) (Some L_slow_case) s = Goto L_slow_case s"
  "exec M (eden_account A E var con) (Some L_slow_case) s = Goto L_slow_case s"
  by (auto intro!: exec_skip simp: eden_bump_code_def eden_vo_def vo_bit_code_def eden_account_def Let_def
      split: option.splits if_splits)

lemma eden_vo_exec:
  fixes M E defines "A \<equiv> m_abi M"
  assumes "vo_enabled E \<longrightarrow> distinct [obj, rscratch1 A, RDI, RCX]"
  shows "\<exists>s'. exec M (eden_vo A E obj) None s = Done s'
     \<and> mem_of s' = (if vo_enabled E then set_meta_bit (VO_BIT_BASE_ADDRESS E) (mem_of s) (regs s obj)
                    else mem_of s)
     \<and> frames s' = frames s
     \<and> (\<forall>r. vo_enabled E \<and> r \<in> {RDI, RCX, rscratch1 A} \<or> regs s' r = regs s r)"
  using assms vo_bit_code_exec[of obj M E s] by (cases "vo_enabled E") (auto simp: eden_vo_def)

lemma eden_size_check_exec:
  assumes "eden_operands_ok A E obj var t1" and "\<not> const_too_big E var con"
  shows "\<exists>c. exec M (eden_size_check E var) None s =
     (if eden_too_big E (regs s) var con then Goto L_slow_case (s\<lparr>compared := c\<rparr>)
      else Done (s\<lparr>compared := c\<rparr>))"
  using assms
  by (cases var)
    (auto simp: eden_size_check_def eden_too_big_def eden_operands_ok_def intro: exI[of _ "compared s"])

lemma eden_account_exec:
  fixes M s E defines "A \<equiv> m_abi M"
    and "al \<equiv> regs s (r15_thread (m_abi M)) + of_nat (allocated_bytes_offset E)"
  assumes "eden_operands_ok A E obj var t1"
  shows "\<exists>s'. exec M (eden_account A E var con) None s = Done s'
     \<and> regs s' = regs s \<and> frames s' = frames s
     \<and> mem_of s' = (let m3 = store64 (mem_of s) al (load64 (mem_of s) al + alloc_size (regs s) var con)
                    in store64 m3 al (load64 m3 al + extra_header E))"
  using assms
  by (cases var)
    (auto simp: eden_account_def asm_simps ea_def alloc_size_def eden_operands_ok_def Let_def)

text \<open>After the cursor has been moved to \<open>end'\<close>: valid-object bit and accounting.\<close>

lemma eden_tail_exec:
  fixes M s s1 defines "A \<equiv> m_abi M" and "th \<equiv> regs s (r15_thread (m_abi M))"
  assumes ok: "eden_operands_ok A E obj var t1" "var \<notin> {Some obj, Some t1}"
    and dist: "vo_enabled E \<longrightarrow> distinct [obj, rscratch1 A, RDI, RCX]"
    and s1: "mem_of s1 = store64 (mem_of s) (th + of_nat (tlab_top_offset ofs)) end'"
      "regs s1 obj = ob" "\<forall>r. r \<notin> {obj, t1} \<longrightarrow> regs s1 r = regs s r"
  shows "\<exists>s'. exec M (eden_vo A E obj @ eden_account A E var con)
            None s1 = Done s'
     \<and> regs s' obj = ob \<and> frames s' = frames s1
     \<and> mem_of s' = eden_memory E ofs th ob end' (alloc_size (regs s) var con) (mem_of s)
     \<and> (\<forall>r. r \<notin> {obj, t1, RDI, RCX, rscratch1 A} \<longrightarrow> regs s' r = regs s r)"
proof -
  obtain s2 where s2: "exec M (eden_vo A E obj) None s1 = Done s2"
      "mem_of s2 = (if vo_enabled E then set_meta_bit (VO_BIT_BASE_ADDRESS E) (mem_of s1) ob else mem_of s1)"
      "frames s2 = frames s1"
      "\<forall>r. vo_enabled E \<and> r \<in> {RDI, RCX, rscratch1 A} \<or> regs s2 r = regs s1 r"
    using eden_vo_exec[OF dist[unfolded A_def], where s = s1] s1(2) unfolding A_def by auto
  have kept: "regs s2 r = regs s1 r" if "vo_enabled E \<Longrightarrow> r \<notin> {RDI, RCX, rscratch1 A}" for r
    using s2(4) that by blast
  have "regs s2 obj = ob" using kept[of obj] dist s1(2) by simp
  moreover have "regs s2 (r15_thread A) = th"
    using kept[of "r15_thread A"] ok(1) s1(3) by (simp add: A_def th_def eden_operands_ok_def)
  moreover have "alloc_size (regs s2) var con = alloc_size (regs s) var con"
  proof (cases var)
    case (Some v)
    then have "regs s2 v = regs s1 v" "regs s1 v = regs s v"
      using kept[of v] ok s1(3) by (auto simp: eden_operands_ok_def vo_enabled_def)
    with Some show ?thesis by (simp add: alloc_size_def)
  qed (simp add: alloc_size_def)
  ultimately have regs2: "regs s2 obj = ob" "regs s2 (r15_thread A) = th"
      "alloc_size (regs s2) var con = alloc_size (regs s) var con" .
  obtain s3 where "exec M (eden_account A E var con) None s2 = Done s3" "regs s3 = regs s2"
      "frames s3 = frames s2"
      "mem_of s3 = (let al = th + of_nat (allocated_bytes_offset E);
          m3 = store64 (mem_of s2) al (load64 (mem_of s2) al + alloc_size (regs s) var con)
        in store64 m3 al (load64 m3 al + extra_header E))"
    using eden_account_exec[OF ok(1)[unfolded A_def], where s = s2 and con = con] regs2
    by (auto simp: A_def Let_def)
  then show ?thesis
    using s1 s2 regs2 by (auto simp: exec_append eden_memory_def vo_enabled_def Let_def)
qed

section \<open>Properties of eden_allocate\<close>

text \<open>
  C20. The inline allocation code is the bump-pointer allocator, given operands it can handle: the
  thread register is none of \<^verbatim>\<open>obj\<close>, \<^verbatim>\<open>t1\<close>, \<^verbatim>\<open>rdi\<close>, \<^verbatim>\<open>rcx\<close> and the first scratch register; in a build
  that sets a valid-object bit the size is not in \<^verbatim>\<open>rdi\<close>, \<^verbatim>\<open>rcx\<close> or that scratch register, which the
  code's own assertions do not exclude (lemma \<open>eden_allocate_rcx_size_miscounted\<close> shows what happens
  then); and the size limit and the header fit 32-bit immediates. When \<^verbatim>\<open>eden_allocate\<close> emits a fast
  path, the emitted code then either leaves through \<^verbatim>\<open>slow_case\<close> with memory untouched (the size is over
  the limit, the end wraps around, or it passes the limit of the area), or falls through with the
  new object in \<^verbatim>\<open>obj\<close>, the cursor moved to its end, its valid-object bit set if the build has one
  and the thread's count of allocated bytes increased by size and header; the stack is balanced
  and only the object, end and three scratch registers change.
\<close>

theorem eden_allocate_correct:
  fixes M s defines "A \<equiv> m_abi M" and "th \<equiv> regs s (r15_thread (m_abi M))"
  assumes code: "eden_allocate A E thread obj var con t1 = Inr code"
    and fast: "mmtk_enable_allocation_fastpath E" "\<not> no_fastpath_tag E"
    and ofs: "get_tlab_top_and_end_offsets (third_party_heap_mutator_offset E) (default_selector E) = Inr ofs"
    and ok: "eden_operands_ok A E obj var t1"
  shows "case if eden_too_big E (regs s) var con then None
           else eden_fast_path (extra_header E) (load64 (mem_of s) (th + of_nat (tlab_top_offset ofs)))
                 (load64 (mem_of s) (th + of_nat (tlab_end_offset ofs))) (alloc_size (regs s) var con) of
      None \<Rightarrow> \<exists>s'. exec M code None s = Goto L_slow_case s' \<and> vm s' = vm s \<and> frames s' = frames s
         \<and> (\<forall>r. r \<notin> {obj, t1} \<longrightarrow> regs s' r = regs s r)
    | Some (ob, end') \<Rightarrow> \<exists>s'. exec M code None s = Done s' \<and> regs s' obj = ob \<and> frames s' = frames s
         \<and> mem_of s' = eden_memory E ofs th ob end' (alloc_size (regs s) var con) (mem_of s)
         \<and> (\<forall>r. r \<notin> {obj, t1, RDI, RCX, rscratch1 A} \<longrightarrow> regs s' r = regs s r)"
proof (cases "const_too_big E var con")
  case True
  then show ?thesis using eden_allocate_code(3)[OF code fast ofs] by (auto simp: eden_too_big_def)
next
  case False
  note form = eden_allocate_code[OF code fast ofs]
  note code_eq = form(5)[OF False]
  obtain c where check: "exec M (eden_size_check E var) None s =
     (if eden_too_big E (regs s) var con then Goto L_slow_case (s\<lparr>compared := c\<rparr>)
      else Done (s\<lparr>compared := c\<rparr>))"
    using eden_size_check_exec[OF ok False] by blast
  note bump = eden_bump_exec[OF ok[unfolded A_def] form(1,2), where s = "s\<lparr>compared := c\<rparr>"
      and ofs = ofs and con = con]
  show ?thesis
  proof (cases "if eden_too_big E (regs s) var con then None
        else eden_fast_path (extra_header E) (load64 (mem_of s) (th + of_nat (tlab_top_offset ofs)))
          (load64 (mem_of s) (th + of_nat (tlab_end_offset ofs))) (alloc_size (regs s) var con)")
    case None
    then show ?thesis
      using check bump
      by (auto simp: code_eq exec_append skip_to_slow_case th_def A_def split: if_splits)
  next
    case (Some p)
    obtain ob end' where p: "p = (ob, end')" by fastforce
    obtain s1 where s1: "exec M (eden_bump_code A E ofs obj var con t1) None (s\<lparr>compared := c\<rparr>) = Done s1"
        "mem_of s1 = store64 (mem_of s) (th + of_nat (tlab_top_offset ofs)) end'"
        "frames s1 = frames s" "regs s1 obj = ob" "\<forall>r. r \<notin> {obj, t1} \<longrightarrow> regs s1 r = regs s r"
      using bump Some p by (auto simp: th_def A_def split: if_splits)
    show ?thesis
      using eden_tail_exec[OF ok[unfolded A_def] form(2) form(4)[OF False, unfolded A_def]
          s1(2)[unfolded th_def] s1(4,5)] check s1 Some p
      by (auto simp: code_eq exec_append A_def th_def split: if_splits)
  qed
qed

text \<open>
  The instance: an Immix allocator with an empty area from \<open>0x40000000\<close> to \<open>0x40008000\<close>; the
  interpreter's \<^verbatim>\<open>new\<close> has the size in \<^verbatim>\<open>rdx\<close> and uses \<^verbatim>\<open>rbx\<close> as temporary.
\<close>

definition demo_alloc_env :: alloc_env where
  "demo_alloc_env = \<lparr>mmtk_enable_allocation_fastpath = True, max_non_los_default_alloc_bytes = 0x4000,
     MARK_COMPACT_HEADER_RESERVED_IN_BYTES = 8, default_selector = \<lparr>tag = 3, index = 0\<rparr>,
     MMTK_ENABLE_VO_BIT = True, VO_BIT_BASE_ADDRESS = 0x10000000,
     third_party_heap_mutator_offset = 0, allocated_bytes_offset = 0x600\<rparr>"

definition demo_area :: mem where
  "demo_area = store64 (store64 (\<lambda>a. 0) 0x7170 0x40000000) 0x7178 0x40008000"

definition demo_alloc_x86 :: "reg \<Rightarrow> x86" where
  "demo_alloc_x86 v =
     \<lparr>regs = (\<lambda>r. 0)(R15 := 0x7000, v := 64), compared = None, frames = [],
      parameters = (\<lambda>i. 0), vm = \<lparr>vm_state.mem = demo_area, calls = []\<rparr>\<rparr>"

lemma demo_area_loads: "load64 demo_area 0x7170 = 0x40000000" "load64 demo_area 0x7178 = 0x40008000"
    "load64 demo_area 0x7600 = 0"
proof -
  have "load64 (\<lambda>a. 0) 0x7600 = 0" by (simp add: load64_def load32_def)
  then show "load64 demo_area 0x7170 = 0x40000000" "load64 demo_area 0x7178 = 0x40008000"
    "load64 demo_area 0x7600 = 0"
    by (simp_all add: demo_area_def load64_store64_other load64_store64)
qed

lemma demo_offsets:
  "get_tlab_top_and_end_offsets (third_party_heap_mutator_offset demo_alloc_env)
     (default_selector demo_alloc_env) = Inr \<lparr>tlab_top_offset = 0x170, tlab_end_offset = 0x178\<rparr>"
  by (simp add: demo_alloc_env_def get_tlab_top_and_end_offsets_def tag_defs)

lemma demo_eden_code:
  "\<exists>code. eden_allocate sysv_abi demo_alloc_env R15 RAX (Some v) 0 RBX = Inr code" if "v \<notin> {RAX, RBX}"
  using that demo_offsets
  by (auto simp: eden_allocate_def demo_alloc_env_def no_fastpath_tag_def tag_defs sysv_abi_def Let_def)

theorem eden_allocate_correct_witness:
  "\<exists>code s'. eden_allocate sysv_abi demo_alloc_env R15 RAX (Some RDX) 0 RBX = Inr code
     \<and> exec demo_machine code None (demo_alloc_x86 RDX) = Done s' \<and> regs s' RAX = 0x40000000
     \<and> mem_of s' = eden_memory demo_alloc_env \<lparr>tlab_top_offset = 0x170, tlab_end_offset = 0x178\<rparr>
          0x7000 0x40000000 0x40000040 64 demo_area"
proof -
  obtain code where code: "eden_allocate sysv_abi demo_alloc_env R15 RAX (Some RDX) 0 RBX = Inr code"
    using demo_eden_code[of RDX] by auto
  have abi: "m_abi demo_machine = sysv_abi" by (simp add: demo_machine_def)
  have "mmtk_enable_allocation_fastpath demo_alloc_env" "\<not> no_fastpath_tag demo_alloc_env"
    "eden_operands_ok sysv_abi demo_alloc_env RAX (Some RDX) RBX"
    by (simp_all add: demo_alloc_env_def no_fastpath_tag_def tag_defs eden_operands_ok_def
        sysv_abi_def extra_header_def sx32_def)
  from eden_allocate_correct[where M = demo_machine, unfolded abi, OF code this(1,2) demo_offsets this(3),
      where s = "demo_alloc_x86 RDX"]
  show ?thesis using code
    by (auto simp: eden_fast_path_def eden_too_big_def alloc_size_def demo_alloc_x86_def demo_area_loads
        demo_alloc_env_def extra_header_def tag_defs sysv_abi_def)
qed

text \<open>
  The assertions of \<^verbatim>\<open>eden_allocate\<close> do not keep the size register from being overwritten. With
  the size in \<^verbatim>\<open>rcx\<close> they all hold, but the valid-object code reuses \<^verbatim>\<open>rcx\<close>, and the thread's count
  of allocated bytes grows by the base address of the valid-object table instead of the size.
\<close>

lemma eden_allocate_rcx_size_miscounted:
  "\<exists>code s'. eden_allocate sysv_abi demo_alloc_env R15 RAX (Some RCX) 0 RBX = Inr code
     \<and> exec demo_machine code None (demo_alloc_x86 RCX) = Done s' \<and> regs s' RAX = 0x40000000
     \<and> regs (demo_alloc_x86 RCX) RCX = 64
     \<and> load64 (mem_of s') 0x7600 = VO_BIT_BASE_ADDRESS demo_alloc_env"
proof -
  obtain code where code: "eden_allocate sysv_abi demo_alloc_env R15 RAX (Some RCX) 0 RBX = Inr code"
    using demo_eden_code[of RCX] by auto
  have code_eq: "code = eden_size_check demo_alloc_env (Some RCX)
      @ eden_bump_code sysv_abi demo_alloc_env \<lparr>tlab_top_offset = 0x170, tlab_end_offset = 0x178\<rparr> RAX (Some RCX) 0 RBX
      @ vo_bit_code sysv_abi demo_alloc_env RAX @ eden_account sysv_abi demo_alloc_env (Some RCX) 0"
    using eden_allocate_code(5)[OF code _ _ demo_offsets]
    by (simp add: demo_alloc_env_def no_fastpath_tag_def tag_defs eden_vo_def vo_enabled_def)
  have sx: "sx32 0x4000 = 0x4000" by (simp add: sx32_def)
  have "\<exists>s'. exec demo_machine code None (demo_alloc_x86 RCX) = Done s' \<and> regs s' RAX = 0x40000000
      \<and> load64 (mem_of s') 0x7600 = VO_BIT_BASE_ADDRESS demo_alloc_env"
    unfolding code_eq
    by (simp add: eden_size_check_def eden_bump_code_def vo_bit_code_def eden_account_def Let_def
        demo_alloc_env_def demo_alloc_x86_def extra_header_def tag_defs sysv_abi_def asm_simps ea_def
        sx demo_area_loads load64_store64 load64_store64_other load64_byte_update)
  with code show ?thesis by (auto simp: demo_alloc_x86_def)
qed


section \<open>Bump allocation in an area\<close>





lemma unat_plus_no_wrap: "unat (a :: 64 word) + unat b < 2 ^ 64 \<Longrightarrow> unat (a + b) = unat a + unat b"
  by (simp add: unat_word_ariths)




section \<open>Properties of the fast paths\<close>




text \<open>
  The fast path of C2 is the interpreter's with one word of the area left unused. When
  cursor, header and size do not wrap around, C2's fast path gives exactly the object and the new
  cursor that \<^verbatim>\<open>eden_allocate\<close> gives, except that it takes the slow path when the object would end
  exactly at the limit; and the nodes it emits for the valid-object bit set that object's bit.
\<close>

lemma c2_fast_path_agrees:
  assumes "unat cursor + unat extra + unat sz < 2 ^ 64"
  shows "c2_fast_path extra cursor limit sz =
      (if cursor + extra + sz = limit then None else eden_fast_path extra cursor limit sz)
    \<and> c2_set_vo_bit base m obj = set_meta_bit base m obj"
proof -
  have "\<not> cursor + extra + sz < cursor + extra"
    using assms unat_plus_no_wrap[of cursor extra] unat_plus_no_wrap[of "cursor + extra" sz]
    by (simp add: word_less_nat_alt)
  then show ?thesis
    by (auto simp: c2_fast_path_def eden_fast_path_def Let_def not_le not_less c2_set_vo_bit_eq)
qed

lemma c2_fast_path_agrees_instance:
  "c2_fast_path 0 0x40000000 0x40000040 64 = None
   \<and> eden_fast_path 0 0x40000000 0x40000040 64 = Some (0x40000000, 0x40000040)
   \<and> c2_fast_path 0 0x40000000 0x40000080 64 = Some (0x40000000, 0x40000040)"
proof -
  have "unat (0x40000000 :: addr) + unat (0 :: addr) + unat (64 :: addr) < 2 ^ 64" by simp
  from c2_fast_path_agrees[OF this, of "0x40000040"] c2_fast_path_agrees[OF this, of "0x40000080"]
  show ?thesis by (simp add: eden_fast_path_def)
qed

section \<open>Large objects\<close>

lemma expand_allocate_tests_var:
  assumes "expand_allocate_tests E d tv const_size = Inr (False, test)" and "const_size < 0"
  shows "test \<in> {Some (Size_test (max_non_los_default_alloc_bytes E - extra_header E)),
                  Some (Or_test (max_non_los_default_alloc_bytes E - extra_header E))}"
  using assms by (auto simp: expand_allocate_tests_def Let_def split: if_splits)

lemma expand_allocate_tests_const:
  assumes "expand_allocate_tests E d tv const_size = Inr (False, test)" and "0 \<le> const_size"
  shows "of_int const_size \<le> max_non_los_default_alloc_bytes E - extra_header E"
  using assms by (auto simp: expand_allocate_tests_def Let_def not_less split: if_splits)

lemma c2_size_test_holds:
  assumes "t = Size_test lim \<or> t = Or_test lim" and "unat lim \<le> unat sz" and "unat sz < 2 ^ 63"
  shows "c2_test_holds t initial sz"
proof -
  have "unat lim < 2 ^ 63" using assms(2,3) by linarith
  note sint_nonneg_64[OF this] sint_nonneg_64[OF assms(3)]
  then have "sint lim \<le> sint sz" using assms(2) by (simp only: of_nat_le_iff)
  then show ?thesis using assms(1) or_one_nonzero[of initial] by auto
qed

lemma eden_oversized_slow:
  assumes "max_non_los_default_alloc_bytes E - extra_header E < alloc_size (regs s) var con"
    and code: "eden_allocate (m_abi M) E thread obj var con t1 = Inr code"
    and ok: "eden_operands_ok (m_abi M) E obj var t1"
  shows "\<exists>s'. exec M code None s = Goto L_slow_case s' \<and> vm s' = vm s"
proof (cases "const_too_big E var con \<or> \<not> mmtk_enable_allocation_fastpath E")
  case True
  then show ?thesis
    using code by (auto simp: eden_allocate_def Let_def split: if_splits)
next
  case False
  then have big: "eden_too_big E (regs s) var con"
    using assms(1) by (auto simp: eden_too_big_def alloc_size_def split: option.splits)
  obtain rest where "code = eden_size_check E var @ rest" "Bind L_slow_case \<notin> set rest"
    using code False
    by (auto simp: eden_allocate_def eden_size_check_def vo_bit_code_def Let_def
        split: if_splits option.splits sum.splits)
  then show ?thesis
    using eden_size_check_exec[OF ok, of con M s] big False
    by (auto simp: exec_append exec_skip)
qed

lemma c2_oversized_slow:
  assumes lim: "max_non_los_default_alloc_bytes E - extra_header E < sz" "unat sz < 2 ^ 63"
    and c2: "const_size \<in> {-1, int (unat sz)}"
      "c2_allocate E d tv const_size th initial sz m = Inr r"
  shows "r = None"
proof (rule ccontr)
  let ?lim = "max_non_los_default_alloc_bytes E - extra_header E"
  assume "r \<noteq> None"
  then obtain test where test: "expand_allocate_tests E d tv const_size = Inr (False, test)"
      "\<not> (case test of None \<Rightarrow> False | Some t \<Rightarrow> c2_test_holds t initial sz)"
    using c2(2) by (auto simp: c2_allocate_def split: sum.splits prod.splits if_splits)
  show False
  proof (cases "const_size < 0")
    case True
    have "c2_test_holds t initial sz" if "t = Size_test ?lim \<or> t = Or_test ?lim" for t
      using c2_size_test_holds[OF that] lim by (simp add: word_less_nat_alt)
    then show False
      using expand_allocate_tests_var[OF test(1) True] test(2)
      by (auto simp del: c2_test_holds.simps)
  next
    case False
    then show False
      using expand_allocate_tests_const[OF test(1)] c2(1) lim by auto
  qed
qed

text \<open>
  No object above the limit is put into the default space. If the size is larger than
  \<^verbatim>\<open>max_non_los_default_alloc_bytes\<close>, then the code of \<^verbatim>\<open>eden_allocate\<close> leaves through \<^verbatim>\<open>slow_case\<close>,
  the code C2 expands makes the slow call (whether it knows the size or not), and the slow path
  \<^verbatim>\<open>MMTkMutatorContext::alloc\<close> asks mmtk-core for the large-object space.
\<close>

lemma oversized_goes_to_los:
  fixes E M s sz
  assumes max: "max_non_los_default_alloc_bytes E < sz" "unat sz < 2 ^ 63"
      "extra_header E \<le> max_non_los_default_alloc_bytes E" "max_non_los_default_alloc_bytes E \<noteq> 0"
    and eden: "eden_allocate (m_abi M) E thread obj var con t1 = Inr code"
      "eden_operands_ok (m_abi M) E obj var t1" "alloc_size (regs s) var con = sz"
    and c2: "const_size \<in> {-1, int (unat sz)}"
      "c2_allocate E d tv const_size th initial sz m = Inr r"
  shows "(\<exists>s'. exec M code None s = Goto L_slow_case s' \<and> vm s' = vm s)
     \<and> r = None
     \<and> MMTkMutatorContext_alloc core_alloc core_post_alloc E this sz allocator st =
         (let (ob, st1) = core_alloc this sz HeapWordSize 0 AllocatorLos st
          in Inr (ob, if ob \<noteq> NULL then core_post_alloc this ob sz AllocatorLos st1 else st1))"
proof (intro conjI)
  have lim: "max_non_los_default_alloc_bytes E - extra_header E < sz"
    using max(1,3) by (metis diff_le_eq le_less_trans word_sub_le)
  show "\<exists>s'. exec M code None s = Goto L_slow_case s' \<and> vm s' = vm s"
    using eden_oversized_slow[OF _ eden(1,2)] lim eden(3) by blast
  show "r = None" by (rule c2_oversized_slow[OF lim max(2) c2])
  show "MMTkMutatorContext_alloc core_alloc core_post_alloc E this sz allocator st =
         (let (ob, st1) = core_alloc this sz HeapWordSize 0 AllocatorLos st
          in Inr (ob, if ob \<noteq> NULL then core_post_alloc this ob sz AllocatorLos st1 else st1))"
    using less_imp_le[OF max(1)] max(4)
    by (simp add: MMTkMutatorContext_alloc_def Let_def split: prod.splits)
qed

lemma oversized_goes_to_los_instance:
  "\<exists>code s'. eden_allocate sysv_abi demo_alloc_env R15 RAX (Some RDX) 0 RBX = Inr code
     \<and> exec demo_machine code None
         (demo_alloc_x86 RDX\<lparr>regs := (\<lambda>r. 0)(R15 := 0x7000, RDX := 0x4001)\<rparr>) = Goto L_slow_case s'
     \<and> c2_allocate demo_alloc_env False (-1) (-1) 0x7000 0 0x4001 demo_area = Inr None
     \<and> MMTkMutatorContext_alloc (\<lambda>this bytes align offset a st. (0x50000000, (a, bytes) # st))
         (\<lambda>this ob bytes a st. st) demo_alloc_env 0x7000 0x4001 AllocatorDefault [] =
       Inr (0x50000000, [(AllocatorLos, 0x4001)])"
proof -
  obtain code where code: "eden_allocate (m_abi demo_machine) demo_alloc_env R15 RAX (Some RDX) 0 RBX = Inr code"
    using demo_eden_code[of RDX] by (auto simp: demo_machine_def)
  have ok: "eden_operands_ok (m_abi demo_machine) demo_alloc_env RAX (Some RDX) RBX"
    by (simp add: demo_alloc_env_def tag_defs eden_operands_ok_def demo_machine_def
        sysv_abi_def extra_header_def sx32_def)
  have c2: "c2_allocate demo_alloc_env False (-1) (-1) 0x7000 0 0x4001 demo_area = Inr None"
    by (simp add: c2_allocate_def expand_allocate_tests_def demo_alloc_env_def extra_header_def
        no_fastpath_tag_def tag_defs)
  show ?thesis
    using oversized_goes_to_los[OF _ _ _ _ code ok _ _ c2,
        where s = "demo_alloc_x86 RDX\<lparr>regs := (\<lambda>r. 0)(R15 := 0x7000, RDX := 0x4001)\<rparr>"
          and core_alloc = "\<lambda>this bytes align offset a st. (0x50000000, (a, bytes) # st)"
          and core_post_alloc = "\<lambda>this ob bytes a st. st" and this = "0x7000"
          and allocator = AllocatorDefault and st = "[]"] code c2
    by (simp add: alloc_size_def demo_machine_def) (auto simp: demo_alloc_env_def extra_header_def tag_defs)
qed


text \<open>
  At exactly the limit the paths disagree. An object of exactly
  \<^verbatim>\<open>max_non_los_default_alloc_bytes\<close> is allocated in the default space by C2 code that knows the size
  at compile time, but C2 code that reads the size at run time takes the slow path, and the slow
  path puts the same object into the large-object space.
\<close>

lemma size_at_limit_depends_on_path:
  "(\<exists>m. c2_allocate demo_alloc_env False 0 0x4000 0x7000 0 0x4000 demo_area = Inr (Some (0x40000000, m)))
   \<and> c2_allocate demo_alloc_env False 0 (-1) 0x7000 0 0x4000 demo_area = Inr None
   \<and> max_non_los_default_alloc_bytes demo_alloc_env = 0x4000
   \<and> MMTkMutatorContext_alloc (\<lambda>this bytes align offset a st. (0x50000000, (a, bytes) # st))
        (\<lambda>this ob bytes a st. st) demo_alloc_env 0x7000 0x4000 AllocatorDefault [] =
      Inr (0x50000000, [(AllocatorLos, 0x4000)])"
proof -
  have ofs: "get_tlab_top_and_end_offsets 0 \<lparr>tag = 3, index = 0\<rparr> =
      Inr \<lparr>tlab_top_offset = 0x170, tlab_end_offset = 0x178\<rparr>"
    using demo_offsets by (simp add: demo_alloc_env_def)
  show ?thesis
    by (simp add: c2_allocate_def expand_allocate_tests_def demo_alloc_env_def extra_header_def
        no_fastpath_tag_def tag_defs ofs demo_area_loads c2_fast_path_def MMTkMutatorContext_alloc_def)
qed

text \<open>
  When expanding an allocation trips its own assertion. C2's expansion violates "arguments must
  be consistent" exactly when the initial slow test is the constant true while the size is not
  constant and a fast path would otherwise be possible: the size check then replaces a test that
  was already decided.
\<close>

lemma expand_allocate_inconsistent:
  "expand_allocate_tests E dtrace tv const_size = Inl (Assert_failed ''arguments must be consistent'')
   \<longleftrightarrow> tv = 1 \<and> const_size < 0 \<and> \<not> dtrace \<and> mmtk_enable_allocation_fastpath E
     \<and> \<not> no_fastpath_tag E \<and> max_non_los_default_alloc_bytes E \<noteq> 0"
  by (auto simp: expand_allocate_tests_def Let_def)

end
