(* ===== verification/Companion_Protocol.thy ===== *)
theory Companion_Protocol
  imports Prelude
begin

text \<open>
  The stop-the-world protocol of \<^verbatim>\<open>openjdk/mmtkVMCompanionThread.{hpp,cpp}\<close>: a GC thread requests
  that the world be stopped or resumed, the companion thread asks the VM thread to execute a
  blocking operation on its behalf, and the VM thread holds the world stopped until the GC thread
  requests that it be resumed. The three threads share two state variables under one monitor.

  The code of a thread between two points where it may block is one function on the shared state
  (the monitor is held throughout); the threads interleave through the step relation \<open>stw_step\<close>.
  A thread that waits on the monitor is in \<open>waiting\<close> until it is notified or wakes up spuriously,
  and has to take the monitor again before it goes on. \<^verbatim>\<open>VMThread::execute\<close> is HotSpot's: it queues
  the operation, the VM thread brings all Java threads to a safepoint, executes the operation,
  releases the Java threads and, some time later, unblocks the caller. An assertion that does not
  hold is recorded in \<open>failed\<close>; the assertions on the calling thread are recorded with the step that
  takes the monitor. The requests are made by one GC thread at a time: mmtk-core has a worker stop
  the mutators, then collects, then has a worker resume them, and \<open>GC_thread\<close> stands for that worker.
\<close>

section \<open>State\<close>

datatype stw_state = Threads_suspended | Threads_resumed

datatype thread_id = Companion | VM_thread | GC_thread | Java_thread

datatype companion_pc = C_enter | C_loop | C_wait | C_execute | C_blocked

datatype vm_pc = V_idle | V_enter | V_loop | V_wait | V_leave

text \<open>\<open>G_enter d w\<close> is about to call \<^verbatim>\<open>request(d, w)\<close>; \<open>G_requested d\<close> has returned without waiting.\<close>

datatype gc_pc = G_running | G_enter stw_state bool | G_loop stw_state | G_wait stw_state
  | G_requested stw_state | G_stopped

datatype vm_op = No_op | Queued | Executing | Finished

record stw =
  lock :: "thread_id option"
  desired_state :: stw_state
  reached_state :: stw_state
  waiting :: "thread_id set"
  cpc :: companion_pc
  vpc :: vm_pc
  gpc :: gc_pc
  op :: vm_op
  world_stopped :: bool
  failed :: "string option"

definition new_MMTkVMCompanionThread :: stw where
  "new_MMTkVMCompanionThread =
     \<lparr>lock = None, desired_state = Threads_resumed, reached_state = Threads_resumed, waiting = {},
      cpc = C_enter, vpc = V_idle, gpc = G_running, op = No_op, world_stopped = False, failed = None\<rparr>"

section \<open>The code between two blocking points\<close>

definition check :: "bool \<Rightarrow> string \<Rightarrow> stw \<Rightarrow> stw" where
  "check c msg s = (if c then s else s\<lparr>failed := Some msg\<rparr>)"

definition notify_all :: "stw \<Rightarrow> stw" where
  "notify_all s = s\<lparr>waiting := {}\<rparr>"

text \<open>\<^verbatim>\<open>run()\<close>: taking the monitor, and the loop that waits for a suspend request.\<close>

definition run_enter :: "stw \<Rightarrow> stw" where
  "run_enter s = check (reached_state s = Threads_resumed) ''Threads should be running at this moment.''
     (s\<lparr>lock := Some Companion, cpc := C_loop\<rparr>)"

definition run_loop :: "stw \<Rightarrow> stw" where
  "run_loop s =
     (if desired_state s \<noteq> Threads_suspended
      then s\<lparr>lock := None, waiting := insert Companion (waiting s), cpc := C_wait\<rparr>
      else check (reached_state s = Threads_resumed) ''Threads should still be running at this moment.''
             (s\<lparr>lock := None, cpc := C_execute\<rparr>))"

text \<open>
  \<^verbatim>\<open>request(d, wait_until_reached)\<close> and the loop it shares with \<^verbatim>\<open>wait_for_reached(d)\<close>; \<open>t\<close> is
  \<^verbatim>\<open>Thread::current()\<close>.
\<close>

definition check_gc_thread :: "string \<Rightarrow> thread_id \<Rightarrow> stw \<Rightarrow> stw" where
  "check_gc_thread msg t s =
     check (t \<noteq> Java_thread) (msg @ '' Found Java thread.'')
       (check (t \<noteq> Companion) (msg @ '' Found companion thread.'')
         (check (t \<noteq> VM_thread) (msg @ '' Found VM thread.'') s))"

definition after_request :: "stw_state \<Rightarrow> gc_pc" where
  "after_request d = (case d of Threads_suspended \<Rightarrow> G_stopped | Threads_resumed \<Rightarrow> G_running)"

definition request_enter :: "thread_id \<Rightarrow> stw_state \<Rightarrow> bool \<Rightarrow> stw \<Rightarrow> stw" where
  "request_enter t d wait_until_reached s =
     (let s0 = check_gc_thread ''Requests can only be made by GC threads.'' t s;
          s1 = check (desired_state s \<noteq> d) ''State already requested.'' s0;
          s2 = notify_all (s1\<lparr>desired_state := d\<rparr>)
      in if wait_until_reached then s2\<lparr>lock := Some t, gpc := G_loop d\<rparr>
         else s2\<lparr>lock := None, gpc := G_requested d\<rparr>)"

definition wait_for_reached_enter :: "thread_id \<Rightarrow> stw_state \<Rightarrow> stw \<Rightarrow> stw" where
  "wait_for_reached_enter t d s =
     check (desired_state s = d) ''State not requested.''
       ((check_gc_thread ''Supposed to be called by GC threads.'' t s)\<lparr>lock := Some t, gpc := G_loop d\<rparr>)"

definition request_loop :: "stw_state \<Rightarrow> stw \<Rightarrow> stw" where
  "request_loop d s =
     (if reached_state s \<noteq> d
      then s\<lparr>lock := None, waiting := insert GC_thread (waiting s), gpc := G_wait d\<rparr>
      else s\<lparr>lock := None, gpc := after_request d\<rparr>)"

text \<open>\<^verbatim>\<open>do_mmtk_stw_operation()\<close>.\<close>

definition do_mmtk_stw_operation_enter :: "thread_id \<Rightarrow> stw \<Rightarrow> stw" where
  "do_mmtk_stw_operation_enter t s =
     notify_all ((check (t = VM_thread) ''do_mmtk_stw_operation can only be executed by the VM thread'' s)
       \<lparr>lock := Some t, reached_state := Threads_suspended, vpc := V_loop\<rparr>)"

definition do_mmtk_stw_operation_loop :: "stw \<Rightarrow> stw" where
  "do_mmtk_stw_operation_loop s =
     (if desired_state s \<noteq> Threads_resumed
      then s\<lparr>lock := None, waiting := insert VM_thread (waiting s), vpc := V_wait\<rparr>
      else
        (let s1 = check (desired_state s = Threads_resumed) ''start-the-world should be requested.'' s;
             s2 = check (reached_state s = Threads_suspended)
                    ''Threads should still be suspended at this moment.'' s1
         in (notify_all (s2\<lparr>reached_state := Threads_resumed\<rparr>))\<lparr>lock := None, vpc := V_leave\<rparr>))"

section \<open>Interleaving\<close>

inductive stw_step :: "stw \<Rightarrow> stw \<Rightarrow> bool" where
  run_takes_lock: "cpc s = C_enter \<Longrightarrow> lock s = None \<Longrightarrow> stw_step s (run_enter s)"
| run_tests: "cpc s = C_loop \<Longrightarrow> stw_step s (run_loop s)"
| run_wakes: "cpc s = C_wait \<Longrightarrow> Companion \<notin> waiting s \<Longrightarrow> lock s = None \<Longrightarrow>
     stw_step s (s\<lparr>lock := Some Companion, cpc := C_loop\<rparr>)"
| run_executes: "cpc s = C_execute \<Longrightarrow> op s = No_op \<Longrightarrow>
     stw_step s (s\<lparr>op := Queued, cpc := C_blocked\<rparr>)"
| run_unblocked: "cpc s = C_blocked \<Longrightarrow> op s = Finished \<Longrightarrow>
     stw_step s (s\<lparr>op := No_op, cpc := C_enter\<rparr>)"
| safepoint_begins: "vpc s = V_idle \<Longrightarrow> op s = Queued \<Longrightarrow>
     stw_step s (s\<lparr>op := Executing, vpc := V_enter, world_stopped := True\<rparr>)"
| op_takes_lock: "vpc s = V_enter \<Longrightarrow> lock s = None \<Longrightarrow> stw_step s (do_mmtk_stw_operation_enter VM_thread s)"
| op_tests: "vpc s = V_loop \<Longrightarrow> stw_step s (do_mmtk_stw_operation_loop s)"
| op_wakes: "vpc s = V_wait \<Longrightarrow> VM_thread \<notin> waiting s \<Longrightarrow> lock s = None \<Longrightarrow>
     stw_step s (s\<lparr>lock := Some VM_thread, vpc := V_loop\<rparr>)"
| safepoint_ends: "vpc s = V_leave \<Longrightarrow>
     stw_step s (s\<lparr>op := Finished, vpc := V_idle, world_stopped := False\<rparr>)"
| stop_all_mutators: "gpc s = G_running \<Longrightarrow> stw_step s (s\<lparr>gpc := G_enter Threads_suspended w\<rparr>)"
| resume_mutators: "gpc s = G_stopped \<Longrightarrow> stw_step s (s\<lparr>gpc := G_enter Threads_resumed w\<rparr>)"
| request_takes_lock: "gpc s = G_enter d w \<Longrightarrow> lock s = None \<Longrightarrow> stw_step s (request_enter GC_thread d w s)"
| wait_for_reached_takes_lock: "gpc s = G_requested d \<Longrightarrow> lock s = None \<Longrightarrow>
     stw_step s (wait_for_reached_enter GC_thread d s)"
| request_tests: "gpc s = G_loop d \<Longrightarrow> stw_step s (request_loop d s)"
| request_wakes: "gpc s = G_wait d \<Longrightarrow> GC_thread \<notin> waiting s \<Longrightarrow> lock s = None \<Longrightarrow>
     stw_step s (s\<lparr>lock := Some GC_thread, gpc := G_loop d\<rparr>)"

inductive spurious_step :: "stw \<Rightarrow> stw \<Rightarrow> bool" where
  wakes_spuriously: "t \<in> waiting s \<Longrightarrow> spurious_step s (s\<lparr>waiting := waiting s - {t}\<rparr>)"

definition protocol_step :: "stw \<Rightarrow> stw \<Rightarrow> bool" where
  "protocol_step s t \<longleftrightarrow> stw_step s t \<or> spurious_step s t"

abbreviation protocol_reachable :: "stw \<Rightarrow> bool" where
  "protocol_reachable \<equiv> reachable (\<lambda>s. s = new_MMTkVMCompanionThread) protocol_step"

section \<open>The invariant\<close>

text \<open>
  \<open>wants_stop\<close>: the last request was to stop the world. \<open>stop_pending\<close>: that request has not been seen
  fulfilled yet. \<open>vm_in_op\<close>: the VM thread is between announcing that the world has stopped and
  announcing that it will resume.
\<close>

fun wants_stop :: "gc_pc \<Rightarrow> bool" where
  "wants_stop G_running = False"
| "wants_stop (G_enter d w) = (d = Threads_resumed)"
| "wants_stop (G_loop d) = (d = Threads_suspended)"
| "wants_stop (G_wait d) = (d = Threads_suspended)"
| "wants_stop (G_requested d) = (d = Threads_suspended)"
| "wants_stop G_stopped = True"

fun stop_pending :: "gc_pc \<Rightarrow> bool" where
  "stop_pending (G_loop d) = (d = Threads_suspended)"
| "stop_pending (G_wait d) = (d = Threads_suspended)"
| "stop_pending (G_requested d) = (d = Threads_suspended)"
| "stop_pending _ = False"

fun vm_in_op :: "vm_pc \<Rightarrow> bool" where
  "vm_in_op V_loop = True"
| "vm_in_op V_wait = True"
| "vm_in_op _ = False"

fun gc_in_loop :: "gc_pc \<Rightarrow> bool" where
  "gc_in_loop (G_loop _) = True"
| "gc_in_loop _ = False"

fun gc_may_wait :: "gc_pc \<Rightarrow> stw_state \<Rightarrow> bool" where
  "gc_may_wait (G_wait d) r = (r \<noteq> d)"
| "gc_may_wait _ _ = False"

fun resume_pending :: "gc_pc \<Rightarrow> bool" where
  "resume_pending (G_loop d) = (d = Threads_resumed)"
| "resume_pending (G_wait d) = (d = Threads_resumed)"
| "resume_pending (G_requested d) = (d = Threads_resumed)"
| "resume_pending _ = False"

text \<open>What the shared state variables say of the program counters.\<close>

definition states_inv :: "stw \<Rightarrow> bool" where
  "states_inv s \<longleftrightarrow>
     (desired_state s = Threads_suspended \<longleftrightarrow> wants_stop (gpc s))
   \<and> (reached_state s = Threads_suspended \<longleftrightarrow> vm_in_op (vpc s))
   \<and> (wants_stop (gpc s) \<longrightarrow> stop_pending (gpc s) \<or> vm_in_op (vpc s))
   \<and> (vm_in_op (vpc s) \<longrightarrow> wants_stop (gpc s) \<or> resume_pending (gpc s))
   \<and> (cpc s = C_execute \<or> op s = Queued \<or> vpc s = V_enter \<longrightarrow> stop_pending (gpc s))
   \<and> failed s = None"

text \<open>The VM operation: who waits for it and when the world is stopped.\<close>

definition op_inv :: "stw \<Rightarrow> bool" where
  "op_inv s \<longleftrightarrow>
     (cpc s = C_blocked \<longleftrightarrow> op s \<noteq> No_op)
   \<and> (op s = Executing \<longleftrightarrow> vpc s \<noteq> V_idle)
   \<and> (world_stopped s \<longleftrightarrow> vpc s \<noteq> V_idle)"

text \<open>The monitor: mutual exclusion, and a thread waits only while its condition is false.\<close>

definition monitor_inv :: "stw \<Rightarrow> bool" where
  "monitor_inv s \<longleftrightarrow>
     lock s \<noteq> Some Java_thread
   \<and> (lock s = Some Companion \<longleftrightarrow> cpc s = C_loop)
   \<and> (lock s = Some VM_thread \<longleftrightarrow> vpc s = V_loop)
   \<and> (lock s = Some GC_thread \<longleftrightarrow> gc_in_loop (gpc s))
   \<and> (Companion \<in> waiting s \<longrightarrow> cpc s = C_wait \<and> desired_state s = Threads_resumed)
   \<and> (VM_thread \<in> waiting s \<longrightarrow> vpc s = V_wait \<and> desired_state s = Threads_suspended)
   \<and> (GC_thread \<in> waiting s \<longrightarrow> gc_may_wait (gpc s) (reached_state s))"

definition stw_inv :: "stw \<Rightarrow> bool" where
  "stw_inv s \<longleftrightarrow> states_inv s \<and> op_inv s \<and> monitor_inv s"

lemmas stw_ops = check_def check_gc_thread_def notify_all_def run_enter_def run_loop_def after_request_def request_enter_def
  wait_for_reached_enter_def request_loop_def do_mmtk_stw_operation_enter_def
  do_mmtk_stw_operation_loop_def

lemma stw_inv_start: "stw_inv new_MMTkVMCompanionThread"
  by (simp add: stw_inv_def states_inv_def op_inv_def monitor_inv_def new_MMTkVMCompanionThread_def)

lemma stw_state_cases [simp]: "d \<noteq> Threads_suspended \<longleftrightarrow> d = Threads_resumed"
  by (cases d) auto

lemma stw_state_cases' [simp]: "d \<noteq> Threads_resumed \<longleftrightarrow> d = Threads_suspended"
  by (cases d) auto

lemma not_both_pending: "stop_pending g \<Longrightarrow> wants_stop g"
  by (cases g) auto

lemmas stw_inv_defs = stw_inv_def states_inv_def op_inv_def monitor_inv_def

lemma reached_resumed:
  assumes "stw_inv s" and "cpc s \<noteq> C_blocked"
  shows "reached_state s = Threads_resumed"
proof -
  have "\<not> vm_in_op (vpc s)" using assms by (cases "vpc s") (auto simp: stw_inv_def op_inv_def)
  then show ?thesis using assms by (simp add: stw_inv_def states_inv_def flip: stw_state_cases)
qed

lemma check_passes [simp]: "c \<Longrightarrow> check c msg s = s"
  by (simp add: check_def)

lemma check_gc_thread_passes [simp]: "check_gc_thread msg GC_thread s = s"
  by (simp add: check_gc_thread_def)

text \<open>A request by any other thread fails an assertion.\<close>

lemma request_by_other_thread_fails:
  assumes "t \<noteq> GC_thread"
  shows "failed (request_enter t d w s) \<noteq> None" and "failed (wait_for_reached_enter t d s) \<noteq> None"
  using assms by (cases t; simp add: stw_ops Let_def)+

lemma stw_inv_run_enter: "stw_inv s \<Longrightarrow> cpc s = C_enter \<Longrightarrow> lock s = None \<Longrightarrow> stw_inv (run_enter s)"
  by (simp add: run_enter_def reached_resumed) (auto simp: stw_inv_defs)

lemma stw_inv_run_loop: 
  assumes "stw_inv s" and "cpc s = C_loop" shows "stw_inv (run_loop s)"
proof -
  have r: "reached_state s = Threads_resumed" using assms by (simp add: reached_resumed)
  have l: "lock s = Some Companion" using assms by (simp add: stw_inv_def monitor_inv_def)
  show ?thesis
  proof (cases "desired_state s")
    case Threads_suspended
    then show ?thesis using assms r l by (auto simp: run_loop_def stw_inv_defs)
  next
    case Threads_resumed
    then show ?thesis using assms r l by (auto simp: run_loop_def stw_inv_defs)
  qed
qed

lemma stw_inv_run_wakes: "stw_inv s \<Longrightarrow> cpc s = C_wait \<Longrightarrow> Companion \<notin> waiting s \<Longrightarrow> lock s = None \<Longrightarrow> stw_inv (s\<lparr>lock := Some Companion, cpc := C_loop\<rparr>)"
  by (auto simp: stw_inv_defs stw_ops Let_def split: stw_state.splits dest: not_both_pending)

lemma stw_inv_run_executes: "stw_inv s \<Longrightarrow> cpc s = C_execute \<Longrightarrow> op s = No_op \<Longrightarrow> stw_inv (s\<lparr>op := Queued, cpc := C_blocked\<rparr>)"
  by (auto simp: stw_inv_defs stw_ops Let_def split: stw_state.splits dest: not_both_pending)

lemma stw_inv_run_unblocked: "stw_inv s \<Longrightarrow> cpc s = C_blocked \<Longrightarrow> op s = Finished \<Longrightarrow> stw_inv (s\<lparr>op := No_op, cpc := C_enter\<rparr>)"
  by (auto simp: stw_inv_defs stw_ops Let_def split: stw_state.splits dest: not_both_pending)

lemma stw_inv_safepoint_begins: "stw_inv s \<Longrightarrow> vpc s = V_idle \<Longrightarrow> op s = Queued \<Longrightarrow> stw_inv (s\<lparr>op := Executing, vpc := V_enter, world_stopped := True\<rparr>)"
  by (auto simp: stw_inv_defs stw_ops Let_def split: stw_state.splits dest: not_both_pending)

lemma stw_inv_op_enter: "stw_inv s \<Longrightarrow> vpc s = V_enter \<Longrightarrow> lock s = None \<Longrightarrow> stw_inv (do_mmtk_stw_operation_enter VM_thread s)"
  by (auto simp: stw_inv_defs stw_ops Let_def split: stw_state.splits dest: not_both_pending)

lemma stw_inv_op_loop:
  assumes "stw_inv s" and "vpc s = V_loop" shows "stw_inv (do_mmtk_stw_operation_loop s)"
proof -
  have r: "reached_state s = Threads_suspended" using assms by (simp add: stw_inv_def states_inv_def)
  have l: "lock s = Some VM_thread" using assms by (simp add: stw_inv_def monitor_inv_def)
  show ?thesis
  proof (cases "desired_state s")
    case Threads_suspended
    then show ?thesis using assms r l by (auto simp: do_mmtk_stw_operation_loop_def stw_inv_defs)
  next
    case Threads_resumed
    then show ?thesis using assms r l
      by (auto simp: do_mmtk_stw_operation_loop_def notify_all_def stw_inv_defs)
  qed
qed

lemma stw_inv_op_wakes: "stw_inv s \<Longrightarrow> vpc s = V_wait \<Longrightarrow> VM_thread \<notin> waiting s \<Longrightarrow> lock s = None \<Longrightarrow> stw_inv (s\<lparr>lock := Some VM_thread, vpc := V_loop\<rparr>)"
  by (auto simp: stw_inv_defs stw_ops Let_def split: stw_state.splits dest: not_both_pending)

lemma stw_inv_safepoint_ends: "stw_inv s \<Longrightarrow> vpc s = V_leave \<Longrightarrow> stw_inv (s\<lparr>op := Finished, vpc := V_idle, world_stopped := False\<rparr>)"
  by (auto simp: stw_inv_defs stw_ops Let_def split: stw_state.splits dest: not_both_pending)

lemma stw_inv_stop_all_mutators: "stw_inv s \<Longrightarrow> gpc s = G_running \<Longrightarrow> stw_inv (s\<lparr>gpc := G_enter Threads_suspended w\<rparr>)"
  by (auto simp: stw_inv_defs stw_ops Let_def split: stw_state.splits dest: not_both_pending)

lemma stw_inv_resume_mutators: "stw_inv s \<Longrightarrow> gpc s = G_stopped \<Longrightarrow> stw_inv (s\<lparr>gpc := G_enter Threads_resumed w\<rparr>)"
  by (auto simp: stw_inv_defs stw_ops Let_def split: stw_state.splits dest: not_both_pending)

lemma stw_inv_request_enter: "stw_inv s \<Longrightarrow> gpc s = G_enter d w \<Longrightarrow> lock s = None \<Longrightarrow> stw_inv (request_enter GC_thread d w s)"
  by (auto simp: stw_inv_defs stw_ops Let_def split: stw_state.splits dest: not_both_pending)

lemma stw_inv_wait_for_reached_enter: "stw_inv s \<Longrightarrow> gpc s = G_requested d \<Longrightarrow> lock s = None \<Longrightarrow> stw_inv (wait_for_reached_enter GC_thread d s)"
  by (auto simp: stw_inv_defs stw_ops Let_def split: stw_state.splits dest: not_both_pending)

lemma stw_inv_request_loop:
  assumes "stw_inv s" and "gpc s = G_loop d" shows "stw_inv (request_loop d s)"
proof -
  have l: "lock s = Some GC_thread" using assms by (simp add: stw_inv_def monitor_inv_def)
  show ?thesis
  proof (cases "reached_state s = d")
    case True
    then show ?thesis using assms l
      by (cases d) (auto simp: request_loop_def after_request_def stw_inv_defs)
  next
    case False
    then show ?thesis using assms l by (cases d) (auto simp: request_loop_def stw_inv_defs)
  qed
qed

lemma stw_inv_request_wakes: "stw_inv s \<Longrightarrow> gpc s = G_wait d \<Longrightarrow> GC_thread \<notin> waiting s \<Longrightarrow> lock s = None \<Longrightarrow> stw_inv (s\<lparr>lock := Some GC_thread, gpc := G_loop d\<rparr>)"
  by (auto simp: stw_inv_defs stw_ops Let_def split: stw_state.splits dest: not_both_pending)

lemma stw_inv_spurious: "stw_inv s \<Longrightarrow> spurious_step s t \<Longrightarrow> stw_inv t"
  by (erule spurious_step.cases) (simp add: stw_inv_defs)

lemmas stw_inv_ops = stw_inv_run_enter stw_inv_run_loop stw_inv_run_wakes stw_inv_run_executes
  stw_inv_run_unblocked stw_inv_safepoint_begins stw_inv_op_enter stw_inv_op_loop stw_inv_op_wakes
  stw_inv_safepoint_ends stw_inv_stop_all_mutators stw_inv_resume_mutators stw_inv_request_enter
  stw_inv_wait_for_reached_enter stw_inv_request_loop stw_inv_request_wakes

lemma stw_inv_step: "stw_step s t \<Longrightarrow> stw_inv s \<Longrightarrow> stw_inv t"
  by (induction rule: stw_step.induct) (simp_all add: stw_inv_ops)

interpretation stw: safety_system "\<lambda>s. s = new_MMTkVMCompanionThread" protocol_step stw_inv
  by unfold_locales (auto simp: protocol_step_def stw_inv_start intro: stw_inv_step stw_inv_spurious)

section \<open>Progress\<close>

text \<open>
  A request is pending from the call of \<^verbatim>\<open>request\<close> until the requested state is reached.
  \<open>stw_distance\<close> counts the steps that the companion thread and the VM thread have left to take in the
  direction of the desired state, and \<open>request_rank\<close> adds what the GC thread itself may do meanwhile: each
  step of the others may notify it, and then it takes the monitor and tests its condition once.
\<close>

fun request_pending :: "gc_pc \<Rightarrow> bool" where
  "request_pending G_running = False"
| "request_pending G_stopped = False"
| "request_pending _ = True"

definition stw_distance :: "stw \<Rightarrow> nat" where
  "stw_distance s = (case vpc s of
     V_leave \<Rightarrow> 11
   | V_enter \<Rightarrow> 5
   | V_loop \<Rightarrow> (if desired_state s = Threads_suspended then 3 else 12)
   | V_wait \<Rightarrow> (if VM_thread \<in> waiting s then 2 else if desired_state s = Threads_suspended then 4 else 13)
   | V_idle \<Rightarrow> (case op s of
       Finished \<Rightarrow> 10
     | Queued \<Rightarrow> 6
     | _ \<Rightarrow> (case cpc s of
         C_enter \<Rightarrow> 9
       | C_wait \<Rightarrow> (if Companion \<in> waiting s then 7 else 9)
       | C_loop \<Rightarrow> 8
       | C_execute \<Rightarrow> 7
       | C_blocked \<Rightarrow> 0)))"

definition request_rank :: "stw \<Rightarrow> nat" where
  "request_rank s = (case gpc s of
     G_enter _ _ \<Rightarrow> 64 + stw_distance s
   | G_requested _ \<Rightarrow> 4 * stw_distance s + 3
   | G_wait _ \<Rightarrow> 4 * stw_distance s + (if GC_thread \<in> waiting s then 0 else 2)
   | G_loop _ \<Rightarrow> 4 * stw_distance s + 1
   | _ \<Rightarrow> 0)"

lemma stw_distance_gc [simp]:
  "stw_distance (s\<lparr>lock := l, gpc := g\<rparr>) = stw_distance s" "stw_distance (check c msg s) = stw_distance s"
  "stw_distance (s\<lparr>lock := l, waiting := insert GC_thread (waiting s), gpc := g\<rparr>) = stw_distance s"
  by (simp_all add: stw_distance_def check_def split: vm_pc.split vm_op.split)

lemma stw_distance_le: "stw_distance s \<le> 13"
  by (simp add: stw_distance_def split: vm_pc.split vm_op.split companion_pc.split)

lemma request_rank_le: "request_rank s \<le> 77"
  using stw_distance_le[of s] by (simp add: request_rank_def split: gc_pc.split)

lemma rank_others:
  assumes "gpc t = gpc s" and "stw_distance t < stw_distance s" and "request_pending (gpc s)"
  shows "request_rank t < request_rank s"
  using assms by (cases "gpc s") (auto simp: request_rank_def)

text \<open>A step of the companion thread or of the VM thread leaves the GC thread where it is and gets closer.\<close>

lemma distance_run_enter:
  "stw_inv s \<Longrightarrow> cpc s = C_enter \<Longrightarrow> lock s = None \<Longrightarrow> stw_distance (run_enter s) < stw_distance s"
  by (simp add: run_enter_def reached_resumed)
    (auto simp: stw_distance_def stw_inv_def op_inv_def split: vm_pc.split vm_op.split)

lemma distance_run_loop:
  "stw_inv s \<Longrightarrow> cpc s = C_loop \<Longrightarrow> stw_distance (run_loop s) < stw_distance s"
  by (simp add: run_loop_def reached_resumed)
    (auto simp: stw_distance_def stw_inv_def op_inv_def split: vm_pc.split vm_op.split)

lemma distance_run_wakes:
  "stw_inv s \<Longrightarrow> cpc s = C_wait \<Longrightarrow> Companion \<notin> waiting s \<Longrightarrow>
   stw_distance (s\<lparr>lock := Some Companion, cpc := C_loop\<rparr>) < stw_distance s"
  by (auto simp: stw_distance_def stw_inv_def op_inv_def split: vm_pc.split vm_op.split)

lemma distance_run_executes:
  "stw_inv s \<Longrightarrow> cpc s = C_execute \<Longrightarrow> op s = No_op \<Longrightarrow>
   stw_distance (s\<lparr>op := Queued, cpc := C_blocked\<rparr>) < stw_distance s"
  by (auto simp: stw_distance_def stw_inv_def op_inv_def split: vm_pc.split)

lemma distance_run_unblocked:
  "stw_inv s \<Longrightarrow> cpc s = C_blocked \<Longrightarrow> op s = Finished \<Longrightarrow>
   stw_distance (s\<lparr>op := No_op, cpc := C_enter\<rparr>) < stw_distance s"
  by (auto simp: stw_distance_def stw_inv_def op_inv_def split: vm_pc.split)

lemma distance_op_enter:
  "stw_inv s \<Longrightarrow> vpc s = V_enter \<Longrightarrow> stw_distance (do_mmtk_stw_operation_enter VM_thread s) < stw_distance s"
  by (auto simp: stw_distance_def do_mmtk_stw_operation_enter_def notify_all_def stw_inv_def states_inv_def
      dest: not_both_pending)

lemma distance_op_loop:
  assumes "stw_inv s" and "vpc s = V_loop"
  shows "stw_distance (do_mmtk_stw_operation_loop s) < stw_distance s"
proof -
  have "reached_state s = Threads_suspended" using assms by (simp add: stw_inv_def states_inv_def)
  then show ?thesis using assms
    by (cases "desired_state s") (simp_all add: stw_distance_def do_mmtk_stw_operation_loop_def notify_all_def)
qed

lemma gpc_unchanged [simp]:
  "gpc (check c msg s) = gpc s" "gpc (run_enter s) = gpc s" "gpc (run_loop s) = gpc s"
  "gpc (do_mmtk_stw_operation_enter VM_thread s) = gpc s" "gpc (do_mmtk_stw_operation_loop s) = gpc s"
  by (simp_all add: stw_ops Let_def)

lemma request_rank_step:
  "stw_step s t \<Longrightarrow> stw_inv s \<Longrightarrow> request_pending (gpc s) \<Longrightarrow> request_pending (gpc t) \<Longrightarrow>
   request_rank t < request_rank s"
proof (induction rule: stw_step.induct)
  case (safepoint_begins s)
  then show ?case by (intro rank_others) (simp_all add: stw_distance_def)
next
  case (op_wakes s)
  then show ?case by (intro rank_others) (simp_all add: stw_distance_def)
next
  case (safepoint_ends s)
  then show ?case by (intro rank_others) (simp_all add: stw_distance_def)
next
  case (request_takes_lock s d w)
  have "stw_distance (request_enter GC_thread d w s) \<le> 13" by (rule stw_distance_le)
  then show ?case using request_takes_lock
    by (cases w) (simp_all add: request_rank_def request_enter_def check_gc_thread_def notify_all_def Let_def)
next
  case (wait_for_reached_takes_lock s d)
  then show ?case by (simp add: request_rank_def wait_for_reached_enter_def check_gc_thread_def)
next
  case (request_tests s d)
  then show ?case
    by (cases "reached_state s = d"; cases d)
      (auto simp: request_rank_def request_loop_def after_request_def)
next
  case (request_wakes s d)
  then show ?case by (simp add: request_rank_def)
qed (simp_all add: rank_others distance_run_enter distance_run_loop distance_run_wakes
    distance_run_executes distance_run_unblocked distance_op_enter distance_op_loop)

lemma monitor_free_or_step:
  assumes "stw_inv s" and "\<not> (\<exists>t. stw_step s t)"
  shows "lock s = None"
proof (rule ccontr)
  assume "lock s \<noteq> None"
  then obtain h where h: "lock s = Some h" by auto
  show False
  proof (cases h)
    case Companion
    then show False using assms h by (auto simp: stw_inv_def monitor_inv_def intro: run_tests)
  next
    case VM_thread
    then show False using assms h by (auto simp: stw_inv_def monitor_inv_def intro: op_tests)
  next
    case GC_thread
    then have "gc_in_loop (gpc s)" using assms h by (simp add: stw_inv_def monitor_inv_def)
    then show False using assms by (cases "gpc s") (auto intro: request_tests)
  next
    case Java_thread
    then show False using assms h by (simp add: stw_inv_def monitor_inv_def)
  qed
qed

lemma stop_not_stuck:
  assumes inv: "stw_inv s" and l: "lock s = None" and d: "desired_state s = Threads_suspended"
    and r: "reached_state s = Threads_resumed"
  shows "\<exists>t. stw_step s t"
proof (cases "vpc s")
  case V_idle
  show ?thesis
  proof (cases "op s")
    case No_op
    then show ?thesis using inv l d
      by (cases "cpc s")
        (auto simp: stw_inv_def op_inv_def monitor_inv_def
          intro: run_takes_lock run_tests run_wakes run_executes)
  next
    case Queued
    then show ?thesis using V_idle by (auto intro: safepoint_begins)
  next
    case Executing
    then show ?thesis using V_idle inv by (simp add: stw_inv_def op_inv_def)
  next
    case Finished
    then show ?thesis using inv by (auto simp: stw_inv_def op_inv_def intro: run_unblocked)
  qed
qed (use inv l r in \<open>auto simp: stw_inv_def states_inv_def intro: op_takes_lock safepoint_ends\<close>)

lemma resume_not_stuck:
  assumes inv: "stw_inv s" and l: "lock s = None" and d: "desired_state s = Threads_resumed"
    and r: "reached_state s = Threads_suspended"
  shows "\<exists>t. stw_step s t"
proof (cases "vpc s")
  case V_loop
  then show ?thesis by (auto intro: op_tests)
next
  case V_wait
  have "VM_thread \<notin> waiting s" using inv d by (auto simp: stw_inv_def monitor_inv_def)
  then show ?thesis using V_wait l by (auto intro: op_wakes)
qed (use inv r in \<open>auto simp: stw_inv_def states_inv_def\<close>)

lemma stw_not_stuck:
  assumes inv: "stw_inv s"
  shows "\<exists>t. stw_step s t"
proof (rule ccontr)
  assume stuck: "\<not> (\<exists>t. stw_step s t)"
  have l: "lock s = None" using monitor_free_or_step inv stuck by blast
  show False
  proof (cases "gpc s")
    case (G_wait d)
    have w: "GC_thread \<in> waiting s" using stuck G_wait l by (auto intro: request_wakes)
    then have "reached_state s \<noteq> d" using inv G_wait by (simp add: stw_inv_def monitor_inv_def)
    moreover have "desired_state s = d" using inv G_wait by (cases d) (auto simp: stw_inv_def states_inv_def)
    ultimately show False using stop_not_stuck resume_not_stuck inv l stuck by (cases d) auto
  qed (use stuck l in \<open>auto intro: stop_all_mutators request_takes_lock request_tests
        wait_for_reached_takes_lock resume_mutators\<close>)
qed

lemma pending_run_bounded:
  assumes "stw_inv (run 0)"
    and "\<And>i. i < n \<Longrightarrow> stw_step (run i) (run (Suc i))"
    and "\<And>i. i \<le> n \<Longrightarrow> request_pending (gpc (run i))"
  shows "stw_inv (run n) \<and> n + request_rank (run n) \<le> request_rank (run 0)"
  using assms
proof (induction n)
  case (Suc n)
  then have ih: "stw_inv (run n)" "n + request_rank (run n) \<le> request_rank (run 0)" by auto
  have "request_rank (run (Suc n)) < request_rank (run n)"
    using Suc.prems ih by (intro request_rank_step) auto
  then show ?case using ih Suc.prems stw_inv_step[of "run n" "run (Suc n)"] by auto
qed simp

section \<open>A collection that stops the world\<close>

text \<open>
  \<open>demo_waiting\<close>: the companion thread waited for a request, a GC thread made one and waits for it to be
  fulfilled. \<open>demo_stopped\<close>: the companion thread had the VM thread stop the world, and the GC thread has
  returned from its request.
\<close>

definition demo_waiting :: stw where
  "demo_waiting = request_loop Threads_suspended (request_enter GC_thread Threads_suspended True
     ((run_loop (run_enter new_MMTkVMCompanionThread))\<lparr>gpc := G_enter Threads_suspended True\<rparr>))"

definition demo_woken :: stw where
  "demo_woken = demo_waiting\<lparr>lock := Some Companion, cpc := C_loop\<rparr>"

definition demo_queued :: stw where
  "demo_queued = (run_loop demo_woken)\<lparr>op := Queued, cpc := C_blocked\<rparr>"

definition demo_suspended :: stw where
  "demo_suspended = do_mmtk_stw_operation_loop (do_mmtk_stw_operation_enter VM_thread
     (demo_queued\<lparr>op := Executing, vpc := V_enter, world_stopped := True\<rparr>))"

definition demo_stopped :: stw where
  "demo_stopped = request_loop Threads_suspended
     (demo_suspended\<lparr>lock := Some GC_thread, gpc := G_loop Threads_suspended\<rparr>)"

lemma stw_reach: "protocol_reachable s \<Longrightarrow> stw_step s t \<Longrightarrow> protocol_reachable t"
  by (erule reach_step) (simp add: protocol_step_def)

lemmas demo_defs = new_MMTkVMCompanionThread_def stw_ops Let_def demo_waiting_def demo_woken_def
  demo_queued_def demo_suspended_def demo_stopped_def

lemma demo_waiting_reachable: "protocol_reachable demo_waiting"
  unfolding demo_waiting_def
  by (intro stw_reach[OF _ request_tests] stw_reach[OF _ request_takes_lock] stw_reach[OF _ stop_all_mutators]
      stw_reach[OF _ run_tests] stw_reach[OF _ run_takes_lock] reach_start)
    (simp_all add: demo_defs)

lemma demo_woken_step: "stw_step demo_waiting demo_woken"
  unfolding demo_woken_def by (rule run_wakes) (simp_all add: demo_defs)

lemma demo_woken_tests: "stw_step demo_woken (run_loop demo_woken)"
  by (rule run_tests) (simp add: demo_woken_def)

lemma demo_queued_reachable: "protocol_reachable demo_queued"
  unfolding demo_queued_def
  by (rule stw_reach[OF stw_reach[OF stw_reach[OF demo_waiting_reachable demo_woken_step] demo_woken_tests]
        run_executes])
    (simp_all add: demo_defs)

lemma demo_suspended_reachable: "protocol_reachable demo_suspended"
  unfolding demo_suspended_def
  by (intro stw_reach[OF _ op_tests] stw_reach[OF _ op_takes_lock]
      stw_reach[OF demo_queued_reachable safepoint_begins])
    (simp_all add: demo_defs)

lemma demo_stopped_reachable: "protocol_reachable demo_stopped"
  unfolding demo_stopped_def
  by (intro stw_reach[OF _ request_tests] stw_reach[OF demo_suspended_reachable request_wakes])
    (simp_all add: demo_defs)

section \<open>Properties\<close>

text \<open>
  C24. None of the assertions of the protocol ever fails: in every reachable interleaving, with spurious wake-ups, no
  request asks for the state already desired, the companion thread finds the threads running before and after
  its wait, and the VM thread finds them suspended when it resumes them.
\<close>

theorem stw_assertions_hold:
  assumes "protocol_reachable s"
  shows "failed s = None"
  using stw.reachable_inv[OF assms] by (simp add: stw_inv_def states_inv_def)

theorem stw_assertions_hold_witness: "failed demo_stopped = None"
  using stw_assertions_hold[OF demo_stopped_reachable] .

text \<open>
  C4. Safety of stop-the-world: from the return of \<^verbatim>\<open>request(_threads_suspended, ...)\<close> (or of the following
  \<^verbatim>\<open>wait_for_reached\<close>) until the GC thread takes the monitor to request the opposite state, the world is stopped, the VM
  thread is inside \<^verbatim>\<open>do_mmtk_stw_operation\<close> and the companion thread is blocked in \<^verbatim>\<open>VMThread::execute\<close>.
\<close>

theorem world_stopped_during_gc:
  assumes "protocol_reachable s" and "gpc s = G_stopped \<or> gpc s = G_enter Threads_resumed w"
  shows "world_stopped s \<and> reached_state s = Threads_suspended \<and> vpc s \<in> {V_loop, V_wait} \<and> cpc s = C_blocked"
proof -
  have inv: "stw_inv s" using stw.reachable_inv[OF assms(1)] .
  then have v: "vm_in_op (vpc s)" using assms(2) by (auto simp: stw_inv_def states_inv_def)
  then have "vpc s \<in> {V_loop, V_wait}" by (cases "vpc s") auto
  with inv v show ?thesis by (auto simp: stw_inv_def states_inv_def op_inv_def)
qed

theorem world_stopped_during_gc_witness:
  "gpc demo_stopped = G_stopped \<and> world_stopped demo_stopped \<and> reached_state demo_stopped = Threads_suspended"
proof -
  have g: "gpc demo_stopped = G_stopped" by (simp add: demo_defs)
  then show ?thesis using world_stopped_during_gc[OF demo_stopped_reachable] by blast
qed

text \<open>
  No wake-up is lost: a thread sits in the monitor's wait set only while the condition of its loop is
  false, so the notification that its condition became true has always reached it.
\<close>

lemma no_lost_wakeup:
  assumes "protocol_reachable s"
  shows "(Companion \<in> waiting s \<longrightarrow> desired_state s \<noteq> Threads_suspended)
       \<and> (VM_thread \<in> waiting s \<longrightarrow> desired_state s \<noteq> Threads_resumed)
       \<and> (GC_thread \<in> waiting s \<longrightarrow> (\<exists>d. gpc s = G_wait d \<and> reached_state s \<noteq> d))"
proof -
  have inv: "monitor_inv s" using stw.reachable_inv[OF assms] by (simp add: stw_inv_def)
  have "\<exists>d. gpc s = G_wait d \<and> reached_state s \<noteq> d" if "GC_thread \<in> waiting s"
    using inv that by (cases "gpc s") (auto simp: monitor_inv_def)
  with inv show ?thesis by (auto simp: monitor_inv_def)
qed

lemma no_lost_wakeup_instance:
  "GC_thread \<in> waiting demo_waiting \<and> (\<exists>d. gpc demo_waiting = G_wait d \<and> reached_state demo_waiting \<noteq> d)"
proof -
  have "GC_thread \<in> waiting demo_waiting" by (simp add: demo_defs)
  then show ?thesis using no_lost_wakeup[OF demo_waiting_reachable] by blast
qed

text \<open>
  C7. Every request is fulfilled: while a request is pending some thread can take a step, and no sequence of
  steps (wake-ups without notification aside) leaves the request pending for more than 77 steps; so the GC
  thread returns from \<^verbatim>\<open>request\<close> or \<^verbatim>\<open>wait_for_reached\<close>, whatever the scheduling.
\<close>

theorem request_completes:
  assumes "protocol_reachable s" and "request_pending (gpc s)"
  shows "(\<exists>t. stw_step s t)
       \<and> (run 0 = s \<and> (\<forall>i<n. stw_step (run i) (run (Suc i))) \<and> (\<forall>i\<le>n. request_pending (gpc (run i)))
          \<longrightarrow> n \<le> 77)"
proof -
  have inv: "stw_inv s" using stw.reachable_inv[OF assms(1)] .
  have "n \<le> 77" if "run 0 = s" "\<forall>i<n. stw_step (run i) (run (Suc i))" "\<forall>i\<le>n. request_pending (gpc (run i))"
  proof -
    have "n + request_rank (run n) \<le> request_rank (run 0)" using pending_run_bounded[of run n] inv that by simp
    then show ?thesis using request_rank_le[of "run 0"] by linarith
  qed
  with stw_not_stuck[OF inv] show ?thesis by blast
qed

theorem request_completes_witness:
  "request_pending (gpc demo_waiting) \<and> (\<exists>t. stw_step demo_waiting t)
   \<and> stw_step demo_waiting demo_woken \<and> request_pending (gpc demo_woken) \<and> (1 :: nat) \<le> 77"
proof -
  have p: "request_pending (gpc demo_waiting)" "request_pending (gpc demo_woken)" by (simp_all add: demo_defs)
  have "\<forall>i<1. stw_step (if i = 0 then demo_waiting else demo_woken) (if Suc i = 0 then demo_waiting else demo_woken)"
    using demo_woken_step by simp
  then show ?thesis
    using request_completes[OF demo_waiting_reachable p(1), of "\<lambda>i. if i = 0 then demo_waiting else demo_woken" 1]
      p demo_woken_step by simp
qed

end
