(* ===== verification/Block_For_GC.thy ===== *)
theory Block_For_GC
  imports Prelude
begin

text \<open>
  Mutators that block for a collection (\<^verbatim>\<open>openjdk/mmtkUpcalls.cpp\<close>): \<^verbatim>\<open>mmtk_block_for_gc\<close> reads the start-the-world
  counter, enters a safepoint state and waits on \<^verbatim>\<open>gc_lock\<close> until the counter has grown;
  \<^verbatim>\<open>mmtk_resume_mutators\<close> increments the counter, lets the mutators run again and notifies \<^verbatim>\<open>gc_lock\<close>.

  The mutators are a list of program counters. The counter is the 64-bit word of the code; \<open>completed\<close> is a
  ghost variable that counts the collections without a bound, and a mutator's program counter carries
  its value at the time when the mutator read the counter. A collection stops the world only when
  every mutator is at a safepoint or blocked, and starts only when it was requested; mmtk-core requests it
  before it calls \<^verbatim>\<open>block_for_gc\<close> and forgets the request when the mutators have stopped. The stop and the resumption
  of the world are single steps here; theory \<open>Companion_Protocol\<close> has their implementation.
\<close>

section \<open>State\<close>

datatype mutator_pc =
    M_running
  | M_safepoint
  | M_triggered
  | M_read "64 word" nat
  | M_blocked "64 word" nat
  | M_loop "64 word" nat
  | M_wait "64 word" nat
  | M_leaving "64 word" nat

datatype resume_pc = GC_idle | GC_stopped | GC_resuming | GC_resumed | GC_locked

datatype holder = Mutator nat | GC

record world =
  start_the_world_count :: "64 word"
  gc_lock :: "holder option"
  gc_lock_waiters :: "nat set"
  mutators :: "mutator_pc list"
  gc :: resume_pc
  gc_requested :: bool
  completed :: nat

definition start_world :: "nat \<Rightarrow> world" where
  "start_world n = \<lparr>start_the_world_count = 0, gc_lock = None, gc_lock_waiters = {}, mutators = replicate n M_running,
     gc = GC_idle, gc_requested = False, completed = 0\<rparr>"

definition world_is_stopped :: "resume_pc \<Rightarrow> bool" where
  "world_is_stopped g \<longleftrightarrow> g = GC_stopped \<or> g = GC_resuming"

fun at_safepoint :: "mutator_pc \<Rightarrow> bool" where
  "at_safepoint M_running = False"
| "at_safepoint M_triggered = False"
| "at_safepoint (M_read _ _) = False"
| "at_safepoint _ = True"

section \<open>Steps\<close>

definition set_pc :: "nat \<Rightarrow> mutator_pc \<Rightarrow> world \<Rightarrow> world" where
  "set_pc i pc w = w\<lparr>mutators := (mutators w)[i := pc]\<rparr>"

text \<open>\<^verbatim>\<open>mmtk_block_for_gc\<close>: reading the counter, and the test of the loop with \<^verbatim>\<open>gc_lock\<close> held.\<close>

definition block_for_gc_read :: "nat \<Rightarrow> world \<Rightarrow> world" where
  "block_for_gc_read i w =
     (let my_count = start_the_world_count w; next_count = my_count + 1
      in set_pc i (M_read next_count (completed w)) w)"

definition block_for_gc_test :: "nat \<Rightarrow> 64 word \<Rightarrow> nat \<Rightarrow> world \<Rightarrow> world" where
  "block_for_gc_test i next_count e w =
     (if start_the_world_count w < next_count
      then set_pc i (M_wait next_count e) (w\<lparr>gc_lock := None, gc_lock_waiters := insert i (gc_lock_waiters w)\<rparr>)
      else set_pc i (M_leaving next_count e) (w\<lparr>gc_lock := None\<rparr>))"

text \<open>\<^verbatim>\<open>mmtk_resume_mutators\<close>: the increment and the notification.\<close>

definition resume_increment :: "world \<Rightarrow> world" where
  "resume_increment w = w\<lparr>gc := GC_resuming, start_the_world_count := start_the_world_count w + 1,
     completed := completed w + 1\<rparr>"

definition resume_notify :: "world \<Rightarrow> world" where
  "resume_notify w = w\<lparr>gc := GC_idle, gc_lock := None, gc_lock_waiters := {}\<rparr>"

inductive block_step :: "world \<Rightarrow> world \<Rightarrow> bool" where
  trigger: "i < length (mutators w) \<Longrightarrow> mutators w ! i = M_running \<Longrightarrow>
     block_step w (set_pc i M_triggered (w\<lparr>gc_requested := True\<rparr>))"
| read: "i < length (mutators w) \<Longrightarrow> mutators w ! i = M_triggered \<Longrightarrow> block_step w (block_for_gc_read i w)"
| enter_safepoint: "i < length (mutators w) \<Longrightarrow> mutators w ! i = M_read n e \<Longrightarrow>
     block_step w (set_pc i (M_blocked n e) w)"
| take_lock: "i < length (mutators w) \<Longrightarrow> mutators w ! i = M_blocked n e \<Longrightarrow> gc_lock w = None \<Longrightarrow>
     block_step w (set_pc i (M_loop n e) (w\<lparr>gc_lock := Some (Mutator i)\<rparr>))"
| test: "i < length (mutators w) \<Longrightarrow> mutators w ! i = M_loop n e \<Longrightarrow> block_step w (block_for_gc_test i n e w)"
| wake: "i < length (mutators w) \<Longrightarrow> mutators w ! i = M_wait n e \<Longrightarrow> i \<notin> gc_lock_waiters w \<Longrightarrow> gc_lock w = None \<Longrightarrow>
     block_step w (set_pc i (M_loop n e) (w\<lparr>gc_lock := Some (Mutator i)\<rparr>))"
| spurious: "block_step w (w\<lparr>gc_lock_waiters := gc_lock_waiters w - {i}\<rparr>)"
| leave_safepoint: "i < length (mutators w) \<Longrightarrow> mutators w ! i = M_leaving n e \<Longrightarrow> \<not> world_is_stopped (gc w) \<Longrightarrow>
     block_step w (set_pc i M_running w)"
| reach_safepoint: "i < length (mutators w) \<Longrightarrow> mutators w ! i = M_running \<Longrightarrow> block_step w (set_pc i M_safepoint w)"
| resume_from_safepoint: "i < length (mutators w) \<Longrightarrow> mutators w ! i = M_safepoint \<Longrightarrow> \<not> world_is_stopped (gc w) \<Longrightarrow>
     block_step w (set_pc i M_running w)"
| gc_stop: "gc w = GC_idle \<Longrightarrow> gc_requested w \<Longrightarrow> list_all at_safepoint (mutators w) \<Longrightarrow>
     block_step w (w\<lparr>gc := GC_stopped, gc_requested := False\<rparr>)"
| gc_increment: "gc w = GC_stopped \<Longrightarrow> block_step w (resume_increment w)"
| gc_resume: "gc w = GC_resuming \<Longrightarrow> block_step w (w\<lparr>gc := GC_resumed\<rparr>)"
| gc_take_lock: "gc w = GC_resumed \<Longrightarrow> gc_lock w = None \<Longrightarrow> block_step w (w\<lparr>gc := GC_locked, gc_lock := Some GC\<rparr>)"
| gc_notify: "gc w = GC_locked \<Longrightarrow> block_step w (resume_notify w)"

section \<open>The invariant\<close>

definition notify_pending :: "resume_pc \<Rightarrow> bool" where
  "notify_pending g \<longleftrightarrow> g = GC_resuming \<or> g = GC_resumed \<or> g = GC_locked"

text \<open>A collection that will end after this moment has been requested or is under way.\<close>

definition gc_coming :: "world \<Rightarrow> bool" where
  "gc_coming w \<longleftrightarrow> gc_requested w \<or> gc w = GC_stopped"

definition next_ok :: "world \<Rightarrow> 64 word \<Rightarrow> nat \<Rightarrow> bool" where
  "next_ok w n e \<longleftrightarrow> n = of_nat (e + 1) \<and> e \<le> completed w \<and> (e = completed w \<longrightarrow> gc_coming w)"

fun pc_ok :: "world \<Rightarrow> nat \<Rightarrow> mutator_pc \<Rightarrow> bool" where
  "pc_ok w i M_running = (\<not> world_is_stopped (gc w))"
| "pc_ok w i M_safepoint = True"
| "pc_ok w i M_triggered = (\<not> world_is_stopped (gc w) \<and> gc_requested w)"
| "pc_ok w i (M_read n e) = (\<not> world_is_stopped (gc w) \<and> gc_requested w \<and> e = completed w \<and> n = of_nat (e + 1))"
| "pc_ok w i (M_blocked n e) = next_ok w n e"
| "pc_ok w i (M_loop n e) = (next_ok w n e \<and> gc_lock w = Some (Mutator i))"
| "pc_ok w i (M_wait n e) = (next_ok w n e \<and> (i \<in> gc_lock_waiters w \<longrightarrow> e = completed w \<or> notify_pending (gc w)))"
| "pc_ok w i (M_leaving n e) = (e < completed w)"

definition waiters_ok :: "nat set \<Rightarrow> mutator_pc list \<Rightarrow> bool" where
  "waiters_ok ws pcs \<longleftrightarrow> (\<forall>i \<in> ws. i < length pcs \<and> (\<exists>n e. pcs ! i = M_wait n e))"

definition block_core :: "world \<Rightarrow> bool" where
  "block_core w \<longleftrightarrow> (\<forall>i < length (mutators w). pc_ok w i (mutators w ! i))
     \<and> (gc_lock w = Some GC \<longleftrightarrow> gc w = GC_locked) \<and> waiters_ok (gc_lock_waiters w) (mutators w)"

definition block_inv :: "world \<Rightarrow> bool" where
  "block_inv w \<longleftrightarrow> start_the_world_count w = of_nat (completed w) \<and> (completed w < 2 ^ 64 - 1 \<longrightarrow> block_core w)"

lemma count_less_next:
  assumes "e \<le> c" and "c < 2 ^ 64 - 1"
  shows "(of_nat c :: 64 word) < of_nat (e + 1) \<longleftrightarrow> e = c"
proof -
  have "unat (of_nat c :: 64 word) = c" "unat (of_nat (e + 1) :: 64 word) = e + 1"
    using assms by (simp_all only: unsigned_of_nat take_bit_nat_eq_self_iff) (auto simp: take_bit_nat_eq_self_iff)
  then show ?thesis using assms(1) by (auto simp: word_less_nat_alt)
qed

lemma pc_ok_mutators [simp]: "pc_ok (w\<lparr>mutators := x\<rparr>) i pc = pc_ok w i pc"
  by (cases pc) (simp_all add: next_ok_def gc_coming_def)

lemma set_pc_simps [simp]:
  "mutators (set_pc i pc w) = (mutators w)[i := pc]" "gc_lock (set_pc i pc w) = gc_lock w" "gc (set_pc i pc w) = gc w"
  "gc_lock_waiters (set_pc i pc w) = gc_lock_waiters w" "completed (set_pc i pc w) = completed w"
  "start_the_world_count (set_pc i pc w) = start_the_world_count w"
  "pc_ok (set_pc i pc w) j pc' = pc_ok w j pc'"
  by (simp_all add: set_pc_def)

lemma core_set_pc:
  assumes "block_core w" and "mutators w' = mutators w" and "i < length (mutators w)"
    and "\<And>j. j < length (mutators w) \<Longrightarrow> j \<noteq> i \<Longrightarrow> pc_ok w j (mutators w ! j) \<Longrightarrow> pc_ok w' j (mutators w ! j)"
    and "pc_ok w' i pc" and "gc_lock w' = Some GC \<longleftrightarrow> gc w' = GC_locked"
    and "gc_lock_waiters w' \<subseteq> gc_lock_waiters w - {i} \<or> (\<exists>n e. pc = M_wait n e \<and> gc_lock_waiters w' \<subseteq> insert i (gc_lock_waiters w))"
  shows "block_core (set_pc i pc w')"
  using assms by (auto simp: block_core_def waiters_ok_def nth_list_update)

lemma not_waiting: "block_core w \<Longrightarrow> (\<And>n e. mutators w ! i \<noteq> M_wait n e) \<Longrightarrow> i \<notin> gc_lock_waiters w"
  unfolding block_core_def waiters_ok_def by blast

text \<open>A change of the lock is seen only by the mutator that holds it.\<close>

lemma pc_ok_lock:
  "pc_ok w j pc \<Longrightarrow> (\<forall>n e. pc \<noteq> M_loop n e) \<Longrightarrow> pc_ok (w\<lparr>gc_lock := l\<rparr>) j pc"
  by (cases pc) (simp_all add: next_ok_def gc_coming_def)

lemma pc_ok_requested: "pc_ok w j pc \<Longrightarrow> pc_ok (w\<lparr>gc_requested := True\<rparr>) j pc"
  by (cases pc) (simp_all add: next_ok_def gc_coming_def)

lemma pc_ok_waiters:
  "pc_ok w j pc \<Longrightarrow> j \<notin> ws \<or> j \<in> gc_lock_waiters w \<Longrightarrow> pc_ok (w\<lparr>gc_lock_waiters := ws\<rparr>) j pc"
  by (cases pc) (auto simp: next_ok_def gc_coming_def)

lemma loop_holds_lock: "block_core w \<Longrightarrow> j < length (mutators w) \<Longrightarrow> mutators w ! j = M_loop n e \<Longrightarrow> gc_lock w = Some (Mutator j)"
  by (auto simp: block_core_def)

lemma core_pc: "block_core w \<Longrightarrow> i < length (mutators w) \<Longrightarrow> mutators w ! i = pc \<Longrightarrow> pc_ok w i pc"
  by (auto simp: block_core_def)

lemma core_lock: "block_core w \<Longrightarrow> gc_lock w = Some GC \<longleftrightarrow> gc w = GC_locked"
  by (simp add: block_core_def)

lemma core_take_lock:
  assumes "block_core w" and "i < length (mutators w)" and "gc_lock w = None" and "next_ok w n e" and "i \<notin> gc_lock_waiters w"
  shows "block_core (set_pc i (M_loop n e) (w\<lparr>gc_lock := Some (Mutator i)\<rparr>))"
proof (rule core_set_pc[OF assms(1) _ assms(2)])
  fix j assume "j < length (mutators w)" "pc_ok w j (mutators w ! j)"
  then show "pc_ok (w\<lparr>gc_lock := Some (Mutator i)\<rparr>) j (mutators w ! j)"
    using loop_holds_lock[OF assms(1)] assms(3) by (intro pc_ok_lock) auto
qed (use assms core_lock[OF assms(1)] in \<open>auto simp: next_ok_def gc_coming_def\<close>)

lemma core_test:
  assumes "block_core w" and "i < length (mutators w)" and "mutators w ! i = M_loop n e"
    and "start_the_world_count w = of_nat (completed w)" and "completed w < 2 ^ 64 - 1"
  shows "block_core (block_for_gc_test i n e w)"
proof -
  have ok: "next_ok w n e" and l: "gc_lock w = Some (Mutator i)" using core_pc[OF assms(1-3)] by simp_all
  have lt: "start_the_world_count w < n \<longleftrightarrow> e = completed w"
    using ok count_less_next[of e "completed w"] assms(4,5) by (simp add: next_ok_def)
  have nw: "i \<notin> gc_lock_waiters w" using not_waiting[OF assms(1)] assms(3) by simp
  have others: "pc_ok (w\<lparr>gc_lock := None\<rparr>) j (mutators w ! j)"
    if "j < length (mutators w)" "j \<noteq> i" "pc_ok w j (mutators w ! j)" for j
    using that loop_holds_lock[OF assms(1), of j] l by (intro pc_ok_lock) auto
  show ?thesis
  proof (cases "e = completed w")
    case True
    have "pc_ok (w\<lparr>gc_lock := None, gc_lock_waiters := insert i (gc_lock_waiters w)\<rparr>) j (mutators w ! j)"
      if "j < length (mutators w)" "j \<noteq> i" "pc_ok w j (mutators w ! j)" for j
      using pc_ok_waiters[OF others[OF that]] that(2) by simp
    then show ?thesis using True lt ok l core_lock[OF assms(1)] unfolding block_for_gc_test_def
      by (simp, intro core_set_pc[OF assms(1) _ assms(2)]) (auto simp: next_ok_def gc_coming_def)
  next
    case False
    have "e < completed w" using False ok by (simp add: next_ok_def)
    then show ?thesis using False lt nw others l core_lock[OF assms(1)] unfolding block_for_gc_test_def
      by (simp, intro core_set_pc[OF assms(1) _ assms(2)]) auto
  qed
qed

lemma core_mutator_steps:
  assumes "block_core w" and "i < length (mutators w)"
  shows "mutators w ! i = M_running \<Longrightarrow> block_core (set_pc i M_triggered (w\<lparr>gc_requested := True\<rparr>))"
    and "mutators w ! i = M_triggered \<Longrightarrow> start_the_world_count w = of_nat (completed w) \<Longrightarrow> block_core (block_for_gc_read i w)"
    and "mutators w ! i = M_read n e \<Longrightarrow> block_core (set_pc i (M_blocked n e) w)"
    and "mutators w ! i = M_leaving n e \<or> mutators w ! i = M_safepoint \<Longrightarrow> \<not> world_is_stopped (gc w) \<Longrightarrow> block_core (set_pc i M_running w)"
    and "mutators w ! i = M_running \<Longrightarrow> block_core (set_pc i M_safepoint w)"
proof -
  have nw: "gc_lock_waiters w \<subseteq> gc_lock_waiters w - {i}" if "\<And>n e. mutators w ! i \<noteq> M_wait n e"
    using not_waiting[OF assms(1) that] by auto
  show "block_core (set_pc i M_triggered (w\<lparr>gc_requested := True\<rparr>))" if "mutators w ! i = M_running"
    by (rule core_set_pc[OF assms(1) _ assms(2)])
      (use that nw core_pc[OF assms] core_lock[OF assms(1)] in \<open>auto intro: pc_ok_requested\<close>)
  show "block_core (block_for_gc_read i w)" if "mutators w ! i = M_triggered" "start_the_world_count w = of_nat (completed w)"
    unfolding block_for_gc_read_def Let_def
    by (rule core_set_pc[OF assms(1) _ assms(2)])
      (use that nw core_pc[OF assms] core_lock[OF assms(1)] in \<open>auto simp: add.commute\<close>)
  show "block_core (set_pc i (M_blocked n e) w)" if "mutators w ! i = M_read n e"
    by (rule core_set_pc[OF assms(1) _ assms(2)])
      (use that nw core_pc[OF assms] core_lock[OF assms(1)] in \<open>auto simp: next_ok_def gc_coming_def\<close>)
  show "block_core (set_pc i M_running w)"
    if "mutators w ! i = M_leaving n e \<or> mutators w ! i = M_safepoint" "\<not> world_is_stopped (gc w)"
    by (rule core_set_pc[OF assms(1) _ assms(2)]) (use that nw core_lock[OF assms(1)] in auto)
  show "block_core (set_pc i M_safepoint w)" if "mutators w ! i = M_running"
    by (rule core_set_pc[OF assms(1) _ assms(2)]) (use that nw core_lock[OF assms(1)] in auto)
qed

text \<open>The steps of the GC thread.\<close>

lemma core_gc:
  assumes "block_core w" and "mutators w' = mutators w"
    and "\<And>j. j < length (mutators w) \<Longrightarrow> pc_ok w j (mutators w ! j) \<Longrightarrow> pc_ok w' j (mutators w ! j)"
    and "gc_lock w' = Some GC \<longleftrightarrow> gc w' = GC_locked" and "gc_lock_waiters w' \<subseteq> gc_lock_waiters w"
  shows "block_core w'"
  using assms by (auto simp: block_core_def waiters_ok_def)

lemma pc_ok_stop:
  "pc_ok w j pc \<Longrightarrow> at_safepoint pc \<Longrightarrow> gc w = GC_idle \<Longrightarrow> pc_ok (w\<lparr>gc := GC_stopped, gc_requested := False\<rparr>) j pc"
  by (cases pc) (auto simp: next_ok_def gc_coming_def notify_pending_def)

lemma pc_ok_increment:
  "pc_ok w j pc \<Longrightarrow> gc w = GC_stopped \<Longrightarrow> pc_ok (resume_increment w) j pc"
  by (cases pc) (auto simp: next_ok_def gc_coming_def notify_pending_def world_is_stopped_def resume_increment_def)

lemma pc_ok_resume: "pc_ok w j pc \<Longrightarrow> gc w = GC_resuming \<Longrightarrow> pc_ok (w\<lparr>gc := GC_resumed\<rparr>) j pc"
  by (cases pc) (auto simp: next_ok_def gc_coming_def notify_pending_def world_is_stopped_def)

lemma pc_ok_gc_lock:
  "pc_ok w j pc \<Longrightarrow> gc w = GC_resumed \<Longrightarrow> gc_lock w = None \<Longrightarrow> pc_ok (w\<lparr>gc := GC_locked, gc_lock := Some GC\<rparr>) j pc"
  by (cases pc) (auto simp: next_ok_def gc_coming_def notify_pending_def world_is_stopped_def)

lemma pc_ok_notify:
  "pc_ok w j pc \<Longrightarrow> gc w = GC_locked \<Longrightarrow> gc_lock w = Some GC \<or> (\<forall>n e. pc \<noteq> M_loop n e) \<Longrightarrow> pc_ok (resume_notify w) j pc"
  by (cases pc) (auto simp: next_ok_def gc_coming_def notify_pending_def world_is_stopped_def resume_notify_def)

lemma core_gc_steps:
  assumes "block_core w"
  shows "gc w = GC_idle \<Longrightarrow> list_all at_safepoint (mutators w) \<Longrightarrow> block_core (w\<lparr>gc := GC_stopped, gc_requested := False\<rparr>)"
    and "gc w = GC_stopped \<Longrightarrow> block_core (resume_increment w)"
    and "gc w = GC_resuming \<Longrightarrow> block_core (w\<lparr>gc := GC_resumed\<rparr>)"
    and "gc w = GC_resumed \<Longrightarrow> gc_lock w = None \<Longrightarrow> block_core (w\<lparr>gc := GC_locked, gc_lock := Some GC\<rparr>)"
    and "gc w = GC_locked \<Longrightarrow> block_core (resume_notify w)"
    and "block_core (w\<lparr>gc_lock_waiters := gc_lock_waiters w - {i}\<rparr>)"
proof -
  note l = core_lock[OF assms]
  show "block_core (w\<lparr>gc := GC_stopped, gc_requested := False\<rparr>)" if "gc w = GC_idle" "list_all at_safepoint (mutators w)"
    by (rule core_gc[OF assms]) (use that l pc_ok_stop in \<open>auto simp: list_all_length\<close>)
  show "block_core (resume_increment w)" if "gc w = GC_stopped"
    by (rule core_gc[OF assms]) (use that l pc_ok_increment in \<open>auto simp: resume_increment_def\<close>)
  show "block_core (w\<lparr>gc := GC_resumed\<rparr>)" if "gc w = GC_resuming"
    by (rule core_gc[OF assms]) (use that l pc_ok_resume in auto)
  show "block_core (w\<lparr>gc := GC_locked, gc_lock := Some GC\<rparr>)" if "gc w = GC_resumed" "gc_lock w = None"
    by (rule core_gc[OF assms]) (use that l pc_ok_gc_lock in auto)
  show "block_core (resume_notify w)" if "gc w = GC_locked"
    by (rule core_gc[OF assms]) (use that l pc_ok_notify in \<open>auto simp: resume_notify_def\<close>)
  show "block_core (w\<lparr>gc_lock_waiters := gc_lock_waiters w - {i}\<rparr>)"
    by (rule core_gc[OF assms]) (use l pc_ok_waiters in auto)
qed

lemma test_counts:
  "completed (block_for_gc_test i n e w) = completed w"
  "start_the_world_count (block_for_gc_test i n e w) = start_the_world_count w"
  by (simp_all add: block_for_gc_test_def)

lemma block_inv_start: "block_inv (start_world n)"
  by (simp add: block_inv_def block_core_def start_world_def waiters_ok_def world_is_stopped_def)

lemma block_inv_step: "block_step w w' \<Longrightarrow> block_inv w \<Longrightarrow> block_inv w'"
proof (induction rule: block_step.induct)
  case (take_lock i w n e)
  have "block_core (set_pc i (M_loop n e) (w\<lparr>gc_lock := Some (Mutator i)\<rparr>))" if "block_core w"
    using that take_lock core_pc[of w i] not_waiting[of w i] by (intro core_take_lock) auto
  then show ?case using take_lock.prems by (auto simp: block_inv_def)
next
  case (wake i w n e)
  have "block_core (set_pc i (M_loop n e) (w\<lparr>gc_lock := Some (Mutator i)\<rparr>))" if "block_core w"
    using that wake core_pc[of w i] by (intro core_take_lock) auto
  then show ?case using wake.prems by (auto simp: block_inv_def)
next
  case (gc_increment w)
  then show ?case using core_gc_steps(2)[of w] by (auto simp: block_inv_def resume_increment_def)
next
  case (test i w n e)
  then have "completed w < 2 ^ 64 - 1 \<Longrightarrow> block_core (block_for_gc_test i n e w)"
    using core_test[of w i n e] by (simp add: block_inv_def)
  then show ?case using test.prems by (simp add: block_inv_def test_counts)
next
  case (read i w)
  then show ?case using core_mutator_steps(2)[of w i] by (simp add: block_inv_def block_for_gc_read_def)
next
  case (gc_notify w)
  then show ?case using core_gc_steps(5)[of w] by (simp add: block_inv_def resume_notify_def)
qed (simp_all add: block_inv_def core_mutator_steps core_gc_steps)

interpretation blocking: safety_system "\<lambda>w. \<exists>n. w = start_world n" block_step block_inv
  by unfold_locales (auto simp: block_inv_start intro: block_inv_step)

abbreviation block_reachable :: "world \<Rightarrow> bool" where
  "block_reachable \<equiv> reachable (\<lambda>w. \<exists>n. w = start_world n) block_step"

text \<open>One mutator blocks for a collection, which then runs and wakes it.\<close>

definition demo_blocked :: world where
  "demo_blocked = block_for_gc_test 0 1 0 (set_pc 0 (M_loop 1 0) (set_pc 0 (M_blocked 1 0) (block_for_gc_read 0
     (set_pc 0 M_triggered ((start_world 1)\<lparr>gc_requested := True\<rparr>)))\<lparr>gc_lock := Some (Mutator 0)\<rparr>))"

definition demo_notified :: world where
  "demo_notified = resume_notify ((resume_increment (demo_blocked\<lparr>gc := GC_stopped, gc_requested := False\<rparr>))
     \<lparr>gc := GC_resumed\<rparr>\<lparr>gc := GC_locked, gc_lock := Some GC\<rparr>)"

definition demo_unblocked :: world where
  "demo_unblocked = block_for_gc_test 0 1 0 (set_pc 0 (M_loop 1 0) (demo_notified\<lparr>gc_lock := Some (Mutator 0)\<rparr>))"

lemmas demo_world_defs = demo_unblocked_def demo_notified_def demo_blocked_def start_world_def set_pc_def block_for_gc_read_def
  block_for_gc_test_def resume_increment_def resume_notify_def Let_def

lemma block_reach: "block_reachable w \<Longrightarrow> block_step w w' \<Longrightarrow> block_reachable w'"
  by (rule reach_step)

lemma demo_blocked_reachable: "block_reachable demo_blocked"
  unfolding demo_blocked_def
  by (intro block_reach[OF _ test] block_reach[OF _ take_lock] block_reach[OF _ enter_safepoint]
      block_reach[OF _ read] block_reach[OF _ trigger] reach_start exI[of _ 1])
    (auto simp: demo_world_defs)

lemma demo_notified_reachable: "block_reachable demo_notified"
  unfolding demo_notified_def
  by (intro block_reach[OF _ gc_notify] block_reach[OF _ gc_take_lock] block_reach[OF _ gc_resume]
      block_reach[OF _ gc_increment] block_reach[OF demo_blocked_reachable gc_stop])
    (auto simp: demo_world_defs)

lemma demo_unblocked_reachable: "block_reachable demo_unblocked"
  unfolding demo_unblocked_def
  by (intro block_reach[OF _ test] block_reach[OF demo_notified_reachable wake]) (auto simp: demo_world_defs)

section \<open>Properties\<close>

text \<open>
  C22. A blocked mutator resumes only after a collection: when \<^verbatim>\<open>mmtk_block_for_gc\<close> has left its loop, a collection has
  finished since the mutator read the counter, in every interleaving with other mutators and collections (up to
  \<open>2 ^ 64 - 1\<close> collections, where the counter wraps around).
\<close>

theorem block_for_gc_returns_after_collection:
  assumes "block_reachable w" and "completed w < 2 ^ 64 - 1"
    and "i < length (mutators w)" and "mutators w ! i = M_leaving next_count entered"
  shows "entered < completed w"
  using blocking.reachable_inv[OF assms(1)] core_pc[of w i] assms(2-4) by (auto simp: block_inv_def)

theorem block_for_gc_returns_after_collection_witness:
  "mutators demo_unblocked ! 0 = M_leaving 1 0 \<and> 0 < completed demo_unblocked"
proof -
  have "mutators demo_unblocked = [M_leaving 1 0]" "completed demo_unblocked = 1" by (simp_all add: demo_world_defs)
  then show ?thesis using block_for_gc_returns_after_collection[OF demo_unblocked_reachable, of 0 1 0] by simp
qed

text \<open>
  C23. No mutator waits in vain: a mutator in the wait set of \<^verbatim>\<open>gc_lock\<close> either waits for a collection that is
  requested or under way, or, if the counter it waits for has been reached, the GC thread is still going
  to notify \<^verbatim>\<open>gc_lock\<close>. So no mutator misses the end of the last collection.
\<close>

theorem block_for_gc_not_forgotten:
  assumes "block_reachable w" and "completed w < 2 ^ 64 - 1" and "i \<in> gc_lock_waiters w"
  shows "\<exists>next_count entered. mutators w ! i = M_wait next_count entered
       \<and> (if start_the_world_count w < next_count then gc_requested w \<or> gc w = GC_stopped
          else gc w \<in> {GC_resuming, GC_resumed, GC_locked})"
proof -
  have inv: "block_core w" "start_the_world_count w = of_nat (completed w)"
    using blocking.reachable_inv[OF assms(1)] assms(2) by (simp_all add: block_inv_def)
  then obtain n e where i: "i < length (mutators w)" "mutators w ! i = M_wait n e"
    using assms(3) by (auto simp: block_core_def waiters_ok_def)
  have ok: "next_ok w n e" "e = completed w \<or> notify_pending (gc w)"
    using core_pc[OF inv(1) i] assms(3) by auto
  have "start_the_world_count w < n \<longleftrightarrow> e = completed w"
    using ok(1) count_less_next[of e "completed w"] assms(2) inv(2) by (simp add: next_ok_def)
  then show ?thesis using ok i(2) by (auto simp: next_ok_def gc_coming_def notify_pending_def)
qed

theorem block_for_gc_not_forgotten_witness:
  "0 \<in> gc_lock_waiters demo_blocked \<and> (\<exists>next_count entered. mutators demo_blocked ! 0 = M_wait next_count entered)"
proof -
  have "0 \<in> gc_lock_waiters demo_blocked" "completed demo_blocked = 0" by (simp_all add: demo_world_defs)
  then show ?thesis using block_for_gc_not_forgotten[OF demo_blocked_reachable, of 0] by auto
qed

end
