(* ===== verification/Finalizer.thy ===== *)
theory Finalizer
  imports Prelude "HOL-Library.Multiset"
begin

text \<open>
  The finalizer thread (\<^verbatim>\<open>openjdk/mmtkFinalizerThread.cpp\<close>): at the end of a collection mmtk-core makes objects ready for
  finalization and calls \<^verbatim>\<open>schedule\<close>, which wakes the thread; the thread then takes objects from mmtk-core
  with \<^verbatim>\<open>get_finalized_object\<close> until there is none left, and runs their \<^verbatim>\<open>finalize\<close> methods.

  Which of the ready objects \<^verbatim>\<open>get_finalized_object\<close> hands out is up to mmtk-core: any of them, each once, and null
  only if there is none. The critical sections of the monitor \<^verbatim>\<open>m\<close> contain no other synchronization, so each is one step.
  \<^verbatim>\<open>JavaCalls::call_virtual\<close> may leave an exception pending in the thread, and \<^verbatim>\<open>finalizer_thread_entry\<close> neither checks
  for it nor clears it: it takes the next object and calls its method with the exception still pending, and whether HotSpot
  then runs the method is not known here. \<open>made_ready\<close>, \<open>taken\<close> and \<open>finalized\<close> are ghost variables; \<open>finalized\<close> holds the
  objects whose \<^verbatim>\<open>finalize\<close> method was entered.
\<close>

section \<open>State and steps\<close>

datatype finalizer_pc = F_enter | F_wait | F_drain

datatype gc_phase = GC_running | GC_made_ready

record finalizer =
  is_scheduled :: bool
  m_waiting :: bool
  fpc :: finalizer_pc
  phase :: gc_phase
  ready :: "addr list"
  pending_exception :: bool
  made_ready :: "addr multiset"
  taken :: "addr multiset"
  finalized :: "addr multiset"

definition new_MMTkFinalizerThread :: finalizer where
  "new_MMTkFinalizerThread = \<lparr>is_scheduled = False, m_waiting = False, fpc = F_enter, phase = GC_running, ready = [],
     pending_exception = False, made_ready = {#}, taken = {#}, finalized = {#}\<rparr>"

definition schedule :: "finalizer \<Rightarrow> finalizer" where
  "schedule s = (if \<not> is_scheduled s then s\<lparr>is_scheduled := True, m_waiting := False\<rparr> else s)"

definition wait_until_scheduled :: "finalizer \<Rightarrow> finalizer" where
  "wait_until_scheduled s =
     (if \<not> is_scheduled s then s\<lparr>m_waiting := True, fpc := F_wait\<rparr>
      else s\<lparr>is_scheduled := False, fpc := F_drain\<rparr>)"

text \<open>
  One round of the inner loop, for the answer of \<^verbatim>\<open>get_finalized_object\<close> and the outcome of \<^verbatim>\<open>JavaCalls::call_virtual\<close>: was the
  method entered, and did the call throw. A pending exception stays pending.
\<close>

record call_outcome =
  entered :: bool
  throws :: bool

definition finalize_next :: "addr option \<Rightarrow> call_outcome \<Rightarrow> finalizer \<Rightarrow> finalizer" where
  "finalize_next obj_ref out s = (case obj_ref of
     None \<Rightarrow> s\<lparr>fpc := F_enter\<rparr>
   | Some obj \<Rightarrow> s\<lparr>ready := remove1 obj (ready s), taken := add_mset obj (taken s),
       finalized := (if entered out then add_mset obj (finalized s) else finalized s),
       pending_exception := (pending_exception s \<or> throws out)\<rparr>)"

text \<open>What \<^verbatim>\<open>get_finalized_object\<close> may answer.\<close>

definition may_return :: "addr list \<Rightarrow> addr option \<Rightarrow> bool" where
  "may_return rdy r = (case r of None \<Rightarrow> rdy = [] | Some a \<Rightarrow> a \<in> set rdy)"

text \<open>A call that starts without a pending exception and does not throw has run the method.\<close>

definition may_end_with :: "bool \<Rightarrow> call_outcome \<Rightarrow> bool" where
  "may_end_with pending out \<longleftrightarrow> pending \<or> throws out \<or> entered out"

inductive finalizer_thread_step :: "finalizer \<Rightarrow> finalizer \<Rightarrow> bool" where
  tests: "fpc s = F_enter \<Longrightarrow> finalizer_thread_step s (wait_until_scheduled s)"
| wakes: "fpc s = F_wait \<Longrightarrow> \<not> m_waiting s \<Longrightarrow> finalizer_thread_step s (wait_until_scheduled s)"
| finalizes: "fpc s = F_drain \<Longrightarrow> may_return (ready s) r \<Longrightarrow> may_end_with (pending_exception s) out \<Longrightarrow>
     finalizer_thread_step s (finalize_next r out s)"

inductive finalizer_env_step :: "finalizer \<Rightarrow> finalizer \<Rightarrow> bool" where
  makes_ready: "phase s = GC_running \<Longrightarrow>
     finalizer_env_step s (s\<lparr>phase := GC_made_ready, ready := ready s @ objs, made_ready := made_ready s + mset objs\<rparr>)"
| schedules: "phase s = GC_made_ready \<Longrightarrow> finalizer_env_step s ((schedule s)\<lparr>phase := GC_running\<rparr>)"
| spurious_wake_up: "finalizer_env_step s (s\<lparr>m_waiting := False\<rparr>)"

definition finalizer_step :: "finalizer \<Rightarrow> finalizer \<Rightarrow> bool" where
  "finalizer_step s t \<longleftrightarrow> finalizer_thread_step s t \<or> finalizer_env_step s t"

inductive_cases finalizer_thread_stepE: "finalizer_thread_step s t"
inductive_cases finalizer_env_stepE: "finalizer_env_step s t"

section \<open>The invariant\<close>

text \<open>
  Each object that was made ready is either taken or still ready; no object is finalized that was not taken, and as long
  as no exception is pending all that were taken are; the thread waits only while it is not scheduled, and ready objects
  are never left to a thread that nobody will wake.
\<close>

definition finalizer_inv :: "finalizer \<Rightarrow> bool" where
  "finalizer_inv s \<longleftrightarrow> made_ready s = taken s + mset (ready s)
     \<and> finalized s \<subseteq># taken s \<and> (pending_exception s \<or> finalized s = taken s)
     \<and> (m_waiting s \<longrightarrow> fpc s = F_wait \<and> \<not> is_scheduled s)
     \<and> (ready s \<noteq> [] \<longrightarrow> is_scheduled s \<or> fpc s = F_drain \<or> phase s = GC_made_ready)"

lemma finalizer_inv_thread: "finalizer_inv s \<Longrightarrow> finalizer_thread_step s t \<Longrightarrow> finalizer_inv t"
  by (erule finalizer_thread_stepE)
    (auto simp: finalizer_inv_def wait_until_scheduled_def finalize_next_def may_return_def may_end_with_def
      intro: subset_mset.order_trans split: option.splits)

lemma finalizer_inv_env: "finalizer_inv s \<Longrightarrow> finalizer_env_step s t \<Longrightarrow> finalizer_inv t"
  by (erule finalizer_env_stepE) (auto simp: finalizer_inv_def schedule_def)

interpretation fin: safety_system "\<lambda>s. s = new_MMTkFinalizerThread" finalizer_step finalizer_inv
proof
  show "finalizer_inv s" if "s = new_MMTkFinalizerThread" for s
    using that by (simp add: finalizer_inv_def new_MMTkFinalizerThread_def)
  show "finalizer_inv t" if "finalizer_inv s" "finalizer_step s t" for s t
    using that unfolding finalizer_step_def by (blast intro: finalizer_inv_thread finalizer_inv_env)
qed

text \<open>How many steps the thread can take before it waits, if no further objects are made ready.\<close>

definition finalizer_rank :: "finalizer \<Rightarrow> nat" where
  "finalizer_rank s = length (ready s) + (if is_scheduled s then 4 else 0)
     + (case fpc s of F_drain \<Rightarrow> 2 | F_enter \<Rightarrow> 1 | F_wait \<Rightarrow> if m_waiting s then 0 else 1)"

lemma finalizer_rank_step: "finalizer_thread_step s t \<Longrightarrow> finalizer_rank t < finalizer_rank s"
  by (erule finalizer_thread_stepE)
    (auto simp: finalizer_rank_def wait_until_scheduled_def finalize_next_def may_return_def length_remove1
      dest: length_pos_if_in_set split: option.splits)

lemma finalizer_run:
  assumes "finalizer_inv (run 0)" and "phase (run 0) = GC_running"
    and "\<And>i. i < n \<Longrightarrow> finalizer_thread_step (run i) (run (Suc i))"
  shows "finalizer_inv (run n) \<and> phase (run n) = GC_running \<and> made_ready (run n) = made_ready (run 0)
    \<and> n + finalizer_rank (run n) \<le> finalizer_rank (run 0)"
  using assms
proof (induction n)
  case (Suc n)
  have s: "finalizer_thread_step (run n) (run (Suc n))" using Suc.prems by simp
  have "phase (run (Suc n)) = phase (run n) \<and> made_ready (run (Suc n)) = made_ready (run n)"
    using s by (auto simp: wait_until_scheduled_def finalize_next_def elim!: finalizer_thread_stepE split: option.splits)
  then show ?case using Suc finalizer_inv_thread[OF _ s] finalizer_rank_step[OF s] by auto
qed simp

lemma stuck_waits: "(\<nexists>t. finalizer_thread_step s t) \<Longrightarrow> fpc s = F_wait \<and> m_waiting s"
proof (cases "fpc s")
  case F_drain
  have "\<exists>r. may_return (ready s) r"
    by (cases "ready s") (auto simp: may_return_def intro: exI[of _ None] exI[of _ "Some (hd (ready s))"])
  moreover have "may_end_with (pending_exception s) \<lparr>entered = True, throws = False\<rparr>" by (simp add: may_end_with_def)
  ultimately show "(\<nexists>t. finalizer_thread_step s t) \<Longrightarrow> ?thesis" using F_drain finalizes by blast
qed (auto intro: tests wakes)

abbreviation finalizer_reachable :: "finalizer \<Rightarrow> bool" where
  "finalizer_reachable \<equiv> reachable (\<lambda>s. s = new_MMTkFinalizerThread) finalizer_step"

section \<open>Properties\<close>

text \<open>
  C25. Every object that a collection makes ready is taken exactly once, and finalized unless an exception intervenes: objects are never
  lost, taken or finalized twice; as long as no call of a \<^verbatim>\<open>finalize\<close> method has left an exception pending, every object taken has
  been finalized; and once \<^verbatim>\<open>schedule\<close> has returned, the finalizer thread takes boundedly many steps and comes to rest, waiting,
  only when all objects made ready so far have been taken, and all of them finalized if no exception is pending.
\<close>

theorem finalizer_drains_ready_objects:
  assumes "finalizer_reachable s"
  shows "made_ready s = taken s + mset (ready s) \<and> finalized s \<subseteq># taken s
       \<and> (pending_exception s \<or> finalized s = taken s)
       \<and> (phase s = GC_running \<and> run 0 = s \<and> (\<forall>i<n. finalizer_thread_step (run i) (run (Suc i))) \<longrightarrow>
            n \<le> finalizer_rank s
          \<and> ((\<nexists>t. finalizer_thread_step (run n) t) \<longrightarrow>
               taken (run n) = made_ready s \<and> (pending_exception (run n) \<or> finalized (run n) = made_ready s)))"
proof -
  have inv: "finalizer_inv s" using fin.reachable_inv[OF assms] .
  have "n \<le> finalizer_rank s \<and> ((\<nexists>t. finalizer_thread_step (run n) t) \<longrightarrow>
      taken (run n) = made_ready s \<and> (pending_exception (run n) \<or> finalized (run n) = made_ready s))"
    if "phase s = GC_running" "run 0 = s" "\<forall>i<n. finalizer_thread_step (run i) (run (Suc i))"
  proof -
    have r: "finalizer_inv (run n)" "phase (run n) = GC_running" "made_ready (run n) = made_ready s"
      "n + finalizer_rank (run n) \<le> finalizer_rank s"
      using finalizer_run[of run n] inv that by auto
    have "taken (run n) = made_ready s \<and> (pending_exception (run n) \<or> finalized (run n) = made_ready s)"
      if "\<nexists>t. finalizer_thread_step (run n) t"
    proof -
      have "ready (run n) = []" using stuck_waits[OF that] r(1,2) by (auto simp: finalizer_inv_def)
      then show ?thesis using r(1,3) by (simp add: finalizer_inv_def)
    qed
    then show ?thesis using r(4) by auto
  qed
  with inv show ?thesis by (auto simp: finalizer_inv_def)
qed

text \<open>The thread waits, a collection makes two objects ready and schedules it.\<close>

definition demo_finalizer :: finalizer where
  "demo_finalizer = (schedule ((wait_until_scheduled new_MMTkFinalizerThread)\<lparr>phase := GC_made_ready,
     ready := [] @ [0x100, 0x200], made_ready := {#} + mset [0x100, 0x200]\<rparr>))\<lparr>phase := GC_running\<rparr>"

lemma demo_finalizer_reachable: "finalizer_reachable demo_finalizer"
proof -
  let ?w = "wait_until_scheduled new_MMTkFinalizerThread"
  let ?r = "?w\<lparr>phase := GC_made_ready, ready := ready ?w @ [0x100, 0x200], made_ready := made_ready ?w + mset [0x100, 0x200]\<rparr>"
  have 1: "finalizer_reachable ?w"
    by (rule reach_step[OF reach_start]) (auto simp: finalizer_step_def new_MMTkFinalizerThread_def intro: tests)
  have 2: "finalizer_reachable ?r"
    by (rule reach_step[OF 1])
      (auto simp: finalizer_step_def new_MMTkFinalizerThread_def wait_until_scheduled_def simp del: mset.simps
        intro!: makes_ready[of ?w "[0x100, 0x200]", unfolded new_MMTkFinalizerThread_def wait_until_scheduled_def, simplified])
  have 3: "finalizer_reachable ((schedule ?r)\<lparr>phase := GC_running\<rparr>)"
    by (rule reach_step[OF 2]) (auto simp: finalizer_step_def intro: schedules)
  then show ?thesis by (simp add: demo_finalizer_def wait_until_scheduled_def new_MMTkFinalizerThread_def)
qed

theorem finalizer_drains_ready_objects_witness:
  "made_ready demo_finalizer = {#0x100, 0x200#} \<and> made_ready demo_finalizer = taken demo_finalizer + mset (ready demo_finalizer)
   \<and> finalizer_thread_step demo_finalizer (wait_until_scheduled demo_finalizer) \<and> 1 \<le> finalizer_rank demo_finalizer"
proof -
  let ?run = "\<lambda>i::nat. if i = 0 then demo_finalizer else wait_until_scheduled demo_finalizer"
  have d: "fpc demo_finalizer = F_wait" "\<not> m_waiting demo_finalizer" "phase demo_finalizer = GC_running"
    "made_ready demo_finalizer = {#0x100, 0x200#}"
    by (simp_all add: demo_finalizer_def schedule_def wait_until_scheduled_def new_MMTkFinalizerThread_def)
  have st: "finalizer_thread_step demo_finalizer (wait_until_scheduled demo_finalizer)" using d by (intro wakes)
  then show ?thesis using finalizer_drains_ready_objects[OF demo_finalizer_reachable, of ?run 1] d by simp
qed

text \<open>
  An exception in one \<^verbatim>\<open>finalize\<close> method may cost other objects theirs: here the first of two objects throws, and the thread
  takes and drops the second without having run its method.
\<close>

definition demo_exception :: finalizer where
  "demo_exception = finalize_next (Some 0x200) \<lparr>entered = False, throws = True\<rparr>
     (finalize_next (Some 0x100) \<lparr>entered = True, throws = True\<rparr> (wait_until_scheduled demo_finalizer))"

lemma pending_exception_skips_finalizer:
  "finalizer_reachable demo_exception \<and> ready demo_exception = [] \<and> taken demo_exception = {#0x100, 0x200#}
   \<and> finalized demo_exception = {#0x100#}"
proof -
  have d: "demo_finalizer = \<lparr>is_scheduled = True, m_waiting = False, fpc = F_wait, phase = GC_running, ready = [0x100, 0x200],
      pending_exception = False, made_ready = {#0x100, 0x200#}, taken = {#}, finalized = {#}\<rparr>"
    by (simp add: demo_finalizer_def schedule_def wait_until_scheduled_def new_MMTkFinalizerThread_def)
  let ?w = "wait_until_scheduled demo_finalizer" and ?out = "\<lparr>entered = True, throws = True\<rparr>"
  have step: "finalizer_reachable t" if "finalizer_reachable s" "finalizer_thread_step s t" for s t
    using that by (auto simp: finalizer_step_def intro: reach_step)
  have "finalizer_reachable ?w" by (rule step[OF demo_finalizer_reachable wakes]) (simp_all add: d)
  then have "finalizer_reachable (finalize_next (Some 0x100) ?out ?w)"
    by (rule step[OF _ finalizes]) (simp_all add: d wait_until_scheduled_def may_return_def may_end_with_def)
  then have "finalizer_reachable demo_exception" unfolding demo_exception_def
    by (rule step[OF _ finalizes])
      (simp_all add: d wait_until_scheduled_def finalize_next_def may_return_def may_end_with_def)
  then show ?thesis by (simp add: demo_exception_def d wait_until_scheduled_def finalize_next_def)
qed

end
