(* ===== verification/Reference_Pending.thy ===== *)
theory Reference_Pending
  imports Prelude
begin

text \<open>
  Handing discovered references over to the reference handler: \<^verbatim>\<open>mmtk_enqueue_references\<close> of
  \<^verbatim>\<open>openjdk/mmtkUpcalls.cpp\<close> links the \<^verbatim>\<open>Reference\<close> objects that mmtk-core reports through their
  \<^verbatim>\<open>discovered\<close> fields and puts the chain in front of the VM's pending list, and the epilogue of
  \<^verbatim>\<open>VM_MMTkSTWOperation\<close> (\<^verbatim>\<open>openjdk/mmtkVMOperation.cpp\<close>) notifies the waiters of \<^verbatim>\<open>Heap_lock\<close>.

  The \<^verbatim>\<open>discovered\<close> fields are a map from object addresses to object addresses, with 0 for null; the
  array \<^verbatim>\<open>objects[0..len)\<close> is a list. \<open>chain\<close> reads a linked list off the fields.
\<close>

section \<open>Operations\<close>

type_synonym fields = "addr \<Rightarrow> addr"

record pending =
  discovered :: fields
  pending_list :: addr
  heap_lock_held :: bool
  heap_lock_waiters :: nat

text \<open>The body of the loop over \<^verbatim>\<open>objects[1..len)\<close>, with the local \<^verbatim>\<open>last\<close>.\<close>

fun enqueue_loop :: "addr list \<Rightarrow> addr \<Rightarrow> fields \<Rightarrow> addr \<times> fields" where
  "enqueue_loop [] last_ref d = (last_ref, d)"
| "enqueue_loop (reff # rest) last_ref d =
     (if reff = last_ref then enqueue_loop rest last_ref d
      else if d reff \<noteq> NULL then enqueue_loop rest last_ref d
      else enqueue_loop rest reff (d(last_ref := reff)))"

definition swap_reference_pending_list :: "addr \<Rightarrow> pending \<Rightarrow> addr \<times> pending" where
  "swap_reference_pending_list a s = (pending_list s, s\<lparr>pending_list := a\<rparr>)"

definition mmtk_enqueue_references :: "addr list \<Rightarrow> pending \<Rightarrow> pending" where
  "mmtk_enqueue_references objects s = (case objects of
     [] \<Rightarrow> s
   | first # rest \<Rightarrow>
       (let (last_ref, d) = enqueue_loop rest first (discovered s);
            (old_first, s1) = swap_reference_pending_list first (s\<lparr>discovered := d\<rparr>)
        in s1\<lparr>discovered := (discovered s1)(last_ref := old_first)\<rparr>))"

definition has_reference_pending_list :: "pending \<Rightarrow> bool" where
  "has_reference_pending_list s \<longleftrightarrow> pending_list s \<noteq> NULL"

definition doit_prologue :: "pending \<Rightarrow> bool \<times> pending" where
  "doit_prologue s = (True, s\<lparr>heap_lock_held := True\<rparr>)"

definition doit_epilogue :: "pending \<Rightarrow> pending" where
  "doit_epilogue s =
     (let s1 = (if has_reference_pending_list s then s\<lparr>heap_lock_waiters := 0\<rparr> else s)
      in s1\<lparr>heap_lock_held := False\<rparr>)"

section \<open>Linked lists\<close>

text \<open>\<open>chain d a xs\<close>: following \<open>d\<close> from \<open>a\<close> visits \<open>xs\<close> and ends in null.\<close>

fun chain :: "fields \<Rightarrow> addr \<Rightarrow> addr list \<Rightarrow> bool" where
  "chain d a [] \<longleftrightarrow> a = NULL"
| "chain d a (x # xs) \<longleftrightarrow> a = x \<and> x \<noteq> NULL \<and> chain d (d x) xs"

text \<open>The first occurrences of the elements of a list, in their order.\<close>

definition firsts :: "addr list \<Rightarrow> addr list" where
  "firsts xs = rev (remdups (rev xs))"

lemma chain_cong: "(\<And>x. x \<in> set xs \<Longrightarrow> d' x = d x) \<Longrightarrow> chain d' a xs = chain d a xs"
  by (induction xs arbitrary: a) auto

lemma chain_distinct: "chain d a xs \<Longrightarrow> chain d a ys \<Longrightarrow> xs = ys"
proof (induction xs arbitrary: a ys)
  case Nil then show ?case by (cases ys) auto
next
  case (Cons x xs) then show ?case by (cases ys) auto
qed

lemma firsts_Nil [simp]: "firsts [] = []"
  by (simp add: firsts_def)

lemma firsts_single [simp]: "firsts [x] = [x]"
  by (simp add: firsts_def)

lemma firsts_snoc: "firsts (xs @ [x]) = (if x \<in> set xs then firsts xs else firsts xs @ [x])"
  by (simp add: firsts_def)

lemma set_firsts [simp]: "set (firsts xs) = set xs"
  by (simp add: firsts_def)

lemma hd_firsts: "hd (firsts (x # xs)) = x"
proof (induction xs rule: rev_induct)
  case (snoc y ys)
  have "firsts (x # ys) \<noteq> []" by (metis set_empty set_firsts list.distinct(1))
  then show ?case using snoc firsts_snoc[of "x # ys" y] by simp
qed simp

lemma distinct_firsts: "distinct (firsts xs)"
  by (simp add: firsts_def)

text \<open>A chain that is open at its end: every element but the last points to its successor.\<close>

fun open_chain :: "fields \<Rightarrow> addr list \<Rightarrow> bool" where
  "open_chain d [] \<longleftrightarrow> True"
| "open_chain d [x] \<longleftrightarrow> d x = NULL"
| "open_chain d (x # y # xs) \<longleftrightarrow> d x = y \<and> open_chain d (y # xs)"

lemma open_chain_cong: "(\<And>x. x \<in> set xs \<Longrightarrow> d' x = d x) \<Longrightarrow> open_chain d' xs = open_chain d xs"
  by (induction d xs rule: open_chain.induct) auto

lemma open_chain_snoc:
  "xs \<noteq> [] \<Longrightarrow> open_chain d xs \<Longrightarrow> distinct (xs @ [y]) \<Longrightarrow> d y = NULL \<Longrightarrow>
   open_chain (d(last xs := y)) (xs @ [y])"
proof (induction d xs rule: open_chain.induct)
  case (3 d x y' xs)
  have "x \<noteq> last (y' # xs)" using 3(4) last_in_set[of "y' # xs"] by auto
  then show ?case using 3 by simp
qed auto

lemma open_chain_close:
  "xs \<noteq> [] \<Longrightarrow> open_chain d xs \<Longrightarrow> distinct xs \<Longrightarrow> NULL \<notin> set xs \<Longrightarrow> chain d' b ys \<Longrightarrow>
   d' (last xs) = b \<Longrightarrow> (\<And>x. x \<noteq> last xs \<Longrightarrow> d' x = d x) \<Longrightarrow> chain d' (hd xs) (xs @ ys)"
proof (induction d xs rule: open_chain.induct)
  case (3 d x y xs)
  have "x \<noteq> last (y # xs)" using 3(4) last_in_set[of "y # xs"] by auto
  then show ?case using 3 by simp
qed auto

lemma open_chain_visited:
  "open_chain d xs \<Longrightarrow> NULL \<notin> set xs \<Longrightarrow> x \<in> set xs \<Longrightarrow> x \<noteq> last xs \<Longrightarrow> d x \<noteq> NULL"
  by (induction d xs rule: open_chain.induct) (auto split: if_splits)

text \<open>
  The loop keeps the visited references linked, in the order of their first occurrences, and leaves the fields
  of all others as they were.
\<close>

lemma enqueue_loop_chain:
  assumes "open_chain d (firsts seen)" and "seen \<noteq> []" and "last_ref = last (firsts seen)"
    and "NULL \<notin> set (seen @ rest)" and "\<And>x. x \<in> set rest \<Longrightarrow> x \<notin> set seen \<Longrightarrow> d x = NULL"
    and "enqueue_loop rest last_ref d = (l, d')"
  shows "open_chain d' (firsts (seen @ rest)) \<and> l = last (firsts (seen @ rest))
       \<and> (\<forall>x. x \<notin> set (seen @ rest) \<longrightarrow> d' x = d x)"
  using assms
proof (induction rest arbitrary: seen last_ref d)
  case (Cons reff rest)
  have ne: "firsts seen \<noteq> []" using Cons.prems(2) by (metis set_empty set_firsts)
  show ?case
  proof (cases "reff \<in> set seen")
    case True
    then have "reff = last_ref \<or> d reff \<noteq> NULL"
      using open_chain_visited[OF Cons.prems(1), of reff] Cons.prems(3,4) by auto
    then have "enqueue_loop rest last_ref d = (l, d')" using Cons.prems(6) by (auto split: if_splits)
    then show ?thesis
      using Cons.IH[of d "seen @ [reff]" last_ref] Cons.prems True by (auto simp: firsts_snoc)
  next
    case False
    then have d0: "d reff = NULL" using Cons.prems(5) by simp
    have "last_ref \<in> set seen" using Cons.prems(3) ne last_in_set[OF ne] by simp
    then have "reff \<noteq> last_ref" using False by auto
    then have e: "enqueue_loop rest reff (d(last_ref := reff)) = (l, d')" using Cons.prems(6) d0 by simp
    have o: "open_chain (d(last_ref := reff)) (firsts (seen @ [reff]))"
      using open_chain_snoc[OF ne Cons.prems(1), of reff] False d0 Cons.prems(3) distinct_firsts[of seen]
      by (simp add: firsts_snoc)
    have n: "(d(last_ref := reff)) x = NULL" if "x \<in> set rest" "x \<notin> set (seen @ [reff])" for x
      using that Cons.prems(5) \<open>last_ref \<in> set seen\<close> by auto
    have "open_chain d' (firsts ((seen @ [reff]) @ rest)) \<and> l = last (firsts ((seen @ [reff]) @ rest))
        \<and> (\<forall>x. x \<notin> set ((seen @ [reff]) @ rest) \<longrightarrow> d' x = (d(last_ref := reff)) x)"
      by (rule Cons.IH[OF o _ _ _ n e]) (use Cons.prems False in \<open>auto simp: firsts_snoc\<close>)
    then show ?thesis using \<open>last_ref \<in> set seen\<close> by auto
  qed
qed auto

section \<open>Properties\<close>

text \<open>
  C6. Enqueuing puts the reported references in front of the pending list: if their \<^verbatim>\<open>discovered\<close> fields are null and
  none of them is pending already, then following \<^verbatim>\<open>discovered\<close> from the new head visits each reported reference
  exactly once, in the order of first occurrence (the array may hold duplicates), then the old list, and ends
  in null; no field of another object is written.
\<close>

theorem enqueue_references_links_all:
  assumes "chain (discovered s) (pending_list s) old"
    and "NULL \<notin> set objects" and "\<forall>x\<in>set objects. discovered s x = NULL" and "set objects \<inter> set old = {}"
  shows "chain (discovered (mmtk_enqueue_references objects s)) (pending_list (mmtk_enqueue_references objects s))
           (firsts objects @ old)
       \<and> distinct (firsts objects) \<and> set (firsts objects) = set objects
       \<and> (\<forall>x. x \<notin> set objects \<longrightarrow> discovered (mmtk_enqueue_references objects s) x = discovered s x)"
proof (cases objects)
  case Nil
  then show ?thesis using assms by (simp add: mmtk_enqueue_references_def)
next
  case (Cons a rest)
  obtain l d where l: "enqueue_loop rest a (discovered s) = (l, d)" by fastforce
  have loop: "open_chain d (firsts objects)" "l = last (firsts objects)"
    "\<forall>x. x \<notin> set objects \<longrightarrow> d x = discovered s x"
    using enqueue_loop_chain[of "discovered s" "[a]" a rest l d] assms l Cons by auto
  have ne: "firsts objects \<noteq> []" using Cons by (metis set_empty set_firsts list.distinct(1))
  have hd: "hd (firsts objects) = a" using Cons by (simp add: hd_firsts)
  have l_in: "l \<in> set objects" using loop(2) last_in_set[OF ne] by simp
  have "chain (d(l := pending_list s)) (pending_list s) old = chain (discovered s) (pending_list s) old"
    using assms(4) loop(3) l_in by (intro chain_cong) auto
  then have "chain (d(l := pending_list s)) (hd (firsts objects)) (firsts objects @ old)"
    by (intro open_chain_close[OF ne loop(1) distinct_firsts]) (use assms loop(2) in auto)
  then show ?thesis using loop(3) l Cons l_in hd
    by (auto simp: mmtk_enqueue_references_def swap_reference_pending_list_def distinct_firsts)
qed

text \<open>Three references, one of them reported twice, in front of a pending list of one.\<close>

definition demo_pending :: pending where
  "demo_pending = \<lparr>discovered = (\<lambda>_. NULL), pending_list = 0x500, heap_lock_held = True, heap_lock_waiters = 1\<rparr>"

theorem enqueue_references_links_all_witness:
  "chain (discovered (mmtk_enqueue_references [0x100, 0x200, 0x100, 0x300] demo_pending))
     (pending_list (mmtk_enqueue_references [0x100, 0x200, 0x100, 0x300] demo_pending)) [0x100, 0x200, 0x300, 0x500]"
proof -
  have "chain (discovered demo_pending) (pending_list demo_pending) [0x500]" by (simp add: demo_pending_def)
  moreover have "firsts [0x100, 0x200, 0x100, 0x300] = [0x100, 0x200, 0x300]" by (simp add: firsts_def)
  ultimately show ?thesis
    using enqueue_references_links_all[of demo_pending "[0x500]" "[0x100, 0x200, 0x100, 0x300]"]
    by (simp add: demo_pending_def)
qed

text \<open>
  The reference handler is not forgotten: the epilogue of the stop-the-world operation releases \<^verbatim>\<open>Heap_lock\<close>
  taken by the prologue and, if the collection enqueued any (non-null) reference or an older one is still pending,
  leaves no waiter of \<^verbatim>\<open>Heap_lock\<close> behind; without pending references it wakes nobody.
\<close>

lemma epilogue_notifies_reference_handler:
  assumes "NULL \<notin> set objects" and "snd (doit_prologue s) = s1"
    and "s2 = doit_epilogue (mmtk_enqueue_references objects s1)"
  shows "heap_lock_held s1 \<and> \<not> heap_lock_held s2
       \<and> heap_lock_waiters s2 = (if objects \<noteq> [] \<or> pending_list s \<noteq> NULL then 0 else heap_lock_waiters s)
       \<and> pending_list s2 = (case objects of [] \<Rightarrow> pending_list s | a # _ \<Rightarrow> a)"
  using assms
  by (cases objects)
    (auto simp: doit_prologue_def doit_epilogue_def has_reference_pending_list_def mmtk_enqueue_references_def
      swap_reference_pending_list_def Let_def split: prod.splits)

lemma epilogue_notifies_reference_handler_instance:
  "heap_lock_waiters (doit_epilogue (mmtk_enqueue_references [0x100] (snd (doit_prologue demo_pending)))) = 0"
proof -
  have n: "NULL \<notin> set [0x100]" by simp
  show ?thesis using epilogue_notifies_reference_handler[OF n refl refl, of demo_pending] by simp
qed

text \<open>
  The condition that no reported reference is pending already is needed: the last pending reference has a
  null \<^verbatim>\<open>discovered\<close> field, so the duplicate test does not see it, and reporting it again after another reference
  closes the list into a cycle that never reaches null.
\<close>

lemma enqueue_pending_reference_cycles:
  assumes "a \<noteq> NULL" and "b \<noteq> NULL" and "a \<noteq> b"
  shows "discovered (mmtk_enqueue_references [b, a] (mmtk_enqueue_references [a] \<lparr>discovered = (\<lambda>_. NULL),
            pending_list = NULL, heap_lock_held = True, heap_lock_waiters = n\<rparr>)) a = a"
  using assms by (simp add: mmtk_enqueue_references_def swap_reference_pending_list_def)

lemma enqueue_pending_reference_cycles_instance:
  "discovered (mmtk_enqueue_references [0x200, 0x100] (mmtk_enqueue_references [0x100] \<lparr>discovered = (\<lambda>_. NULL),
     pending_list = NULL, heap_lock_held = True, heap_lock_waiters = 1\<rparr>)) 0x100 = 0x100"
  by (rule enqueue_pending_reference_cycles) simp_all

end
