(* ===== verification/Slots.thy ===== *)
theory Slots
  imports Prelude
begin

text \<open>
  Reference slots (\<^verbatim>\<open>mmtk/src/slots.rs\<close>) and the heap layout for compressed pointers
  (\<^verbatim>\<open>mmtk/src/lib.rs\<close>). A slot is an address; with compressed pointers a slot whose bit 63 is set holds a
  full 64-bit pointer, and one whose bit 63 is clear holds a 32-bit compressed one. The C++ side sets
  the bit on the roots it reports (theory \<open>Roots_Closure\<close>).

  Of mmtk-core the code uses \<^verbatim>\<open>ObjectReference::from_raw_address\<close> and the chunk alignment of addresses; both are
  parameters, with their documented behaviour as hypotheses (\<open>null_is_none\<close>, \<open>aligns_chunks\<close>).
\<close>

section \<open>Compressed pointers\<close>

record compressed_oops =
  BASE :: addr
  SHIFT :: nat

definition initialize_compressed_oops_base_and_shift :: "addr \<Rightarrow> addr \<Rightarrow> compressed_oops" where
  "initialize_compressed_oops_base_and_shift starting_heap_address heap_end =
     (if heap_end \<le> push_bit 30 4 then \<lparr>BASE = 0, SHIFT = 0\<rparr>
      else if heap_end \<le> push_bit 30 32 then \<lparr>BASE = 0, SHIFT = 3\<rparr>
      else \<lparr>BASE = starting_heap_address - 4096, SHIFT = 3\<rparr>)"

definition compress :: "compressed_oops \<Rightarrow> addr \<Rightarrow> 32 word" where
  "compress c obj = ucast (drop_bit (SHIFT c) (obj - BASE c))"

definition decompress :: "compressed_oops \<Rightarrow> 32 word \<Rightarrow> addr option" where
  "decompress c v = (if v = 0 then None else Some (BASE c + push_bit (SHIFT c) (ucast v)))"

section \<open>Slots\<close>

definition MASK :: addr where
  "MASK = push_bit 63 1"

definition is_compressed :: "addr \<Rightarrow> bool" where
  "is_compressed slot \<longleftrightarrow> slot AND MASK = 0"

definition untagged_address :: "addr \<Rightarrow> addr" where
  "untagged_address slot = drop_bit 1 (push_bit 1 slot)"

definition null_is_none :: "(addr \<Rightarrow> addr option) \<Rightarrow> bool" where
  "null_is_none from_raw_address \<longleftrightarrow> (\<forall>a. from_raw_address a = (if a = NULL then None else Some a))"

definition slot_load ::
  "(addr \<Rightarrow> addr option) \<Rightarrow> bool \<Rightarrow> compressed_oops \<Rightarrow> mem \<Rightarrow> addr \<Rightarrow> addr option" where
  "slot_load from_raw_address COMPRESSED c m slot =
     (if COMPRESSED then
        if is_compressed slot then decompress c (load32 m (untagged_address slot))
        else from_raw_address (load64 m (untagged_address slot))
      else from_raw_address (load64 m slot))"

definition slot_store :: "bool \<Rightarrow> compressed_oops \<Rightarrow> mem \<Rightarrow> addr \<Rightarrow> addr \<Rightarrow> mem" where
  "slot_store COMPRESSED c m slot obj =
     (if COMPRESSED then
        if is_compressed slot then store32 m (untagged_address slot) (compress c obj)
        else store64 m (untagged_address slot) obj
      else store64 m slot obj)"

definition store_null :: "bool \<Rightarrow> mem \<Rightarrow> addr \<Rightarrow> mem" where
  "store_null COMPRESSED m slot =
     (if COMPRESSED then
        if is_compressed slot then store32 m (untagged_address slot) 0
        else store64 m (untagged_address slot) 0
      else store64 m slot 0)"

section \<open>The heap layout\<close>

record VMLayout =
  heap_start :: addr
  heap_end :: addr

definition aligns_chunks :: "(addr \<Rightarrow> addr) \<Rightarrow> bool" where
  "aligns_chunks align \<longleftrightarrow> (\<forall>a. a AND mask 22 = 0 \<longrightarrow> align a = a)"

definition set_compressed_pointer_vm_layout ::
  "(addr \<Rightarrow> addr) \<Rightarrow> (addr \<Rightarrow> addr) \<Rightarrow> size_t \<Rightarrow> VMLayout result" where
  "set_compressed_pointer_vm_layout chunk_align_down chunk_align_up max_heap_size =
     (if \<not> max_heap_size \<le> push_bit 30 32 then Inl (Panic ''Heap size is larger than 32 GB'')
      else
        (let start = 0x40000000;
             limit = (if start + max_heap_size \<le> push_bit 30 4 then push_bit 30 4
                      else if start + max_heap_size \<le> push_bit 30 32 then push_bit 30 32
                      else 0x40000000 + push_bit 30 32)
         in Inr \<lparr>heap_start = chunk_align_down start, heap_end = chunk_align_up limit\<rparr>))"

section \<open>Lemmas\<close>

lemma MASK_bit [word_bits]: "bit MASK n \<longleftrightarrow> n = 63"
  unfolding MASK_def bit_push_bit_iff by (auto simp: bit_1_iff)

lemma is_compressed_user_addr [word_bits]: "is_compressed a \<longleftrightarrow> user_addr a"
proof
  assume "is_compressed a"
  then have "bit (a AND MASK) 63 = bit (0 :: addr) 63" by (simp add: is_compressed_def)
  then show "user_addr a" by (simp add: user_addr_def bit_and_iff MASK_bit)
next
  assume "user_addr a"
  then have "a AND MASK = 0" by (intro bit_word_eqI) (auto simp: user_addr_def bit_and_iff MASK_bit)
  then show "is_compressed a" by (simp add: is_compressed_def)
qed

lemma bit_untagged_address [word_bits]: "bit (untagged_address a) n \<longleftrightarrow> n < 63 \<and> bit a n"
  unfolding untagged_address_def bit_drop_bit_eq comp_def bit_push_bit_iff
  by (auto simp: possible_bit_def dest: bit_imp_le_length)

lemma untagged_user_addr [word_bits]: "user_addr a \<Longrightarrow> untagged_address a = a"
proof (rule bit_word_eqI)
  fix n assume "user_addr a" "n < LENGTH(64)"
  then show "bit (untagged_address a) n = bit a n" by (cases "n = 63") (auto simp: bit_untagged_address user_addr_def)
qed

lemma untagged_or_MASK [word_bits]: "user_addr a \<Longrightarrow> untagged_address (a OR MASK) = a"
proof (rule bit_word_eqI)
  fix n assume "user_addr a" "n < LENGTH(64)"
  then show "bit (untagged_address (a OR MASK)) n = bit a n"
    by (cases "n = 63") (auto simp: bit_untagged_address user_addr_def bit_or_iff MASK_bit)
qed

lemma not_compressed_or_MASK [word_bits]: "\<not> is_compressed (a OR MASK)"
  by (simp add: is_compressed_user_addr user_addr_def bit_or_iff MASK_bit)

text \<open>What a compressed pointer denotes: offsets that are aligned and fit in 32 bits after the shift survive.\<close>

lemma unat_compress:
  assumes "BASE c \<le> obj" and "unat (obj - BASE c) < 2 ^ (32 + SHIFT c)"
  shows "unat (compress c obj) = unat (obj - BASE c) div 2 ^ SHIFT c"
proof -
  have "unat (obj - BASE c) div 2 ^ SHIFT c < 2 ^ 32"
    using assms(2) by (simp add: div_less_iff_less_mult power_add)
  then show ?thesis
    by (simp add: compress_def unsigned_ucast_eq unat_drop_bit_64 take_bit_nat_eq_self_iff)
qed

lemma decompress_compress:
  assumes "BASE c < obj" and "unat (obj - BASE c) < 2 ^ (32 + SHIFT c)"
    and "2 ^ SHIFT c dvd unat (obj - BASE c)"
  shows "compress c obj \<noteq> 0 \<and> decompress c (compress c obj) = Some obj"
proof -
  let ?k = "unat (obj - BASE c)"
  have u: "unat (compress c obj) = ?k div 2 ^ SHIFT c" using unat_compress assms by simp
  have k0: "0 < ?k" using assms(1) by (simp add: unat_gt_0)
  have nz: "compress c obj \<noteq> 0"
  proof
    assume "compress c obj = 0"
    then have "?k div 2 ^ SHIFT c = 0" using u by simp
    then have "?k < 2 ^ SHIFT c" by (simp add: div_eq_0_iff)
    then show False using assms(3) k0 dvd_imp_le[of "2 ^ SHIFT c" ?k] by simp
  qed
  have "push_bit (SHIFT c) (ucast (compress c obj)) = (of_nat (2 ^ SHIFT c * unat (compress c obj)) :: addr)"
    by (simp add: push_bit_eq_mult mult.commute)
  also have "\<dots> = of_nat ?k" using u assms(3) by simp
  also have "\<dots> = obj - BASE c" by simp
  finally show ?thesis using nz by (simp add: decompress_def)
qed

text \<open>The three layouts.\<close>

definition align_id :: "addr \<Rightarrow> addr" where
  "align_id a = a"

lemma aligns_chunks_id: "aligns_chunks align_id"
  by (simp add: aligns_chunks_def align_id_def)

lemma vm_layout_cases:
  assumes "aligns_chunks down" and "aligns_chunks up" and "set_compressed_pointer_vm_layout down up max_heap_size = Inr l"
  shows "max_heap_size \<le> 0x800000000 \<and> heap_start l = 0x40000000
    \<and> heap_end l = (if max_heap_size \<le> 0xC0000000 then 0x100000000
                    else if max_heap_size \<le> 0x7C0000000 then 0x800000000 else 0x840000000)"
proof -
  have m: "max_heap_size \<le> 0x800000000"
    using assms(3) by (auto simp: set_compressed_pointer_vm_layout_def Let_def split: if_splits)
  have n: "(0x40000000 + max_heap_size \<le> 0x100000000) = (max_heap_size \<le> 0xC0000000)"
    "(0x40000000 + max_heap_size \<le> 0x800000000) = (max_heap_size \<le> 0x7C0000000)"
    using m by (simp_all add: word_le_nat_alt unat_word_ariths)
  have "down 0x40000000 = 0x40000000" "up 0x100000000 = 0x100000000" "up 0x800000000 = 0x800000000"
    "up 0x840000000 = 0x840000000"
    using assms(1,2) by (simp_all add: aligns_chunks_def mask_eq_exp_minus_1)
  then show ?thesis using assms(3) m n
    by (auto simp: set_compressed_pointer_vm_layout_def Let_def split: if_splits)
qed

lemma base_and_shift_cases:
  "initialize_compressed_oops_base_and_shift s 0x100000000 = \<lparr>BASE = 0, SHIFT = 0\<rparr>"
  "initialize_compressed_oops_base_and_shift s 0x800000000 = \<lparr>BASE = 0, SHIFT = 3\<rparr>"
  "initialize_compressed_oops_base_and_shift s 0x840000000 = \<lparr>BASE = s - 4096, SHIFT = 3\<rparr>"
  by (simp_all add: initialize_compressed_oops_base_and_shift_def)

lemma compressed_heap_lossless:
  assumes "aligns_chunks down" and "aligns_chunks up" and "set_compressed_pointer_vm_layout down up max_heap_size = Inr l"
    and "c = initialize_compressed_oops_base_and_shift (heap_start l) (heap_end l)"
    and "heap_start l \<le> obj" and "obj < heap_end l" and "8 dvd unat obj"
    and "max_heap_size \<le> 0x7C0000000 \<or> obj < heap_end l - 4096"
  shows "compress c obj \<noteq> 0 \<and> decompress c (compress c obj) = Some obj"
proof -
  note l = vm_layout_cases[OF assms(1-3)]
  consider "heap_end l = 0x100000000" | "heap_end l = 0x800000000"
    | "heap_end l = 0x840000000" "obj < 0x840000000 - 4096"
    using l assms(8) by (auto split: if_splits)
  then show ?thesis
  proof cases
    case 1
    then show ?thesis using assms(4-7) l
      by (intro decompress_compress) (auto simp: base_and_shift_cases word_less_nat_alt word_le_nat_alt)
  next
    case 2
    then show ?thesis using assms(4-7) l
      by (intro decompress_compress) (auto simp: base_and_shift_cases word_less_nat_alt word_le_nat_alt)
  next
    case 3
    have b: "BASE c = 0x3FFFF000" "SHIFT c = 3" using 3(1) assms(4) l by (simp_all add: base_and_shift_cases)
    have ge: "unat obj \<ge> 0x40000000" using assms(5) l by (simp add: word_le_nat_alt)
    then have u: "unat (obj - BASE c) = unat obj - 0x3FFFF000"
      using b by (simp add: unat_sub word_le_nat_alt)
    have "8 dvd unat obj - 0x3FFFF000" using assms(7) by (intro dvd_diff_nat) auto
    then show ?thesis using 3(2) b u ge
      by (intro decompress_compress) (auto simp: word_less_nat_alt)
  qed
qed

section \<open>Properties\<close>

text \<open>
  C26. Compressed pointers are lossless on the heap: with the layout for the maximum heap size and the base and
  shift derived from it, every 8-byte aligned address of the heap has a non-null compressed form from which it is
  recovered, for heaps of at most 31 GB everywhere and for larger heaps (up to the 32 GB that the code accepts)
  everywhere below the last 4096 bytes of the heap range.
\<close>

theorem compressed_heap_roundtrip:
  assumes "aligns_chunks down" and "aligns_chunks up" and "set_compressed_pointer_vm_layout down up max_heap_size = Inr l"
    and "c = initialize_compressed_oops_base_and_shift (heap_start l) (heap_end l)"
    and "heap_start l \<le> obj" and "obj < heap_end l" and "8 dvd unat obj"
    and "max_heap_size \<le> 0x7C0000000 \<or> obj < heap_end l - 4096"
  shows "compress c obj \<noteq> 0 \<and> decompress c (compress c obj) = Some obj"
  using compressed_heap_lossless[OF assms] .

theorem compressed_heap_roundtrip_witness:
  "decompress \<lparr>BASE = 0x3FFFF000, SHIFT = 3\<rparr> (compress \<lparr>BASE = 0x3FFFF000, SHIFT = 3\<rparr> 0x83FFFEFF8) = Some 0x83FFFEFF8"
proof -
  have "set_compressed_pointer_vm_layout align_id align_id 0x800000000
      = Inr \<lparr>heap_start = 0x40000000, heap_end = 0x840000000\<rparr>"
    by (simp add: set_compressed_pointer_vm_layout_def align_id_def)
  from compressed_heap_roundtrip[OF aligns_chunks_id aligns_chunks_id this refl, of "0x83FFFEFF8"]
  show ?thesis by (simp add: base_and_shift_cases)
qed

text \<open>
  C38. The last page of the heap is not addressable with maximum heap sizes above 31 GB: the range is then a full
  32 GB, but the base lies 4096 bytes below it, and the address 4096 bytes below the end of the heap is compressed to the null pointer.
\<close>

theorem compressed_heap_last_page_lost:
  assumes "aligns_chunks down" and "aligns_chunks up"
    and "0x7C0000000 < max_heap_size" and "max_heap_size \<le> 0x800000000"
  shows "\<exists>l c. set_compressed_pointer_vm_layout down up max_heap_size = Inr l
       \<and> c = initialize_compressed_oops_base_and_shift (heap_start l) (heap_end l)
       \<and> heap_start l \<le> heap_end l - 4096 \<and> compress c (heap_end l - 4096) = 0
       \<and> decompress c (compress c (heap_end l - 4096)) = None"
proof -
  obtain l where l: "set_compressed_pointer_vm_layout down up max_heap_size = Inr l"
    using assms(4) by (simp add: set_compressed_pointer_vm_layout_def Let_def)
  have h: "heap_start l = 0x40000000" "heap_end l = 0x840000000"
    using vm_layout_cases[OF assms(1,2) l] assms(3) by (auto simp: word_less_nat_alt word_le_nat_alt split: if_splits)
  have c: "initialize_compressed_oops_base_and_shift (heap_start l) (heap_end l) = \<lparr>BASE = 0x3FFFF000, SHIFT = 3\<rparr>"
    using h by (simp add: base_and_shift_cases)
  have z: "compress \<lparr>BASE = 0x3FFFF000, SHIFT = 3\<rparr> (heap_end l - 4096) = 0"
    using h by (simp add: compress_def)
  show ?thesis using l h c z by (simp add: decompress_def)
qed

theorem compressed_heap_last_page_lost_witness:
  "\<exists>l c. set_compressed_pointer_vm_layout align_id align_id 0x800000000 = Inr l
     \<and> c = initialize_compressed_oops_base_and_shift (heap_start l) (heap_end l)
     \<and> heap_start l \<le> heap_end l - 4096 \<and> compress c (heap_end l - 4096) = 0
     \<and> decompress c (compress c (heap_end l - 4096)) = None"
  by (rule compressed_heap_last_page_lost[OF aligns_chunks_id aligns_chunks_id]) simp_all

text \<open>
  A slot returns what was stored into it, whichever its kind: a compressed field, a full-width root tagged in
  bit 63 when pointers are compressed, or an untagged slot when they are not; after \<^verbatim>\<open>store_null\<close> it reads as null.
\<close>

lemma slot_store_load:
  assumes "null_is_none from_raw_address" and "obj \<noteq> NULL"
    and "COMPRESSED \<and> is_compressed slot \<longrightarrow> decompress c (compress c obj) = Some obj"
  shows "slot_load from_raw_address COMPRESSED c (slot_store COMPRESSED c m slot obj) slot = Some obj
       \<and> slot_load from_raw_address COMPRESSED c (store_null COMPRESSED m slot) slot = None"
  using assms
  by (simp add: slot_load_def slot_store_def store_null_def null_is_none_def load32_store32 load64_store64 decompress_def)

lemma slot_store_load_instance:
  "slot_load (\<lambda>a. if a = NULL then None else Some a) True \<lparr>BASE = 0, SHIFT = 3\<rparr>
     (slot_store True \<lparr>BASE = 0, SHIFT = 3\<rparr> (\<lambda>_. 0) 0x1000 0x40000010) 0x1000 = Some 0x40000010"
proof -
  have n: "null_is_none (\<lambda>a. if a = NULL then None else Some a)" by (simp add: null_is_none_def)
  have "decompress \<lparr>BASE = 0, SHIFT = 3\<rparr> (compress \<lparr>BASE = 0, SHIFT = 3\<rparr> 0x40000010) = Some 0x40000010"
    by (simp add: compress_def decompress_def)
  then show ?thesis using slot_store_load[OF n, of "0x40000010" True "0x1000"] by simp
qed

end
