(* ===== verification/Roots_Closure.thy ===== *)
theory Roots_Closure
  imports Slots
begin

text \<open>
  Reporting roots to mmtk-core: \<^verbatim>\<open>MMTkRootsClosure\<close> (\<^verbatim>\<open>openjdk/mmtkRootsClosure.hpp\<close>) visits the roots of the VM and
  collects the non-null ones in buffers that the Rust side owns (\<^verbatim>\<open>report_slots_and_renew_buffer\<close> of
  \<^verbatim>\<open>mmtk/src/scanning.rs\<close>).

  A buffer is a list of as many words as its capacity; a write past its end is undefined behaviour in C++ and
  the model fails there. \<open>factory\<close> records what the Rust side does with the buffers: the work packets that it
  creates, in order, and how many buffers were handed out and taken back. The capacity of a fresh buffer
  (\<^verbatim>\<open>Vec::with_capacity(WORK_PACKET_CAPACITY)\<close>) is the parameter \<open>new_cap\<close>.
\<close>

section \<open>Buffers\<close>

record factory =
  batches :: "addr list list"
  handed_out :: nat
  taken_back :: nat

record NewBuffer =
  buf :: "addr list"
  buf_cap :: nat

definition report_slots_and_renew_buffer ::
  "nat \<Rightarrow> addr list option \<Rightarrow> nat \<Rightarrow> nat \<Rightarrow> factory \<Rightarrow> NewBuffer \<times> factory" where
  "report_slots_and_renew_buffer new_cap ptr len capacity f =
     (let f1 = (case ptr of
            None \<Rightarrow> f
          | Some b \<Rightarrow> f\<lparr>batches := batches f @ [take len b], taken_back := taken_back f + 1\<rparr>)
      in (\<lparr>buf = replicate new_cap 0, buf_cap = new_cap\<rparr>, f1\<lparr>handed_out := handed_out f1 + 1\<rparr>))"

definition release_buffer :: "addr list \<Rightarrow> nat \<Rightarrow> nat \<Rightarrow> factory \<Rightarrow> factory" where
  "release_buffer b len capacity f = f\<lparr>taken_back := taken_back f + 1\<rparr>"

section \<open>The closure\<close>

record roots_closure =
  buffer :: "addr list option"
  cap :: nat
  cursor :: nat

definition new_MMTkRootsClosure :: "nat \<Rightarrow> factory \<Rightarrow> roots_closure \<times> factory" where
  "new_MMTkRootsClosure new_cap f =
     (let (b, f1) = report_slots_and_renew_buffer new_cap None 0 0 f
      in (\<lparr>buffer = Some (buf b), cap = buf_cap b, cursor = 0\<rparr>, f1))"

definition flush :: "nat \<Rightarrow> roots_closure \<times> factory \<Rightarrow> roots_closure \<times> factory" where
  "flush new_cap rf = (case rf of (r, f) \<Rightarrow>
     if cursor r > 0 then
       (let (b, f1) = report_slots_and_renew_buffer new_cap (buffer r) (cursor r) (cap r) f
        in (\<lparr>buffer = Some (buf b), cap = buf_cap b, cursor = 0\<rparr>, f1))
     else (r, f))"

text \<open>The tag on a full-width slot, in the three closures of the binding.\<close>

definition tag_slot :: "bool \<Rightarrow> bool \<Rightarrow> addr \<Rightarrow> addr result" where
  "tag_slot UseCompressedOops narrow p =
     (if UseCompressedOops \<and> \<not> narrow then
        if p AND push_bit 63 1 = 0 then Inr (p OR push_bit 63 1) else Inl (Guarantee_failed ''test'')
      else Inr p)"

definition is_null_root :: "mem \<Rightarrow> bool \<Rightarrow> addr \<Rightarrow> bool" where
  "is_null_root m narrow p \<longleftrightarrow> (if narrow then load32 m p = 0 else load64 m p = 0)"

definition buffer_write :: "addr list option \<Rightarrow> nat \<Rightarrow> addr \<Rightarrow> addr list result" where
  "buffer_write b i v = (case b of
     None \<Rightarrow> Inl (Abort ''null pointer dereference'')
   | Some xs \<Rightarrow> if i < length xs then Inr (xs[i := v]) else Inl (Abort ''write past the end of the buffer''))"

definition do_oop_work ::
  "bool \<Rightarrow> nat \<Rightarrow> mem \<Rightarrow> addr \<Rightarrow> bool \<Rightarrow> roots_closure \<times> factory \<Rightarrow> (roots_closure \<times> factory) result" where
  "do_oop_work UseCompressedOops new_cap m p narrow rf = (case rf of (r, f) \<Rightarrow>
     if is_null_root m narrow p then Inr (r, f)
     else (case tag_slot UseCompressedOops narrow p of
         Inl e \<Rightarrow> Inl e
       | Inr p1 \<Rightarrow> (case buffer_write (buffer r) (cursor r) p1 of
             Inl e \<Rightarrow> Inl e
           | Inr b \<Rightarrow>
               (let r1 = r\<lparr>buffer := Some b, cursor := cursor r + 1\<rparr>
                in Inr (if cursor r1 \<ge> cap r1 then flush new_cap (r1, f) else (r1, f))))))"

definition delete_MMTkRootsClosure :: "nat \<Rightarrow> roots_closure \<times> factory \<Rightarrow> factory" where
  "delete_MMTkRootsClosure new_cap rf =
     (let (r, f) = (if cursor (fst rf) > 0 then flush new_cap rf else rf)
      in (case buffer r of None \<Rightarrow> f | Some b \<Rightarrow> release_buffer b (cursor r) (cap r) f))"

text \<open>A root is an address and whether it is visited as a \<^verbatim>\<open>narrowOop*\<close>; the VM calls \<^verbatim>\<open>do_oop\<close> on each.\<close>

type_synonym root = "addr \<times> bool"

fun do_oops ::
  "bool \<Rightarrow> nat \<Rightarrow> mem \<Rightarrow> root list \<Rightarrow> roots_closure \<times> factory \<Rightarrow> (roots_closure \<times> factory) result" where
  "do_oops co new_cap m [] rf = Inr rf"
| "do_oops co new_cap m ((p, narrow) # roots) rf =
     (case do_oop_work co new_cap m p narrow rf of Inl e \<Rightarrow> Inl e | Inr rf1 \<Rightarrow> do_oops co new_cap m roots rf1)"

definition scan_with_closure :: "bool \<Rightarrow> nat \<Rightarrow> mem \<Rightarrow> root list \<Rightarrow> factory \<Rightarrow> factory result" where
  "scan_with_closure co new_cap m roots f =
     (case do_oops co new_cap m roots (new_MMTkRootsClosure new_cap f) of
        Inl e \<Rightarrow> Inl e
      | Inr rf \<Rightarrow> Inr (delete_MMTkRootsClosure new_cap rf))"

definition empty_factory :: factory where
  "empty_factory = \<lparr>batches = [], handed_out = 0, taken_back = 0\<rparr>"

section \<open>What is reported\<close>

text \<open>
  The slots that a scan should report: the non-null roots, tagged. \<open>slot_of\<close> is the specification of the tag; the code is
  \<open>tag_slot\<close>, which gives it (lemma \<open>tag_slot_ok\<close>).
\<close>

definition slot_of :: "bool \<Rightarrow> root \<Rightarrow> addr" where
  "slot_of co = (\<lambda>(p, narrow). if co \<and> \<not> narrow then p OR MASK else p)"

definition root_slots :: "bool \<Rightarrow> mem \<Rightarrow> root list \<Rightarrow> addr list" where
  "root_slots co m roots = map (slot_of co) (filter (\<lambda>(p, narrow). \<not> is_null_root m narrow p) roots)"

definition taggable :: "bool \<Rightarrow> root list \<Rightarrow> bool" where
  "taggable co roots \<longleftrightarrow> (co \<longrightarrow> (\<forall>(p, narrow)\<in>set roots. user_addr p))"

text \<open>Between two visits there is room for one more slot, and nothing visited so far is missing.\<close>

definition closure_inv :: "nat \<Rightarrow> addr list \<Rightarrow> roots_closure \<times> factory \<Rightarrow> bool" where
  "closure_inv new_cap visited rf = (case rf of (r, f) \<Rightarrow>
     (case buffer r of
        None \<Rightarrow> False
      | Some b \<Rightarrow> length b = new_cap \<and> cap r = new_cap \<and> cursor r < new_cap
          \<and> concat (batches f) @ take (cursor r) b = visited)
     \<and> (\<forall>x\<in>set (batches f). x \<noteq> [] \<and> length x \<le> new_cap)
     \<and> handed_out f = taken_back f + 1)"

lemma tag_slot_ok: "co \<longrightarrow> user_addr p \<Longrightarrow> tag_slot co narrow p = Inr (slot_of co (p, narrow))"
  using is_compressed_user_addr[of p] by (auto simp: tag_slot_def slot_of_def is_compressed_def MASK_def)

lemma tag_slot_fails: "\<not> user_addr p \<Longrightarrow> tag_slot True False p = Inl (Guarantee_failed ''test'')"
  using is_compressed_user_addr[of p] by (auto simp: tag_slot_def is_compressed_def MASK_def)

text \<open>A factory between two scans: no buffer is out, and no packet is empty or oversized.\<close>

definition factory_ok :: "nat \<Rightarrow> factory \<Rightarrow> bool" where
  "factory_ok new_cap f \<longleftrightarrow>
     (\<forall>x\<in>set (batches f). x \<noteq> [] \<and> length x \<le> new_cap) \<and> handed_out f = taken_back f"

lemma closure_inv_new:
  "0 < new_cap \<Longrightarrow> factory_ok new_cap f \<Longrightarrow>
   closure_inv new_cap (concat (batches f)) (new_MMTkRootsClosure new_cap f)"
  by (simp add: closure_inv_def factory_ok_def new_MMTkRootsClosure_def report_slots_and_renew_buffer_def Let_def)

lemma do_oop_work_step:
  assumes "closure_inv new_cap visited rf" and "co \<longrightarrow> user_addr p"
  shows "\<exists>rf1. do_oop_work co new_cap m p narrow rf = Inr rf1
     \<and> closure_inv new_cap (visited @ root_slots co m [(p, narrow)]) rf1"
proof (cases "is_null_root m narrow p")
  case True
  then show ?thesis using assms(1) by (cases rf) (simp add: do_oop_work_def root_slots_def)
next
  case False
  obtain r f where rf: "rf = (r, f)" by (cases rf)
  obtain b where b: "buffer r = Some b" using assms(1) rf by (auto simp: closure_inv_def split: option.splits)
  note i = assms(1)[unfolded rf closure_inv_def prod.case b option.case]
  have c: "cursor r < length b" using i by simp
  let ?v = "slot_of co (p, narrow)"
  have t: "take (Suc (cursor r)) (b[cursor r := ?v]) = take (cursor r) b @ [?v]"
    using c by (simp add: take_Suc_conv_app_nth)
  show ?thesis
  proof (cases "Suc (cursor r) = new_cap")
    case True
    then show ?thesis using i b c t False assms(2) rf
      by (auto simp: do_oop_work_def tag_slot_ok buffer_write_def flush_def report_slots_and_renew_buffer_def
          closure_inv_def root_slots_def Let_def)
  next
    case ne: False
    then show ?thesis using i b c t False assms(2) rf
      by (auto simp: do_oop_work_def tag_slot_ok buffer_write_def closure_inv_def root_slots_def Let_def)
  qed
qed

lemma root_slots_Cons: "root_slots co m (x # xs) = root_slots co m [x] @ root_slots co m xs"
  by (simp add: root_slots_def)

lemma do_oops_inv:
  "closure_inv new_cap visited rf \<Longrightarrow> taggable co roots \<Longrightarrow>
   \<exists>rf1. do_oops co new_cap m roots rf = Inr rf1 \<and> closure_inv new_cap (visited @ root_slots co m roots) rf1"
proof (induction roots arbitrary: rf visited)
  case (Cons x roots)
  obtain p narrow where x: "x = (p, narrow)" by (cases x)
  have tg: "co \<longrightarrow> user_addr p" "taggable co roots" using Cons.prems(2) x by (auto simp: taggable_def)
  obtain rf1 where rf1: "do_oop_work co new_cap m p narrow rf = Inr rf1"
    "closure_inv new_cap (visited @ root_slots co m [x]) rf1"
    using do_oop_work_step[OF Cons.prems(1) tg(1)] x by blast
  then show ?case using Cons.IH[OF rf1(2) tg(2)] x root_slots_Cons[of co m x roots] by simp
qed (simp add: root_slots_def)

lemma delete_flushes:
  assumes "closure_inv new_cap visited rf" and "f = delete_MMTkRootsClosure new_cap rf"
  shows "concat (batches f) = visited \<and> factory_ok new_cap f"
  using assms
  by (cases rf)
    (auto simp: closure_inv_def factory_ok_def delete_MMTkRootsClosure_def flush_def report_slots_and_renew_buffer_def
      release_buffer_def Let_def split: option.splits)

lemma scan_with_closure_appends:
  assumes "0 < new_cap" and "factory_ok new_cap f" and "taggable co roots"
  shows "\<exists>f1. scan_with_closure co new_cap m roots f = Inr f1 \<and> factory_ok new_cap f1
    \<and> concat (batches f1) = concat (batches f) @ root_slots co m roots"
proof -
  obtain rf where "do_oops co new_cap m roots (new_MMTkRootsClosure new_cap f) = Inr rf"
    "closure_inv new_cap (concat (batches f) @ root_slots co m roots) rf"
    using do_oops_inv[OF closure_inv_new[OF assms(1,2)] assms(3)] by blast
  then show ?thesis using delete_flushes[OF _ refl] by (auto simp: scan_with_closure_def)
qed

section \<open>Properties\<close>

text \<open>
  C5. A scan reports every root exactly once: for every list of roots of the VM and every positive capacity of the
  buffers, the scan succeeds without writing outside a buffer, the work packets hold exactly the non-null
  roots in the order of the visits, each packet is non-empty and within the capacity, and every buffer
  that was handed out has been taken back.
\<close>

theorem scan_roots_reports_all:
  assumes "0 < new_cap" and "taggable UseCompressedOops roots"
  shows "\<exists>f. scan_with_closure UseCompressedOops new_cap m roots empty_factory = Inr f
       \<and> concat (batches f) = root_slots UseCompressedOops m roots
       \<and> (\<forall>x\<in>set (batches f). x \<noteq> [] \<and> length x \<le> new_cap)
       \<and> handed_out f = taken_back f"
  using scan_with_closure_appends[OF assms(1) _ assms(2), of empty_factory m]
  by (auto simp: factory_ok_def empty_factory_def)

text \<open>Three roots and buffers of two words; the second root is null.\<close>

definition demo_roots :: "root list" where
  "demo_roots = [(0x100, False), (0x200, True), (0x300, True)]"

definition demo_roots_mem :: mem where
  "demo_roots_mem = store32 (store64 (\<lambda>_. 0) 0x100 0x40000000) 0x300 0x123"

theorem scan_roots_reports_all_witness:
  "\<exists>f. scan_with_closure True 2 demo_roots_mem demo_roots empty_factory = Inr f
     \<and> concat (batches f) = [0x100 OR MASK, 0x300] \<and> handed_out f = taken_back f"
proof -
  have "taggable True demo_roots" by (simp add: taggable_def demo_roots_def user_addr_def)
  moreover have "root_slots True demo_roots_mem demo_roots = [0x100 OR MASK, 0x300]"
    by (simp add: root_slots_def demo_roots_def demo_roots_mem_def is_null_root_def slot_of_def load64_def load32_def
        store64_def store32_def)
  ultimately show ?thesis using scan_roots_reports_all[of 2 True demo_roots demo_roots_mem] by auto
qed

text \<open>Reading and writing a tagged root through the slot.\<close>

lemma slot_load_root:
  assumes "null_is_none from_raw_address" and "co \<longrightarrow> user_addr p" and "narrow \<longrightarrow> co"
  shows "slot_load from_raw_address co c m (slot_of co (p, narrow))
    = (if is_null_root m narrow p then None else if narrow then decompress c (load32 m p) else Some (load64 m p))"
  using assms not_compressed_or_MASK[of p]
  by (cases narrow; cases co)
    (simp_all add: slot_load_def slot_of_def null_is_none_def is_null_root_def is_compressed_user_addr untagged_user_addr
      untagged_or_MASK decompress_def)

lemma slot_store_root:
  assumes "co \<longrightarrow> user_addr p" and "narrow \<longrightarrow> co"
  shows "slot_store co c m (slot_of co (p, narrow)) obj = (if narrow then store32 m p (compress c obj) else store64 m p obj)"
  using assms not_compressed_or_MASK[of p]
  by (cases narrow; cases co)
    (simp_all add: slot_store_def slot_of_def is_compressed_user_addr untagged_user_addr untagged_or_MASK)

text \<open>
  C27. The tag carries the kind of a root across the language border: the tagging of a non-null root succeeds, and reading the
  slot it gives on the Rust side yields the object that the root refers to, a full pointer for an \<^verbatim>\<open>oop*\<close> and a decompressed
  one for a \<^verbatim>\<open>narrowOop*\<close>, and writing it (after the object was moved) changes the root to the new address.
\<close>

theorem tagged_slot_reads_root:
  assumes "null_is_none from_raw_address" and "UseCompressedOops \<longrightarrow> user_addr p" and "narrow \<longrightarrow> UseCompressedOops"
    and "\<not> is_null_root m narrow p"
  shows "\<exists>slot. tag_slot UseCompressedOops narrow p = Inr slot
       \<and> slot_load from_raw_address UseCompressedOops c m slot
         = (if narrow then decompress c (load32 m p) else Some (load64 m p))
       \<and> slot_store UseCompressedOops c m slot obj
         = (if narrow then store32 m p (compress c obj) else store64 m p obj)"
  using assms by (simp add: tag_slot_ok slot_load_root slot_store_root)

theorem tagged_slot_reads_root_witness:
  "\<exists>slot. tag_slot True False 0x100 = Inr slot
     \<and> slot_load (\<lambda>a. if a = NULL then None else Some a) True \<lparr>BASE = 0, SHIFT = 3\<rparr> demo_roots_mem slot
       = Some (load64 demo_roots_mem 0x100)"
proof -
  have "null_is_none (\<lambda>a. if a = NULL then None else Some a)" by (simp add: null_is_none_def)
  moreover have "\<not> is_null_root demo_roots_mem False 0x100"
    by (simp add: demo_roots_mem_def is_null_root_def load64_def load32_def store64_def store32_def)
  ultimately show ?thesis
    using tagged_slot_reads_root[of "\<lambda>a. if a = NULL then None else Some a" True "0x100" False demo_roots_mem]
    by (auto simp: user_addr_def)
qed

end
