(* ===== verification/Code_Cache.thy ===== *)
theory Code_Cache
  imports Roots_Closure
begin

text \<open>
  Roots in compiled code and the list of root kinds of a collection. \<^verbatim>\<open>MMTkHeap::register_nmethod\<close>
  (\<^verbatim>\<open>openjdk/mmtkHeap.cpp\<close>) reports the slots of a compiled method one by one to the Rust side, which keeps
  them in two hash maps from method to slots (\<^verbatim>\<open>mmtk/src/api.rs\<close>, \<^verbatim>\<open>mmtk/src/lib.rs\<close>): those registered since the last collection and
  the older ones. \<^verbatim>\<open>ScanCodeCacheRoots\<close> (\<^verbatim>\<open>mmtk/src/gc_work.rs\<close>) reports them to a collection, the older ones
  only if the whole heap is collected, and moves all of them to the older map.

  The order in which a hash map is iterated is unspecified: it is the parameter \<open>order\<close>, any function that
  enumerates the keys of a finite map.
\<close>

section \<open>Registering compiled methods\<close>

type_synonym roots_map = "addr \<rightharpoonup> addr list"

record code_cache =
  NMETHOD_SLOTS :: "addr list"
  NURSERY_CODE_CACHE_ROOTS :: roots_map
  MATURE_CODE_CACHE_ROOTS :: roots_map

definition empty_code_cache :: code_cache where
  "empty_code_cache = \<lparr>NMETHOD_SLOTS = [], NURSERY_CODE_CACHE_ROOTS = Map.empty, MATURE_CODE_CACHE_ROOTS = Map.empty\<rparr>"

definition mmtk_add_nmethod_oop :: "addr \<Rightarrow> code_cache \<Rightarrow> code_cache" where
  "mmtk_add_nmethod_oop a cc = cc\<lparr>NMETHOD_SLOTS := NMETHOD_SLOTS cc @ [a]\<rparr>"

definition mmtk_register_nmethod :: "addr \<Rightarrow> code_cache \<Rightarrow> code_cache" where
  "mmtk_register_nmethod nm cc =
     (if NMETHOD_SLOTS cc \<noteq> [] then
        cc\<lparr>NURSERY_CODE_CACHE_ROOTS := (NURSERY_CODE_CACHE_ROOTS cc)(nm \<mapsto> NMETHOD_SLOTS cc), NMETHOD_SLOTS := []\<rparr>
      else cc)"

definition mmtk_unregister_nmethod :: "addr \<Rightarrow> code_cache \<Rightarrow> code_cache" where
  "mmtk_unregister_nmethod nm cc =
     (let cc1 = cc\<lparr>NURSERY_CODE_CACHE_ROOTS := (NURSERY_CODE_CACHE_ROOTS cc)(nm := None)\<rparr>
      in cc1\<lparr>MATURE_CODE_CACHE_ROOTS := (MATURE_CODE_CACHE_ROOTS cc1)(nm := None)\<rparr>)"

text \<open>\<^verbatim>\<open>MMTkRegisterNMethodOopClosure\<close>, applied to each slot by \<^verbatim>\<open>nm->oops_do\<close>.\<close>

fun nmethod_oops_do :: "bool \<Rightarrow> root list \<Rightarrow> code_cache \<Rightarrow> code_cache result" where
  "nmethod_oops_do co [] cc = Inr cc"
| "nmethod_oops_do co ((p, narrow) # rest) cc =
     (case tag_slot co narrow p of
        Inl e \<Rightarrow> Inl e
      | Inr tagged_p \<Rightarrow> nmethod_oops_do co rest (mmtk_add_nmethod_oop tagged_p cc))"

definition register_nmethod :: "bool \<Rightarrow> addr \<Rightarrow> root list \<Rightarrow> code_cache \<Rightarrow> code_cache result" where
  "register_nmethod co nm refs cc =
     (case nmethod_oops_do co refs cc of Inl e \<Rightarrow> Inl e | Inr cc1 \<Rightarrow> Inr (mmtk_register_nmethod nm cc1))"

definition unregister_nmethod :: "addr \<Rightarrow> code_cache \<Rightarrow> code_cache" where
  "unregister_nmethod nm cc = mmtk_unregister_nmethod nm cc"

section \<open>Scanning the code cache\<close>

definition create_process_roots_work :: "addr list \<Rightarrow> factory \<Rightarrow> factory" where
  "create_process_roots_work slots f = f\<lparr>batches := batches f @ [slots]\<rparr>"

fun add_roots :: "nat \<Rightarrow> addr list \<Rightarrow> addr list \<times> factory \<Rightarrow> addr list \<times> factory" where
  "add_roots WORK_PACKET_CAPACITY [] sf = sf"
| "add_roots WORK_PACKET_CAPACITY (root # roots) (slots, f) =
     (let slots1 = slots @ [root]
      in if length slots1 \<ge> WORK_PACKET_CAPACITY
         then add_roots WORK_PACKET_CAPACITY roots ([], create_process_roots_work slots1 f)
         else add_roots WORK_PACKET_CAPACITY roots (slots1, f))"

definition roots_at :: "roots_map \<Rightarrow> addr \<Rightarrow> addr list" where
  "roots_at m k = (case m k of None \<Rightarrow> [] | Some roots \<Rightarrow> roots)"

fun add_values :: "nat \<Rightarrow> roots_map \<Rightarrow> addr list \<Rightarrow> addr list \<times> factory \<Rightarrow> addr list \<times> factory" where
  "add_values n m [] sf = sf"
| "add_values n m (k # ks) sf = add_values n m ks (add_roots n (roots_at m k) sf)"

fun drain_into :: "roots_map \<Rightarrow> addr list \<Rightarrow> roots_map \<Rightarrow> roots_map" where
  "drain_into nursery [] mature = mature"
| "drain_into nursery (k # ks) mature = drain_into nursery ks (mature(k \<mapsto> roots_at nursery k))"

definition ScanCodeCacheRoots_do_work ::
  "(roots_map \<Rightarrow> addr list) \<Rightarrow> nat \<Rightarrow> bool \<Rightarrow> code_cache \<Rightarrow> factory \<Rightarrow> code_cache \<times> factory" where
  "ScanCodeCacheRoots_do_work order n is_current_gc_nursery cc f =
     (let mature = MATURE_CODE_CACHE_ROOTS cc;
          nursery = NURSERY_CODE_CACHE_ROOTS cc;
          sf1 = (if \<not> is_current_gc_nursery then add_values n mature (order mature) ([], f) else ([], f));
          (slots, f2) = add_values n nursery (order nursery) sf1;
          cc1 = cc\<lparr>NURSERY_CODE_CACHE_ROOTS := Map.empty,
                   MATURE_CODE_CACHE_ROOTS := drain_into nursery (order nursery) mature\<rparr>
      in (cc1, if slots \<noteq> [] then create_process_roots_work slots f2 else f2))"

definition enumerates_keys :: "(roots_map \<Rightarrow> addr list) \<Rightarrow> bool" where
  "enumerates_keys order \<longleftrightarrow> (\<forall>m. finite (dom m) \<longrightarrow> distinct (order m) \<and> set (order m) = dom m)"

section \<open>The work packets of a collection\<close>

text \<open>
  One kind per upcall \<^verbatim>\<open>mmtk_scan_..._roots\<close>, each of which runs a fresh \<^verbatim>\<open>MMTkRootsClosure\<close> over the roots that the
  VM enumerates for that kind (the parameter \<open>vm_roots\<close>); the code cache is scanned through the maps above.
\<close>

datatype root_kind = Universe_roots | JNI_handle_roots | Object_synchronizer_roots | Management_roots
  | Jvmti_export_roots | AOT_loader_roots | System_dictionary_roots | String_table_roots
  | Class_loader_data_graph_roots | Weak_processor_roots | VM_thread_roots

datatype root_packet = Scan_kind root_kind | ScanCodeCacheRoots

definition scan_vm_specific_roots :: "root_packet list" where
  "scan_vm_specific_roots =
     [Scan_kind Universe_roots, Scan_kind JNI_handle_roots, Scan_kind Object_synchronizer_roots,
      Scan_kind Management_roots, Scan_kind Jvmti_export_roots, Scan_kind AOT_loader_roots,
      Scan_kind System_dictionary_roots, ScanCodeCacheRoots, Scan_kind String_table_roots,
      Scan_kind Class_loader_data_graph_roots, Scan_kind Weak_processor_roots, Scan_kind VM_thread_roots]"

fun do_packet ::
  "(roots_map \<Rightarrow> addr list) \<Rightarrow> nat \<Rightarrow> bool \<Rightarrow> bool \<Rightarrow> mem \<Rightarrow> (root_kind \<Rightarrow> root list) \<Rightarrow> root_packet \<Rightarrow>
   code_cache \<times> factory \<Rightarrow> (code_cache \<times> factory) result" where
  "do_packet order n co nursery_gc m vm_roots (Scan_kind k) (cc, f) =
     (case scan_with_closure co n m (vm_roots k) f of Inl e \<Rightarrow> Inl e | Inr f1 \<Rightarrow> Inr (cc, f1))"
| "do_packet order n co nursery_gc m vm_roots ScanCodeCacheRoots (cc, f) =
     Inr (ScanCodeCacheRoots_do_work order n nursery_gc cc f)"

fun do_packets ::
  "(roots_map \<Rightarrow> addr list) \<Rightarrow> nat \<Rightarrow> bool \<Rightarrow> bool \<Rightarrow> mem \<Rightarrow> (root_kind \<Rightarrow> root list) \<Rightarrow> root_packet list \<Rightarrow>
   code_cache \<times> factory \<Rightarrow> (code_cache \<times> factory) result" where
  "do_packets order n co nursery_gc m vm_roots [] s = Inr s"
| "do_packets order n co nursery_gc m vm_roots (p # ps) s =
     (case do_packet order n co nursery_gc m vm_roots p s of
        Inl e \<Rightarrow> Inl e
      | Inr s1 \<Rightarrow> do_packets order n co nursery_gc m vm_roots ps s1)"

section \<open>The registry\<close>

text \<open>What the code cache stands for: the map from registered methods to their slots.\<close>

definition registered :: "code_cache \<Rightarrow> roots_map" where
  "registered cc = MATURE_CODE_CACHE_ROOTS cc ++ NURSERY_CODE_CACHE_ROOTS cc"

definition code_cache_inv :: "code_cache \<Rightarrow> bool" where
  "code_cache_inv cc \<longleftrightarrow> NMETHOD_SLOTS cc = [] \<and> finite (dom (NURSERY_CODE_CACHE_ROOTS cc))
     \<and> finite (dom (MATURE_CODE_CACHE_ROOTS cc))"

datatype cc_op = Register addr "root list" | Unregister addr | Collect bool

definition ok_or :: "'a \<Rightarrow> 'a result \<Rightarrow> 'a" where
  "ok_or d r = (case r of Inl _ \<Rightarrow> d | Inr x \<Rightarrow> x)"

fun cc_step :: "(roots_map \<Rightarrow> addr list) \<Rightarrow> nat \<Rightarrow> bool \<Rightarrow> cc_op \<Rightarrow> code_cache \<Rightarrow> code_cache" where
  "cc_step order n co (Register nm refs) cc = ok_or cc (register_nmethod co nm refs cc)"
| "cc_step order n co (Unregister nm) cc = unregister_nmethod nm cc"
| "cc_step order n co (Collect nursery) cc = fst (ScanCodeCacheRoots_do_work order n nursery cc empty_factory)"

fun cc_allowed :: "bool \<Rightarrow> cc_op \<Rightarrow> bool" where
  "cc_allowed co (Register nm refs) = taggable co refs"
| "cc_allowed co _ = True"

fun registry_step :: "bool \<Rightarrow> cc_op \<Rightarrow> roots_map \<Rightarrow> roots_map" where
  "registry_step co (Register nm refs) m = (if refs = [] then m else m(nm \<mapsto> map (slot_of co) refs))"
| "registry_step co (Unregister nm) m = m(nm := None)"
| "registry_step co (Collect nursery) m = m"

section \<open>Lemmas\<close>

lemma nmethod_oops_do_ok:
  "taggable co refs \<Longrightarrow>
   nmethod_oops_do co refs cc = Inr (cc\<lparr>NMETHOD_SLOTS := NMETHOD_SLOTS cc @ map (slot_of co) refs\<rparr>)"
proof (induction refs arbitrary: cc)
  case (Cons x refs)
  obtain p narrow where x: "x = (p, narrow)" by (cases x)
  have "co \<longrightarrow> user_addr p" "taggable co refs" using Cons.prems x by (auto simp: taggable_def)
  then show ?case using Cons.IH[of "mmtk_add_nmethod_oop (slot_of co x) cc"] x tag_slot_ok[of co p narrow]
    by (simp add: mmtk_add_nmethod_oop_def)
qed simp

lemma register_nmethod_ok:
  "taggable co refs \<Longrightarrow> NMETHOD_SLOTS cc = [] \<Longrightarrow> register_nmethod co nm refs cc =
     Inr (if refs = [] then cc
          else cc\<lparr>NURSERY_CODE_CACHE_ROOTS := (NURSERY_CODE_CACHE_ROOTS cc)(nm \<mapsto> map (slot_of co) refs)\<rparr>)"
  by (simp add: register_nmethod_def nmethod_oops_do_ok mmtk_register_nmethod_def)

lemma drain_into_eq:
  "set ks \<subseteq> dom nursery \<Longrightarrow>
   drain_into nursery ks mature = (\<lambda>k. if k \<in> set ks then nursery k else mature k)"
proof (induction ks arbitrary: mature)
  case (Cons k ks)
  then obtain r where "nursery k = Some r" by auto
  then show ?case using Cons by (auto simp: roots_at_def)
qed simp

lemma drain_into_all: "set ks = dom nursery \<Longrightarrow> drain_into nursery ks mature = mature ++ nursery"
  by (rule ext) (auto simp: drain_into_eq map_add_def split: option.splits)

lemma scan_code_cache_registry:
  assumes "enumerates_keys order" and "code_cache_inv cc"
  shows "fst (ScanCodeCacheRoots_do_work order n nursery cc f)
       = cc\<lparr>NURSERY_CODE_CACHE_ROOTS := Map.empty, MATURE_CODE_CACHE_ROOTS := registered cc\<rparr>"
  using assms
  by (simp add: ScanCodeCacheRoots_do_work_def Let_def drain_into_all registered_def enumerates_keys_def
      code_cache_inv_def split: prod.split)

lemma cc_step_refines:
  assumes "enumerates_keys order" and "code_cache_inv cc" and "cc_allowed co x"
  shows "code_cache_inv (cc_step order n co x cc)"
    and "registered (cc_step order n co x cc) = registry_step co x (registered cc)"
  using assms
  by (cases x; auto simp: register_nmethod_ok ok_or_def unregister_nmethod_def mmtk_unregister_nmethod_def
      scan_code_cache_registry code_cache_inv_def registered_def map_add_def split: option.splits)+

lemma cc_refinement:
  "enumerates_keys order \<Longrightarrow>
   functional_refinement code_cache_inv (cc_allowed co) (cc_step order n co) registered (registry_step co)"
  by unfold_locales (auto simp: cc_step_refines)

text \<open>The instance used for evaluation enumerates the keys in increasing order.\<close>

definition key_order :: "roots_map \<Rightarrow> addr list" where
  "key_order m = sorted_list_of_set (dom m)"

lemma enumerates_key_order: "enumerates_keys key_order"
  by (simp add: enumerates_keys_def key_order_def)

interpretation cc: functional_refinement code_cache_inv "cc_allowed co" "cc_step key_order n co" registered
  "registry_step co" for co n
  by (rule cc_refinement[OF enumerates_key_order])

text \<open>The packets of a scan of the code cache.\<close>

definition packets_ok :: "nat \<Rightarrow> factory \<Rightarrow> bool" where
  "packets_ok n f \<longleftrightarrow> (\<forall>x\<in>set (batches f). x \<noteq> [] \<and> length x \<le> n)"

lemma add_roots_concat:
  assumes "0 < n" and "packets_ok n f" and "length slots < n"
  shows "\<exists>slots1 f1. add_roots n roots (slots, f) = (slots1, f1) \<and> packets_ok n f1 \<and> length slots1 < n
    \<and> concat (batches f1) @ slots1 = concat (batches f) @ slots @ roots
    \<and> handed_out f1 = handed_out f \<and> taken_back f1 = taken_back f"
  using assms
proof (induction roots arbitrary: slots f)
  case (Cons root roots)
  show ?case
  proof (cases "Suc (length slots) < n")
    case True
    then show ?thesis using Cons.IH[of f "slots @ [root]"] Cons.prems by simp
  next
    case False
    let ?f = "create_process_roots_work (slots @ [root]) f"
    have "packets_ok n ?f" using Cons.prems by (auto simp: packets_ok_def create_process_roots_work_def)
    then show ?thesis using Cons.IH[of ?f "[]"] Cons.prems False
      by (simp add: create_process_roots_work_def)
  qed
qed simp

lemma add_values_concat:
  assumes "0 < n" and "packets_ok n f" and "length slots < n"
  shows "\<exists>slots1 f1. add_values n m ks (slots, f) = (slots1, f1) \<and> packets_ok n f1 \<and> length slots1 < n
    \<and> concat (batches f1) @ slots1 = concat (batches f) @ slots @ concat (map (roots_at m) ks)
    \<and> handed_out f1 = handed_out f \<and> taken_back f1 = taken_back f"
  using assms
proof (induction ks arbitrary: slots f)
  case (Cons k ks)
  obtain s1 f1 where s1: "add_roots n (roots_at m k) (slots, f) = (s1, f1)" "packets_ok n f1" "length s1 < n"
    "concat (batches f1) @ s1 = concat (batches f) @ slots @ roots_at m k"
    "handed_out f1 = handed_out f" "taken_back f1 = taken_back f"
    using add_roots_concat[OF Cons.prems] by blast
  then show ?case using Cons.IH[OF Cons.prems(1) s1(2,3)] by (simp flip: append_assoc)
qed simp

lemma scan_code_cache_reports:
  assumes "0 < n" and "factory_ok n f" and "ScanCodeCacheRoots_do_work order n nursery_gc cc f = (cc1, f1)"
  shows "factory_ok n f1 \<and> concat (batches f1) = concat (batches f)
      @ (if nursery_gc then [] else concat (map (roots_at (MATURE_CODE_CACHE_ROOTS cc)) (order (MATURE_CODE_CACHE_ROOTS cc))))
      @ concat (map (roots_at (NURSERY_CODE_CACHE_ROOTS cc)) (order (NURSERY_CODE_CACHE_ROOTS cc)))"
proof -
  let ?M = "MATURE_CODE_CACHE_ROOTS cc" and ?N = "NURSERY_CODE_CACHE_ROOTS cc"
  have p: "packets_ok n f" using assms(2) by (simp add: factory_ok_def packets_ok_def)
  obtain s1 f2 where s1: "(if \<not> nursery_gc then add_values n ?M (order ?M) ([], f) else ([], f)) = (s1, f2)"
    "packets_ok n f2" "length s1 < n"
    "concat (batches f2) @ s1 = concat (batches f) @ (if nursery_gc then [] else concat (map (roots_at ?M) (order ?M)))"
    "handed_out f2 = handed_out f" "taken_back f2 = taken_back f"
    using add_values_concat[OF assms(1) p, of "[]" ?M "order ?M"] assms(1) p by (cases nursery_gc) auto
  obtain s2 f3 where s2: "add_values n ?N (order ?N) (s1, f2) = (s2, f3)" "packets_ok n f3" "length s2 < n"
    "concat (batches f3) @ s2 = concat (batches f2) @ s1 @ concat (map (roots_at ?N) (order ?N))"
    "handed_out f3 = handed_out f2" "taken_back f3 = taken_back f2"
    using add_values_concat[OF assms(1) s1(2,3), of ?N "order ?N"] by blast
  have f1: "f1 = (if s2 \<noteq> [] then create_process_roots_work s2 f3 else f3)"
    using assms(3) s1(1) s2(1) by (simp add: ScanCodeCacheRoots_do_work_def Let_def)
  have "concat (batches f1) = (concat (batches f2) @ s1) @ concat (map (roots_at ?N) (order ?N))"
    using s2(4) by (cases "s2 = []") (simp_all add: f1 create_process_roots_work_def)
  then have c: "concat (batches f1) = concat (batches f)
      @ (if nursery_gc then [] else concat (map (roots_at ?M) (order ?M))) @ concat (map (roots_at ?N) (order ?N))"
    unfolding s1(4) by simp
  have "packets_ok n f1" using s2(2,3) by (simp add: f1 packets_ok_def create_process_roots_work_def)
  moreover have "handed_out f1 = taken_back f1"
    using s1(5,6) s2(5,6) assms(2) by (simp add: f1 create_process_roots_work_def factory_ok_def)
  ultimately show ?thesis using c by (simp add: factory_ok_def packets_ok_def)
qed

text \<open>The slots that the two maps hold for a collection.\<close>

definition map_slots :: "roots_map \<Rightarrow> addr set" where
  "map_slots m = (\<Union>r\<in>ran m. set r)"

definition code_cache_slots :: "bool \<Rightarrow> code_cache \<Rightarrow> addr set" where
  "code_cache_slots nursery_gc cc = map_slots (NURSERY_CODE_CACHE_ROOTS cc)
     \<union> (if nursery_gc then {} else map_slots (MATURE_CODE_CACHE_ROOTS cc))"

lemma set_concat_roots_at: "set ks = dom m \<Longrightarrow> set (concat (map (roots_at m) ks)) = map_slots m"
  by (force simp: roots_at_def map_slots_def ran_def dom_def split: option.splits)

lemma registered_slots: "map_slots (registered cc) \<subseteq> code_cache_slots False cc"
  by (auto simp: map_slots_def code_cache_slots_def registered_def ran_def map_add_def split: option.splits)

lemma scan_code_cache_set:
  assumes "0 < n" and "factory_ok n f" and "enumerates_keys order" and "code_cache_inv cc"
    and "ScanCodeCacheRoots_do_work order n nursery_gc cc f = (cc1, f1)"
  shows "factory_ok n f1 \<and> set (concat (batches f1)) = set (concat (batches f)) \<union> code_cache_slots nursery_gc cc"
proof -
  have o: "set (order m) = dom m" if "finite (dom m)" for m
    using that assms(3) by (simp add: enumerates_keys_def)
  have M: "set (concat (map (roots_at (MATURE_CODE_CACHE_ROOTS cc)) (order (MATURE_CODE_CACHE_ROOTS cc))))
      = map_slots (MATURE_CODE_CACHE_ROOTS cc)"
    using assms(4) by (intro set_concat_roots_at o) (simp add: code_cache_inv_def)
  have N: "set (concat (map (roots_at (NURSERY_CODE_CACHE_ROOTS cc)) (order (NURSERY_CODE_CACHE_ROOTS cc))))
      = map_slots (NURSERY_CODE_CACHE_ROOTS cc)"
    using assms(4) by (intro set_concat_roots_at o) (simp add: code_cache_inv_def)
  show ?thesis using scan_code_cache_reports[OF assms(1,2,5)]
    by (auto simp: code_cache_slots_def M N simp del: set_concat)
qed

fun packet_slots :: "bool \<Rightarrow> bool \<Rightarrow> mem \<Rightarrow> (root_kind \<Rightarrow> root list) \<Rightarrow> code_cache \<Rightarrow> root_packet \<Rightarrow> addr set" where
  "packet_slots co nursery_gc m vm_roots cc (Scan_kind k) = set (root_slots co m (vm_roots k))"
| "packet_slots co nursery_gc m vm_roots cc ScanCodeCacheRoots = code_cache_slots nursery_gc cc"

text \<open>Packets other than the code cache one leave the maps alone, and that one appears once.\<close>

lemma do_packets_reports:
  assumes "0 < n" and "enumerates_keys order" and "\<And>k. taggable co (vm_roots k)"
    and "factory_ok n f" and "code_cache_inv cc" and "distinct ps"
  shows "\<exists>cc1 f1. do_packets order n co nursery_gc m vm_roots ps (cc, f) = Inr (cc1, f1) \<and> factory_ok n f1
    \<and> set (concat (batches f1)) = set (concat (batches f)) \<union> (\<Union>p\<in>set ps. packet_slots co nursery_gc m vm_roots cc p)
    \<and> registered cc1 = registered cc"
  using assms(4-6)
proof (induction ps arbitrary: cc f)
  case (Cons p ps)
  show ?case
  proof (cases p)
    case (Scan_kind k)
    obtain f1 where f1: "scan_with_closure co n m (vm_roots k) f = Inr f1" "factory_ok n f1"
      "concat (batches f1) = concat (batches f) @ root_slots co m (vm_roots k)"
      using scan_with_closure_appends[OF assms(1) Cons.prems(1) assms(3)] by blast
    then have "set (concat (batches f1)) = set (concat (batches f)) \<union> set (root_slots co m (vm_roots k))" by simp
    then show ?thesis using Cons.IH[OF f1(2) Cons.prems(2)] Cons.prems(3) Scan_kind f1(1) by (simp add: Un_assoc)
  next
    case ScanCodeCacheRoots
    obtain cc1 f1 where s: "ScanCodeCacheRoots_do_work order n nursery_gc cc f = (cc1, f1)" by fastforce
    note f1 = scan_code_cache_set[OF assms(1) Cons.prems(1) assms(2) Cons.prems(2) s]
    have cc1: "cc1 = cc\<lparr>NURSERY_CODE_CACHE_ROOTS := Map.empty, MATURE_CODE_CACHE_ROOTS := registered cc\<rparr>"
      using scan_code_cache_registry[OF assms(2) Cons.prems(2), of n nursery_gc f] s by simp
    have r: "code_cache_inv cc1" "registered cc1 = registered cc"
      using Cons.prems(2) unfolding cc1 by (simp_all add: code_cache_inv_def registered_def)
    have "packet_slots co nursery_gc m vm_roots cc1 q = packet_slots co nursery_gc m vm_roots cc q" if "q \<in> set ps" for q
    proof -
      have "q \<noteq> p" using that Cons.prems(3) by auto
      then show ?thesis using ScanCodeCacheRoots by (cases q) simp_all
    qed
    then show ?thesis using Cons.IH[OF conjunct1[OF f1] r(1)] Cons.prems(3) ScanCodeCacheRoots s f1 r(2)
      by (simp add: Un_assoc)
  qed
qed simp

section \<open>Properties\<close>

text \<open>
  C28. The two maps implement a registry of compiled methods: after any sequence of registrations, removals and
  collections, whatever the iteration order of the hash maps, each method that was registered and not removed since is there with
  exactly its slots, tagged, and no other method is.
\<close>

theorem code_cache_refines_registry:
  assumes "enumerates_keys order" and "list_all (cc_allowed UseCompressedOops) ops"
  shows "registered (fold (cc_step order n UseCompressedOops) ops empty_code_cache)
       = fold (registry_step UseCompressedOops) ops Map.empty"
proof -
  have "code_cache_inv empty_code_cache" "registered empty_code_cache = Map.empty"
    by (simp_all add: code_cache_inv_def empty_code_cache_def registered_def)
  then show ?thesis
    using functional_refinement.run_refines[OF cc_refinement[OF assms(1)], of empty_code_cache] assms(2) by simp
qed

theorem code_cache_refines_registry_witness:
  "registered (fold (cc_step key_order 4 True)
     [Register 0x10 [(0x100, False)], Collect True, Register 0x20 [(0x200, True)], Unregister 0x10] empty_code_cache)
   = Map.empty(0x20 \<mapsto> [0x200])"
proof -
  let ?ops = "[Register 0x10 [(0x100, False)], Collect True, Register 0x20 [(0x200, True)], Unregister 0x10]"
  have "list_all (cc_allowed True) ?ops" by (simp add: taggable_def user_addr_def)
  moreover have "fold (registry_step True) ?ops Map.empty = Map.empty(0x20 \<mapsto> [0x200])"
    by (rule ext) (simp add: slot_of_def)
  ultimately show ?thesis using code_cache_refines_registry[OF enumerates_key_order, of True ?ops 4] by simp
qed

text \<open>
  C29. A collection sees all roots of the VM: in whatever order the packets of \<^verbatim>\<open>scan_vm_specific_roots\<close> run, they succeed and
  report exactly the non-null roots of every kind and the slots of the code cache that the kind of
  collection needs; a full-heap collection reports every slot of every registered method, and the
  registrations survive the collection.
\<close>

theorem all_vm_roots_reported:
  assumes "0 < n" and "enumerates_keys order" and "\<And>k. taggable UseCompressedOops (vm_roots k)"
    and "code_cache_inv cc" and "distinct ps" and "set ps = set scan_vm_specific_roots"
  shows "\<exists>cc1 f1. do_packets order n UseCompressedOops nursery_gc m vm_roots ps (cc, empty_factory) = Inr (cc1, f1)
       \<and> factory_ok n f1 \<and> registered cc1 = registered cc
       \<and> set (concat (batches f1)) = (\<Union>k. set (root_slots UseCompressedOops m (vm_roots k))) \<union> code_cache_slots nursery_gc cc
       \<and> (\<not> nursery_gc \<longrightarrow> map_slots (registered cc) \<subseteq> set (concat (batches f1)))"
proof -
  have f: "factory_ok n empty_factory" by (simp add: factory_ok_def empty_factory_def)
  have "Scan_kind k \<in> set ps" for k
    unfolding assms(6) scan_vm_specific_roots_def by (cases k) simp_all
  moreover have "ScanCodeCacheRoots \<in> set ps" unfolding assms(6) scan_vm_specific_roots_def by simp
  ultimately have "set ps = insert ScanCodeCacheRoots (range Scan_kind)"
    by (auto intro: root_packet.exhaust)
  then have u: "(\<Union>p\<in>set ps. packet_slots UseCompressedOops nursery_gc m vm_roots cc p)
      = (\<Union>k. set (root_slots UseCompressedOops m (vm_roots k))) \<union> code_cache_slots nursery_gc cc" by auto
  obtain cc1 f1 where r: "do_packets order n UseCompressedOops nursery_gc m vm_roots ps (cc, empty_factory) = Inr (cc1, f1)"
    "factory_ok n f1" "registered cc1 = registered cc"
    "set (concat (batches f1)) = (\<Union>k. set (root_slots UseCompressedOops m (vm_roots k))) \<union> code_cache_slots nursery_gc cc"
    using do_packets_reports[of n order UseCompressedOops vm_roots empty_factory cc ps nursery_gc m] u f assms(1-5)
    by (auto simp: empty_factory_def)
  have "\<not> nursery_gc \<longrightarrow> map_slots (registered cc) \<subseteq> set (concat (batches f1))"
    unfolding r(4) using registered_slots[of cc] by (cases nursery_gc) auto
  with r show ?thesis by blast
qed

theorem all_vm_roots_reported_witness:
  "\<exists>cc1 f1. do_packets key_order 2 True False demo_roots_mem (\<lambda>_. demo_roots) scan_vm_specific_roots (empty_code_cache, empty_factory)
     = Inr (cc1, f1) \<and> set (concat (batches f1)) = (\<Union>k::root_kind. set (root_slots True demo_roots_mem demo_roots))
       \<union> code_cache_slots False empty_code_cache"
proof -
  have "taggable True demo_roots" by (simp add: taggable_def demo_roots_def user_addr_def)
  moreover have "code_cache_inv empty_code_cache" by (simp add: code_cache_inv_def empty_code_cache_def)
  moreover have "distinct scan_vm_specific_roots" by (simp add: scan_vm_specific_roots_def)
  ultimately show ?thesis
    using all_vm_roots_reported[of 2 key_order True "\<lambda>_. demo_roots" empty_code_cache scan_vm_specific_roots False
        demo_roots_mem] enumerates_key_order by auto
qed

end
