(* ===== verification/Slot_Range.thy ===== *)
theory Slot_Range
  imports Slots
begin

text \<open>
  Ranges of slots (\<^verbatim>\<open>OpenJDKSlotRange\<close> of \<^verbatim>\<open>mmtk/src/slots.rs\<close>) and the array-copy entry points of
  \<^verbatim>\<open>mmtk/src/api.rs\<close> that build them. The iterator advances a 64-bit cursor, so a range that reaches the end of the
  address space would wrap around; that
  iteration is a partial function, and the claim is that it does return for every array that fits in memory.
\<close>

section \<open>Ranges and their iterator\<close>

definition LOG_BYTES_IN_SLOT :: "bool \<Rightarrow> nat" where
  "LOG_BYTES_IN_SLOT COMPRESSED = (if COMPRESSED then 2 else 3)"

definition BYTES_IN_SLOT :: "bool \<Rightarrow> addr" where
  "BYTES_IN_SLOT COMPRESSED = push_bit (LOG_BYTES_IN_SLOT COMPRESSED) 1"

record slot_range =
  range_start :: addr
  range_limit :: addr

definition range_from :: "addr \<Rightarrow> addr \<Rightarrow> slot_range" where
  "range_from a b = \<lparr>range_start = a, range_limit = b\<rparr>"

definition range_bytes :: "slot_range \<Rightarrow> size_t" where
  "range_bytes r = range_limit r - range_start r"

record slot_iterator =
  cursor :: addr
  limit :: addr

definition iter_slots :: "slot_range \<Rightarrow> slot_iterator" where
  "iter_slots r = \<lparr>cursor = range_start r, limit = range_limit r\<rparr>"

definition iterator_next :: "bool \<Rightarrow> slot_iterator \<Rightarrow> addr option \<times> slot_iterator" where
  "iterator_next COMPRESSED it =
     (if limit it \<le> cursor it then (None, it)
      else (Some (cursor it), it\<lparr>cursor := cursor it + BYTES_IN_SLOT COMPRESSED\<rparr>))"

text \<open>
  What a \<^verbatim>\<open>for\<close> loop over the iterator sees. A loop whose cursor passes the end of the address space wraps to low
  addresses and never ends: its value is \<open>None\<close>.
\<close>

partial_function (option) collect_slots :: "bool \<Rightarrow> slot_iterator \<Rightarrow> addr list option" where
  "collect_slots COMPRESSED it = (case iterator_next COMPRESSED it of
     (None, _) \<Rightarrow> Some []
   | (Some a, it1) \<Rightarrow> Option.bind (collect_slots COMPRESSED it1) (\<lambda>as. Some (a # as)))"

definition slots_of_range :: "bool \<Rightarrow> slot_range \<Rightarrow> addr list option" where
  "slots_of_range COMPRESSED r = collect_slots COMPRESSED (iter_slots r)"

text \<open>
  Copying the slots of a range. \<^verbatim>\<open>std::ptr::copy\<close> copies as if through a buffer, so the ranges may overlap; for uncompressed
  slots the copy of ranges of addresses is mmtk-core's.
\<close>

definition ptr_copy :: "mem \<Rightarrow> addr \<Rightarrow> addr \<Rightarrow> nat \<Rightarrow> mem" where
  "ptr_copy m src dst n = (\<lambda>a. if unat (a - dst) < n then m (src + (a - dst)) else m a)"

definition slot_range_copy ::
    "(mem \<Rightarrow> slot_range \<Rightarrow> slot_range \<Rightarrow> mem) \<Rightarrow> bool \<Rightarrow> mem \<Rightarrow> slot_range \<Rightarrow> slot_range \<Rightarrow> mem" where
  "slot_range_copy core_copy COMPRESSED m src tgt =
     (if COMPRESSED then
        (let words = drop_bit 2 (range_bytes tgt) in ptr_copy m (range_start src) (range_start tgt) (4 * unat words))
      else core_copy m src tgt)"

text \<open>\<^verbatim>\<open>mmtk_array_copy_pre\<close> and \<^verbatim>\<open>mmtk_array_copy_post\<close>: the ranges they hand to the barrier.\<close>

definition log_bytes_in_slot :: "bool \<Rightarrow> nat" where
  "log_bytes_in_slot use_compressed_oops =
     (if use_compressed_oops then LOG_BYTES_IN_SLOT True else LOG_BYTES_IN_SLOT False)"

definition array_copy_ranges :: "bool \<Rightarrow> addr \<Rightarrow> addr \<Rightarrow> size_t \<Rightarrow> slot_range \<times> slot_range" where
  "array_copy_ranges use_compressed_oops src dst count =
     (let bytes = push_bit (log_bytes_in_slot use_compressed_oops) count
      in (range_from src (src + bytes), range_from dst (dst + bytes)))"

text \<open>The slots of an array of \<open>n\<close> slots that starts at \<open>a\<close>.\<close>

definition slot_array :: "bool \<Rightarrow> addr \<Rightarrow> nat \<Rightarrow> addr list" where
  "slot_array C a n = map (\<lambda>i. a + of_nat i * BYTES_IN_SLOT C) [0..<n]"

section \<open>Lemmas\<close>

lemma BYTES_IN_SLOT_pos: "0 < BYTES_IN_SLOT C" "unat (BYTES_IN_SLOT C) = 2 ^ LOG_BYTES_IN_SLOT C"
  by (simp_all add: BYTES_IN_SLOT_def LOG_BYTES_IN_SLOT_def word_less_nat_alt)

lemma unat_slots:
  assumes "k * 2 ^ LOG_BYTES_IN_SLOT C < 2 ^ 64"
  shows "unat (of_nat k * BYTES_IN_SLOT C) = k * 2 ^ LOG_BYTES_IN_SLOT C"
proof -
  have "of_nat k * BYTES_IN_SLOT C = of_nat (k * 2 ^ LOG_BYTES_IN_SLOT C)"
    by (simp add: BYTES_IN_SLOT_def push_bit_eq_mult)
  then show ?thesis unfolding unsigned_of_nat using assms by (simp add: unsigned_of_nat take_bit_nat_eq_self del: of_nat_mult)
qed

lemma slot_array_Suc: "slot_array C a (Suc n) = a # slot_array C (a + BYTES_IN_SLOT C) n"
  by (simp add: slot_array_def upt_rec[of 0 "Suc n"] map_Suc_upt[symmetric] algebra_simps comp_def del: upt_Suc)

lemma collect_slots_array:
  assumes "unat a + n * 2 ^ LOG_BYTES_IN_SLOT C < 2 ^ 64"
  shows "collect_slots C \<lparr>cursor = a, limit = a + of_nat n * BYTES_IN_SLOT C\<rparr> = Some (slot_array C a n)"
  using assms
proof (induction n arbitrary: a)
  case 0
  then show ?case by (subst collect_slots.simps) (simp add: iterator_next_def slot_array_def)
next
  case (Suc n)
  let ?b = "BYTES_IN_SLOT C"
  have l: "a + of_nat (Suc n) * ?b = (a + ?b) + of_nat n * ?b" by (simp add: algebra_simps)
  have u: "unat (a + ?b) = unat a + 2 ^ LOG_BYTES_IN_SLOT C"
    using Suc.prems BYTES_IN_SLOT_pos(2)[of C] by (simp add: unat_word_ariths)
  have n: "unat (of_nat n * ?b) = n * 2 ^ LOG_BYTES_IN_SLOT C"
    using Suc.prems by (intro unat_slots) simp
  have "unat ((a + ?b) + of_nat n * ?b) = unat a + 2 ^ LOG_BYTES_IN_SLOT C + n * 2 ^ LOG_BYTES_IN_SLOT C"
    using Suc.prems u n by (simp add: unat_word_ariths)
  then have "\<not> (a + ?b) + of_nat n * ?b \<le> a" "\<not> a + ?b \<le> a"
    using u by (simp_all add: word_le_nat_alt)
  moreover have "collect_slots C \<lparr>cursor = a + ?b, limit = (a + ?b) + of_nat n * ?b\<rparr> = Some (slot_array C (a + ?b) n)"
    using Suc.IH[of "a + ?b"] Suc.prems u by simp
  ultimately show ?case unfolding l by (subst collect_slots.simps) (simp add: iterator_next_def slot_array_Suc not_le)
qed

lemma push_bit_count:
  assumes "unat count * 2 ^ k < 2 ^ 64"
  shows "unat (push_bit k (count :: size_t)) = unat count * 2 ^ k"
  using assms by (simp add: unsigned_push_bit_eq take_bit_nat_eq_self push_bit_nat_def)

lemma push_bit_slots: "push_bit (LOG_BYTES_IN_SLOT C) count = of_nat (unat count) * BYTES_IN_SLOT C"
  by (simp add: BYTES_IN_SLOT_def push_bit_eq_mult)

lemma log_bytes_in_slot_eq [simp]: "log_bytes_in_slot C = LOG_BYTES_IN_SLOT C"
  by (simp add: log_bytes_in_slot_def)

lemma distinct_slot_array:
  assumes "n * 2 ^ LOG_BYTES_IN_SLOT C \<le> 2 ^ 64"
  shows "distinct (slot_array C a n)"
proof -
  have "inj_on (\<lambda>i. a + of_nat i * BYTES_IN_SLOT C) {0..<n}"
  proof (rule inj_onI)
    fix i j assume ij: "i \<in> {0..<n}" "j \<in> {0..<n}" "a + of_nat i * BYTES_IN_SLOT C = a + of_nat j * BYTES_IN_SLOT C"
    have "unat (of_nat k * BYTES_IN_SLOT C) = k * 2 ^ LOG_BYTES_IN_SLOT C" if "k < n" for k
    proof (rule unat_slots)
      have "k * 2 ^ LOG_BYTES_IN_SLOT C < n * 2 ^ LOG_BYTES_IN_SLOT C" using that by simp
      then show "k * 2 ^ LOG_BYTES_IN_SLOT C < 2 ^ 64" using assms by linarith
    qed
    from this[of i] this[of j] ij have "i * 2 ^ LOG_BYTES_IN_SLOT C = j * 2 ^ LOG_BYTES_IN_SLOT C"
      by (metis add_left_cancel atLeastLessThan_iff)
    then show "i = j" by simp
  qed
  then show ?thesis by (simp add: slot_array_def distinct_map)
qed

section \<open>Properties\<close>

text \<open>
  C33. The ranges that \<^verbatim>\<open>mmtk_array_copy_pre\<close> and \<^verbatim>\<open>mmtk_array_copy_post\<close> hand to the barrier hold exactly the slots of the
  copy: iterating the destination range ends and yields the \<open>count\<close> slots of the array in ascending order, without a
  repetition, for either slot width, whenever the array does not run over the end of the address space; the range
  reports their bytes. The source range does the same for the source.
\<close>
theorem array_copy_ranges_iterate:
  assumes "unat src + unat count * 2 ^ LOG_BYTES_IN_SLOT C < 2 ^ 64"
    and "unat dst + unat count * 2 ^ LOG_BYTES_IN_SLOT C < 2 ^ 64"
    and "array_copy_ranges C src dst count = (rs, rd)"
  shows "slots_of_range C rs = Some (slot_array C src (unat count))
    \<and> slots_of_range C rd = Some (slot_array C dst (unat count))
    \<and> distinct (slot_array C dst (unat count))
    \<and> unat (range_bytes rd) = unat count * 2 ^ LOG_BYTES_IN_SLOT C"
proof -
  let ?b = "push_bit (LOG_BYTES_IN_SLOT C) count"
  have r: "rs = range_from src (src + ?b)" "rd = range_from dst (dst + ?b)"
    using assms(3) by (simp_all add: array_copy_ranges_def Let_def)
  have "slots_of_range C (range_from a (a + ?b)) = Some (slot_array C a (unat count))"
    if "unat a + unat count * 2 ^ LOG_BYTES_IN_SLOT C < 2 ^ 64" for a
    using collect_slots_array[OF that]
    unfolding slots_of_range_def iter_slots_def range_from_def push_bit_slots by simp
  moreover have "distinct (slot_array C dst (unat count))" by (rule distinct_slot_array) (use assms(2) in simp)
  moreover have "unat (range_bytes rd) = unat count * 2 ^ LOG_BYTES_IN_SLOT C"
    using push_bit_count[of count "LOG_BYTES_IN_SLOT C"] assms(2) by (simp add: r range_bytes_def range_from_def)
  ultimately show ?thesis using assms(1,2) r by simp
qed

theorem array_copy_ranges_iterate_witness:
  "slots_of_range True (range_from 0x2000 (0x2000 + 12)) = Some [0x2000, 0x2004, 0x2008]"
proof -
  have a: "array_copy_ranges True 0x1000 0x2000 3 = (range_from 0x1000 (0x1000 + 12), range_from 0x2000 (0x2000 + 12))"
    by (simp add: array_copy_ranges_def LOG_BYTES_IN_SLOT_def push_bit_eq_mult)
  have "slots_of_range True (range_from 0x2000 (0x2000 + 12)) = Some (slot_array True 0x2000 (unat (3 :: size_t)))"
    using array_copy_ranges_iterate[OF _ _ a] by (simp add: LOG_BYTES_IN_SLOT_def)
  also have "slot_array True 0x2000 (unat (3 :: size_t)) = [0x2000, 0x2004, 0x2008]"
    by (simp add: slot_array_def BYTES_IN_SLOT_def LOG_BYTES_IN_SLOT_def upt_rec)
  finally show ?thesis .
qed

end
