(* ===== verification/Object_Layout.thy ===== *)
theory Object_Layout
  imports Mutator_Layout Slot_Range
begin

text \<open>
  HotSpot's objects and classes as the Rust side of the binding reads them (\<^verbatim>\<open>mmtk/src/abi.rs\<close>): the
  \<^verbatim>\<open>repr(C)\<close> structs of a release build, laid out by the same rules as the C++ structs of theory
  \<open>Mutator_Layout\<close>, and the functions that read an object's class, size, array length and reference map
  from raw memory. A \<^verbatim>\<open>Klass\<close> reference is the address of the class.

  HotSpot itself is not part of the repository. What the binding asks it through an upcall (the offsets of
  \<^verbatim>\<open>java.lang.Class\<close> and \<^verbatim>\<open>java.lang.ref.Reference\<close>, the size of an unusual object, the sizes of the C++ classes) is a
  parameter, and so is \<^verbatim>\<open>raw_align_up\<close> of mmtk-core, whose documented behaviour is the hypothesis \<open>aligns_up\<close>.
\<close>

section \<open>Enumerations\<close>

datatype KlassID = Instance | InstanceRef | InstanceMirror | InstanceClassLoader | TypeArray | ObjArray

definition klass_ids :: "KlassID list" where
  "klass_ids = [Instance, InstanceRef, InstanceMirror, InstanceClassLoader, TypeArray, ObjArray]"

datatype BasicType = T_BOOLEAN | T_CHAR | T_FLOAT | T_DOUBLE | T_BYTE | T_SHORT | T_INT | T_LONG | T_OBJECT
  | T_ARRAY | T_VOID | T_ADDRESS | T_NARROWOOP | T_METADATA | T_NARROWKLASS | T_CONFLICT | T_ILLEGAL

datatype ReferenceType = RefNone | RefOther | RefSoft | RefWeak | RefFinal | RefPhantom

definition reference_types :: "ReferenceType list" where
  "reference_types = [RefNone, RefOther, RefSoft, RefWeak, RefFinal, RefPhantom]"

text \<open>The enumerator with a given discriminant; no enumerator has one out of range.\<close>

definition enumerator :: "'a list \<Rightarrow> nat \<Rightarrow> 'a option" where
  "enumerator xs n = (if n < length xs then Some (xs ! n) else None)"

section \<open>Structs\<close>

abbreviation i16 :: ctype where "i16 \<equiv> Scalar 2"
abbreviation u16 :: ctype where "u16 \<equiv> Scalar 2"
abbreviation i32 :: ctype where "i32 \<equiv> Scalar 4"
abbreviation u32 :: ctype where "u32 \<equiv> Scalar 4"
abbreviation u64 :: ctype where "u64 \<equiv> Scalar 8"
abbreviation ref :: ctype where "ref \<equiv> Scalar 8"

definition Klass :: ctype where
  "Klass = Struct [(''vptr'', void_ptr), (''layout_helper'', i32), (''id'', i32), (''super_check_offset'', u32),
     (''name'', void_ptr), (''secondary_super_cache'', ref), (''secondary_supers'', void_ptr),
     (''primary_supers'', Arr ref 8), (''java_mirror'', ref), (''super_'', ref), (''subklass'', ref),
     (''next_sibling'', ref), (''next_link'', ref), (''class_loader_data'', void_ptr),
     (''modifier_flags'', i32), (''access_flags'', i32), (''trace_id'', u64),
     (''last_biased_lock_bulk_revocation_time'', u64), (''prototype_header'', ref),
     (''biased_lock_revocation_count'', i32), (''vtable_len'', i32), (''shared_class_path_index'', i16)]"

definition InstanceKlass :: ctype where
  "InstanceKlass = Struct [(''klass'', Klass), (''annotations'', void_ptr), (''package_entry'', void_ptr),
     (''array_klasses'', ref), (''constants'', void_ptr), (''inner_classes'', void_ptr),
     (''nest_members'', void_ptr), (''nest_host_index'', u16), (''nest_host'', ref),
     (''source_debug_extension'', void_ptr), (''array_name'', void_ptr), (''nonstatic_field_size'', i32),
     (''static_field_size'', i32), (''generic_signature_index'', u16), (''source_file_name_index'', u16),
     (''static_oop_field_count'', u16), (''java_fields_count'', u16), (''nonstatic_oop_map_size'', i32),
     (''itable_len'', i32), (''is_marked_dependent'', uint8_t), (''is_being_redefined'', uint8_t),
     (''misc_flags'', u16), (''minor_version'', u16), (''major_version'', u16), (''init_thread'', void_ptr),
     (''oop_map_cache'', void_ptr), (''jni_ids'', void_ptr), (''methods_jmethod_ids'', void_ptr),
     (''dep_context'', u64), (''osr_nmethods_head'', void_ptr), (''breakpoints'', void_ptr),
     (''previous_versions'', void_ptr), (''cached_class_file'', void_ptr), (''idnum_allocated_count'', u16),
     (''init_state'', uint8_t), (''reference_type'', uint8_t), (''this_class_index'', u16),
     (''jvmti_cached_class_field_map'', void_ptr), (''methods'', void_ptr), (''default_methods'', void_ptr),
     (''local_interfaces'', void_ptr), (''transitive_interfaces'', void_ptr), (''method_ordering'', void_ptr),
     (''default_vtable_indices'', void_ptr), (''fields'', void_ptr)]"

definition InstanceMirrorKlass :: ctype where
  "InstanceMirrorKlass = Struct [(''instance_klass'', InstanceKlass)]"

definition ArrayKlass :: ctype where
  "ArrayKlass = Struct [(''klass'', Klass), (''dimension'', i32), (''higher_dimension'', ref), (''lower_dimension'', ref)]"

definition ObjArrayKlass :: ctype where
  "ObjArrayKlass = Struct [(''array_klass'', ArrayKlass), (''element_klass'', ref), (''bottom_klass'', ref)]"

definition TypeArrayKlass :: ctype where
  "TypeArrayKlass = Struct [(''array_klass'', ArrayKlass), (''max_length'', i32)]"

definition InstanceClassLoaderKlass :: ctype where
  "InstanceClassLoaderKlass = Struct [(''instance_klass'', InstanceKlass)]"

definition InstanceRefKlass :: ctype where
  "InstanceRefKlass = Struct [(''instance_klass'', InstanceKlass)]"

definition KlassPointer :: ctype where
  "KlassPointer = u64"

definition OopDesc :: ctype where
  "OopDesc = Struct [(''mark'', u64), (''klass'', KlassPointer)]"

definition OopMapBlock :: ctype where
  "OopMapBlock = Struct [(''offset'', i32), (''count'', u32)]"

definition field_addr :: "ctype \<Rightarrow> string \<Rightarrow> addr \<Rightarrow> addr" where
  "field_addr t f a = a + of_nat (off t f)"

section \<open>Constants\<close>

definition LOG_BYTES_IN_INT :: nat where "LOG_BYTES_IN_INT = 2"
definition BYTES_IN_INT :: size_t where "BYTES_IN_INT = push_bit LOG_BYTES_IN_INT 1"
definition LOG_BYTES_IN_LONG :: nat where "LOG_BYTES_IN_LONG = 3"
definition BYTES_IN_LONG :: size_t where "BYTES_IN_LONG = push_bit LOG_BYTES_IN_LONG 1"
definition LOG_BITS_IN_LONG :: nat where "LOG_BITS_IN_LONG = 3 + LOG_BYTES_IN_LONG"
definition BITS_IN_LONG :: size_t where "BITS_IN_LONG = push_bit LOG_BITS_IN_LONG 1"
definition LOG_BYTES_IN_WORD :: nat where "LOG_BYTES_IN_WORD = 3"
definition BYTES_IN_WORD :: size_t where "BYTES_IN_WORD = push_bit LOG_BYTES_IN_WORD 1"

section \<open>Classes\<close>

text \<open>What the C++ side told the Rust side about classes, and what the upcalls return.\<close>

record vm_layout =
  COMPRESSED_KLASS_BASE :: addr
  COMPRESSED_KLASS_SHIFT :: nat
  offset_of_static_fields :: "32 word"
  static_oop_field_count_offset :: "32 word"
  referent_offset :: "32 word"
  discovered_offset :: "32 word"

definition set_compressed_klass_base_and_shift :: "addr \<Rightarrow> nat \<Rightarrow> vm_layout \<Rightarrow> vm_layout" where
  "set_compressed_klass_base_and_shift base shift vm =
     vm\<lparr>COMPRESSED_KLASS_BASE := base, COMPRESSED_KLASS_SHIFT := shift\<rparr>"

definition oop_klass :: "bool \<Rightarrow> vm_layout \<Rightarrow> mem \<Rightarrow> addr \<Rightarrow> addr" where
  "oop_klass COMPRESSED vm m oop =
     (if COMPRESSED then
        (let compressed = load32 m (field_addr OopDesc ''klass'' oop)
         in COMPRESSED_KLASS_BASE vm + push_bit (COMPRESSED_KLASS_SHIFT vm) (ucast compressed))
      else load64 m (field_addr OopDesc ''klass'' oop))"

definition layout_helper :: "mem \<Rightarrow> addr \<Rightarrow> 32 word" where
  "layout_helper m klass = load32 m (field_addr Klass ''layout_helper'' klass)"

definition klass_id :: "mem \<Rightarrow> addr \<Rightarrow> 32 word" where
  "klass_id m klass = load32 m (field_addr Klass ''id'' klass)"

definition LH_NEUTRAL_VALUE :: "32 word" where "LH_NEUTRAL_VALUE = 0"
definition LH_INSTANCE_SLOW_PATH_BIT :: "32 word" where "LH_INSTANCE_SLOW_PATH_BIT = 1"
definition LH_LOG2_ELEMENT_SIZE_SHIFT :: nat where "LH_LOG2_ELEMENT_SIZE_SHIFT = 8 * 0"
definition LH_LOG2_ELEMENT_SIZE_MASK :: "32 word" where "LH_LOG2_ELEMENT_SIZE_MASK = ucast BITS_IN_LONG - 1"
definition LH_HEADER_SIZE_SHIFT :: nat where "LH_HEADER_SIZE_SHIFT = 8 * 2"
definition LH_HEADER_SIZE_MASK :: "32 word" where "LH_HEADER_SIZE_MASK = push_bit 8 1 - 1"

definition layout_helper_needs_slow_path :: "32 word \<Rightarrow> bool" where
  "layout_helper_needs_slow_path lh \<longleftrightarrow> lh AND LH_INSTANCE_SLOW_PATH_BIT \<noteq> 0"

definition layout_helper_log2_element_size :: "32 word \<Rightarrow> 32 word" where
  "layout_helper_log2_element_size lh = signed_drop_bit LH_LOG2_ELEMENT_SIZE_SHIFT lh AND LH_LOG2_ELEMENT_SIZE_MASK"

definition layout_helper_header_size :: "32 word \<Rightarrow> 32 word" where
  "layout_helper_header_size lh = signed_drop_bit LH_HEADER_SIZE_SHIFT lh AND LH_HEADER_SIZE_MASK"

section \<open>Reference maps\<close>

definition HEADER_SIZE :: nat where
  "HEADER_SIZE = sizeof InstanceKlass div unat BYTES_IN_WORD"

definition VTABLE_START_OFFSET :: nat where
  "VTABLE_START_OFFSET = HEADER_SIZE * unat BYTES_IN_WORD"

definition start_of_vtable :: "addr \<Rightarrow> addr" where
  "start_of_vtable klass = klass + of_nat VTABLE_START_OFFSET"

text \<open>\<^verbatim>\<open>ptr.add(n)\<close> of a pointer to words; \<^verbatim>\<open>as _\<close> sign-extends the \<^verbatim>\<open>int\<close>.\<close>

definition start_of_itable :: "mem \<Rightarrow> addr \<Rightarrow> addr" where
  "start_of_itable m klass =
     start_of_vtable klass + BYTES_IN_WORD * scast (load32 m (field_addr Klass ''vtable_len'' klass))"

definition nonstatic_oop_map_count :: "(size_t \<Rightarrow> size_t \<Rightarrow> size_t) \<Rightarrow> mem \<Rightarrow> addr \<Rightarrow> size_t" where
  "nonstatic_oop_map_count raw_align_up m klass =
     (let oop_map_block_size = of_nat (sizeof OopMapBlock);
          oop_map_block_size_up = raw_align_up oop_map_block_size BYTES_IN_WORD
      in scast (load32 m (field_addr InstanceKlass ''nonstatic_oop_map_size'' klass))
           div drop_bit LOG_BYTES_IN_WORD oop_map_block_size_up)"

record oop_map_block =
  block_offset :: "32 word"
  block_count :: "32 word"

definition oop_map_at :: "mem \<Rightarrow> addr \<Rightarrow> oop_map_block" where
  "oop_map_at m a = \<lparr>block_offset = load32 m (field_addr OopMapBlock ''offset'' a),
     block_count = load32 m (field_addr OopMapBlock ''count'' a)\<rparr>"

definition nonstatic_oop_maps :: "(size_t \<Rightarrow> size_t \<Rightarrow> size_t) \<Rightarrow> mem \<Rightarrow> addr \<Rightarrow> oop_map_block list" where
  "nonstatic_oop_maps raw_align_up m klass =
     (let start = start_of_itable m klass + BYTES_IN_WORD * scast (load32 m (field_addr InstanceKlass ''itable_len'' klass));
          count = nonstatic_oop_map_count raw_align_up m klass
      in map (\<lambda>i. oop_map_at m (start + of_nat (i * sizeof OopMapBlock))) [0..<unat count])"

section \<open>Objects\<close>

text \<open>\<^verbatim>\<open>get_field_address\<close> adds a signed offset.\<close>

definition get_field_address :: "addr \<Rightarrow> 32 word \<Rightarrow> addr" where
  "get_field_address oop offset = oop + scast offset"

definition start_of_static_fields :: "vm_layout \<Rightarrow> addr \<Rightarrow> addr" where
  "start_of_static_fields vm oop = oop + scast (offset_of_static_fields vm)"

definition static_oop_field_count :: "vm_layout \<Rightarrow> mem \<Rightarrow> addr \<Rightarrow> size_t" where
  "static_oop_field_count vm m oop =
     scast (load32 m (get_field_address oop (static_oop_field_count_offset vm)))"

definition referent_address :: "vm_layout \<Rightarrow> addr \<Rightarrow> addr" where
  "referent_address vm oop = get_field_address oop (referent_offset vm)"

definition discovered_address :: "vm_layout \<Rightarrow> addr \<Rightarrow> addr" where
  "discovered_address vm oop = get_field_address oop (discovered_offset vm)"

definition length_offset :: "bool \<Rightarrow> size_t" where
  "length_offset COMPRESSED =
     (let klass_offset_in_bytes = of_nat (off OopDesc ''klass'')
      in if COMPRESSED then klass_offset_in_bytes + of_nat (sizeof u32)
         else klass_offset_in_bytes + of_nat (sizeof KlassPointer))"

definition element_type_should_be_aligned :: "BasicType \<Rightarrow> bool" where
  "element_type_should_be_aligned ty \<longleftrightarrow> ty = T_DOUBLE \<or> ty = T_LONG"

definition header_size :: "(size_t \<Rightarrow> size_t \<Rightarrow> size_t) \<Rightarrow> bool \<Rightarrow> BasicType \<Rightarrow> size_t" where
  "header_size raw_align_up COMPRESSED ty =
     (let typesize_in_bytes = raw_align_up (length_offset COMPRESSED + BYTES_IN_INT) BYTES_IN_LONG
      in if element_type_should_be_aligned ty then raw_align_up (typesize_in_bytes div BYTES_IN_WORD) BYTES_IN_LONG
         else typesize_in_bytes div BYTES_IN_WORD)"

definition array_length :: "bool \<Rightarrow> mem \<Rightarrow> addr \<Rightarrow> 32 word" where
  "array_length COMPRESSED m array = load32 m (array + length_offset COMPRESSED)"

definition array_base :: "(size_t \<Rightarrow> size_t \<Rightarrow> size_t) \<Rightarrow> bool \<Rightarrow> addr \<Rightarrow> BasicType \<Rightarrow> addr" where
  "array_base raw_align_up COMPRESSED array ty = array + header_size raw_align_up COMPRESSED ty * BYTES_IN_WORD"

text \<open>The addresses of the elements of \<^verbatim>\<open>data::<T>(ty)\<close>, a slice of elements of \<open>bytes\<close> bytes.\<close>

definition array_data ::
    "(size_t \<Rightarrow> size_t \<Rightarrow> size_t) \<Rightarrow> bool \<Rightarrow> size_t \<Rightarrow> mem \<Rightarrow> addr \<Rightarrow> BasicType \<Rightarrow> addr list" where
  "array_data raw_align_up COMPRESSED bytes m array ty =
     map (\<lambda>i. array_base raw_align_up COMPRESSED array ty + of_nat i * bytes)
       [0..<unat (scast (array_length COMPRESSED m array) :: size_t)]"

definition array_slice :: "(size_t \<Rightarrow> size_t \<Rightarrow> size_t) \<Rightarrow> bool \<Rightarrow> mem \<Rightarrow> addr \<Rightarrow> BasicType \<Rightarrow> slot_range" where
  "array_slice raw_align_up COMPRESSED m array ty =
     (let base = array_base raw_align_up COMPRESSED array ty;
          lshift = LOG_BYTES_IN_SLOT COMPRESSED
      in range_from base (base + push_bit lshift (scast (array_length COMPRESSED m array))))"

text \<open>
  \<^verbatim>\<open>OopDesc::size\<close>. The slow path is the upcall \<^verbatim>\<open>mmtk_get_object_size\<close>, which shifts the number of words that the class
  reports (an \<^verbatim>\<open>int\<close>) and widens the result.
\<close>

definition mmtk_get_object_size :: "(mem \<Rightarrow> addr \<Rightarrow> 32 word) \<Rightarrow> mem \<Rightarrow> addr \<Rightarrow> size_t" where
  "mmtk_get_object_size oop_size m oop = scast (push_bit 3 (oop_size m oop))"

definition object_size :: "(mem \<Rightarrow> addr \<Rightarrow> 32 word) \<Rightarrow> bool \<Rightarrow> vm_layout \<Rightarrow> mem \<Rightarrow> addr \<Rightarrow> size_t" where
  "object_size oop_size COMPRESSED vm m oop =
     (let klass = oop_klass COMPRESSED vm m oop;
          lh = layout_helper m klass
      in if sint LH_NEUTRAL_VALUE < sint lh then
           if \<not> layout_helper_needs_slow_path lh then scast lh
           else mmtk_get_object_size oop_size m oop
         else if sint lh < sint LH_NEUTRAL_VALUE then
           (let len = scast (array_length COMPRESSED m oop);
                size_in_bytes = push_bit (unat (layout_helper_log2_element_size lh)) len
                  + scast (layout_helper_header_size lh)
            in (size_in_bytes + 7) AND NOT 7)
         else mmtk_get_object_size oop_size m oop)"

section \<open>The check of the layouts\<close>

record class_sizes =
  size_Klass :: size_t
  size_InstanceKlass :: size_t
  size_InstanceRefKlass :: size_t
  size_InstanceMirrorKlass :: size_t
  size_InstanceClassLoaderKlass :: size_t
  size_TypeArrayKlass :: size_t
  size_ObjArrayKlass :: size_t

definition compute_klass_mem_layout_checksum :: "class_sizes \<Rightarrow> size_t" where
  "compute_klass_mem_layout_checksum c = size_Klass c XOR size_InstanceKlass c XOR size_InstanceRefKlass c
     XOR size_InstanceMirrorKlass c XOR size_InstanceClassLoaderKlass c XOR size_TypeArrayKlass c XOR size_ObjArrayKlass c"

definition binding_sizes :: class_sizes where
  "binding_sizes = \<lparr>size_Klass = of_nat (sizeof Klass), size_InstanceKlass = of_nat (sizeof InstanceKlass),
     size_InstanceRefKlass = of_nat (sizeof InstanceRefKlass),
     size_InstanceMirrorKlass = of_nat (sizeof InstanceMirrorKlass),
     size_InstanceClassLoaderKlass = of_nat (sizeof InstanceClassLoaderKlass),
     size_TypeArrayKlass = of_nat (sizeof TypeArrayKlass), size_ObjArrayKlass = of_nat (sizeof ObjArrayKlass)\<rparr>"

definition validate_memory_layouts :: "class_sizes \<Rightarrow> unit result" where
  "validate_memory_layouts vm_sizes =
     (let vm_checksum = compute_klass_mem_layout_checksum vm_sizes;
          binding_checksum = compute_klass_mem_layout_checksum binding_sizes
      in if vm_checksum = binding_checksum then Inr ()
         else Inl (Assert_failed ''vm_checksum == binding_checksum''))"

section \<open>What is assumed of the surroundings\<close>

text \<open>\<^verbatim>\<open>raw_align_up\<close> of mmtk-core returns the least multiple of a power of two that is not below its argument.\<close>

definition aligns_up :: "(size_t \<Rightarrow> size_t \<Rightarrow> size_t) \<Rightarrow> bool" where
  "aligns_up f \<longleftrightarrow> (\<forall>v k. k < 64 \<and> unat v + 2 ^ k < 2 ^ 64 \<longrightarrow> unat (f v (push_bit k 1)) = align_up (unat v) (2 ^ k))"

text \<open>
  The layout helper that HotSpot gives an array of references: negative, with the size of a slot and
  the offset of the first element in its fields.
\<close>

definition obj_array_layout_helper :: "bool \<Rightarrow> 32 word \<Rightarrow> bool" where
  "obj_array_layout_helper COMPRESSED lh \<longleftrightarrow> sint lh < 0
     \<and> unat (layout_helper_log2_element_size lh) = LOG_BYTES_IN_SLOT COMPRESSED
     \<and> layout_helper_header_size lh = (if COMPRESSED then 16 else 24)"

section \<open>Lemmas\<close>

lemma and_not_mask: "(x :: 64 word) AND NOT (mask k) = push_bit k (drop_bit k x)"
  by (rule bit_word_eqI) (auto simp: bit_simps)

lemma unat_round_up:
  assumes "unat x + 2 ^ k < 2 ^ 64"
  shows "unat ((x + mask k :: size_t) AND NOT (mask k)) = align_up (unat x) (2 ^ k)"
proof -
  have "(2 :: nat) ^ k < 2 ^ 64" using assms by linarith
  then have "k < 64" by (rule power_less_imp_less_exp[rotated]) simp
  then have "uint (mask k :: size_t) = 2 ^ k - 1" unfolding uint_mask_eq by (simp add: mask_eq_exp_minus_1)
  then have "int (unat (mask k :: size_t)) = int (2 ^ k - 1)" by (simp add: of_nat_diff)
  then have "unat (mask k :: size_t) = 2 ^ k - 1" by linarith
  then have s: "unat (x + mask k) = unat x + 2 ^ k - 1" using assms by (simp add: unat_word_ariths)
  have "(unat x + 2 ^ k - 1) div 2 ^ k * 2 ^ k \<le> unat x + 2 ^ k - 1" by simp
  then have "(unat x + 2 ^ k - 1) div 2 ^ k * 2 ^ k < 2 ^ 64" using assms by linarith
  then have "unat (push_bit k (drop_bit k (x + mask k))) = (unat x + 2 ^ k - 1) div 2 ^ k * 2 ^ k"
    by (simp add: unsigned_push_bit_eq unat_drop_bit_64 s push_bit_nat_def take_bit_nat_eq_self)
  then show ?thesis unfolding and_not_mask align_up_def .
qed

lemma unat_round_up_8:
  assumes "unat x + 8 < 2 ^ 64"
  shows "unat ((x + 7 :: size_t) AND NOT 7) = align_up (unat x) 8"
proof -
  have m: "(mask 3 :: size_t) = 7" by (simp add: mask_eq_exp_minus_1)
  show ?thesis using unat_round_up[of x 3] assms unfolding m by simp
qed

lemma align_up_bounds: "0 < a \<Longrightarrow> n \<le> align_up n a \<and> align_up n a < n + a"
proof -
  assume a: "0 < a"
  have "(n + a - 1) div a * a + (n + a - 1) mod a = n + a - 1" by simp
  moreover have "(n + a - 1) mod a < a" using a by simp
  ultimately show ?thesis unfolding align_up_def using a by linarith
qed

lemma off_OopDesc_klass [simp]: "off OopDesc ''klass'' = 8"
  by (simp add: off_def OopDesc_def KlassPointer_def align_up_def)

lemma offsets [simp]:
  "off Klass ''layout_helper'' = 8" "off Klass ''id'' = 12" "off Klass ''vtable_len'' = 196"
  "off InstanceKlass ''nonstatic_oop_map_size'' = 304" "off InstanceKlass ''itable_len'' = 308"
  "off InstanceKlass ''reference_type'' = 395" "off OopMapBlock ''offset'' = 0" "off OopMapBlock ''count'' = 4"
  "sizeof InstanceKlass = 464" "sizeof OopMapBlock = 8"
  by (simp_all add: off_def Klass_def InstanceKlass_def OopMapBlock_def align_up_def)

lemma length_offset_eq: "length_offset C = (if C then 12 else 16)"
  by (simp add: length_offset_def KlassPointer_def)

lemma aligns_upD:
  assumes "aligns_up f" and "k < 64" and "unat v + 2 ^ k < 2 ^ 64"
  shows "unat (f v (push_bit k 1)) = align_up (unat v) (2 ^ k)"
  using assms unfolding aligns_up_def by blast

lemma header_size_T_OBJECT:
  assumes "aligns_up f"
  shows "header_size f C T_OBJECT = (if C then 2 else 3)"
proof -
  have l: "BYTES_IN_LONG = push_bit 3 1" "BYTES_IN_INT = 4" "BYTES_IN_WORD = 8"
    by (simp_all add: BYTES_IN_LONG_def LOG_BYTES_IN_LONG_def BYTES_IN_INT_def LOG_BYTES_IN_INT_def
        BYTES_IN_WORD_def LOG_BYTES_IN_WORD_def)
  have "unat (f (length_offset C + 4) (push_bit 3 1)) = align_up (unat (length_offset C + 4)) (2 ^ 3)"
    by (rule aligns_upD[OF assms]) (simp_all add: length_offset_eq)
  then have "f (length_offset C + 4) (push_bit 3 1) = (if C then 16 else 24)"
    by (simp add: length_offset_eq align_up_def word_unat_eq_iff split: if_splits)
  then show ?thesis by (simp add: header_size_def element_type_should_be_aligned_def l word_unat_eq_iff unat_div)
qed

lemma array_base_T_OBJECT:
  "aligns_up f \<Longrightarrow> array_base f C oop T_OBJECT = oop + (if C then 16 else 24)"
  by (simp add: array_base_def header_size_T_OBJECT BYTES_IN_WORD_def LOG_BYTES_IN_WORD_def)

lemma array_data_slot_array:
  "array_data f C (BYTES_IN_SLOT C) m oop ty
     = slot_array C (array_base f C oop ty) (unat (scast (array_length C m oop) :: size_t))"
  by (simp add: array_data_def slot_array_def)

text \<open>An array's slice and its data hold the same slots.\<close>

lemma array_slice_data:
  assumes "unat (array_base f C oop ty) + unat (scast (array_length C m oop) :: size_t) * 2 ^ LOG_BYTES_IN_SLOT C < 2 ^ 64"
  shows "slots_of_range C (array_slice f C m oop ty) = Some (array_data f C (BYTES_IN_SLOT C) m oop ty)"
  using collect_slots_array[OF assms]
  unfolding slots_of_range_def iter_slots_def array_slice_def range_from_def push_bit_slots array_data_slot_array Let_def
  by simp

lemma slot_array_bounds:
  assumes "unat a + n * 2 ^ LOG_BYTES_IN_SLOT C < 2 ^ 64" and "s \<in> set (slot_array C a n)"
  shows "unat a \<le> unat s \<and> unat s + 2 ^ LOG_BYTES_IN_SLOT C \<le> unat a + n * 2 ^ LOG_BYTES_IN_SLOT C"
proof -
  obtain i where i: "i < n" "s = a + of_nat i * BYTES_IN_SLOT C" using assms(2) by (auto simp: slot_array_def)
  have "Suc i * 2 ^ LOG_BYTES_IN_SLOT C \<le> n * 2 ^ LOG_BYTES_IN_SLOT C" using i(1) by (intro mult_right_mono) simp_all
  then have le: "i * 2 ^ LOG_BYTES_IN_SLOT C + 2 ^ LOG_BYTES_IN_SLOT C \<le> n * 2 ^ LOG_BYTES_IN_SLOT C" by simp
  then have "unat (of_nat i * BYTES_IN_SLOT C) = i * 2 ^ LOG_BYTES_IN_SLOT C"
    using assms(1) by (intro unat_slots) linarith
  then have "unat s = unat a + i * 2 ^ LOG_BYTES_IN_SLOT C"
    using i(2) le assms(1) by (simp add: unat_word_ariths)
  then show ?thesis using le by linarith
qed

lemma object_size_array:
  fixes C vm m oop
  defines "lh \<equiv> layout_helper m (oop_klass C vm m oop)"
    and "n \<equiv> unat (scast (array_length C m oop) :: size_t)"
  assumes lh: "obj_array_layout_helper C lh"
    and fits: "32 + n * 2 ^ LOG_BYTES_IN_SLOT C < 2 ^ 64"
  shows "unat (object_size oop_size C vm m oop) = align_up ((if C then 16 else 24) + n * 2 ^ LOG_BYTES_IN_SLOT C) 8"
proof -
  let ?s = "push_bit (LOG_BYTES_IN_SLOT C) (scast (array_length C m oop)) + (if C then 16 else 24) :: size_t"
  have "unat (push_bit (LOG_BYTES_IN_SLOT C) (scast (array_length C m oop) :: size_t)) = n * 2 ^ LOG_BYTES_IN_SLOT C"
    using fits unfolding n_def by (intro push_bit_count) linarith
  then have s: "unat ?s = (if C then 16 else 24) + n * 2 ^ LOG_BYTES_IN_SLOT C"
    using fits by (cases C) (simp_all add: unat_word_ariths)
  have "object_size oop_size C vm m oop = (?s + 7) AND NOT 7"
    using lh unfolding object_size_def Let_def lh_def[symmetric] obj_array_layout_helper_def LH_NEUTRAL_VALUE_def
    by (cases C) simp_all
  then show ?thesis using unat_round_up_8[of ?s] s fits by (simp split: if_splits)
qed

text \<open>An instance of \<^verbatim>\<open>raw_align_up\<close> on which the hypothesis holds.\<close>

definition word_align_up :: "size_t \<Rightarrow> size_t \<Rightarrow> size_t" where
  "word_align_up v a = (v + (a - 1)) AND NOT (a - 1)"

lemma word_align_up_aligns: "aligns_up word_align_up"
proof (unfold aligns_up_def, intro allI impI)
  fix v :: size_t and k assume "k < 64 \<and> unat v + 2 ^ k < 2 ^ 64"
  then have "unat ((v + mask k) AND NOT (mask k)) = align_up (unat v) (2 ^ k)" by (intro unat_round_up) blast
  moreover have "push_bit k 1 - 1 = (mask k :: size_t)" by (simp add: mask_eq_exp_minus_1 push_bit_eq_mult)
  ultimately show "unat (word_align_up v (push_bit k 1)) = align_up (unat v) (2 ^ k)"
    unfolding word_align_up_def by simp
qed

text \<open>
  For arrays of \<^verbatim>\<open>long\<close> and \<^verbatim>\<open>double\<close> the header size is rounded up to eight words, not to eight bytes: the offset of the
  first element would be 64 bytes. No caller asks for these types.
\<close>

lemma header_size_T_LONG:
  assumes "aligns_up f"
  shows "header_size f C T_LONG = 8"
proof -
  have "unat (f (header_size f C T_OBJECT) (push_bit 3 1)) = align_up (unat (header_size f C T_OBJECT)) (2 ^ 3)"
    by (rule aligns_upD[OF assms]) (simp_all add: header_size_T_OBJECT[OF assms])
  then have "f (header_size f C T_OBJECT) (push_bit 3 1) = 8"
    by (simp add: header_size_T_OBJECT[OF assms] align_up_def word_unat_eq_iff split: if_splits)
  then show ?thesis
    by (simp add: header_size_def element_type_should_be_aligned_def BYTES_IN_LONG_def LOG_BYTES_IN_LONG_def)
qed

section \<open>Properties\<close>

text \<open>
  C39. The check of the class layouts at start-up does not see the layout of \<^verbatim>\<open>InstanceKlass\<close>. In HotSpot and in the binding the
  classes of references, mirrors and class loaders are as large as \<^verbatim>\<open>InstanceKlass\<close>, so the size occurs four times in the
  exclusive-or of the sizes and cancels: the check passes exactly when the sizes of \<^verbatim>\<open>Klass\<close>, \<^verbatim>\<open>TypeArrayKlass\<close> and
  \<^verbatim>\<open>ObjArrayKlass\<close> (208, 240 and 248 bytes) fit together, whatever the size of \<^verbatim>\<open>InstanceKlass\<close> is.
\<close>
theorem layout_checksum_blind_to_InstanceKlass:
  assumes "size_InstanceRefKlass c = size_InstanceKlass c" and "size_InstanceMirrorKlass c = size_InstanceKlass c"
    and "size_InstanceClassLoaderKlass c = size_InstanceKlass c"
  shows "validate_memory_layouts c = Inr ()
    \<longleftrightarrow> size_Klass c XOR size_TypeArrayKlass c XOR size_ObjArrayKlass c = 208 XOR 240 XOR 248"
proof -
  have cancel: "a XOR b XOR b XOR b XOR b XOR t XOR obj = a XOR t XOR obj" for a b t obj :: size_t
    by (simp add: xor.assoc xor.left_commute)
  have vm: "compute_klass_mem_layout_checksum c = size_Klass c XOR size_TypeArrayKlass c XOR size_ObjArrayKlass c"
    unfolding compute_klass_mem_layout_checksum_def assms cancel ..
  have "sizeof Klass = 208" "sizeof TypeArrayKlass = 240" "sizeof ObjArrayKlass = 248"
    by (simp_all add: TypeArrayKlass_def ObjArrayKlass_def ArrayKlass_def Klass_def align_up_def)
  moreover have "sizeof InstanceRefKlass = sizeof InstanceKlass" "sizeof InstanceMirrorKlass = sizeof InstanceKlass"
    "sizeof InstanceClassLoaderKlass = sizeof InstanceKlass"
    by (simp_all add: InstanceRefKlass_def InstanceMirrorKlass_def InstanceClassLoaderKlass_def InstanceKlass_def Klass_def align_up_def)
  ultimately have "compute_klass_mem_layout_checksum binding_sizes = 208 XOR 240 XOR 248"
    unfolding compute_klass_mem_layout_checksum_def binding_sizes_def by (simp add: cancel)
  then show ?thesis unfolding validate_memory_layouts_def Let_def vm by simp
qed

text \<open>A HotSpot whose \<^verbatim>\<open>InstanceKlass\<close> has eight bytes more passes the check.\<close>

definition larger_sizes :: class_sizes where
  "larger_sizes = \<lparr>size_Klass = 208, size_InstanceKlass = 472, size_InstanceRefKlass = 472, size_InstanceMirrorKlass = 472,
     size_InstanceClassLoaderKlass = 472, size_TypeArrayKlass = 240, size_ObjArrayKlass = 248\<rparr>"

theorem layout_checksum_blind_to_InstanceKlass_witness:
  "validate_memory_layouts larger_sizes = Inr () \<and> size_InstanceKlass larger_sizes \<noteq> of_nat (sizeof InstanceKlass)"
proof
  show "validate_memory_layouts larger_sizes = Inr ()"
    using layout_checksum_blind_to_InstanceKlass[of larger_sizes] by (simp add: larger_sizes_def)
  show "size_InstanceKlass larger_sizes \<noteq> of_nat (sizeof InstanceKlass)"
    by (simp add: larger_sizes_def)
qed

end
