(* ===== verification/GC_Init.thy ===== *)
theory GC_Init
  imports Object_Layout Slots
begin

text \<open>
  The global state of the Rust side and its once-only initialization: the switch for compressed pointers
  (\<^verbatim>\<open>mmtk/src/slots.rs\<close>), \<^verbatim>\<open>openjdk_gc_init\<close> with the choice of a plan by build features (\<^verbatim>\<open>mmtk/src/api.rs\<close>), the two lazily created
  singletons (\<^verbatim>\<open>mmtk/src/lib.rs\<close>), of which every function of the interface picks one with \<^verbatim>\<open>with_singleton!\<close>, and the question
  whether a mutator can be bound (\<^verbatim>\<open>openjdk/mmtkMutator.cpp\<close>). A panic ends the process.
\<close>

section \<open>State\<close>

datatype PlanSelector = NoGC | SemiSpace | GenCopy | MarkSweep | MarkCompact | PageProtect | Immix | GenImmix | StickyImmix
  | ConcurrentImmix

record rust_statics =
  USE_COMPRESSED_OOPS :: bool
  COMPRESSED_OOPS_INITIALIZED :: bool
  MMTK_INITIALIZED :: bool
  UPCALLS_set :: bool
  builder_plan :: PlanSelector
  builder_layout :: "VMLayout option"
  rust_encoding :: compressed_oops
  SINGLETON_COMPRESSED :: bool
  SINGLETON_UNCOMPRESSED :: bool

definition initial_statics :: "PlanSelector \<Rightarrow> rust_statics" where
  "initial_statics default_plan = \<lparr>USE_COMPRESSED_OOPS = False, COMPRESSED_OOPS_INITIALIZED = False, MMTK_INITIALIZED = False,
     UPCALLS_set = False, builder_plan = default_plan, builder_layout = None, rust_encoding = \<lparr>BASE = 0, SHIFT = 0\<rparr>,
     SINGLETON_COMPRESSED = False, SINGLETON_UNCOMPRESSED = False\<rparr>"

section \<open>Operations\<close>

definition enable_compressed_oops :: "bool \<Rightarrow> rust_statics \<Rightarrow> rust_statics result" where
  "enable_compressed_oops x86_64 s =
     (if COMPRESSED_OOPS_INITIALIZED s then Inl (Panic ''cannot enable compressed pointers twice.'')
      else (let s1 = s\<lparr>COMPRESSED_OOPS_INITIALIZED := True\<rparr>
            in if \<not> x86_64 then Inl (Panic ''Compressed pointer is only enable on x86_64 platforms.'')
               else Inr (s1\<lparr>USE_COMPRESSED_OOPS := True\<rparr>)))"

definition use_compressed_oops :: "rust_statics \<Rightarrow> bool" where
  "use_compressed_oops s = USE_COMPRESSED_OOPS s"

text \<open>What mmtk-core contributes: the alignment of chunks, the configured heap size, the range of the heap once it exists.\<close>

record core_init =
  align_down :: "addr \<Rightarrow> addr"
  align_up_chunk :: "addr \<Rightarrow> addr"
  configured_heap_size :: size_t
  reported_range :: "VMLayout option \<Rightarrow> addr \<times> addr"

definition init_SINGLETON_COMPRESSED :: "core_init \<Rightarrow> rust_statics \<Rightarrow> rust_statics result" where
  "init_SINGLETON_COMPRESSED core s =
     (if \<not> use_compressed_oops s then Inl (Panic ''assertion failed: use_compressed_oops()'')
      else if MMTK_INITIALIZED s then Inl (Panic ''assertion failed: !MMTK_INITIALIZED'')
      else (case set_compressed_pointer_vm_layout (align_down core) (align_up_chunk core) (configured_heap_size core) of
        Inl e \<Rightarrow> Inl e
      | Inr l \<Rightarrow>
          (let rng = reported_range core (Some l)
           in Inr (s\<lparr>builder_layout := Some l, MMTK_INITIALIZED := True,
                     rust_encoding := initialize_compressed_oops_base_and_shift (fst rng) (snd rng), SINGLETON_COMPRESSED := True\<rparr>))))"

definition init_SINGLETON_UNCOMPRESSED :: "rust_statics \<Rightarrow> rust_statics result" where
  "init_SINGLETON_UNCOMPRESSED s =
     (if use_compressed_oops s then Inl (Panic ''assertion failed: !use_compressed_oops()'')
      else if MMTK_INITIALIZED s then Inl (Panic ''assertion failed: !MMTK_INITIALIZED'')
      else Inr (s\<lparr>MMTK_INITIALIZED := True, SINGLETON_UNCOMPRESSED := True\<rparr>))"

text \<open>Using a lazy static creates it on the first use.\<close>

definition force_compressed :: "core_init \<Rightarrow> rust_statics \<Rightarrow> rust_statics result" where
  "force_compressed core s = (if SINGLETON_COMPRESSED s then Inr s else init_SINGLETON_COMPRESSED core s)"

definition force_uncompressed :: "rust_statics \<Rightarrow> rust_statics result" where
  "force_uncompressed s = (if SINGLETON_UNCOMPRESSED s then Inr s else init_SINGLETON_UNCOMPRESSED s)"

definition singleton :: "core_init \<Rightarrow> bool \<Rightarrow> rust_statics \<Rightarrow> rust_statics result" where
  "singleton core COMPRESSED s = (if COMPRESSED then force_compressed core s else force_uncompressed s)"

definition with_singleton :: "core_init \<Rightarrow> rust_statics \<Rightarrow> rust_statics result" where
  "with_singleton core s = (if use_compressed_oops s then force_compressed core s else force_uncompressed s)"

definition force_plan :: "(string \<Rightarrow> bool) \<Rightarrow> PlanSelector option" where
  "force_plan feature =
     (if feature ''nogc'' then Some NoGC
      else if feature ''semispace'' then Some SemiSpace
      else if feature ''gencopy'' then Some GenCopy
      else if feature ''marksweep'' then Some MarkSweep
      else if feature ''markcompact'' then Some MarkCompact
      else if feature ''pageprotect'' then Some PageProtect
      else if feature ''immix'' then Some Immix
      else if feature ''genimmix'' then Some GenImmix
      else if feature ''stickyimmix'' then Some StickyImmix
      else None)"

definition openjdk_gc_init :: "core_init \<Rightarrow> class_sizes \<Rightarrow> (string \<Rightarrow> bool) \<Rightarrow> rust_statics \<Rightarrow> rust_statics result" where
  "openjdk_gc_init core vm_sizes feature s =
     (let s1 = s\<lparr>UPCALLS_set := True\<rparr>
      in case validate_memory_layouts vm_sizes of
           Inl e \<Rightarrow> Inl e
         | Inr _ \<Rightarrow>
             (let s2 = (case force_plan feature of None \<Rightarrow> s1 | Some plan \<Rightarrow> s1\<lparr>builder_plan := plan\<rparr>)
              in if MMTK_INITIALIZED s2 then Inl (Panic ''assertion failed: !MMTK_INITIALIZED'')
                 else with_singleton core s2))"

definition openjdk_is_gc_initialized :: "rust_statics \<Rightarrow> bool" where
  "openjdk_is_gc_initialized s = MMTK_INITIALIZED s"

definition is_ready_to_bind :: "rust_statics \<Rightarrow> bool" where
  "is_ready_to_bind s = openjdk_is_gc_initialized s"

section \<open>Any use of the interface\<close>

inductive api_step :: "core_init \<Rightarrow> class_sizes \<Rightarrow> (string \<Rightarrow> bool) \<Rightarrow> rust_statics \<Rightarrow> rust_statics \<Rightarrow> bool"
  for core vm_sizes feature where
  enables: "enable_compressed_oops x86_64 s = Inr t \<Longrightarrow> api_step core vm_sizes feature s t"
| initializes: "openjdk_gc_init core vm_sizes feature s = Inr t \<Longrightarrow> api_step core vm_sizes feature s t"
| uses: "with_singleton core s = Inr t \<Longrightarrow> api_step core vm_sizes feature s t"
| uses_singleton: "singleton core COMPRESSED s = Inr t \<Longrightarrow> api_step core vm_sizes feature s t"

definition statics_inv :: "rust_statics \<Rightarrow> bool" where
  "statics_inv s \<longleftrightarrow> (MMTK_INITIALIZED s \<longleftrightarrow> SINGLETON_COMPRESSED s \<or> SINGLETON_UNCOMPRESSED s)
     \<and> \<not> (SINGLETON_COMPRESSED s \<and> SINGLETON_UNCOMPRESSED s)
     \<and> (SINGLETON_COMPRESSED s \<longrightarrow> USE_COMPRESSED_OOPS s) \<and> (USE_COMPRESSED_OOPS s = COMPRESSED_OOPS_INITIALIZED s)"

lemmas init_defs = enable_compressed_oops_def with_singleton_def singleton_def force_compressed_def force_uncompressed_def
  init_SINGLETON_COMPRESSED_def init_SINGLETON_UNCOMPRESSED_def use_compressed_oops_def Let_def

interpretation statics: safety_system "\<lambda>s. \<exists>p. s = initial_statics p" "api_step core vm_sizes feature" statics_inv
  for core vm_sizes feature
proof
  fix s t
  have use: "with_singleton core s = Inr t \<Longrightarrow> statics_inv s \<Longrightarrow> statics_inv t" for s t
    by (auto simp: statics_inv_def init_defs split: if_splits sum.splits)
  show "\<exists>p. s = initial_statics p \<Longrightarrow> statics_inv s" by (auto simp: initial_statics_def statics_inv_def)
  show "api_step core vm_sizes feature s t \<Longrightarrow> statics_inv s \<Longrightarrow> statics_inv t"
  proof (induction rule: api_step.induct)
    case (initializes s t)
    then obtain s2 where "with_singleton core s2 = Inr t" "statics_inv s2"
      by (auto simp: openjdk_gc_init_def Let_def statics_inv_def split: sum.splits option.splits if_splits)
    then show ?case by (rule use)
  next
    case (uses s t)
    then show ?case by (rule use)
  qed (auto simp: statics_inv_def init_defs split: if_splits sum.splits)
qed

text \<open>
  At most one of the two singletons ever exists, whatever functions of the interface are called in whatever order, a mutator can be
  bound exactly if one does, and the one for compressed pointers exists only if they are enabled. A call that would create the
  second one panics.
\<close>

lemma one_singleton:
  assumes "reachable (\<lambda>s. \<exists>p. s = initial_statics p) (api_step core vm_sizes feature) s"
  shows "\<not> (SINGLETON_COMPRESSED s \<and> SINGLETON_UNCOMPRESSED s)"
    and "is_ready_to_bind s \<longleftrightarrow> SINGLETON_COMPRESSED s \<or> SINGLETON_UNCOMPRESSED s"
    and "SINGLETON_UNCOMPRESSED s \<Longrightarrow> USE_COMPRESSED_OOPS s \<Longrightarrow> \<exists>e. with_singleton core s = Inl e"
  using statics.reachable_inv[OF assms]
  by (auto simp: statics_inv_def is_ready_to_bind_def openjdk_is_gc_initialized_def init_defs)

text \<open>
  The start-up of the heap: after compressed pointers were enabled, or not, and \<^verbatim>\<open>openjdk_gc_init\<close> has run, every use of the
  interface finds the singleton that it needs and creates nothing, and neither of the two calls can be repeated.
\<close>

lemma gc_init_once:
  assumes "validate_memory_layouts vm_sizes = Inr ()" and "compressed \<longrightarrow> configured_heap_size core \<le> push_bit 30 32"
    and "s = (if compressed then (initial_statics p)\<lparr>COMPRESSED_OOPS_INITIALIZED := True, USE_COMPRESSED_OOPS := True\<rparr> else initial_statics p)"
  obtains t where "openjdk_gc_init core vm_sizes feature s = Inr t"
    and "with_singleton core t = Inr t" and "singleton core compressed t = Inr t"
    and "is_ready_to_bind t" and "SINGLETON_COMPRESSED t = compressed" and "SINGLETON_UNCOMPRESSED t = (\<not> compressed)"
    and "openjdk_gc_init core vm_sizes feature t = Inl (Panic ''assertion failed: !MMTK_INITIALIZED'')"
proof -
  obtain t where t: "openjdk_gc_init core vm_sizes feature s = Inr t"
    using assms by (cases compressed; cases "force_plan feature")
      (simp_all add: openjdk_gc_init_def init_defs initial_statics_def set_compressed_pointer_vm_layout_def)
  then have "MMTK_INITIALIZED t" "SINGLETON_COMPRESSED t = compressed" "SINGLETON_UNCOMPRESSED t = (\<not> compressed)"
      "USE_COMPRESSED_OOPS t = compressed"
    using assms
    by (cases compressed; cases "force_plan feature";
        auto simp: openjdk_gc_init_def init_defs initial_statics_def split: sum.splits)+
  then show ?thesis
    using that[OF t] assms(1)
    by (cases "force_plan feature") (auto simp: openjdk_gc_init_def init_defs is_ready_to_bind_def openjdk_is_gc_initialized_def)
qed

end
