(* ===== verification/Heap_Config.thy ===== *)
theory Heap_Config
  imports GC_Init
begin

text \<open>
  Start-up of the heap: the GC arguments (\<^verbatim>\<open>openjdk/thirdPartyHeapArguments.cpp\<close>), the options and the
  initialization of \<^verbatim>\<open>MMTkHeap\<close> (\<^verbatim>\<open>openjdk/mmtkHeap.cpp\<close>) with the builder functions it calls (\<^verbatim>\<open>mmtk/src/api.rs\<close>), and
  the memory pool (\<^verbatim>\<open>openjdk/mmtkMemoryPool.cpp\<close>).

  The VM's flags are a record that also says whether a flag still has its default origin. The environment is a
  map from names to values. What mmtk-core does with its options is the record \<open>mmtk_core\<close> of functions, among them the range of
  the heap it reports for the layout it was given, if any; the number of workers that HotSpot computes, the success of
  \<^verbatim>\<open>os::create_thread\<close> and HotSpot's \<^verbatim>\<open>pointer_delta\<close> are parameters. The statics of the Rust side (theory \<open>GC_Init\<close>) are
  passed through the initialization; HotSpot has its own copy of the base and shift of compressed pointers.
\<close>

section \<open>Flags and options\<close>

record jvm_flags =
  UseThirdPartyHeap :: bool
  UseTLAB :: bool
  UseCompressedOops :: bool
  UseCompressedClassPointers :: bool
  ParallelGCThreads :: nat
  ParallelGCThreads_is_default :: bool
  UseTransparentHugePages :: bool
  UseTransparentHugePages_is_default :: bool
  ThirdPartyHeapOptions :: "string option"

datatype GCTriggerSelector = FixedHeapSize size_t | DynamicHeapSize size_t size_t

record mmtk_options =
  threads :: nat
  transparent_hugepages :: bool
  gc_trigger :: GCTriggerSelector

record mmtk_core =
  threads_valid :: "nat \<Rightarrow> bool"
  trigger_valid :: "GCTriggerSelector \<Rightarrow> bool"
  read_env_var_settings :: "mmtk_options \<Rightarrow> mmtk_options"
  core_process_bulk :: "string \<Rightarrow> mmtk_options \<Rightarrow> bool \<times> mmtk_options"
  max_heap_size :: "GCTriggerSelector \<Rightarrow> size_t"
  core_heap_range :: "VMLayout option \<Rightarrow> addr \<times> addr"
  chunk_align_down :: "addr \<Rightarrow> addr"
  chunk_align_up :: "addr \<Rightarrow> addr"
  max_non_los_default_alloc_bytes :: size_t

definition ThirdPartyHeapArguments_initialize :: "nat \<Rightarrow> jvm_flags \<Rightarrow> jvm_flags result" where
  "ThirdPartyHeapArguments_initialize parallel_worker_threads fl =
     (if \<not> UseThirdPartyHeap fl then Inl (Assert_failed ''Error, should UseThirdPartyHeap'')
      else
        (let fl1 = fl\<lparr>UseTLAB := False, UseCompressedClassPointers := UseCompressedOops fl,
                     ParallelGCThreads := parallel_worker_threads\<rparr>
         in if ParallelGCThreads fl1 = 0 then
              if ParallelGCThreads_is_default fl1 then Inl (Assert_failed ''ParallelGCThreads should not be 0.'')
              else Inl (Vm_exit ''The flag -XX:+UseUseThirdPartyHeap can not be combined with -XX:ParallelGCThreads=0'')
            else Inr fl1))"

definition set_bool_option_from_env_var :: "(string \<rightharpoonup> string) \<Rightarrow> string \<Rightarrow> bool \<Rightarrow> bool result" where
  "set_bool_option_from_env_var getenv name var = (case getenv name of
     None \<Rightarrow> Inr var
   | Some v \<Rightarrow>
       if v = ''true'' \<or> v = ''yes'' \<or> v = ''on'' \<or> v = ''1'' then Inr True
       else if v = ''false'' \<or> v = ''no'' \<or> v = ''off'' \<or> v = ''0'' then Inr False
       else Inl (Abort ''Unexpected value for env var''))"

definition mmtk_builder_set_threads :: "mmtk_core \<Rightarrow> nat \<Rightarrow> mmtk_options \<Rightarrow> mmtk_options" where
  "mmtk_builder_set_threads core n opts = (if threads_valid core n then opts\<lparr>threads := n\<rparr> else opts)"

definition mmtk_builder_set_transparent_hugepages :: "bool \<Rightarrow> mmtk_options \<Rightarrow> mmtk_options" where
  "mmtk_builder_set_transparent_hugepages b opts = opts\<lparr>transparent_hugepages := b\<rparr>"

definition mmtk_set_heap_size :: "mmtk_core \<Rightarrow> size_t \<Rightarrow> size_t \<Rightarrow> mmtk_options \<Rightarrow> bool \<times> mmtk_options" where
  "mmtk_set_heap_size core min_size max_size opts =
     (let policy = (if min_size = max_size then FixedHeapSize min_size else DynamicHeapSize min_size max_size)
      in if trigger_valid core policy then (True, opts\<lparr>gc_trigger := policy\<rparr>) else (False, opts))"

definition set_mmtk_options :: "mmtk_core \<Rightarrow> jvm_flags \<Rightarrow> bool \<Rightarrow> mmtk_options \<Rightarrow> mmtk_options" where
  "set_mmtk_options core fl set_defaults opts =
     (let opts1 = (if ParallelGCThreads_is_default fl = set_defaults
                   then mmtk_builder_set_threads core (ParallelGCThreads fl) opts else opts)
      in if UseTransparentHugePages_is_default fl = set_defaults
         then mmtk_builder_set_transparent_hugepages (UseTransparentHugePages fl) opts1 else opts1)"

section \<open>Initialization\<close>

text \<open>What \<^verbatim>\<open>Universe::set_narrow_oop_base\<close> and \<^verbatim>\<open>Universe::set_narrow_oop_shift\<close> set in HotSpot.\<close>

record narrow_oop_settings =
  narrow_oop_base :: addr
  narrow_oop_shift :: nat

record heap =
  mmtk_enable_allocation_fastpath :: bool
  mmtk_enable_barrier_fastpath :: bool
  options :: mmtk_options
  heap_range :: "addr \<times> addr"
  narrow_oop :: "narrow_oop_settings option"
  max_non_los :: size_t
  companion_started :: bool

text \<open>The environment of the process: its variables, the threads it gets, the target, and what HotSpot and the binding were built with.\<close>

record start_env =
  getenv :: "string \<rightharpoonup> string"
  create_thread :: bool
  target_x86_64 :: bool
  vm_class_sizes :: class_sizes
  build_feature :: "string \<Rightarrow> bool"

definition mmtk_narrow_oop_base :: "rust_statics \<Rightarrow> addr result" where
  "mmtk_narrow_oop_base st =
     (if use_compressed_oops st then Inr (BASE (rust_encoding st))
      else Inl (Panic ''assertion failed: crate::use_compressed_oops()''))"

definition mmtk_narrow_oop_shift :: "rust_statics \<Rightarrow> nat result" where
  "mmtk_narrow_oop_shift st =
     (if use_compressed_oops st then Inr (SHIFT (rust_encoding st))
      else Inl (Panic ''assertion failed: crate::use_compressed_oops()''))"

text \<open>What the initialization of mmtk-core sees of the options.\<close>

definition core_init_of :: "mmtk_core \<Rightarrow> mmtk_options \<Rightarrow> core_init" where
  "core_init_of core opts = \<lparr>align_down = chunk_align_down core, align_up_chunk = chunk_align_up core,
     configured_heap_size = max_heap_size core (gc_trigger opts), reported_range = core_heap_range core\<rparr>"

text \<open>The sequence of option sources of \<^verbatim>\<open>MMTkHeap::initialize\<close>, up to the heap size.\<close>

definition initialize_options ::
  "mmtk_core \<Rightarrow> jvm_flags \<Rightarrow> size_t \<Rightarrow> size_t \<Rightarrow> mmtk_options \<Rightarrow> mmtk_options result" where
  "initialize_options core fl min_heap_size max_heap_sz opts =
     (let opts1 = set_mmtk_options core fl True opts;
          opts2 = read_env_var_settings core opts1;
          opts3 = set_mmtk_options core fl False opts2;
          (set_options, opts4) = (case ThirdPartyHeapOptions fl of
             None \<Rightarrow> (True, opts3) | Some t \<Rightarrow> core_process_bulk core t opts3)
      in if \<not> set_options then Inl (Guarantee_failed ''Failed to set MMTk options.'')
         else
           (let (set_heap_size, opts5) = mmtk_set_heap_size core min_heap_size max_heap_sz opts4
            in if \<not> set_heap_size then Inl (Guarantee_failed ''Failed to set MMTk heap size.'') else Inr opts5))"

text \<open>\<^verbatim>\<open>if (UseCompressedOops) { Universe::set_narrow_oop_base(...); Universe::set_narrow_oop_shift(...); }\<close>\<close>

definition set_narrow_oop :: "jvm_flags \<Rightarrow> rust_statics \<Rightarrow> narrow_oop_settings option result" where
  "set_narrow_oop fl st =
     (if \<not> UseCompressedOops fl then Inr None
      else (case mmtk_narrow_oop_base st of
        Inl e \<Rightarrow> Inl e
      | Inr b \<Rightarrow> (case mmtk_narrow_oop_shift st of
          Inl e \<Rightarrow> Inl e
        | Inr k \<Rightarrow> Inr (Some \<lparr>narrow_oop_base = b, narrow_oop_shift = k\<rparr>))))"

definition MMTkHeap_initialize ::
  "mmtk_core \<Rightarrow> start_env \<Rightarrow> jvm_flags \<Rightarrow> size_t \<Rightarrow> size_t \<Rightarrow> bool \<Rightarrow> bool \<Rightarrow> mmtk_options \<Rightarrow> rust_statics
     \<Rightarrow> (heap \<times> rust_statics) result" where
  "MMTkHeap_initialize core E fl min_heap_size max_heap_sz alloc_fp barrier_fp opts st =
     (if UseTLAB fl then Inl (Assert_failed ''should disable UseTLAB'')
      else (case set_bool_option_from_env_var (getenv E) ''MMTK_ENABLE_ALLOCATION_FASTPATH'' alloc_fp of
        Inl e \<Rightarrow> Inl e
      | Inr alloc_fp1 \<Rightarrow> (case set_bool_option_from_env_var (getenv E) ''MMTK_ENABLE_BARRIER_FASTPATH'' barrier_fp of
          Inl e \<Rightarrow> Inl e
        | Inr barrier_fp1 \<Rightarrow> (case (if UseCompressedOops fl then enable_compressed_oops (target_x86_64 E) st else Inr st) of
            Inl e \<Rightarrow> Inl e
          | Inr st1 \<Rightarrow> (case initialize_options core fl min_heap_size max_heap_sz opts of
              Inl e \<Rightarrow> Inl e
            | Inr opts1 \<Rightarrow> (case openjdk_gc_init (core_init_of core opts1) (vm_class_sizes E) (build_feature E) st1 of
                Inl e \<Rightarrow> Inl e
              | Inr st2 \<Rightarrow> (case set_narrow_oop fl st2 of
                  Inl e \<Rightarrow> Inl e
                | Inr narrow \<Rightarrow>
                    if \<not> create_thread E then Inl (Guarantee_failed ''panic'')
                    else Inr (\<lparr>mmtk_enable_allocation_fastpath = alloc_fp1, mmtk_enable_barrier_fastpath = barrier_fp1,
                               options = opts1, heap_range = core_heap_range core (builder_layout st2), narrow_oop = narrow,
                               max_non_los = max_non_los_default_alloc_bytes core, companion_started = True\<rparr>, st2))))))))"

section \<open>The memory pool\<close>

record memory_pool =
  pool_start :: addr
  pool_end :: addr
  pool_initial_size :: size_t
  used_in_bytes :: size_t

record memory_usage =
  mu_init :: size_t
  mu_used :: size_t
  mu_committed :: size_t
  mu_max :: size_t

definition new_MMTkMemoryPool :: "addr \<Rightarrow> addr \<Rightarrow> size_t \<Rightarrow> memory_pool" where
  "new_MMTkMemoryPool start_addr end_addr init_size =
     \<lparr>pool_start = start_addr, pool_end = end_addr, pool_initial_size = init_size, used_in_bytes = 0\<rparr>"

definition pool_max_size :: "(addr \<Rightarrow> addr \<Rightarrow> size_t) \<Rightarrow> memory_pool \<Rightarrow> size_t" where
  "pool_max_size pointer_delta p = pointer_delta (pool_start p) (pool_end p) * 8"

definition get_memory_usage :: "(addr \<Rightarrow> addr \<Rightarrow> size_t) \<Rightarrow> bool \<Rightarrow> memory_pool \<Rightarrow> memory_usage" where
  "get_memory_usage pointer_delta available_for_allocation p =
     (let maxSize = (if available_for_allocation then pool_max_size pointer_delta p else 0);
          used = used_in_bytes p;
          committed = pointer_delta (pool_start p) (pool_end p) * 8
      in \<lparr>mu_init = pool_initial_size p, mu_used = used, mu_committed = committed, mu_max = maxSize\<rparr>)"

text \<open>
  HotSpot's \<^verbatim>\<open>pointer_delta(left, right)\<close> is the number of heap words from \<^verbatim>\<open>right\<close> up to \<^verbatim>\<open>left\<close>, computed in 64 bits.
\<close>

definition counts_words :: "(addr \<Rightarrow> addr \<Rightarrow> size_t) \<Rightarrow> bool" where
  "counts_words pointer_delta \<longleftrightarrow> (\<forall>l r. pointer_delta l r = drop_bit 3 (l - r))"

text \<open>
  The pool passes its bounds in the opposite order, so for word-aligned bounds its size is the negated size of the heap.
\<close>

lemma pool_max_size_negative:
  assumes "counts_words pointer_delta" and "8 dvd unat (pool_start p - pool_end p)"
  shows "mu_max (get_memory_usage pointer_delta True p) = - (pool_end p - pool_start p)"
    and "mu_committed (get_memory_usage pointer_delta avail p) = - (pool_end p - pool_start p)"
proof -
  let ?w = "pool_start p - pool_end p"
  have "drop_bit 3 ?w = of_nat (unat (drop_bit 3 ?w))" by (simp only: of_nat_unat ucast_id)
  also have "\<dots> = of_nat (unat ?w div 8)" unfolding unat_drop_bit_64 by simp
  finally have d: "drop_bit 3 ?w = of_nat (unat ?w div 8)" .
  have "pool_max_size pointer_delta p = of_nat (unat ?w div 8) * 8"
    using assms(1) unfolding pool_max_size_def counts_words_def by (simp only: d)
  also have "\<dots> = of_nat (unat ?w div 8 * 8)" by simp
  also have "\<dots> = pool_start p - pool_end p" using assms(2) by simp
  finally have "pool_max_size pointer_delta p = - (pool_end p - pool_start p)" by simp
  then show "mu_max (get_memory_usage pointer_delta True p) = - (pool_end p - pool_start p)"
    and "mu_committed (get_memory_usage pointer_delta avail p) = - (pool_end p - pool_start p)"
    by (simp_all add: get_memory_usage_def Let_def pool_max_size_def)
qed

section \<open>Properties\<close>

text \<open>What the environment of mmtk-core sets: the given values, and nothing else.\<close>

definition env_sets :: "mmtk_core \<Rightarrow> nat option \<Rightarrow> bool option \<Rightarrow> bool" where
  "env_sets core env_threads env_thp \<longleftrightarrow> (\<forall>opts.
      threads (read_env_var_settings core opts) = (case env_threads of None \<Rightarrow> threads opts | Some v \<Rightarrow> v)
    \<and> transparent_hugepages (read_env_var_settings core opts) = (case env_thp of None \<Rightarrow> transparent_hugepages opts | Some v \<Rightarrow> v))"

text \<open>
  Options take the value of the source with the highest priority: without bulk options, a flag given on the command line
  wins over the environment, the environment over the VM's default for the flag, and that over
  mmtk-core's own default; a number of threads that mmtk-core rejects is skipped. The heap size of the
  collector policy always sets the trigger.
\<close>

lemma initialize_option_priority:
  assumes "env_sets core env_threads env_thp" and "ThirdPartyHeapOptions fl = None"
    and "initialize_options core fl min_heap_size max_heap_sz opts = Inr opts'"
  shows "threads opts' =
          (if \<not> ParallelGCThreads_is_default fl \<and> threads_valid core (ParallelGCThreads fl) then ParallelGCThreads fl
           else case env_threads of
             Some v \<Rightarrow> v
           | None \<Rightarrow> if threads_valid core (ParallelGCThreads fl) then ParallelGCThreads fl else threads opts)
       \<and> transparent_hugepages opts' =
          (if \<not> UseTransparentHugePages_is_default fl then UseTransparentHugePages fl
           else case env_thp of Some v \<Rightarrow> v | None \<Rightarrow> UseTransparentHugePages fl)
       \<and> gc_trigger opts' = (if min_heap_size = max_heap_sz then FixedHeapSize min_heap_size
                             else DynamicHeapSize min_heap_size max_heap_sz)"
proof -
  let ?o3 = "set_mmtk_options core fl False (read_env_var_settings core (set_mmtk_options core fl True opts))"
  have o: "threads opts' = threads ?o3" "transparent_hugepages opts' = transparent_hugepages ?o3"
    "gc_trigger opts' = (if min_heap_size = max_heap_sz then FixedHeapSize min_heap_size
                             else DynamicHeapSize min_heap_size max_heap_sz)"
    using assms(2,3) by (auto simp: initialize_options_def mmtk_set_heap_size_def Let_def split: if_splits)
  have "threads ?o3 =
          (if \<not> ParallelGCThreads_is_default fl \<and> threads_valid core (ParallelGCThreads fl) then ParallelGCThreads fl
           else case env_threads of
             Some v \<Rightarrow> v
           | None \<Rightarrow> if threads_valid core (ParallelGCThreads fl) then ParallelGCThreads fl else threads opts)"
    using assms(1)
    by (cases "ParallelGCThreads_is_default fl"; cases env_threads)
      (simp_all add: set_mmtk_options_def mmtk_builder_set_threads_def mmtk_builder_set_transparent_hugepages_def
        env_sets_def Let_def)
  moreover have "transparent_hugepages ?o3 =
          (if \<not> UseTransparentHugePages_is_default fl then UseTransparentHugePages fl
           else case env_thp of Some v \<Rightarrow> v | None \<Rightarrow> UseTransparentHugePages fl)"
    using assms(1)
    by (cases "UseTransparentHugePages_is_default fl"; cases env_thp)
      (simp_all add: set_mmtk_options_def mmtk_builder_set_threads_def mmtk_builder_set_transparent_hugepages_def
        env_sets_def Let_def)
  ultimately show ?thesis using o by simp
qed

text \<open>An mmtk-core that accepts everything but zero threads, with \<^verbatim>\<open>MMTK_THREADS=6\<close> in the environment.\<close>

definition demo_core :: mmtk_core where
  "demo_core = \<lparr>threads_valid = (\<lambda>n. 0 < n), trigger_valid = (\<lambda>_. True),
     read_env_var_settings = (\<lambda>opts. opts\<lparr>threads := 6\<rparr>), core_process_bulk = (\<lambda>_ opts. (True, opts)),
     max_heap_size = (\<lambda>t. case t of FixedHeapSize n \<Rightarrow> n | DynamicHeapSize _ n \<Rightarrow> n),
     core_heap_range = (\<lambda>l. case l of None \<Rightarrow> (0x20000000000, 0x220000000000) | Some l \<Rightarrow> (heap_start l, heap_end l)),
     chunk_align_down = align_id, chunk_align_up = align_id,
     max_non_los_default_alloc_bytes = 0x4000\<rparr>"

definition demo_flags :: jvm_flags where
  "demo_flags = \<lparr>UseThirdPartyHeap = True, UseTLAB = False, UseCompressedOops = True, UseCompressedClassPointers = True,
     ParallelGCThreads = 4, ParallelGCThreads_is_default = False, UseTransparentHugePages = False,
     UseTransparentHugePages_is_default = True, ThirdPartyHeapOptions = None\<rparr>"

definition demo_options :: mmtk_options where
  "demo_options = \<lparr>threads = 1, transparent_hugepages = False, gc_trigger = FixedHeapSize 0\<rparr>"

lemmas demo_config_defs = demo_core_def demo_flags_def demo_options_def initialize_options_def set_mmtk_options_def
  mmtk_builder_set_threads_def mmtk_builder_set_transparent_hugepages_def mmtk_set_heap_size_def Let_def

lemma initialize_option_priority_instance:
  "initialize_options demo_core demo_flags 0x1000000 0x1000000 demo_options
     = Inr \<lparr>threads = 4, transparent_hugepages = False, gc_trigger = FixedHeapSize 0x1000000\<rparr> \<and> (4 :: nat) \<noteq> 6"
proof -
  have e: "env_sets demo_core (Some 6) None" by (simp add: env_sets_def demo_core_def)
  obtain opts where o: "initialize_options demo_core demo_flags 0x1000000 0x1000000 demo_options = Inr opts"
    by (simp add: demo_config_defs)
  have "ThirdPartyHeapOptions demo_flags = None" by (simp add: demo_flags_def)
  note p = initialize_option_priority[OF e this o]
  have "threads opts = 4" "\<not> transparent_hugepages opts" "gc_trigger opts = FixedHeapSize 0x1000000"
    using p by (simp_all add: demo_core_def demo_flags_def)
  then show ?thesis using o by (cases opts) simp
qed

text \<open>mmtk-core reports the heap range of the layout that was set.\<close>

definition reports_layout :: "mmtk_core \<Rightarrow> bool" where
  "reports_layout core \<longleftrightarrow> (\<forall>l. core_heap_range core (Some l) = (heap_start l, heap_end l))"

text \<open>The two ways an initialization can end well.\<close>

lemma MMTkHeap_initialize_statics:
  assumes "MMTkHeap_initialize core E fl min_heap_size max_heap_sz alloc_fp barrier_fp opts (initial_statics p) = Inr (h, st)"
  shows "if UseCompressedOops fl
     then \<exists>l. set_compressed_pointer_vm_layout (chunk_align_down core) (chunk_align_up core) (max_heap_size core (gc_trigger (options h))) = Inr l
        \<and> builder_layout st = Some l \<and> use_compressed_oops st \<and> SINGLETON_COMPRESSED st \<and> \<not> SINGLETON_UNCOMPRESSED st
        \<and> rust_encoding st = initialize_compressed_oops_base_and_shift (fst (core_heap_range core (Some l))) (snd (core_heap_range core (Some l)))
        \<and> narrow_oop h = Some \<lparr>narrow_oop_base = BASE (rust_encoding st), narrow_oop_shift = SHIFT (rust_encoding st)\<rparr>
     else \<not> use_compressed_oops st \<and> SINGLETON_UNCOMPRESSED st \<and> \<not> SINGLETON_COMPRESSED st \<and> narrow_oop h = None"
    and "heap_range h = core_heap_range core (builder_layout st)"
proof -
  obtain st1 where st1: "(if UseCompressedOops fl then enable_compressed_oops (target_x86_64 E) (initial_statics p) else Inr (initial_statics p)) = Inr st1"
    and st: "openjdk_gc_init (core_init_of core (options h)) (vm_class_sizes E) (build_feature E) st1 = Inr st"
    and n: "set_narrow_oop fl st = Inr (narrow_oop h)"
    and rng: "heap_range h = core_heap_range core (builder_layout st)"
    using assms by (auto simp: MMTkHeap_initialize_def split: if_splits sum.splits)
  show "heap_range h = core_heap_range core (builder_layout st)" by (rule rng)
  have s1: "st1 = (initial_statics p)\<lparr>COMPRESSED_OOPS_INITIALIZED := UseCompressedOops fl, USE_COMPRESSED_OOPS := UseCompressedOops fl\<rparr>"
    using st1 by (auto simp: enable_compressed_oops_def initial_statics_def Let_def split: if_splits)
  define s2 where "s2 = (case force_plan (build_feature E) of None \<Rightarrow> st1\<lparr>UPCALLS_set := True\<rparr>
      | Some plan \<Rightarrow> st1\<lparr>UPCALLS_set := True, builder_plan := plan\<rparr>)"
  have s2: "USE_COMPRESSED_OOPS s2 = UseCompressedOops fl" "\<not> SINGLETON_COMPRESSED s2" "\<not> SINGLETON_UNCOMPRESSED s2" "\<not> MMTK_INITIALIZED s2"
    by (auto simp: s2_def s1 initial_statics_def split: option.splits)
  have "with_singleton (core_init_of core (options h)) s2 = Inr st"
    using st by (auto simp: openjdk_gc_init_def s2_def Let_def split: sum.splits option.splits if_splits)
  then show "if UseCompressedOops fl
     then \<exists>l. set_compressed_pointer_vm_layout (chunk_align_down core) (chunk_align_up core) (max_heap_size core (gc_trigger (options h))) = Inr l
        \<and> builder_layout st = Some l \<and> use_compressed_oops st \<and> SINGLETON_COMPRESSED st \<and> \<not> SINGLETON_UNCOMPRESSED st
        \<and> rust_encoding st = initialize_compressed_oops_base_and_shift (fst (core_heap_range core (Some l))) (snd (core_heap_range core (Some l)))
        \<and> narrow_oop h = Some \<lparr>narrow_oop_base = BASE (rust_encoding st), narrow_oop_shift = SHIFT (rust_encoding st)\<rparr>
     else \<not> use_compressed_oops st \<and> SINGLETON_UNCOMPRESSED st \<and> \<not> SINGLETON_COMPRESSED st \<and> narrow_oop h = None"
    using s2 n
    by (auto simp: init_defs core_init_of_def set_narrow_oop_def mmtk_narrow_oop_base_def mmtk_narrow_oop_shift_def
        split: sum.splits if_splits)
qed

lemma initialized_encoding:
  assumes "aligns_chunks (chunk_align_down core)" and "aligns_chunks (chunk_align_up core)" and "reports_layout core"
    and "MMTkHeap_initialize core E fl min_heap_size max_heap_sz alloc_fp barrier_fp opts (initial_statics p) = Inr (h, st)"
  shows "case narrow_oop h of
       None \<Rightarrow> \<not> UseCompressedOops fl \<and> \<not> use_compressed_oops st \<and> SINGLETON_UNCOMPRESSED st \<and> \<not> SINGLETON_COMPRESSED st
     | Some n \<Rightarrow> UseCompressedOops fl \<and> use_compressed_oops st \<and> SINGLETON_COMPRESSED st \<and> \<not> SINGLETON_UNCOMPRESSED st
        \<and> narrow_oop_base n = BASE (rust_encoding st) \<and> narrow_oop_shift n = SHIFT (rust_encoding st)
        \<and> (\<forall>obj. fst (heap_range h) \<le> obj \<and> obj < snd (heap_range h) \<and> 8 dvd unat obj
             \<and> (max_heap_size core (gc_trigger (options h)) \<le> 0x7C0000000 \<or> obj < snd (heap_range h) - 4096) \<longrightarrow>
           compress (rust_encoding st) obj \<noteq> 0
           \<and> decompress (rust_encoding st) (compress (rust_encoding st) obj) = Some obj
           \<and> narrow_oop_base n + push_bit (narrow_oop_shift n) (ucast (compress (rust_encoding st) obj)) = obj)"
proof (cases "UseCompressedOops fl")
  case False
  then show ?thesis using MMTkHeap_initialize_statics(1)[OF assms(4)] by simp
next
  case True
  then obtain l where l: "set_compressed_pointer_vm_layout (chunk_align_down core) (chunk_align_up core)
        (max_heap_size core (gc_trigger (options h))) = Inr l"
      "heap_range h = (heap_start l, heap_end l)"
      "rust_encoding st = initialize_compressed_oops_base_and_shift (heap_start l) (heap_end l)"
      "narrow_oop h = Some \<lparr>narrow_oop_base = BASE (rust_encoding st), narrow_oop_shift = SHIFT (rust_encoding st)\<rparr>"
      "use_compressed_oops st" "SINGLETON_COMPRESSED st" "\<not> SINGLETON_UNCOMPRESSED st"
    using MMTkHeap_initialize_statics[OF assms(4)] assms(3) by (auto simp: reports_layout_def)
  have enc: "compress (rust_encoding st) obj \<noteq> 0 \<and> decompress (rust_encoding st) (compress (rust_encoding st) obj) = Some obj"
    if "heap_start l \<le> obj" "obj < heap_end l" "8 dvd unat obj"
      "max_heap_size core (gc_trigger (options h)) \<le> 0x7C0000000 \<or> obj < heap_end l - 4096" for obj
    by (rule compressed_heap_lossless[OF assms(1,2) l(1,3) that])
  have "BASE (rust_encoding st) + push_bit (SHIFT (rust_encoding st)) (ucast (compress (rust_encoding st) obj)) = obj"
    if "heap_start l \<le> obj" "obj < heap_end l" "8 dvd unat obj"
      "max_heap_size core (gc_trigger (options h)) \<le> 0x7C0000000 \<or> obj < heap_end l - 4096" for obj
    using enc[OF that] by (auto simp: decompress_def split: if_splits)
  with enc True l(2,4-7) show ?thesis by simp
qed

text \<open>What initialization can fail of: the flag, the two switches, the options, the layouts, the target, the heap size, the thread.\<close>

lemma MMTkHeap_initialize_succeeds:
  assumes "\<not> UseTLAB fl" and "set_bool_option_from_env_var (getenv E) ''MMTK_ENABLE_ALLOCATION_FASTPATH'' alloc_fp = Inr a"
    and "set_bool_option_from_env_var (getenv E) ''MMTK_ENABLE_BARRIER_FASTPATH'' barrier_fp = Inr b"
    and "initialize_options core fl min_heap_size max_heap_sz opts = Inr opts1"
    and "validate_memory_layouts (vm_class_sizes E) = Inr ()" and "create_thread E"
    and "UseCompressedOops fl \<longrightarrow> target_x86_64 E \<and> max_heap_size core (gc_trigger opts1) \<le> push_bit 30 32"
  shows "\<exists>h st. MMTkHeap_initialize core E fl min_heap_size max_heap_sz alloc_fp barrier_fp opts (initial_statics p) = Inr (h, st)
     \<and> options h = opts1"
proof -
  let ?s = "if UseCompressedOops fl then (initial_statics p)\<lparr>COMPRESSED_OOPS_INITIALIZED := True, USE_COMPRESSED_OOPS := True\<rparr> else initial_statics p"
  have en: "(if UseCompressedOops fl then enable_compressed_oops (target_x86_64 E) (initial_statics p) else Inr (initial_statics p)) = Inr ?s"
    using assms(7) by (simp add: enable_compressed_oops_def initial_statics_def)
  obtain st where st: "openjdk_gc_init (core_init_of core opts1) (vm_class_sizes E) (build_feature E) ?s = Inr st"
      "with_singleton (core_init_of core opts1) st = Inr st" "SINGLETON_COMPRESSED st = UseCompressedOops fl"
      "SINGLETON_UNCOMPRESSED st = (\<not> UseCompressedOops fl)" "is_ready_to_bind st"
    by (rule gc_init_once[OF assms(5), of "UseCompressedOops fl" "core_init_of core opts1" ?s p])
      (use assms(7) in \<open>auto simp: core_init_of_def\<close>)
  have "use_compressed_oops st = UseCompressedOops fl"
    using st(2-5)
    by (auto simp: init_defs is_ready_to_bind_def openjdk_is_gc_initialized_def split: if_splits sum.splits)
  then obtain n where "set_narrow_oop fl st = Inr n"
    by (auto simp: set_narrow_oop_def mmtk_narrow_oop_base_def mmtk_narrow_oop_shift_def)
  then show ?thesis
    using assms(1-4,6) st(1) unfolding MMTkHeap_initialize_def en by simp
qed

text \<open>
  C30. Initialization succeeds, and HotSpot and the Rust side agree on compressed pointers after it. If \<^verbatim>\<open>UseTLAB\<close> is off, the environment
  variables are acceptable, mmtk-core accepts the options, the VM has the class layouts of the binding, the companion thread can be created, and,
  for compressed pointers, the target is x86-64 and the heap is configured with at most 32 GB, then \<^verbatim>\<open>MMTkHeap::initialize\<close> ends. Without \<^verbatim>\<open>UseCompressedOops\<close> HotSpot gets no base and
  shift, and the singleton for uncompressed pointers exists on the Rust side, alone. With it, the singleton for compressed pointers exists,
  alone, and the base and shift that HotSpot was given are those the Rust side uses; every 8-byte aligned address of the reported
  heap range is compressed by the Rust side to a non-null value from which both the Rust side and HotSpot (base plus shifted value) recover it,
  if the heap is configured with at most 31 GB or the address lies below the last page of the range.
\<close>

theorem initialize_compressed_encoding:
  assumes "aligns_chunks (chunk_align_down core)" and "aligns_chunks (chunk_align_up core)" and "reports_layout core"
    and "\<not> UseTLAB fl" and "set_bool_option_from_env_var (getenv E) ''MMTK_ENABLE_ALLOCATION_FASTPATH'' alloc_fp = Inr a"
    and "set_bool_option_from_env_var (getenv E) ''MMTK_ENABLE_BARRIER_FASTPATH'' barrier_fp = Inr b"
    and "initialize_options core fl min_heap_size max_heap_sz opts = Inr opts1"
    and "validate_memory_layouts (vm_class_sizes E) = Inr ()" and "create_thread E"
    and "UseCompressedOops fl \<longrightarrow> target_x86_64 E \<and> max_heap_size core (gc_trigger opts1) \<le> push_bit 30 32"
  shows "\<exists>h st. MMTkHeap_initialize core E fl min_heap_size max_heap_sz alloc_fp barrier_fp opts (initial_statics p) = Inr (h, st)
     \<and> options h = opts1 \<and> (
     case narrow_oop h of
       None \<Rightarrow> \<not> UseCompressedOops fl \<and> \<not> use_compressed_oops st \<and> SINGLETON_UNCOMPRESSED st \<and> \<not> SINGLETON_COMPRESSED st
     | Some n \<Rightarrow> UseCompressedOops fl \<and> use_compressed_oops st \<and> SINGLETON_COMPRESSED st \<and> \<not> SINGLETON_UNCOMPRESSED st
        \<and> narrow_oop_base n = BASE (rust_encoding st) \<and> narrow_oop_shift n = SHIFT (rust_encoding st)
        \<and> (\<forall>obj. fst (heap_range h) \<le> obj \<and> obj < snd (heap_range h) \<and> 8 dvd unat obj
             \<and> (max_heap_size core (gc_trigger (options h)) \<le> 0x7C0000000 \<or> obj < snd (heap_range h) - 4096) \<longrightarrow>
           compress (rust_encoding st) obj \<noteq> 0
           \<and> decompress (rust_encoding st) (compress (rust_encoding st) obj) = Some obj
           \<and> narrow_oop_base n + push_bit (narrow_oop_shift n) (ucast (compress (rust_encoding st) obj)) = obj))"
  using MMTkHeap_initialize_succeeds[OF assms(4-10), of p] initialized_encoding[OF assms(1-3)] by fast

text \<open>The environment of a VM that fits the binding, on x86.\<close>

definition demo_start_env :: start_env where
  "demo_start_env = \<lparr>getenv = Map.empty, create_thread = True, target_x86_64 = True, vm_class_sizes = binding_sizes,
     build_feature = (\<lambda>_. False)\<rparr>"

theorem initialize_compressed_encoding_witness:
  "\<exists>h st n. MMTkHeap_initialize demo_core demo_start_env demo_flags 0x1000000 0x1000000 True True demo_options (initial_statics GenImmix) = Inr (h, st)
     \<and> narrow_oop h = Some n \<and> narrow_oop_base n = BASE (rust_encoding st) \<and> narrow_oop_shift n = SHIFT (rust_encoding st)"
proof -
  have a: "aligns_chunks (chunk_align_down demo_core)" "aligns_chunks (chunk_align_up demo_core)" "reports_layout demo_core"
    by (simp_all add: demo_core_def reports_layout_def aligns_chunks_id)
  have f: "\<not> UseTLAB demo_flags" "UseCompressedOops demo_flags" by (simp_all add: demo_flags_def)
  have s: "set_bool_option_from_env_var (getenv demo_start_env) name True = Inr True" for name
    by (simp add: set_bool_option_from_env_var_def demo_start_env_def)
  obtain opts where o: "initialize_options demo_core demo_flags 0x1000000 0x1000000 demo_options = Inr opts"
      "gc_trigger opts = FixedHeapSize 0x1000000"
    by (simp add: demo_config_defs)
  have v: "validate_memory_layouts (vm_class_sizes demo_start_env) = Inr ()" "create_thread demo_start_env"
    by (simp_all add: demo_start_env_def validate_memory_layouts_def)
  have m: "UseCompressedOops demo_flags \<longrightarrow> target_x86_64 demo_start_env \<and> max_heap_size demo_core (gc_trigger opts) \<le> push_bit 30 32"
    unfolding o(2) by (simp add: demo_start_env_def demo_core_def)
  show ?thesis
    using initialize_compressed_encoding[OF a f(1) s s o(1) v m, of GenImmix] f(2) by (auto split: option.splits)
qed

text \<open>
  The fast-path switches follow the environment: initialization ends only if each variable is unset (the switch keeps
  its value) or has one of the eight accepted spellings, and a variable with any other value aborts the VM before any
  option is set.
\<close>

lemma initialize_fastpath_switches:
  assumes "switch = (\<lambda>v old. case v of None \<Rightarrow> Some old
      | Some t \<Rightarrow> if t \<in> {''true'', ''yes'', ''on'', ''1''} then Some True
                  else if t \<in> {''false'', ''no'', ''off'', ''0''} then Some False else None)"
    and "\<not> UseTLAB fl"
  shows "case (switch (getenv E ''MMTK_ENABLE_ALLOCATION_FASTPATH'') alloc_fp, switch (getenv E ''MMTK_ENABLE_BARRIER_FASTPATH'') barrier_fp) of
      (Some a, Some b) \<Rightarrow>
        (\<forall>h st1. MMTkHeap_initialize core E fl min_heap_size max_heap_sz alloc_fp barrier_fp opts st = Inr (h, st1) \<longrightarrow>
           mmtk_enable_allocation_fastpath h = a \<and> mmtk_enable_barrier_fastpath h = b)
    | _ \<Rightarrow> MMTkHeap_initialize core E fl min_heap_size max_heap_sz alloc_fp barrier_fp opts st
            = Inl (Abort ''Unexpected value for env var'')"
proof -
  have sw: "set_bool_option_from_env_var (getenv E) name old
      = (case switch (getenv E name) old of None \<Rightarrow> Inl (Abort ''Unexpected value for env var'') | Some b \<Rightarrow> Inr b)" for name old
    unfolding assms(1) set_bool_option_from_env_var_def by (cases "getenv E name") simp_all
  show ?thesis using assms(2) unfolding MMTkHeap_initialize_def sw
    by (auto split: option.splits sum.splits prod.splits if_splits)
qed

lemma initialize_fastpath_switches_instance:
  "MMTkHeap_initialize demo_core (demo_start_env\<lparr>getenv := [''MMTK_ENABLE_BARRIER_FASTPATH'' \<mapsto> ''maybe'']\<rparr>) demo_flags
     0x1000000 0x1000000 True True demo_options st
     = Inl (Abort ''Unexpected value for env var'')"
proof -
  have "\<not> UseTLAB demo_flags" by (simp add: demo_flags_def)
  from initialize_fastpath_switches[OF refl this, where E = "demo_start_env\<lparr>getenv := [''MMTK_ENABLE_BARRIER_FASTPATH'' \<mapsto> ''maybe'']\<rparr>"]
  show ?thesis by simp
qed

end
