(* ===== verification/Stop_The_World.thy ===== *)
theory Stop_The_World
  imports Companion_Protocol Block_For_GC
begin

text \<open>
  The composition of the stop-the-world protocol (theory \<open>Companion_Protocol\<close>) with the mutators that block for
  a collection (theory \<open>Block_For_GC\<close>), the way \<^verbatim>\<open>mmtk_stop_all_mutators\<close> and \<^verbatim>\<open>mmtk_resume_mutators\<close> of
  \<^verbatim>\<open>openjdk/mmtkUpcalls.cpp\<close> put them together: a GC thread requests the stop when a collection was triggered, the
  VM thread begins a safepoint only when every mutator is at one, no mutator leaves its safepoint while HotSpot holds
  the world stopped, and the GC thread increments the counter before it requests that the world resume and notifies
  \<^verbatim>\<open>gc_lock\<close> after that request has been fulfilled.

  In \<open>Block_For_GC\<close> stopping and resuming the world are single steps; here they are what the protocol does: the world
  counts as stopped for the collector from the return of its stop request, and as resumed from the moment when the VM
  thread announces it. Every run of the composition is a run of either part (locale \<open>simulation\<close>), so the
  properties of both hold in it.
\<close>

section \<open>The composed system\<close>

record system =
  proto :: stw
  wrld :: world

definition start_system :: "nat \<Rightarrow> system" where
  "start_system n = \<lparr>proto = new_MMTkVMCompanionThread, wrld = start_world n\<rparr>"

text \<open>No mutator that is at a safepoint leaves it.\<close>

definition keeps_safepoints :: "world \<Rightarrow> world \<Rightarrow> bool" where
  "keeps_safepoints w w' \<longleftrightarrow>
     list_all2 (\<lambda>pc pc'. at_safepoint pc \<longrightarrow> at_safepoint pc') (mutators w) (mutators w')"

text \<open>What the steps of the protocol mean for the collector's view of the world.\<close>

definition announce_resumed :: "stw \<Rightarrow> stw \<Rightarrow> world \<Rightarrow> world" where
  "announce_resumed s s' w =
     (if reached_state s = Threads_suspended \<and> reached_state s' = Threads_resumed then w\<lparr>gc := GC_resumed\<rparr> else w)"

definition stop_returned :: "stw \<Rightarrow> world \<Rightarrow> world" where
  "stop_returned s' w = (if gpc s' = G_stopped then w\<lparr>gc := GC_stopped, gc_requested := False\<rparr> else w)"

inductive system_step :: "system \<Rightarrow> system \<Rightarrow> bool" where
  mutator_moves: "block_step w w' \<Longrightarrow> gc w' = gc w \<Longrightarrow> (world_stopped s \<longrightarrow> keeps_safepoints w w') \<Longrightarrow>
     system_step \<lparr>proto = s, wrld = w\<rparr> \<lparr>proto = s, wrld = w'\<rparr>"
| vm_moves: "stw_step s s' \<Longrightarrow> gpc s' = gpc s \<Longrightarrow>
     (\<not> world_stopped s \<and> world_stopped s' \<longrightarrow> list_all at_safepoint (mutators w)) \<Longrightarrow>
     system_step \<lparr>proto = s, wrld = w\<rparr> \<lparr>proto = s', wrld = announce_resumed s s' w\<rparr>"
| gc_requests: "stw_step s s' \<Longrightarrow> request_pending (gpc s) \<Longrightarrow> gpc s' \<noteq> gpc s \<Longrightarrow>
     system_step \<lparr>proto = s, wrld = w\<rparr> \<lparr>proto = s', wrld = stop_returned s' w\<rparr>"
| thread_wakes: "spurious_step s s' \<Longrightarrow> system_step \<lparr>proto = s, wrld = w\<rparr> \<lparr>proto = s', wrld = w\<rparr>"
| mmtk_stop_all_mutators: "gpc s = G_running \<Longrightarrow> gc w = GC_idle \<Longrightarrow> gc_requested w \<Longrightarrow>
     system_step \<lparr>proto = s, wrld = w\<rparr> \<lparr>proto = s\<lparr>gpc := G_enter Threads_suspended True\<rparr>, wrld = w\<rparr>"
| mmtk_resume_mutators: "gpc s = G_stopped \<Longrightarrow>
     system_step \<lparr>proto = s, wrld = w\<rparr>
       \<lparr>proto = s\<lparr>gpc := G_enter Threads_resumed True\<rparr>, wrld = resume_increment w\<rparr>"
| takes_gc_lock: "gpc s = G_running \<Longrightarrow> gc w = GC_resumed \<Longrightarrow> gc_lock w = None \<Longrightarrow>
     system_step \<lparr>proto = s, wrld = w\<rparr> \<lparr>proto = s, wrld = w\<lparr>gc := GC_locked, gc_lock := Some GC\<rparr>\<rparr>"
| notifies_mutators: "gpc s = G_running \<Longrightarrow> gc w = GC_locked \<Longrightarrow>
     system_step \<lparr>proto = s, wrld = w\<rparr> \<lparr>proto = s, wrld = resume_notify w\<rparr>"

abbreviation system_reachable :: "system \<Rightarrow> bool" where
  "system_reachable \<equiv> reachable (\<lambda>f. \<exists>n. f = start_system n) system_step"

section \<open>The invariant\<close>

text \<open>Where the GC thread is in the protocol determines where it is in the collection.\<close>

fun phase_ok :: "gc_pc \<Rightarrow> bool \<Rightarrow> world \<Rightarrow> bool" where
  "phase_ok G_running in_op w = (gc w = GC_idle \<or> gc w = GC_resumed \<or> gc w = GC_locked)"
| "phase_ok (G_enter d _) in_op w =
     (if d = Threads_suspended then gc w = GC_idle \<and> gc_requested w else gc w = GC_resuming)"
| "phase_ok G_stopped in_op w = (gc w = GC_stopped)"
| "phase_ok (G_loop d) in_op w = (if d = Threads_suspended then gc w = GC_idle \<and> gc_requested w
     else gc w = (if in_op then GC_resuming else GC_resumed))"
| "phase_ok (G_wait d) in_op w = (if d = Threads_suspended then gc w = GC_idle \<and> gc_requested w
     else gc w = (if in_op then GC_resuming else GC_resumed))"
| "phase_ok (G_requested d) in_op w = (if d = Threads_suspended then gc w = GC_idle \<and> gc_requested w
     else gc w = (if in_op then GC_resuming else GC_resumed))"

definition link_inv :: "stw \<Rightarrow> world \<Rightarrow> bool" where
  "link_inv s w \<longleftrightarrow> phase_ok (gpc s) (vm_in_op (vpc s)) w
     \<and> (world_stopped s \<longrightarrow> list_all at_safepoint (mutators w))"

definition system_inv :: "system \<Rightarrow> bool" where
  "system_inv f \<longleftrightarrow> stw_inv (proto f) \<and> block_inv (wrld f) \<and> link_inv (proto f) (wrld f)"

text \<open>The world that the collector sees stopped is stopped by HotSpot.\<close>

lemma stopped_is_stopped:
  assumes "stw_inv s" and "phase_ok (gpc s) (vm_in_op (vpc s)) w" and "world_is_stopped (gc w)"
  shows "world_stopped s \<and> vm_in_op (vpc s)"
proof -
  have "vm_in_op (vpc s)"
    using assms by (cases "gpc s") (auto simp: stw_inv_def states_inv_def world_is_stopped_def split: if_splits)
  then show ?thesis using assms(1) by (cases "vpc s") (auto simp: stw_inv_def op_inv_def)
qed

section \<open>Steps of the parts\<close>

text \<open>Steps of the mutators neither lose a triggered collection nor move the collector.\<close>

lemma mutator_keeps_request:
  "block_step w w' \<Longrightarrow> gc w' = gc w \<Longrightarrow> gc_requested w \<Longrightarrow> gc_requested w'"
  by (erule block_step.cases)
    (simp_all add: set_pc_def block_for_gc_read_def block_for_gc_test_def resume_increment_def resume_notify_def Let_def)

lemma phase_ok_mono:
  "phase_ok g b w \<Longrightarrow> gc w' = gc w \<Longrightarrow> (gc_requested w \<longrightarrow> gc_requested w') \<Longrightarrow> phase_ok g b w'"
  by (cases g) (auto split: if_splits)

lemma keeps_safepoints_all:
  "keeps_safepoints w w' \<Longrightarrow> list_all at_safepoint (mutators w) \<Longrightarrow> list_all at_safepoint (mutators w')"
  by (auto simp: keeps_safepoints_def list_all_length list_all2_conv_all_nth)

text \<open>The VM thread announces that the world resumes only when asked to, and that it stopped only when asked to.\<close>

lemma announces_on_request:
  "stw_step s s' \<Longrightarrow> reached_state s = Threads_suspended \<Longrightarrow> reached_state s' = Threads_resumed \<Longrightarrow>
   desired_state s = Threads_resumed"
  by (erule stw_step.cases) (auto simp: stw_ops Let_def split: if_splits)

lemma stops_on_request:
  "stw_step s s' \<Longrightarrow> reached_state s = Threads_resumed \<Longrightarrow> reached_state s' = Threads_suspended \<Longrightarrow> vpc s = V_enter"
  by (erule stw_step.cases) (auto simp: stw_ops Let_def split: if_splits)

lemma phase_ok_stop_pending: "stop_pending g \<Longrightarrow> phase_ok g b w = phase_ok g b' w"
  by (cases g) auto

lemma phase_ok_resume_pending:
  "resume_pending g \<Longrightarrow> phase_ok g b w \<longleftrightarrow> gc w = (if b then GC_resuming else GC_resumed)"
  by (cases g) auto

lemma phase_vm:
  assumes "stw_inv s" and "stw_inv s'" and "stw_step s s'" and "gpc s' = gpc s"
    and "phase_ok (gpc s) (vm_in_op (vpc s)) w"
  shows "phase_ok (gpc s') (vm_in_op (vpc s')) (announce_resumed s s' w)"
    and "announce_resumed s s' w = w \<or> block_step w (announce_resumed s s' w)"
proof -
  have r: "(reached_state s = Threads_suspended) = vm_in_op (vpc s)"
    "(reached_state s' = Threads_suspended) = vm_in_op (vpc s')"
    using assms(1,2) by (simp_all add: stw_inv_def states_inv_def)
  consider (resumed) "reached_state s = Threads_suspended" "reached_state s' = Threads_resumed"
    | (stopped) "reached_state s = Threads_resumed" "reached_state s' = Threads_suspended"
    | (same) "reached_state s = reached_state s'"
    by (cases "reached_state s"; cases "reached_state s'") auto
  then show "phase_ok (gpc s') (vm_in_op (vpc s')) (announce_resumed s s' w)"
    and "announce_resumed s s' w = w \<or> block_step w (announce_resumed s s' w)"
  proof (atomize(full), cases)
    case resumed
    have "desired_state s = Threads_resumed" using announces_on_request[OF assms(3) resumed] .
    then have p: "resume_pending (gpc s)" using assms(1) r resumed by (auto simp: stw_inv_def states_inv_def)
    then have "gc w = GC_resuming" using assms(5) r(1) resumed(1) by (simp add: phase_ok_resume_pending)
    then show "phase_ok (gpc s') (vm_in_op (vpc s')) (announce_resumed s s' w) \<and>
        (announce_resumed s s' w = w \<or> block_step w (announce_resumed s s' w))"
      using p r resumed assms(4) gc_resume by (simp add: announce_resumed_def phase_ok_resume_pending)
  next
    case stopped
    have "stop_pending (gpc s)" using stops_on_request[OF assms(3) stopped] assms(1) by (simp add: stw_inv_def states_inv_def)
    then show "phase_ok (gpc s') (vm_in_op (vpc s')) (announce_resumed s s' w) \<and>
        (announce_resumed s s' w = w \<or> block_step w (announce_resumed s s' w))"
      using phase_ok_stop_pending[of "gpc s" "vm_in_op (vpc s)" w "vm_in_op (vpc s')"] assms(4,5) stopped by (simp add: announce_resumed_def)
  next
    case same
    then show "phase_ok (gpc s') (vm_in_op (vpc s')) (announce_resumed s s' w) \<and>
        (announce_resumed s s' w = w \<or> block_step w (announce_resumed s s' w))"
      using r assms(4,5) by (auto simp: announce_resumed_def)
  qed
qed

text \<open>The GC thread inside \<^verbatim>\<open>request\<close> and \<^verbatim>\<open>wait_for_reached\<close>.\<close>

lemma gc_moves_alone:
  "stw_step s s' \<Longrightarrow> request_pending (gpc s) \<Longrightarrow> gpc s' \<noteq> gpc s \<Longrightarrow> vpc s' = vpc s \<and> world_stopped s' = world_stopped s"
  by (erule stw_step.cases) (auto simp: stw_ops Let_def split: if_splits)

lemma gc_returns:
  assumes "stw_step s s'" and "request_pending (gpc s)" and "gpc s' \<noteq> gpc s"
  shows "(\<exists>d b. gpc s = G_enter d b \<and> gpc s' = (if b then G_loop d else G_requested d))
    \<or> (\<exists>d. (gpc s = G_requested d \<or> gpc s = G_wait d) \<and> gpc s' = G_loop d)
    \<or> (\<exists>d. gpc s = G_loop d \<and> gpc s' = (if reached_state s = d then after_request d else G_wait d))"
  using assms
  by (cases rule: stw_step.cases)
    (auto simp: check_def check_gc_thread_def notify_all_def run_enter_def run_loop_def request_enter_def wait_for_reached_enter_def
      request_loop_def do_mmtk_stw_operation_enter_def do_mmtk_stw_operation_loop_def Let_def split: if_splits)

lemma phase_gc:
  assumes "stw_inv s" and "stw_step s s'" and "request_pending (gpc s)" and "gpc s' \<noteq> gpc s"
    and "phase_ok (gpc s) (vm_in_op (vpc s)) w"
    and "world_stopped s \<longrightarrow> list_all at_safepoint (mutators w)"
  shows "phase_ok (gpc s') (vm_in_op (vpc s')) (stop_returned s' w)
    \<and> (stop_returned s' w = w \<or> block_step w (stop_returned s' w))"
proof -
  have v: "vpc s' = vpc s" using gc_moves_alone[OF assms(2-4)] by simp
  have si: "(reached_state s = Threads_suspended) = vm_in_op (vpc s)" "wants_stop (gpc s) \<longrightarrow> stop_pending (gpc s) \<or> vm_in_op (vpc s)"
    "vm_in_op (vpc s) \<longrightarrow> world_stopped s"
    using assms(1) by (auto simp: stw_inv_def states_inv_def op_inv_def)
  show ?thesis using gc_returns[OF assms(2-4)]
  proof (elim disjE exE conjE)
    fix d b assume "gpc s = G_enter d b" "gpc s' = (if b then G_loop d else G_requested d)"
    then show ?thesis using assms(5) si v by (cases d; cases b) (auto simp: stop_returned_def)
  next
    fix d assume "gpc s = G_requested d" "gpc s' = G_loop d"
    then show ?thesis using assms(5) v by (auto simp: stop_returned_def)
  next
    fix d assume "gpc s = G_wait d" "gpc s' = G_loop d"
    then show ?thesis using assms(5) v by (auto simp: stop_returned_def)
  next
    fix d assume g: "gpc s = G_loop d" "gpc s' = (if reached_state s = d then after_request d else G_wait d)"
    show ?thesis
    proof (cases "reached_state s = d \<and> d = Threads_suspended")
      case True
      then have "list_all at_safepoint (mutators w)" using si assms(6) by simp
      then show ?thesis using True g assms(5) gc_stop by (auto simp: stop_returned_def after_request_def)
    next
      case False
      then show ?thesis using g assms(5) v si by (cases d) (auto simp: stop_returned_def after_request_def)
    qed
  qed
qed

section \<open>The composition simulates its parts\<close>

lemma system_parts:
  assumes "system_inv f" and "system_step f g"
  shows "(proto g = proto f \<or> protocol_step (proto f) (proto g)) \<and> (wrld g = wrld f \<or> block_step (wrld f) (wrld g))
    \<and> link_inv (proto g) (wrld g)"
  using assms(2)
proof (cases rule: system_step.cases)
  case (mutator_moves w w' s)
  have i: "link_inv s w" using assms(1) mutator_moves(1) by (simp add: system_inv_def)
  then have "phase_ok (gpc s) (vm_in_op (vpc s)) w'"
    using phase_ok_mono mutator_keeps_request mutator_moves(3,4) by (auto simp: link_inv_def)
  moreover have "world_stopped s \<longrightarrow> list_all at_safepoint (mutators w')"
    using i keeps_safepoints_all mutator_moves(5) by (auto simp: link_inv_def)
  ultimately show ?thesis using mutator_moves by (simp add: link_inv_def)
next
  case (vm_moves s s' w)
  have i: "stw_inv s" "link_inv s w" using assms(1) vm_moves(1) by (simp_all add: system_inv_def)
  note p = phase_vm[OF i(1) stw_inv_step[OF vm_moves(3) i(1)] vm_moves(3,4), of w]
  have "world_stopped s' \<longrightarrow> list_all at_safepoint (mutators w)" using i(2) vm_moves(5) by (auto simp: link_inv_def)
  then show ?thesis using p i(2) vm_moves by (simp add: link_inv_def protocol_step_def announce_resumed_def)
next
  case (gc_requests s s' w)
  have i: "stw_inv s" "link_inv s w" using assms(1) gc_requests(1) by (simp_all add: system_inv_def)
  note p = phase_gc[OF i(1) gc_requests(3-5), of w] gc_moves_alone[OF gc_requests(3-5)]
  then show ?thesis using i(2) gc_requests by (simp add: link_inv_def protocol_step_def stop_returned_def)
next
  case (thread_wakes s s' w)
  have "gpc s' = gpc s \<and> vpc s' = vpc s \<and> world_stopped s' = world_stopped s"
    using thread_wakes(3) by (auto elim: spurious_step.cases)
  then show ?thesis using thread_wakes assms(1) by (simp add: system_inv_def link_inv_def protocol_step_def)
next
  case (mmtk_stop_all_mutators s w)
  then show ?thesis using assms(1) stop_all_mutators[of s True]
    by (simp add: system_inv_def link_inv_def protocol_step_def)
next
  case (mmtk_resume_mutators s w)
  then show ?thesis using assms(1) resume_mutators[of s True] gc_increment[of w]
    by (simp add: system_inv_def link_inv_def protocol_step_def resume_increment_def)
next
  case (takes_gc_lock s w)
  then show ?thesis using assms(1) gc_take_lock[of w] by (simp add: system_inv_def link_inv_def)
next
  case (notifies_mutators s w)
  then show ?thesis using assms(1) gc_notify[of w] by (simp add: system_inv_def link_inv_def resume_notify_def)
qed

lemma system_inv_start: "system_inv (start_system n)"
proof -
  have "link_inv new_MMTkVMCompanionThread (start_world n)"
    by (simp add: link_inv_def new_MMTkVMCompanionThread_def start_world_def)
  then show ?thesis by (simp add: system_inv_def start_system_def stw_inv_start block_inv_start)
qed

lemma system_inv_step: "system_inv f \<Longrightarrow> system_step f g \<Longrightarrow> system_inv g"
  using system_parts[of f g] stw.inv_step[of "proto f" "proto g"] blocking.inv_step[of "wrld f" "wrld g"]
  by (auto simp: system_inv_def)

interpretation as_protocol: simulation "\<lambda>f. \<exists>n. f = start_system n" system_step system_inv
    proto "\<lambda>s. s = new_MMTkVMCompanionThread" protocol_step
proof
  show "system_inv f" if "\<exists>n. f = start_system n" for f using that system_inv_start by auto
  show "system_inv g" if "system_inv f" "system_step f g" for f g using that by (rule system_inv_step)
  show "proto f = new_MMTkVMCompanionThread" if "\<exists>n. f = start_system n" for f using that by (auto simp: start_system_def)
  show "proto g = proto f \<or> protocol_step (proto f) (proto g)" if "system_inv f" "system_step f g" for f g
    using system_parts[OF that] by simp
qed

interpretation as_blocking: simulation "\<lambda>f. \<exists>n. f = start_system n" system_step system_inv
    wrld "\<lambda>w. \<exists>n. w = start_world n" block_step
proof
  show "\<exists>n. wrld f = start_world n" if "\<exists>n. f = start_system n" for f using that by (auto simp: start_system_def)
  show "wrld g = wrld f \<or> block_step (wrld f) (wrld g)" if "system_inv f" "system_step f g" for f g
    using system_parts[OF that] by simp
qed

section \<open>A collection of the composed system\<close>

text \<open>One mutator triggers a collection and blocks for it; the protocol then stops the world.\<close>

lemma lift_mutator:
  "system_reachable \<lparr>proto = s, wrld = w\<rparr> \<Longrightarrow> block_step w w' \<Longrightarrow> gc w' = gc w \<Longrightarrow> \<not> world_stopped s \<Longrightarrow>
   system_reachable \<lparr>proto = s, wrld = w'\<rparr>"
  by (erule reach_step) (simp add: mutator_moves)

lemma lift_vm:
  "system_reachable \<lparr>proto = s, wrld = w\<rparr> \<Longrightarrow> stw_step s s' \<Longrightarrow> gpc s' = gpc s \<Longrightarrow>
   list_all at_safepoint (mutators w) \<Longrightarrow> reached_state s = Threads_resumed \<or> reached_state s' = Threads_suspended \<Longrightarrow>
   system_reachable \<lparr>proto = s', wrld = w\<rparr>"
  using vm_moves[of s s' w] by (auto simp: announce_resumed_def intro: reach_step)

lemma lift_gc:
  "system_reachable \<lparr>proto = s, wrld = w\<rparr> \<Longrightarrow> stw_step s s' \<Longrightarrow> request_pending (gpc s) \<Longrightarrow> gpc s' \<noteq> gpc s \<Longrightarrow>
   gpc s' \<noteq> G_stopped \<Longrightarrow> system_reachable \<lparr>proto = s', wrld = w\<rparr>"
  using gc_requests[of s s' w] by (auto simp: stop_returned_def intro: reach_step)

lemma blocked_system_reachable: "system_reachable \<lparr>proto = new_MMTkVMCompanionThread, wrld = demo_blocked\<rparr>"
proof -
  have s: "system_reachable \<lparr>proto = new_MMTkVMCompanionThread, wrld = start_world 1\<rparr>"
    by (rule reach_start) (auto simp: start_system_def)
  show ?thesis unfolding demo_blocked_def
    by (intro lift_mutator[OF _ test] lift_mutator[OF _ take_lock] lift_mutator[OF _ enter_safepoint]
        lift_mutator[OF _ read] lift_mutator[OF _ trigger] s)
      (auto simp: demo_world_defs new_MMTkVMCompanionThread_def)
qed

lemma demo_blocked_safe: "list_all at_safepoint (mutators demo_blocked)" "gc demo_blocked = GC_idle" "gc_requested demo_blocked"
  by (simp_all add: demo_world_defs)

lemma waiting_system_reachable: "system_reachable \<lparr>proto = demo_waiting, wrld = demo_blocked\<rparr>"
proof -
  let ?s = "run_loop (run_enter new_MMTkVMCompanionThread)"
  have "system_reachable \<lparr>proto = ?s, wrld = demo_blocked\<rparr>"
    by (intro lift_vm[OF _ run_tests] lift_vm[OF blocked_system_reachable run_takes_lock] demo_blocked_safe)
      (simp_all add: demo_defs)
  then have "system_reachable \<lparr>proto = ?s\<lparr>gpc := G_enter Threads_suspended True\<rparr>, wrld = demo_blocked\<rparr>"
    by (rule reach_step, intro mmtk_stop_all_mutators demo_blocked_safe) (simp add: demo_defs)
  then show ?thesis unfolding demo_waiting_def
    by (intro lift_gc[OF _ request_tests] lift_gc[OF _ request_takes_lock]) (simp_all add: demo_defs)
qed

lemma suspended_system_reachable: "system_reachable \<lparr>proto = demo_suspended, wrld = demo_blocked\<rparr>"
proof -
  have "system_reachable \<lparr>proto = run_loop demo_woken, wrld = demo_blocked\<rparr>"
    by (intro lift_vm[OF _ demo_woken_tests] lift_vm[OF waiting_system_reachable demo_woken_step] demo_blocked_safe)
      (simp_all add: demo_defs)
  then have "system_reachable \<lparr>proto = demo_queued, wrld = demo_blocked\<rparr>"
    unfolding demo_queued_def by (intro lift_vm[OF _ run_executes] demo_blocked_safe) (simp_all add: demo_defs)
  then show ?thesis unfolding demo_suspended_def
    by (intro lift_vm[OF _ op_tests] lift_vm[OF _ op_takes_lock] lift_vm[OF _ safepoint_begins] demo_blocked_safe)
      (simp_all add: demo_defs)
qed

definition demo_collection :: system where
  "demo_collection = \<lparr>proto = demo_stopped, wrld = demo_blocked\<lparr>gc := GC_stopped, gc_requested := False\<rparr>\<rparr>"

lemma demo_collection_reachable: "system_reachable demo_collection"
proof -
  let ?s = "demo_suspended\<lparr>lock := Some GC_thread, gpc := G_loop Threads_suspended\<rparr>"
  have s: "system_reachable \<lparr>proto = ?s, wrld = demo_blocked\<rparr>"
    by (intro lift_gc[OF suspended_system_reachable request_wakes]) (simp_all add: demo_defs)
  have "gpc demo_stopped = G_stopped" "gpc ?s = G_loop Threads_suspended" by (simp_all add: demo_defs)
  moreover have "stw_step ?s demo_stopped" unfolding demo_stopped_def by (intro request_tests) simp
  ultimately have "system_step \<lparr>proto = ?s, wrld = demo_blocked\<rparr> demo_collection"
    using gc_requests[of ?s demo_stopped demo_blocked] by (simp add: demo_collection_def stop_returned_def)
  then show ?thesis by (rule reach_step[OF s])
qed

section \<open>Properties\<close>

text \<open>
  C3. The collector never runs together with a mutator: whenever the GC thread has returned from
  \<^verbatim>\<open>mmtk_stop_all_mutators\<close> and has not yet got as far as requesting that the world resume, every mutator is at a safepoint or
  blocked at one, whatever the interleaving of mutators, companion thread and VM thread; and the collection that
  it runs was requested and has not been counted yet.
\<close>

theorem collection_excludes_mutators:
  assumes "system_reachable f" and "gpc (proto f) = G_stopped \<or> gpc (proto f) = G_enter Threads_resumed b"
  shows "list_all at_safepoint (mutators (wrld f)) \<and> world_stopped (proto f)
       \<and> gc (wrld f) = (if gpc (proto f) = G_stopped then GC_stopped else GC_resuming)"
proof -
  have inv: "stw_inv (proto f)" "link_inv (proto f) (wrld f)"
    using as_protocol.reachable_inv[OF assms(1)] by (simp_all add: system_inv_def)
  have g: "gc (wrld f) = (if gpc (proto f) = G_stopped then GC_stopped else GC_resuming)"
    using inv(2) assms(2) by (auto simp: link_inv_def)
  then have "world_is_stopped (gc (wrld f))" by (simp add: world_is_stopped_def)
  then have "world_stopped (proto f)" using stopped_is_stopped[OF inv(1), of "wrld f"] inv(2) by (simp add: link_inv_def)
  then show ?thesis using inv(2) g by (simp add: link_inv_def)
qed

theorem collection_excludes_mutators_witness:
  "gpc (proto demo_collection) = G_stopped \<and> mutators (wrld demo_collection) = [M_wait 1 0]
   \<and> list_all at_safepoint (mutators (wrld demo_collection)) \<and> gc (wrld demo_collection) = GC_stopped"
proof -
  have "gpc (proto demo_collection) = G_stopped" by (simp add: demo_collection_def demo_defs)
  moreover have "mutators (wrld demo_collection) = [M_wait 1 0]" by (simp add: demo_collection_def demo_world_defs)
  ultimately show ?thesis using collection_excludes_mutators[OF demo_collection_reachable] by simp
qed

text \<open>
  The composed system refines both parts: each of its reachable states, seen as a state of the
  stop-the-world protocol or of the blocking mutators, is reachable there, so that the steps that stop and resume
  the world in the one are implemented by the protocol of the other.
\<close>

lemma system_refines_parts:
  assumes "system_reachable f"
  shows "protocol_reachable (proto f) \<and> block_reachable (wrld f)"
  using as_protocol.reachable_view[OF assms] as_blocking.reachable_view[OF assms] by simp

lemma system_refines_parts_instance:
  "protocol_reachable (proto demo_collection) \<and> block_reachable (wrld demo_collection)"
  using system_refines_parts[OF demo_collection_reachable] .

end
