(* ===== verification/VM_Upcalls.thy ===== *)
theory VM_Upcalls
  imports Prelude
begin

text \<open>
  The upcalls that manage threads and collections (\<^verbatim>\<open>openjdk/mmtkUpcalls.cpp\<close>), the collector threads
  (\<^verbatim>\<open>openjdk/mmtkCollectorThread.cpp\<close>) and the Rust traits that use them (\<^verbatim>\<open>mmtk/src/collection.rs\<close>,
  \<^verbatim>\<open>mmtk/src/active_plan.rs\<close>).

  Threads are addresses; of a thread the code reads the field \<^verbatim>\<open>third_party_heap_collector\<close> and takes the address of the
  embedded mutator. Which threads exist is HotSpot's business: the Java threads that its iterator yields are part of the state,
  and they come and go by steps of the environment. The calls that the upcalls make into HotSpot are recorded in order.
\<close>

section \<open>Threads\<close>

record vm_threads =
  java_threads :: "addr list"
  third_party_heap_collector :: "addr \<Rightarrow> addr"
  n_workers :: size_t
  workers :: "addr list"

definition GC_THREAD_KIND_WORKER :: "32 word" where
  "GC_THREAD_KIND_WORKER = 1"

text \<open>\<open>t\<close> is the address of the new thread object, \<open>create_thread\<close> the answer of \<^verbatim>\<open>os::create_thread\<close>.\<close>

definition new_MMTkCollectorThread :: "addr \<Rightarrow> addr \<Rightarrow> vm_threads \<Rightarrow> vm_threads" where
  "new_MMTkCollectorThread t ctx s = s\<lparr>third_party_heap_collector := (third_party_heap_collector s)(t := ctx)\<rparr>"

definition new_collector_thread :: "vm_threads \<Rightarrow> vm_threads" where
  "new_collector_thread s = s\<lparr>n_workers := n_workers s + 1\<rparr>"

definition mmtk_spawn_gc_thread :: "addr \<Rightarrow> bool \<Rightarrow> 32 word \<Rightarrow> addr \<Rightarrow> vm_threads \<Rightarrow> vm_threads result" where
  "mmtk_spawn_gc_thread t create_thread kind ctx s =
     (if kind = GC_THREAD_KIND_WORKER then
        (let s1 = new_collector_thread s;
             s2 = new_MMTkCollectorThread t ctx s1
         in if \<not> create_thread then Inl (Guarantee_failed ''panic'')
            else Inr (s2\<lparr>workers := workers s2 @ [t]\<rparr>))
      else Inl (Guarantee_failed ''panic''))"

text \<open>\<^verbatim>\<open>spawn_gc_thread\<close> of the Rust trait passes the boxed worker and the one kind there is.\<close>

definition spawn_gc_thread :: "addr \<Rightarrow> bool \<Rightarrow> addr \<Rightarrow> vm_threads \<Rightarrow> vm_threads result" where
  "spawn_gc_thread t create_thread w s = mmtk_spawn_gc_thread t create_thread GC_THREAD_KIND_WORKER w s"

text \<open>The collector thread hands itself and its context to mmtk-core.\<close>

definition MMTkCollectorThread_run :: "vm_threads \<Rightarrow> addr \<Rightarrow> addr \<times> addr" where
  "MMTkCollectorThread_run s t = (t, third_party_heap_collector s t)"

definition mmtk_get_mmtk_mutator :: "addr \<Rightarrow> addr \<Rightarrow> addr" where
  "mmtk_get_mmtk_mutator mutator_offset tls = tls + mutator_offset"

definition mmtk_is_mutator :: "vm_threads \<Rightarrow> addr \<Rightarrow> bool" where
  "mmtk_is_mutator s tls = (if tls = NULL then False else third_party_heap_collector s tls = NULL)"

definition mmtk_get_mutators :: "addr \<Rightarrow> (addr \<Rightarrow> 'v \<Rightarrow> 'v) \<Rightarrow> vm_threads \<Rightarrow> 'v \<Rightarrow> 'v" where
  "mmtk_get_mutators mutator_offset closure s v =
     fold (\<lambda>thr. closure (mmtk_get_mmtk_mutator mutator_offset thr)) (java_threads s) v"

definition mmtk_number_of_mutators :: "(addr list \<Rightarrow> size_t) \<Rightarrow> vm_threads \<Rightarrow> size_t" where
  "mmtk_number_of_mutators number_of_threads s = number_of_threads (java_threads s)"

text \<open>The iterator of \<^verbatim>\<open>active_plan.rs\<close>: a queue filled by the upcall and emptied from the front.\<close>

definition OpenJDKMutatorIterator_new :: "addr \<Rightarrow> vm_threads \<Rightarrow> addr list" where
  "OpenJDKMutatorIterator_new mutator_offset s = mmtk_get_mutators mutator_offset (\<lambda>m q. q @ [m]) s []"

fun mutator_iterator_next :: "addr list \<Rightarrow> addr option \<times> addr list" where
  "mutator_iterator_next [] = (None, [])"
| "mutator_iterator_next (m # q) = (Some m, q)"

function mutators_of_iterator :: "addr list \<Rightarrow> addr list" where
  "mutators_of_iterator q = (case mutator_iterator_next q of (None, _) \<Rightarrow> [] | (Some m, q1) \<Rightarrow> m # mutators_of_iterator q1)"
  by pat_completeness auto

termination mutators_of_iterator
  apply (relation "measure length")
   apply simp
  subgoal for q by (cases q) auto
  done

datatype MMTkAllocationError = HeapOutOfMemory | MmapOutOfMemory

definition mmtk_out_of_memory :: "MMTkAllocationError \<Rightarrow> 's \<Rightarrow> 's result" where
  "mmtk_out_of_memory err_kind s = (case err_kind of
     HeapOutOfMemory \<Rightarrow> Inr s
   | MmapOutOfMemory \<Rightarrow> Inl (Vm_exit ''MMTk: Unable to acquire more memory from the OS. Out of system resources.''))"

text \<open>Threads come and go; a Java thread is created without a collector context.\<close>

inductive thread_step :: "vm_threads \<Rightarrow> vm_threads \<Rightarrow> bool" where
  java_thread_starts: "t \<noteq> NULL \<Longrightarrow> t \<notin> set (java_threads s) \<Longrightarrow> t \<notin> set (workers s) \<Longrightarrow>
     thread_step s (s\<lparr>java_threads := t # java_threads s, third_party_heap_collector := (third_party_heap_collector s)(t := NULL)\<rparr>)"
| java_thread_exits: "t \<in> set (java_threads s) \<Longrightarrow> thread_step s (s\<lparr>java_threads := remove1 t (java_threads s)\<rparr>)"
| worker_spawned: "t \<noteq> NULL \<Longrightarrow> t \<notin> set (java_threads s) \<Longrightarrow> t \<notin> set (workers s) \<Longrightarrow> w \<noteq> NULL \<Longrightarrow>
     spawn_gc_thread t create w s = Inr s1 \<Longrightarrow> thread_step s s1"

definition no_threads :: "vm_threads \<Rightarrow> bool" where
  "no_threads s \<longleftrightarrow> java_threads s = [] \<and> workers s = [] \<and> n_workers s = 0"

definition threads_inv :: "vm_threads \<Rightarrow> bool" where
  "threads_inv s \<longleftrightarrow> distinct (java_threads s) \<and> distinct (workers s) \<and> set (java_threads s) \<inter> set (workers s) = {}
     \<and> (\<forall>t\<in>set (java_threads s). t \<noteq> NULL \<and> third_party_heap_collector s t = NULL)
     \<and> (\<forall>t\<in>set (workers s). t \<noteq> NULL \<and> third_party_heap_collector s t \<noteq> NULL)
     \<and> n_workers s = of_nat (length (workers s))"

section \<open>The calls of a collection\<close>

datatype vm_call =
    Clear_claimed_marks
  | CodeCache_gc_prologue
  | CodeCache_gc_epilogue
  | Derived_pointers_clear
  | Derived_pointers_update
  | Request_threads_suspended
  | Visit_mutator addr
  | Oops_do_marking_prologue
  | Oops_do_marking_epilogue
  | Jvmti_gc_epilogue
  | Inc_start_the_world_count
  | Request_threads_resumed
  | Notify_gc_lock
  | Set_concurrent_marking bool

definition mmtk_stop_all_mutators :: "bool \<Rightarrow> addr \<Rightarrow> vm_threads \<Rightarrow> vm_call list" where
  "mmtk_stop_all_mutators COMPILER2_OR_JVMCI mutator_offset s =
     [Clear_claimed_marks, CodeCache_gc_prologue]
     @ (if COMPILER2_OR_JVMCI then [Derived_pointers_clear] else [])
     @ [Request_threads_suspended]
     @ map (\<lambda>cur. Visit_mutator (mmtk_get_mmtk_mutator mutator_offset cur)) (java_threads s)
     @ [Oops_do_marking_prologue]"

definition mmtk_resume_mutators :: "bool \<Rightarrow> vm_call list" where
  "mmtk_resume_mutators COMPILER2_OR_JVMCI =
     [Oops_do_marking_epilogue, CodeCache_gc_epilogue, Jvmti_gc_epilogue]
     @ (if COMPILER2_OR_JVMCI then [Derived_pointers_update] else [])
     @ [Inc_start_the_world_count, Request_threads_resumed, Notify_gc_lock]"

definition mmtk_prepare_for_roots_re_scanning :: "bool \<Rightarrow> vm_call list" where
  "mmtk_prepare_for_roots_re_scanning COMPILER2_OR_JVMCI =
     (if COMPILER2_OR_JVMCI then [Derived_pointers_update, Derived_pointers_clear] else [])"

text \<open>
  \<^verbatim>\<open>resume_mutators\<close> of the Rust trait: for the concurrent plan, whether marking goes on is published before the world
  is resumed; \<open>concurrent\<close> is \<open>None\<close> for other plans.
\<close>

definition resume_mutators :: "bool \<Rightarrow> bool option \<Rightarrow> vm_call list" where
  "resume_mutators COMPILER2_OR_JVMCI concurrent =
     (case concurrent of None \<Rightarrow> [] | Some active \<Rightarrow> [Set_concurrent_marking active])
     @ mmtk_resume_mutators COMPILER2_OR_JVMCI"

text \<open>
  One collection: the threads at its stop, how often roots are scanned again (a moving plan asks for it), and the state of
  concurrent marking at its end.
\<close>

record collection =
  stopped_threads :: vm_threads
  re_scans :: nat
  marking :: "bool option"

definition collection_calls :: "bool \<Rightarrow> addr \<Rightarrow> collection \<Rightarrow> vm_call list" where
  "collection_calls C2 mutator_offset g = mmtk_stop_all_mutators C2 mutator_offset (stopped_threads g)
     @ concat (replicate (re_scans g) (mmtk_prepare_for_roots_re_scanning C2))
     @ resume_mutators C2 (marking g)"

section \<open>Specification\<close>

text \<open>Two calls that open and close: they alternate, the opening one first, and the last one is closed.\<close>

fun brackets :: "'e \<Rightarrow> 'e \<Rightarrow> bool \<Rightarrow> 'e list \<Rightarrow> bool" where
  "brackets opens closes inside [] \<longleftrightarrow> \<not> inside"
| "brackets opens closes inside (x # xs) \<longleftrightarrow>
     (if x = opens then \<not> inside \<and> brackets opens closes True xs
      else if x = closes then inside \<and> brackets opens closes False xs
      else brackets opens closes inside xs)"

text \<open>Calls that are made only between an opening and a closing one.\<close>

fun only_inside :: "'e \<Rightarrow> 'e \<Rightarrow> ('e \<Rightarrow> bool) \<Rightarrow> bool \<Rightarrow> 'e list \<Rightarrow> bool" where
  "only_inside opens closes P inside [] \<longleftrightarrow> True"
| "only_inside opens closes P inside (x # xs) \<longleftrightarrow> (P x \<longrightarrow> inside)
     \<and> only_inside opens closes P (if x = opens then True else if x = closes then False else inside) xs"

text \<open>
  The calls that need the world stopped: all of them, but for what the stop prepares (claimed marks, the code cache's prologue,
  clearing derived pointers, the request to stop itself) and the notification of the GC lock, which the resumed threads wait for.
\<close>

definition in_the_pause :: "vm_call \<Rightarrow> bool" where
  "in_the_pause c \<longleftrightarrow> c \<notin> {Clear_claimed_marks, CodeCache_gc_prologue, Derived_pointers_clear, Request_threads_suspended, Notify_gc_lock}"

definition visited_mutators :: "vm_call list \<Rightarrow> addr list" where
  "visited_mutators cs = concat (map (\<lambda>c. case c of Visit_mutator m \<Rightarrow> [m] | _ \<Rightarrow> []) cs)"

section \<open>Lemmas\<close>

lemma brackets_append: "brackets opens closes b xs \<Longrightarrow> brackets opens closes False ys \<Longrightarrow> brackets opens closes b (xs @ ys)"
  by (induction xs arbitrary: b) (auto split: if_splits)

lemma brackets_skip: "\<forall>x\<in>set xs. x \<noteq> opens \<and> x \<noteq> closes \<Longrightarrow> brackets opens closes b (xs @ ys) = brackets opens closes b ys"
  by (induction xs) auto

lemma brackets_concat: "\<forall>xs\<in>set xss. brackets opens closes False xs \<Longrightarrow> brackets opens closes False (concat xss)"
  by (induction xss) (auto intro: brackets_append)

text \<open>Pairs that close and open again leave the state open.\<close>

lemma brackets_reopen:
  "opens \<noteq> closes \<Longrightarrow> brackets opens closes True (concat (replicate n [closes, opens]) @ ys) = brackets opens closes True ys"
  by (induction n) auto

lemma only_inside_append:
  "brackets opens closes b xs \<Longrightarrow> only_inside opens closes P b xs \<Longrightarrow> only_inside opens closes P False ys
     \<Longrightarrow> only_inside opens closes P b (xs @ ys)"
  by (induction xs arbitrary: b) (auto split: if_splits)

lemma only_inside_concat:
  "\<forall>xs\<in>set xss. brackets opens closes False xs \<and> only_inside opens closes P False xs
     \<Longrightarrow> only_inside opens closes P False (concat xss)"
  by (induction xss) (auto intro: only_inside_append)

lemma only_inside_skip:
  "\<forall>x\<in>set xs. x \<noteq> opens \<and> x \<noteq> closes \<Longrightarrow> only_inside opens closes P True (xs @ ys) = only_inside opens closes P True ys"
  by (induction xs) auto

lemma fold_enqueue: "fold (\<lambda>m q. q @ [g m]) xs q = q @ map g xs"
  by (induction xs arbitrary: q) simp_all

lemma mutators_of_iterator_id: "mutators_of_iterator q = q"
  by (induction q) simp_all

declare mutators_of_iterator.simps [simp del]

lemma re_scan_calls: "set (concat (replicate n (mmtk_prepare_for_roots_re_scanning C2))) \<subseteq> {Derived_pointers_update, Derived_pointers_clear}"
  by (auto simp: mmtk_prepare_for_roots_re_scanning_def)

lemma re_scan_skip:
  fixes n C2
  defines "xs \<equiv> concat (replicate n (mmtk_prepare_for_roots_re_scanning C2))"
  assumes "{opens, closes} \<inter> {Derived_pointers_update, Derived_pointers_clear} = {}"
  shows "brackets opens closes b (xs @ ys) = brackets opens closes b ys"
    and "only_inside opens closes P True (xs @ ys) = only_inside opens closes P True ys"
proof -
  have "\<forall>x\<in>set xs. x \<noteq> opens \<and> x \<noteq> closes" using re_scan_calls[of n C2] assms(2) unfolding xs_def by blast
  then show "brackets opens closes b (xs @ ys) = brackets opens closes b ys"
    "only_inside opens closes P True (xs @ ys) = only_inside opens closes P True ys"
    by (simp_all add: brackets_skip only_inside_skip)
qed

lemma brackets_of_collection:
  "brackets Request_threads_suspended Request_threads_resumed False (collection_calls C2 mo g)"
  "brackets CodeCache_gc_prologue CodeCache_gc_epilogue False (collection_calls C2 mo g)"
  "brackets Oops_do_marking_prologue Oops_do_marking_epilogue False (collection_calls C2 mo g)"
  "brackets Clear_claimed_marks Request_threads_suspended False (collection_calls C2 mo g)"
  "brackets Request_threads_suspended Jvmti_gc_epilogue False (collection_calls C2 mo g)"
  "brackets Request_threads_resumed Notify_gc_lock False (collection_calls C2 mo g)"
  unfolding collection_calls_def mmtk_stop_all_mutators_def resume_mutators_def mmtk_resume_mutators_def
  by (auto simp: brackets_skip re_scan_skip split: option.splits)

lemma derived_pointers_of_collection:
  "brackets Derived_pointers_clear Derived_pointers_update False (collection_calls C2 mo g)"
  unfolding collection_calls_def mmtk_stop_all_mutators_def resume_mutators_def mmtk_resume_mutators_def
    mmtk_prepare_for_roots_re_scanning_def
  by (auto simp: brackets_skip brackets_reopen split: option.splits)

lemma pause_of_collection:
  "only_inside Request_threads_suspended Request_threads_resumed in_the_pause False (collection_calls C2 mo g)"
  unfolding collection_calls_def mmtk_stop_all_mutators_def resume_mutators_def mmtk_resume_mutators_def
  by (auto simp: only_inside_skip re_scan_skip in_the_pause_def split: option.splits)

interpretation vm_threads: safety_system no_threads thread_step threads_inv
proof
  fix s t
  show "no_threads s \<Longrightarrow> threads_inv s" by (simp add: no_threads_def threads_inv_def)
  show "thread_step s t \<Longrightarrow> threads_inv s \<Longrightarrow> threads_inv t"
    by (induction rule: thread_step.induct)
      (auto simp: threads_inv_def spawn_gc_thread_def mmtk_spawn_gc_thread_def new_MMTkCollectorThread_def new_collector_thread_def
        Let_def dest: in_set_remove1[THEN iffD1, rotated] notin_set_remove1 split: if_splits)
qed

lemma iterator_mutators: "mutators_of_iterator (OpenJDKMutatorIterator_new mo s) = map (mmtk_get_mmtk_mutator mo) (java_threads s)"
  by (simp add: mutators_of_iterator_id OpenJDKMutatorIterator_new_def mmtk_get_mutators_def fold_enqueue)

lemma visited_mutators_simps [simp]:
  "visited_mutators [] = []"
  "visited_mutators (c # cs) = (case c of Visit_mutator m \<Rightarrow> [m] | _ \<Rightarrow> []) @ visited_mutators cs"
  "visited_mutators (cs @ ds) = visited_mutators cs @ visited_mutators ds"
  "visited_mutators (map (\<lambda>t. Visit_mutator (h t)) ts) = map h ts"
  by (simp_all add: visited_mutators_def) (induction ts; simp)

lemma visited_of_collection:
  "visited_mutators (collection_calls C2 mo g) = map (mmtk_get_mmtk_mutator mo) (java_threads (stopped_threads g))"
proof -
  have "visited_mutators (concat (replicate n (mmtk_prepare_for_roots_re_scanning C2))) = []" for n
    by (induction n) (simp_all add: mmtk_prepare_for_roots_re_scanning_def)
  then show ?thesis
    unfolding collection_calls_def mmtk_stop_all_mutators_def resume_mutators_def mmtk_resume_mutators_def
    by (simp split: option.splits)
qed

lemma count_of_collection: "length (filter (\<lambda>c. c = Inc_start_the_world_count) (collection_calls C2 mo g)) = 1"
proof -
  have "filter (\<lambda>c. c = Inc_start_the_world_count) (concat (replicate n (mmtk_prepare_for_roots_re_scanning C2))) = []" for n
    by (auto simp: mmtk_prepare_for_roots_re_scanning_def filter_empty_conv)
  moreover have "filter (\<lambda>c. c = Inc_start_the_world_count) (map (\<lambda>t. Visit_mutator (h t)) ts) = []" for h and ts :: "addr list"
    by (simp add: filter_empty_conv)
  ultimately show ?thesis
    unfolding collection_calls_def mmtk_stop_all_mutators_def resume_mutators_def mmtk_resume_mutators_def
    by (simp split: option.splits)
qed

section \<open>Properties\<close>

text \<open>
  C16. The upcalls of any number of collections are bracketed. Suspending and resuming the world, the prologue and epilogue of the
  code cache, those of nmethod marking, and clearing and updating the table of derived pointers strictly alternate, however
  often roots are scanned again; claimed marks are cleared once before every stop, the JVMTI epilogue runs once after every stop,
  and the GC lock is notified once after every resumption; each collection visits every Java thread's mutator once and increments
  the start-the-world counter once. Every call is made while the world is suspended, except clearing the claimed marks, the code
  cache's prologue, clearing derived pointers, the request to suspend, and the notification of the GC lock.
\<close>
theorem collection_calls_bracketed:
  "brackets Request_threads_suspended Request_threads_resumed False (concat (map (collection_calls C2 mo) gs))
   \<and> brackets CodeCache_gc_prologue CodeCache_gc_epilogue False (concat (map (collection_calls C2 mo) gs))
   \<and> brackets Oops_do_marking_prologue Oops_do_marking_epilogue False (concat (map (collection_calls C2 mo) gs))
   \<and> brackets Derived_pointers_clear Derived_pointers_update False (concat (map (collection_calls C2 mo) gs))
   \<and> brackets Clear_claimed_marks Request_threads_suspended False (concat (map (collection_calls C2 mo) gs))
   \<and> brackets Request_threads_suspended Jvmti_gc_epilogue False (concat (map (collection_calls C2 mo) gs))
   \<and> brackets Request_threads_resumed Notify_gc_lock False (concat (map (collection_calls C2 mo) gs))
   \<and> only_inside Request_threads_suspended Request_threads_resumed in_the_pause False (concat (map (collection_calls C2 mo) gs))
   \<and> length (filter (\<lambda>c. c = Inc_start_the_world_count) (concat (map (collection_calls C2 mo) gs))) = length gs
   \<and> visited_mutators (concat (map (collection_calls C2 mo) gs))
     = concat (map (\<lambda>g. map (mmtk_get_mmtk_mutator mo) (java_threads (stopped_threads g))) gs)"
proof -
  have b: "brackets opens closes False (concat (map (collection_calls C2 mo) gs))"
    if "\<And>g. brackets opens closes False (collection_calls C2 mo g)" for opens closes
    using that by (intro brackets_concat) auto
  have "only_inside Request_threads_suspended Request_threads_resumed in_the_pause False (concat (map (collection_calls C2 mo) gs))"
    by (rule only_inside_concat) (auto simp: pause_of_collection brackets_of_collection)
  moreover have "length (filter (\<lambda>c. c = Inc_start_the_world_count) (concat (map (collection_calls C2 mo) gs))) = length gs"
    by (induction gs) (simp_all add: count_of_collection)
  moreover have "visited_mutators (concat (map (collection_calls C2 mo) gs))
      = concat (map (\<lambda>g. map (mmtk_get_mmtk_mutator mo) (java_threads (stopped_threads g))) gs)"
    by (induction gs) (simp_all add: visited_of_collection)
  ultimately show ?thesis
    by (intro conjI b brackets_of_collection derived_pointers_of_collection)
qed

text \<open>
  C40. Mutators and collector threads are told apart. Whatever Java threads start and exit and collector threads are spawned, in
  every reachable state each Java thread is a mutator and no collector thread is one; a collector thread passes the non-null
  context it was spawned with to mmtk-core; the iterator of the Rust side yields the mutator of every Java thread exactly once,
  and as many as \<^verbatim>\<open>number_of_mutators\<close> reports; and the heap counts the collector threads.
\<close>
theorem threads_classified:
  assumes "reachable no_threads thread_step s" and "\<forall>ts. number_of_threads ts = of_nat (length ts)"
  shows "(\<forall>t\<in>set (java_threads s). mmtk_is_mutator s t)
    \<and> (\<forall>t\<in>set (workers s). \<not> mmtk_is_mutator s t \<and> snd (MMTkCollectorThread_run s t) \<noteq> NULL)
    \<and> mutators_of_iterator (OpenJDKMutatorIterator_new mo s) = map (mmtk_get_mmtk_mutator mo) (java_threads s)
    \<and> distinct (mutators_of_iterator (OpenJDKMutatorIterator_new mo s))
    \<and> mmtk_number_of_mutators number_of_threads s = of_nat (length (mutators_of_iterator (OpenJDKMutatorIterator_new mo s)))
    \<and> n_workers s = of_nat (length (workers s))"
proof -
  have inv: "threads_inv s" using assms(1) by (rule vm_threads.reachable_inv)
  then have "distinct (map (mmtk_get_mmtk_mutator mo) (java_threads s))"
    by (auto simp: threads_inv_def distinct_map inj_on_def mmtk_get_mmtk_mutator_def)
  then show ?thesis
    using inv assms(2) unfolding iterator_mutators
    by (simp add: threads_inv_def mmtk_is_mutator_def MMTkCollectorThread_run_def mmtk_number_of_mutators_def)
qed

text \<open>Two Java threads and a collector thread.\<close>

definition demo_threads :: vm_threads where
  "demo_threads = \<lparr>java_threads = [0x200, 0x100], third_party_heap_collector = (\<lambda>_. NULL)(0x300 := 0x900), n_workers = 1,
     workers = [0x300]\<rparr>"

lemma demo_threads_reachable: "reachable no_threads thread_step demo_threads"
proof -
  let ?s0 = "\<lparr>java_threads = [], third_party_heap_collector = (\<lambda>_. NULL), n_workers = 0, workers = []\<rparr>"
  let ?s1 = "\<lparr>java_threads = [], third_party_heap_collector = (\<lambda>_. NULL)(0x300 := 0x900), n_workers = 1, workers = [0x300]\<rparr>"
  let ?s2 = "?s1\<lparr>java_threads := [0x100]\<rparr>"
  have "reachable no_threads thread_step ?s0" by (rule reach_start) (simp add: no_threads_def)
  moreover have "thread_step ?s0 ?s1"
    by (rule thread_step.worker_spawned[where t = "0x300" and w = "0x900" and create = True])
      (simp_all add: spawn_gc_thread_def mmtk_spawn_gc_thread_def new_collector_thread_def new_MMTkCollectorThread_def Let_def)
  moreover have "thread_step ?s1 ?s2"
    using thread_step.java_thread_starts[of "0x100" ?s1] by (simp add: fun_upd_twist fun_upd_idem)
  moreover have "thread_step ?s2 demo_threads"
    using thread_step.java_thread_starts[of "0x200" ?s2] by (simp add: fun_upd_twist fun_upd_idem demo_threads_def)
  ultimately show ?thesis by (meson reach_step)
qed

theorem threads_classified_witness:
  "mutators_of_iterator (OpenJDKMutatorIterator_new 0x10 demo_threads) = [0x210, 0x110] \<and> \<not> mmtk_is_mutator demo_threads 0x300"
  using threads_classified[OF demo_threads_reachable, of "\<lambda>ts. of_nat (length ts)" "0x10"]
  by (simp add: demo_threads_def mmtk_get_mmtk_mutator_def)

text \<open>
  A thread that is neither, such as the companion thread or HotSpot's own VM thread, also counts as a mutator, although no
  upcall reports a mutator for it.
\<close>

lemma is_mutator_of_other_thread:
  "mmtk_is_mutator (s\<lparr>third_party_heap_collector := (third_party_heap_collector s)(t := NULL)\<rparr>) t \<longleftrightarrow> t \<noteq> NULL"
  by (simp add: mmtk_is_mutator_def)

end
