(* ===== verification/Heap_Lifecycle.thy ===== *)
theory Heap_Lifecycle
  imports Heap_Config Finalizer Object_Layout
begin

text \<open>
  The life of the heap object (\<^verbatim>\<open>openjdk/mmtkHeap.cpp\<close>, \<^verbatim>\<open>openjdk/mmtkHeap.hpp\<close>) around the initialization of theory \<open>Heap_Config\<close>: what
  HotSpot calls after it (\<^verbatim>\<open>post_initialize\<close>, \<^verbatim>\<open>initialize_serviceability\<close>, \<^verbatim>\<open>enable_collection\<close>), the start of the finalizer
  thread (\<^verbatim>\<open>openjdk/mmtkFinalizerThread.cpp\<close>), requests and queries.

  Whether HotSpot manages to create Java objects and threads, the answers of mmtk-core and the clock are parameters. A null
  pointer to the finalizer thread is \<open>None\<close>; using it is undefined.
\<close>

section \<open>The heap object\<close>

datatype enable_action = Start_finalizer_thread | Initialize_collection

record mmtk_heap =
  last_gc_time :: "64 word"
  h_start :: addr
  h_end :: addr
  mmtk_pool :: "memory_pool option"
  manager_pools :: "memory_pool list"
  klass_layout :: vm_layout
  finalizer_instance :: "finalizer option"
  enabling :: "enable_action list"
  collection_initialized :: bool
  user_requests :: "addr list"

definition new_MMTkHeap :: "vm_layout \<Rightarrow> mmtk_heap" where
  "new_MMTkHeap vm = \<lparr>last_gc_time = 0, h_start = NULL, h_end = NULL, mmtk_pool = None, manager_pools = [], klass_layout = vm,
     finalizer_instance = None, enabling = [], collection_initialized = False, user_requests = []\<rparr>"

text \<open>What \<^verbatim>\<open>initialize\<close> leaves in the object: the bounds that mmtk-core reports.\<close>

definition initialize_bounds :: "heap \<Rightarrow> mmtk_heap \<Rightarrow> mmtk_heap" where
  "initialize_bounds h s = s\<lparr>h_start := fst (heap_range h), h_end := snd (heap_range h)\<rparr>"

definition post_initialize :: "bool \<Rightarrow> addr \<Rightarrow> nat \<Rightarrow> mmtk_heap \<Rightarrow> mmtk_heap" where
  "post_initialize compressed narrow_klass_base narrow_klass_shift s =
     (if compressed then 
        s\<lparr>klass_layout := set_compressed_klass_base_and_shift narrow_klass_base narrow_klass_shift (klass_layout s)\<rparr>
      else s)"

definition initialize_serviceability :: "size_t \<Rightarrow> mmtk_heap \<Rightarrow> mmtk_heap" where
  "initialize_serviceability min_heap_byte_size s =
     (let pool = new_MMTkMemoryPool (h_start s) (h_end s) min_heap_byte_size
      in s\<lparr>mmtk_pool := Some pool, manager_pools := [pool]\<rparr>)"

definition memory_pools :: "mmtk_heap \<Rightarrow> memory_pool option list" where
  "memory_pools s = [mmtk_pool s]"

section \<open>Enabling collection\<close>

text \<open>
  \<^verbatim>\<open>MMTkFinalizerThread::initialize\<close>. The name and the thread object are created in Java; an exception there is not
  allowed. The pointer \<^verbatim>\<open>instance\<close> is set before the thread is started.
\<close>

definition MMTkFinalizerThread_initialize :: "bool \<Rightarrow> bool \<Rightarrow> bool \<Rightarrow> mmtk_heap \<Rightarrow> mmtk_heap result" where
  "MMTkFinalizerThread_initialize string_created instance_created osthread_created s =
     (if \<not> string_created then Inl (Fatal ''ExceptionMark destructor expects no pending exceptions'')
      else if \<not> instance_created then Inl (Fatal ''ExceptionMark destructor expects no pending exceptions'')
      else if \<not> osthread_created then Inl (Vm_exit ''java.lang.OutOfMemoryError'')
      else Inr (s\<lparr>finalizer_instance := Some new_MMTkFinalizerThread\<rparr>))"

text \<open>The calls of \<^verbatim>\<open>enable_collection\<close>, in order; threads of the VM run between them.\<close>

definition enable_collection :: "enable_action list" where
  "enable_collection = [Start_finalizer_thread, Initialize_collection]"

definition enable_step :: "bool \<Rightarrow> bool \<Rightarrow> bool \<Rightarrow> mmtk_heap \<Rightarrow> mmtk_heap result" where
  "enable_step string_created instance_created osthread_created s = (case enabling s of
     [] \<Rightarrow> Inr s
   | Start_finalizer_thread # rest \<Rightarrow>
       MMTkFinalizerThread_initialize string_created instance_created osthread_created (s\<lparr>enabling := rest\<rparr>)
   | Initialize_collection # rest \<Rightarrow> Inr (s\<lparr>enabling := rest, collection_initialized := True\<rparr>))"

definition schedule_finalizer :: "mmtk_heap \<Rightarrow> mmtk_heap option" where
  "schedule_finalizer s = (case finalizer_instance s of
     None \<Rightarrow> None
   | Some f \<Rightarrow> Some (s\<lparr>finalizer_instance := Some (schedule f)\<rparr>))"

section \<open>Requests and times\<close>

definition MMTkHeap_collect :: "addr \<Rightarrow> mmtk_heap \<Rightarrow> mmtk_heap" where
  "MMTkHeap_collect current_mutator s = s\<lparr>user_requests := user_requests s @ [current_mutator]\<rparr>"

definition do_full_collection :: "bool \<Rightarrow> mmtk_heap \<Rightarrow> mmtk_heap" where
  "do_full_collection clear_all_soft_refs s = s"

definition NANOSECS_PER_MILLISEC :: int where
  "NANOSECS_PER_MILLISEC = 1000000"

text \<open>The division of \<^verbatim>\<open>jlong\<close>s truncates.\<close>

definition jlong_div :: "64 word \<Rightarrow> int \<Rightarrow> 64 word" where
  "jlong_div a b = word_of_int (sgn (sint a) * (\<bar>sint a\<bar> div b))"

definition note_gc_time :: "64 word \<Rightarrow> mmtk_heap \<Rightarrow> mmtk_heap" where
  "note_gc_time javaTimeNanos s = s\<lparr>last_gc_time := jlong_div javaTimeNanos NANOSECS_PER_MILLISEC\<rparr>"

definition millis_since_last_gc :: "64 word \<Rightarrow> mmtk_heap \<Rightarrow> 64 word" where
  "millis_since_last_gc javaTimeNanos s =
     (let ret_val = jlong_div javaTimeNanos NANOSECS_PER_MILLISEC - last_gc_time s
      in if sint ret_val < 0 then 0 else ret_val)"

section \<open>Queries\<close>

text \<open>What the heap asks mmtk-core.\<close>

record core_answers =
  used_bytes :: size_t
  total_bytes :: size_t
  is_in_mmtk_spaces :: "addr \<Rightarrow> bool"

definition max_capacity :: "core_answers \<Rightarrow> size_t" where
  "max_capacity core = total_bytes core"

definition capacity :: "core_answers \<Rightarrow> size_t" where
  "capacity core = max_capacity core"

definition used :: "core_answers \<Rightarrow> size_t" where
  "used core = used_bytes core"

definition is_maximal_no_gc :: bool where
  "is_maximal_no_gc \<longleftrightarrow> False"

definition is_in :: "core_answers \<Rightarrow> addr \<Rightarrow> bool" where
  "is_in core p \<longleftrightarrow> is_in_mmtk_spaces core p"

definition is_in_reserved :: "core_answers \<Rightarrow> addr \<Rightarrow> bool" where
  "is_in_reserved core p \<longleftrightarrow> is_in core p"

definition supports_tlab_allocation :: bool where
  "supports_tlab_allocation \<longleftrightarrow> False"

definition supports_inline_contig_alloc :: "heap \<Rightarrow> bool" where
  "supports_inline_contig_alloc h \<longleftrightarrow> mmtk_enable_allocation_fastpath h"

definition can_elide_tlab_store_barriers :: bool where
  "can_elide_tlab_store_barriers \<longleftrightarrow> True"

definition can_elide_initializing_store_barrier :: "addr \<Rightarrow> bool" where
  "can_elide_initializing_store_barrier new_obj \<longleftrightarrow> False"

definition card_mark_must_follow_store :: bool where
  "card_mark_must_follow_store \<longleftrightarrow> False"

definition is_scavengable :: "addr \<Rightarrow> bool" where
  "is_scavengable obj \<longleftrightarrow> True"

text \<open>The queries without an implementation end the process.\<close>

definition tlab_capacity :: "size_t result" where
  "tlab_capacity = Inl (Guarantee_failed ''tlab_capacity not supported'')"

definition tlab_used :: "size_t result" where
  "tlab_used = Inl (Guarantee_failed ''tlab_used not supported'')"

definition block_start :: "addr \<Rightarrow> addr result" where
  "block_start a = Inl (Guarantee_failed ''block start not supported'')"

definition block_size :: "addr \<Rightarrow> size_t result" where
  "block_size a = Inl (Guarantee_failed ''block size not supported'')"

definition block_is_obj :: "addr \<Rightarrow> bool result" where
  "block_is_obj a = Inl (Guarantee_failed ''block is obj not supported'')"

definition print_on :: "unit result" where
  "print_on = Inl (Guarantee_failed ''print on not supported'')"

definition print_gc_threads_on :: "unit result" where
  "print_gc_threads_on = Inl (Guarantee_failed ''print gc threads on not supported'')"

section \<open>The system\<close>

text \<open>
  HotSpot initializes the heap, calls \<^verbatim>\<open>enable_collection\<close> once, and collections, which may schedule the finalizer thread, run
  from the moment mmtk-core is told that they can.
\<close>

inductive heap_step :: "mmtk_heap \<Rightarrow> mmtk_heap \<Rightarrow> bool" where
  post_initialized: "heap_step s (post_initialize c base shift s)"
| made_serviceable: "heap_step s (initialize_serviceability n s)"
| enabled: "\<not> collection_initialized s \<Longrightarrow> finalizer_instance s = None \<Longrightarrow> enabling s = [] \<Longrightarrow>
     heap_step s (s\<lparr>enabling := enable_collection\<rparr>)"
| enabling_step: "enabling s \<noteq> [] \<Longrightarrow> enable_step a b c s = Inr t \<Longrightarrow> heap_step s t"
| scheduled: "collection_initialized s \<Longrightarrow> schedule_finalizer s = Some t \<Longrightarrow> heap_step s t"
| finalizer_runs: "finalizer_instance s = Some f \<Longrightarrow> finalizer_thread_step f g \<Longrightarrow>
     heap_step s (s\<lparr>finalizer_instance := Some g\<rparr>)"
| collection_requested: "heap_step s (MMTkHeap_collect m s)"
| time_noted: "heap_step s (note_gc_time now s)"

definition heap_initialized :: "mmtk_heap \<Rightarrow> bool" where
  "heap_initialized s \<longleftrightarrow> (\<exists>h vm. s = initialize_bounds h (new_MMTkHeap vm))"

definition heap_inv :: "mmtk_heap \<Rightarrow> bool" where
  "heap_inv s \<longleftrightarrow> (collection_initialized s \<longrightarrow> finalizer_instance s \<noteq> None \<and> enabling s = [])
     \<and> (enabling s \<in> {[], enable_collection} \<or> enabling s = [Initialize_collection] \<and> finalizer_instance s \<noteq> None)
     \<and> (finalizer_instance s \<noteq> None \<longrightarrow> enabling s \<noteq> enable_collection)"

interpretation heap_life: safety_system heap_initialized heap_step heap_inv
proof
  fix s t
  show "heap_initialized s \<Longrightarrow> heap_inv s"
    by (auto simp: heap_initialized_def heap_inv_def initialize_bounds_def new_MMTkHeap_def enable_collection_def)
  show "heap_step s t \<Longrightarrow> heap_inv s \<Longrightarrow> heap_inv t"
    by (induction rule: heap_step.induct)
      (auto simp: heap_inv_def post_initialize_def initialize_serviceability_def enable_collection_def enable_step_def
        MMTkFinalizerThread_initialize_def schedule_finalizer_def MMTkHeap_collect_def note_gc_time_def Let_def split: if_splits)
qed

section \<open>Lemmas\<close>

lemma sint_jlong_div:
  assumes "0 \<le> sint a" and "0 < b"
  shows "sint (jlong_div a b) = sint a div b"
proof -
  have "sint a < 2 ^ 63" using sint_lt[of a] by simp
  moreover have "sint a div b \<le> sint a div 1" using assms by (intro zdiv_mono2) simp_all
  ultimately have "0 \<le> sint a div b" "sint a div b < 2 ^ 63" using assms by (simp_all add: pos_imp_zdiv_nonneg_iff)
  then have "sint (word_of_int (sint a div b) :: 64 word) = sint a div b"
    by (simp add: sint_sbintrunc' signed_take_bit_int_eq_self order_trans[of _ 0])
  then show ?thesis using assms by (auto simp: jlong_div_def sgn_if)
qed

lemma jlong_sub:
  assumes "0 \<le> sint a" and "0 \<le> sint b"
  shows "sint (a - b :: 64 word) = sint a - sint b"
proof -
  have "sint a < 2 ^ 63" "sint b < 2 ^ 63" using sint_lt[of a] sint_lt[of b] by simp_all
  then show ?thesis using assms by (simp add: sint_word_ariths signed_take_bit_int_eq_self)
qed

section \<open>Properties\<close>

text \<open>
  C34. Scheduling the finalizer thread never goes through a null pointer. Whatever HotSpot and the finalizer thread do between the
  calls of \<^verbatim>\<open>enable_collection\<close>, once mmtk-core may collect, the finalizer thread exists, so a collection that schedules it finds
  it; and afterwards it is scheduled.
\<close>
theorem finalizer_exists_when_collecting:
  assumes "reachable heap_initialized heap_step s" and "collection_initialized s"
  shows "\<exists>t f. schedule_finalizer s = Some t \<and> finalizer_instance t = Some f \<and> is_scheduled f"
proof -
  have "heap_inv s" using assms(1) by (rule heap_life.reachable_inv)
  then show ?thesis using assms(2) by (auto simp: heap_inv_def schedule_finalizer_def schedule_def)
qed

definition demo_layout :: vm_layout where
  "demo_layout = \<lparr>COMPRESSED_KLASS_BASE = 0, COMPRESSED_KLASS_SHIFT = 0, offset_of_static_fields = 96,
     static_oop_field_count_offset = 88, referent_offset = 16, discovered_offset = 40\<rparr>"

lemma enabled_heap_reachable:
  assumes "heap_initialized s"
  shows "reachable heap_initialized heap_step (s\<lparr>enabling := [], collection_initialized := True,
    finalizer_instance := Some new_MMTkFinalizerThread\<rparr>)"
proof -
  from assms have s: "enabling s = []" "finalizer_instance s = None" "\<not> collection_initialized s"
    by (auto simp: heap_initialized_def initialize_bounds_def new_MMTkHeap_def)
  let ?s1 = "s\<lparr>enabling := enable_collection\<rparr>"
  let ?s2 = "s\<lparr>enabling := [Initialize_collection], finalizer_instance := Some new_MMTkFinalizerThread\<rparr>"
  have "heap_step s ?s1" using s by (intro heap_step.enabled)
  moreover have "heap_step ?s1 ?s2"
    by (rule heap_step.enabling_step[of _ True True True])
      (simp_all add: enable_step_def enable_collection_def MMTkFinalizerThread_initialize_def)
  moreover have "heap_step ?s2 (s\<lparr>enabling := [], collection_initialized := True, finalizer_instance := Some new_MMTkFinalizerThread\<rparr>)"
    by (rule heap_step.enabling_step[of _ True True True]) (simp_all add: enable_step_def)
  ultimately show ?thesis using assms by (meson reach_start reach_step)
qed

theorem finalizer_exists_when_collecting_witness:
  "\<exists>t. schedule_finalizer ((new_MMTkHeap demo_layout)\<lparr>h_start := 0x40000000, h_end := 0x80000000, collection_initialized := True,
     finalizer_instance := Some new_MMTkFinalizerThread\<rparr>) = Some t"
proof -
  let ?h = "\<lparr>mmtk_enable_allocation_fastpath = True, mmtk_enable_barrier_fastpath = True,
    options = \<lparr>threads = 1, transparent_hugepages = False, gc_trigger = FixedHeapSize 0\<rparr>, heap_range = (0x40000000, 0x80000000),
    narrow_oop = None, max_non_los = 0, companion_started = True\<rparr>"
  have "heap_initialized (initialize_bounds ?h (new_MMTkHeap demo_layout))" by (auto simp: heap_initialized_def)
  from finalizer_exists_when_collecting[OF enabled_heap_reachable[OF this]] show ?thesis
    by (auto simp: initialize_bounds_def new_MMTkHeap_def)
qed

text \<open>
  The time since the last collection is what the clock says. If a collection was noted when the clock showed \<open>t0\<close>
  nanoseconds, then at any later time \<open>t1\<close> the heap reports the difference of the two readings in milliseconds, without
  wrap-around; if the clock ran backwards it reports zero; and what it reports is never negative, whatever the clock and the
  noted time are.
\<close>
lemma millis_since_last_gc_correct:
  assumes "0 \<le> sint t0" and "0 \<le> sint t1"
  shows "sint (millis_since_last_gc t1 (note_gc_time t0 s)) = max 0 (sint t1 div 1000000 - sint t0 div 1000000)
    \<and> 0 \<le> sint (millis_since_last_gc t (s :: mmtk_heap))"
proof
  have d: "sint (jlong_div t0 NANOSECS_PER_MILLISEC) = sint t0 div 1000000"
    "sint (jlong_div t1 NANOSECS_PER_MILLISEC) = sint t1 div 1000000"
    using assms by (simp_all add: sint_jlong_div NANOSECS_PER_MILLISEC_def)
  then have "sint (jlong_div t1 NANOSECS_PER_MILLISEC - jlong_div t0 NANOSECS_PER_MILLISEC) = sint t1 div 1000000 - sint t0 div 1000000"
    using assms by (subst jlong_sub) (simp_all add: pos_imp_zdiv_nonneg_iff)
  then show "sint (millis_since_last_gc t1 (note_gc_time t0 s)) = max 0 (sint t1 div 1000000 - sint t0 div 1000000)"
    by (simp add: millis_since_last_gc_def note_gc_time_def Let_def)
  show "0 \<le> sint (millis_since_last_gc t s)" by (simp add: millis_since_last_gc_def Let_def not_less)
qed

lemma millis_since_last_gc_correct_instance:
  "sint (millis_since_last_gc 12000000 (note_gc_time 5999999 (new_MMTkHeap demo_layout))) = 7"
  using millis_since_last_gc_correct[of 5999999 12000000] by simp

end
