(* ===== verification/Object_Scanning.thy ===== *)
theory Object_Scanning
  imports Object_Layout
begin

text \<open>
  Scanning an object for the references it holds (\<^verbatim>\<open>mmtk/src/object_scanning.rs\<close>). The closure is the visitor of
  mmtk-core: its state has a type of its own, and \<open>visit\<close>, its \<^verbatim>\<open>visit_slot\<close>, is a parameter. Next to it the scan updates the
  lists of weak, soft and phantom reference candidates (\<^verbatim>\<open>add_weak_candidate\<close> and its siblings of
  \<^verbatim>\<open>mmtk/src/api.rs\<close>).

  A scan can fail: the assertion on the class id, the panic on a reference class without a reference type, and a
  reference type that is not an enumerator, on which the \<^verbatim>\<open>match\<close> has no defined behaviour.
\<close>

section \<open>State and failures\<close>

record candidates =
  weak_candidates :: "addr list"
  soft_candidates :: "addr list"
  phantom_candidates :: "addr list"

datatype scan_error = Invalid_klass_id "32 word" | Reference_type_is_None | Invalid_reference_type byte

definition add_weak_candidate :: "addr \<Rightarrow> candidates \<Rightarrow> candidates" where
  "add_weak_candidate reff c = c\<lparr>weak_candidates := weak_candidates c @ [reff]\<rparr>"

definition add_soft_candidate :: "addr \<Rightarrow> candidates \<Rightarrow> candidates" where
  "add_soft_candidate reff c = c\<lparr>soft_candidates := soft_candidates c @ [reff]\<rparr>"

definition add_phantom_candidate :: "addr \<Rightarrow> candidates \<Rightarrow> candidates" where
  "add_phantom_candidate reff c = c\<lparr>phantom_candidates := phantom_candidates c @ [reff]\<rparr>"

section \<open>Iterating by class\<close>

definition oop_map_block_iterate ::
    "bool \<Rightarrow> (addr \<Rightarrow> 'v \<Rightarrow> 'v) \<Rightarrow> addr \<Rightarrow> oop_map_block \<Rightarrow> 'v \<Rightarrow> 'v" where
  "oop_map_block_iterate COMPRESSED visit oop b closure =
     (let log_bytes_in_oop = (if COMPRESSED then 2 else 3);
          start = get_field_address oop (block_offset b)
      in fold (\<lambda>i. visit (start + push_bit log_bytes_in_oop (of_nat i))) [0..<unat (block_count b)] closure)"

definition instance_klass_iterate ::
    "(size_t \<Rightarrow> size_t \<Rightarrow> size_t) \<Rightarrow> bool \<Rightarrow> (addr \<Rightarrow> 'v \<Rightarrow> 'v) \<Rightarrow> mem \<Rightarrow> addr \<Rightarrow> addr \<Rightarrow> 'v \<Rightarrow> 'v" where
  "instance_klass_iterate raw_align_up COMPRESSED visit m klass oop closure =
     (let oop_maps = nonstatic_oop_maps raw_align_up m klass
      in fold (oop_map_block_iterate COMPRESSED visit oop) oop_maps closure)"

definition instance_mirror_klass_iterate ::
    "(size_t \<Rightarrow> size_t \<Rightarrow> size_t) \<Rightarrow> bool \<Rightarrow> (addr \<Rightarrow> 'v \<Rightarrow> 'v) \<Rightarrow> vm_layout \<Rightarrow> mem \<Rightarrow> addr \<Rightarrow> addr \<Rightarrow> 'v \<Rightarrow> 'v" where
  "instance_mirror_klass_iterate raw_align_up COMPRESSED visit vm m klass oop closure =
     (let closure1 = instance_klass_iterate raw_align_up COMPRESSED visit m klass oop closure;
          start = start_of_static_fields vm oop;
          len = static_oop_field_count vm m oop
      in if COMPRESSED then fold (\<lambda>i. visit (start + of_nat i * 4)) [0..<unat len] closure1
         else fold (\<lambda>i. visit (start + of_nat i * 8)) [0..<unat len] closure1)"

definition instance_class_loader_klass_iterate ::
    "(size_t \<Rightarrow> size_t \<Rightarrow> size_t) \<Rightarrow> bool \<Rightarrow> (addr \<Rightarrow> 'v \<Rightarrow> 'v) \<Rightarrow> mem \<Rightarrow> addr \<Rightarrow> addr \<Rightarrow> 'v \<Rightarrow> 'v" where
  "instance_class_loader_klass_iterate raw_align_up COMPRESSED visit m klass oop closure =
     instance_klass_iterate raw_align_up COMPRESSED visit m klass oop closure"

definition obj_array_klass_iterate ::
    "(size_t \<Rightarrow> size_t \<Rightarrow> size_t) \<Rightarrow> bool \<Rightarrow> (addr \<Rightarrow> 'v \<Rightarrow> 'v) \<Rightarrow> mem \<Rightarrow> addr \<Rightarrow> 'v \<Rightarrow> 'v" where
  "obj_array_klass_iterate raw_align_up COMPRESSED visit m oop closure =
     (if COMPRESSED then fold visit (array_data raw_align_up COMPRESSED 4 m oop T_OBJECT) closure
      else fold visit (array_data raw_align_up COMPRESSED 8 m oop T_OBJECT) closure)"

definition process_ref_as_strong :: "(addr \<Rightarrow> 'v \<Rightarrow> 'v) \<Rightarrow> vm_layout \<Rightarrow> addr \<Rightarrow> 'v \<Rightarrow> 'v" where
  "process_ref_as_strong visit vm oop closure = visit (referent_address vm oop) closure"

definition should_scan_weak_refs :: "bool \<Rightarrow> bool" where
  "should_scan_weak_refs no_reference_types \<longleftrightarrow> \<not> no_reference_types"

definition reference_type :: "mem \<Rightarrow> addr \<Rightarrow> byte" where
  "reference_type m klass = m (field_addr InstanceKlass ''reference_type'' klass)"

definition instance_ref_klass_iterate ::
    "(size_t \<Rightarrow> size_t \<Rightarrow> size_t) \<Rightarrow> bool \<Rightarrow> bool \<Rightarrow> (addr \<Rightarrow> 'v \<Rightarrow> 'v) \<Rightarrow> vm_layout \<Rightarrow> mem \<Rightarrow> addr \<Rightarrow> addr
       \<Rightarrow> 'v \<times> candidates \<Rightarrow> scan_error + 'v \<times> candidates" where
  "instance_ref_klass_iterate raw_align_up COMPRESSED no_reference_types visit vm m klass oop s =
     (let closure1 = instance_klass_iterate raw_align_up COMPRESSED visit m klass oop (fst s);
          closure2 = visit (discovered_address vm oop) closure1
      in if should_scan_weak_refs no_reference_types then
           (case enumerator reference_types (unat (reference_type m klass)) of
              None \<Rightarrow> Inl (Invalid_reference_type (reference_type m klass))
            | Some RefNone \<Rightarrow> Inl Reference_type_is_None
            | Some RefWeak \<Rightarrow> Inr (closure2, add_weak_candidate oop (snd s))
            | Some RefSoft \<Rightarrow> Inr (closure2, add_soft_candidate oop (snd s))
            | Some RefPhantom \<Rightarrow> Inr (closure2, add_phantom_candidate oop (snd s))
            | Some RefFinal \<Rightarrow> Inr (process_ref_as_strong visit vm oop closure2, snd s)
            | Some RefOther \<Rightarrow> Inr (process_ref_as_strong visit vm oop closure2, snd s))
         else Inr (process_ref_as_strong visit vm oop closure2, snd s))"

section \<open>Dispatch\<close>

definition oop_iterate ::
    "(size_t \<Rightarrow> size_t \<Rightarrow> size_t) \<Rightarrow> bool \<Rightarrow> bool \<Rightarrow> (addr \<Rightarrow> 'v \<Rightarrow> 'v) \<Rightarrow> vm_layout \<Rightarrow> mem \<Rightarrow> addr
       \<Rightarrow> 'v \<times> candidates \<Rightarrow> scan_error + 'v \<times> candidates" where
  "oop_iterate raw_align_up COMPRESSED no_reference_types visit vm m oop s =
     (let klass = oop_klass COMPRESSED vm m oop;
          id = klass_id m klass
      in if \<not> (0 \<le> sint id \<and> sint id < 6) then Inl (Invalid_klass_id id)
         else (case klass_ids ! unat id of
             Instance \<Rightarrow> Inr (instance_klass_iterate raw_align_up COMPRESSED visit m klass oop (fst s), snd s)
           | InstanceClassLoader \<Rightarrow>
               Inr (instance_class_loader_klass_iterate raw_align_up COMPRESSED visit m klass oop (fst s), snd s)
           | InstanceMirror \<Rightarrow>
               Inr (instance_mirror_klass_iterate raw_align_up COMPRESSED visit vm m klass oop (fst s), snd s)
           | ObjArray \<Rightarrow> Inr (obj_array_klass_iterate raw_align_up COMPRESSED visit m oop (fst s), snd s)
           | TypeArray \<Rightarrow> Inr s
           | InstanceRef \<Rightarrow> instance_ref_klass_iterate raw_align_up COMPRESSED no_reference_types visit vm m klass oop s))"

definition scan_object ::
    "(size_t \<Rightarrow> size_t \<Rightarrow> size_t) \<Rightarrow> bool \<Rightarrow> bool \<Rightarrow> (addr \<Rightarrow> 'v \<Rightarrow> 'v) \<Rightarrow> vm_layout \<Rightarrow> mem \<Rightarrow> addr
       \<Rightarrow> 'v \<times> candidates \<Rightarrow> scan_error + 'v \<times> candidates" where
  "scan_object raw_align_up COMPRESSED no_reference_types visit vm m obj s =
     oop_iterate raw_align_up COMPRESSED no_reference_types visit vm m obj s"

section \<open>Specification\<close>

text \<open>The kind of an object, and the reference type of its class.\<close>

definition object_kind :: "bool \<Rightarrow> vm_layout \<Rightarrow> mem \<Rightarrow> addr \<Rightarrow> KlassID option" where
  "object_kind C vm m oop = enumerator klass_ids (unat (klass_id m (oop_klass C vm m oop)))"

definition object_reference_type :: "bool \<Rightarrow> vm_layout \<Rightarrow> mem \<Rightarrow> addr \<Rightarrow> ReferenceType option" where
  "object_reference_type C vm m oop = enumerator reference_types (unat (reference_type m (oop_klass C vm m oop)))"

text \<open>The slots that the reference map of the class gives an instance.\<close>

definition mapped_slots :: "(size_t \<Rightarrow> size_t \<Rightarrow> size_t) \<Rightarrow> bool \<Rightarrow> vm_layout \<Rightarrow> mem \<Rightarrow> addr \<Rightarrow> addr set" where
  "mapped_slots f C vm m oop = (\<Union>b\<in>set (nonstatic_oop_maps f m (oop_klass C vm m oop)).
     set (slot_array C (oop + scast (block_offset b)) (unat (block_count b))))"

definition mapped_slot_list :: "(size_t \<Rightarrow> size_t \<Rightarrow> size_t) \<Rightarrow> bool \<Rightarrow> mem \<Rightarrow> addr \<Rightarrow> addr \<Rightarrow> addr list" where
  "mapped_slot_list f C m klass oop = concat (map (\<lambda>b. slot_array C (oop + scast (block_offset b)) (unat (block_count b)))
     (nonstatic_oop_maps f m klass))"

text \<open>A reference object whose referent is followed like a field.\<close>

definition strong_referent :: "bool \<Rightarrow> ReferenceType option \<Rightarrow> bool" where
  "strong_referent no_reference_types t \<longleftrightarrow> no_reference_types \<or> t = Some RefFinal \<or> t = Some RefOther"

definition reference_slots ::
    "(size_t \<Rightarrow> size_t \<Rightarrow> size_t) \<Rightarrow> bool \<Rightarrow> bool \<Rightarrow> vm_layout \<Rightarrow> mem \<Rightarrow> addr \<Rightarrow> KlassID \<Rightarrow> addr set" where
  "reference_slots f C no_reference_types vm m oop k = (case k of
     TypeArray \<Rightarrow> {}
   | ObjArray \<Rightarrow> set (slot_array C (array_base f C oop T_OBJECT) (unat (scast (array_length C m oop) :: size_t)))
   | Instance \<Rightarrow> mapped_slots f C vm m oop
   | InstanceClassLoader \<Rightarrow> mapped_slots f C vm m oop
   | InstanceMirror \<Rightarrow> mapped_slots f C vm m oop
       \<union> set (slot_array C (start_of_static_fields vm oop) (unat (static_oop_field_count vm m oop)))
   | InstanceRef \<Rightarrow> mapped_slots f C vm m oop \<union> {discovered_address vm oop}
       \<union> (if strong_referent no_reference_types (object_reference_type C vm m oop) then {referent_address vm oop} else {}))"

definition scannable :: "bool \<Rightarrow> bool \<Rightarrow> vm_layout \<Rightarrow> mem \<Rightarrow> addr \<Rightarrow> bool" where
  "scannable C no_reference_types vm m oop \<longleftrightarrow>
     (case object_kind C vm m oop of
        None \<Rightarrow> False
      | Some k \<Rightarrow> k = InstanceRef \<longrightarrow> no_reference_types \<or> object_reference_type C vm m oop \<notin> {None, Some RefNone})"

definition new_candidates :: "bool \<Rightarrow> vm_layout \<Rightarrow> mem \<Rightarrow> bool \<Rightarrow> addr \<Rightarrow> candidates \<Rightarrow> candidates" where
  "new_candidates C vm m no_reference_types oop c =
     (if object_kind C vm m oop = Some InstanceRef \<and> \<not> no_reference_types then
        (case object_reference_type C vm m oop of
           Some RefWeak \<Rightarrow> add_weak_candidate oop c
         | Some RefSoft \<Rightarrow> add_soft_candidate oop c
         | Some RefPhantom \<Rightarrow> add_phantom_candidate oop c
         | _ \<Rightarrow> c)
      else c)"

section \<open>Lemmas\<close>

lemma push_bit_index: "push_bit (if C then 2 else 3) (of_nat i) = of_nat i * BYTES_IN_SLOT C"
  by (simp add: BYTES_IN_SLOT_def LOG_BYTES_IN_SLOT_def push_bit_eq_mult)

lemma BYTES_IN_SLOT_cases [simp]: "BYTES_IN_SLOT True = 4" "BYTES_IN_SLOT False = 8"
  by (simp_all add: BYTES_IN_SLOT_def LOG_BYTES_IN_SLOT_def)

lemma oop_map_block_iterate_fold:
  "oop_map_block_iterate C visit oop b =
     fold visit (slot_array C (oop + scast (block_offset b)) (unat (block_count b)))"
  unfolding oop_map_block_iterate_def get_field_address_def slot_array_def fold_map comp_def Let_def push_bit_index ..

lemma fold_concat: "fold (\<lambda>b. fold visit (g b)) bs s = fold visit (concat (map g bs)) s"
  by (induction bs arbitrary: s) simp_all

lemma instance_klass_iterate_fold:
  "instance_klass_iterate f C visit m klass oop = fold visit (mapped_slot_list f C m klass oop)"
  unfolding instance_klass_iterate_def Let_def mapped_slot_list_def fold_concat[symmetric] oop_map_block_iterate_fold ..

lemma instance_mirror_klass_iterate_fold:
  "instance_mirror_klass_iterate f C visit vm m klass oop = fold visit (mapped_slot_list f C m klass oop
     @ slot_array C (start_of_static_fields vm oop) (unat (static_oop_field_count vm m oop)))"
  by (cases C) (simp_all add: instance_mirror_klass_iterate_def instance_klass_iterate_fold Let_def fun_eq_iff
      slot_array_def fold_map comp_def)

lemma obj_array_klass_iterate_fold:
  "obj_array_klass_iterate f C visit m oop = fold visit (array_data f C (BYTES_IN_SLOT C) m oop T_OBJECT)"
  by (cases C) (simp_all add: obj_array_klass_iterate_def fun_eq_iff)

lemma set_mapped_slot_list: "set (mapped_slot_list f C m (oop_klass C vm m oop) oop) = mapped_slots f C vm m oop"
  by (simp add: mapped_slot_list_def mapped_slots_def)

lemma enumerator_eq: "enumerator xs n = Some x \<longleftrightarrow> n < length xs \<and> xs ! n = x"
  by (simp add: enumerator_def)

lemma klass_id_in_range: "0 \<le> sint (w :: 32 word) \<and> sint w < 6 \<longleftrightarrow> unat w < 6"
proof
  assume "unat w < 6"
  then have less: "int (unat w) < 6" by linarith
  then have "- (2 ^ 31) \<le> uint w \<and> uint w < 2 ^ 31" using uint_ge_0[of w] by (simp add: order_trans[of _ 0])
  then have "sint w = int (unat w)" by (simp add: sint_uint signed_take_bit_int_eq_self)
  then show "0 \<le> sint w \<and> sint w < 6" using less by simp
next
  assume a: "0 \<le> sint w \<and> sint w < 6"
  have "uint w = uint (word_of_int (sint w) :: 32 word)" by simp
  also have "\<dots> = sint w mod 2 ^ 32" by (simp only: uint_word_of_int) (simp add: take_bit_eq_mod)
  finally have "uint w = sint w" using a by simp
  then have "int (unat w) < 6" using a by simp
  then show "unat w < 6" by linarith
qed

lemma object_kind_less: "object_kind C vm m oop = Some k \<Longrightarrow> unat (klass_id m (oop_klass C vm m oop)) < 6
    \<and> klass_ids ! unat (klass_id m (oop_klass C vm m oop)) = k"
  by (simp add: object_kind_def enumerator_eq klass_ids_def)

lemma object_kind_None: "object_kind C vm m oop = None \<longleftrightarrow> \<not> unat (klass_id m (oop_klass C vm m oop)) < 6"
  by (simp add: object_kind_def enumerator_def klass_ids_def)

text \<open>The scan by the kind of the object.\<close>

lemma scan_object_cases:
  "scan_object f C nr visit vm m oop s = (case object_kind C vm m oop of
     None \<Rightarrow> Inl (Invalid_klass_id (klass_id m (oop_klass C vm m oop)))
   | Some InstanceRef \<Rightarrow> instance_ref_klass_iterate f C nr visit vm m (oop_klass C vm m oop) oop s
   | Some TypeArray \<Rightarrow> Inr s
   | Some ObjArray \<Rightarrow> Inr (fold visit (array_data f C (BYTES_IN_SLOT C) m oop T_OBJECT) (fst s), snd s)
   | Some InstanceMirror \<Rightarrow> Inr (fold visit (mapped_slot_list f C m (oop_klass C vm m oop) oop
       @ slot_array C (start_of_static_fields vm oop) (unat (static_oop_field_count vm m oop))) (fst s), snd s)
   | Some _ \<Rightarrow> Inr (fold visit (mapped_slot_list f C m (oop_klass C vm m oop) oop) (fst s), snd s))"
proof (cases "object_kind C vm m oop")
  case None
  then show ?thesis
    using object_kind_None[of C vm m oop] by (simp add: scan_object_def oop_iterate_def Let_def klass_id_in_range)
next
  case (Some k)
  from object_kind_less[OF Some] Some show ?thesis
    by (cases k) (simp_all add: scan_object_def oop_iterate_def Let_def klass_id_in_range instance_klass_iterate_fold
        instance_class_loader_klass_iterate_def instance_mirror_klass_iterate_fold obj_array_klass_iterate_fold)
qed

text \<open>The scan of a reference object by its reference type.\<close>

lemma instance_ref_cases:
  fixes oop C vm m
  defines "klass \<equiv> oop_klass C vm m oop" and "t \<equiv> object_reference_type C vm m oop"
  assumes "nr \<or> t \<notin> {None, Some RefNone}" and "object_kind C vm m oop = Some InstanceRef"
  shows "instance_ref_klass_iterate f C nr visit vm m klass oop s = Inr
    (fold visit (mapped_slot_list f C m klass oop @ [discovered_address vm oop]
       @ (if strong_referent nr t then [referent_address vm oop] else [])) (fst s),
     new_candidates C vm m nr oop (snd s))"
  using assms
  by (auto simp: instance_ref_klass_iterate_def Let_def instance_klass_iterate_fold should_scan_weak_refs_def
      process_ref_as_strong_def strong_referent_def new_candidates_def object_reference_type_def
      split: option.splits ReferenceType.splits)

section \<open>Properties\<close>

text \<open>
  A weak reference at \<open>0x1000\<close> whose class at \<open>0x2000\<close> has one block in its reference map, two slots at offset 24; the referent is
  at offset 16 and \<^verbatim>\<open>discovered\<close> at offset 40. An array of three references is at \<open>0x3000\<close>, its class at \<open>0x4000\<close>.
\<close>

definition demo_vm :: vm_layout where
  "demo_vm = \<lparr>COMPRESSED_KLASS_BASE = 0, COMPRESSED_KLASS_SHIFT = 0, offset_of_static_fields = 96,
     static_oop_field_count_offset = 88, referent_offset = 16, discovered_offset = 40\<rparr>"

definition demo_mem :: mem where
  "demo_mem = (\<lambda>_. 0)(0x1009 := 0x20, 0x200C := 1, 0x218B := 3, 0x2130 := 1, 0x21D0 := 24, 0x21D4 := 2,
     0x3009 := 0x40, 0x3010 := 3, 0x4008 := 3, 0x400A := 24, 0x400B := 0x80, 0x400C := 5)"

lemmas demo_reads = oop_klass_def klass_id_def layout_helper_def field_addr_def load32_def load64_def demo_mem_def demo_vm_def

lemma demo_array:
  "oop_klass False demo_vm demo_mem 0x3000 = 0x4000" "layout_helper demo_mem 0x4000 = 0x80180003"
  "array_length False demo_mem 0x3000 = 3"
  by (simp_all add: demo_reads array_length_def length_offset_eq)

lemmas layout_helper_eval = layout_helper_log2_element_size_def layout_helper_header_size_def
  LH_LOG2_ELEMENT_SIZE_SHIFT_def LH_LOG2_ELEMENT_SIZE_MASK_def LH_HEADER_SIZE_SHIFT_def LH_HEADER_SIZE_MASK_def
  BITS_IN_LONG_def LOG_BITS_IN_LONG_def LOG_BYTES_IN_LONG_def LOG_BYTES_IN_SLOT_def

lemma scan_object_feeds:
  assumes "object_kind C vm m oop = Some k" and "scannable C nr vm m oop"
  shows "\<exists>slots. set slots = reference_slots f C nr vm m oop k
    \<and> scan_object f C nr visit vm m oop s = Inr (fold visit slots (fst s), new_candidates C vm m nr oop (snd s))"
proof (cases "k = InstanceRef")
  case True
  then have "nr \<or> object_reference_type C vm m oop \<notin> {None, Some RefNone}"
    using assms by (simp add: scannable_def)
  note r = instance_ref_cases[OF this assms(1)[unfolded True], of f visit s]
  let ?slots = "mapped_slot_list f C m (oop_klass C vm m oop) oop @ [discovered_address vm oop]
    @ (if strong_referent nr (object_reference_type C vm m oop) then [referent_address vm oop] else [])"
  have "scan_object f C nr visit vm m oop s = Inr (fold visit ?slots (fst s), new_candidates C vm m nr oop (snd s))"
    unfolding scan_object_cases assms(1) True using r by simp
  moreover have "set ?slots = reference_slots f C nr vm m oop k"
    by (auto simp: True reference_slots_def set_mapped_slot_list)
  ultimately show ?thesis by blast
next
  case False
  then have c: "new_candidates C vm m nr oop (snd s) = snd s" using assms(1) by (simp add: new_candidates_def)
  let ?maps = "mapped_slot_list f C m (oop_klass C vm m oop) oop"
  let ?slots = "case k of TypeArray \<Rightarrow> [] | ObjArray \<Rightarrow> array_data f C (BYTES_IN_SLOT C) m oop T_OBJECT
    | InstanceMirror \<Rightarrow> ?maps @ slot_array C (start_of_static_fields vm oop) (unat (static_oop_field_count vm m oop))
    | _ \<Rightarrow> ?maps"
  show ?thesis
    using False assms(1) unfolding scan_object_cases c
    by (intro exI[of _ ?slots])
      (auto simp: reference_slots_def set_mapped_slot_list array_data_slot_array split: KlassID.splits)
qed

text \<open>
  C8. Scanning visits exactly the reference slots of the object. For every object that can be scanned and every visitor
  the scan returns; it feeds the visitor the slots of the class's reference map, for a mirror also the static fields, for
  an array of references every element, for a reference object the \<^verbatim>\<open>discovered\<close> field and, only if the referent is to be
  followed, the referent, and nothing else. It adds the object to the one candidate list that its reference type
  names, and to none if it is not a soft, weak or phantom reference.
\<close>
theorem scan_object_visits_reference_slots:
  assumes "object_kind C vm m oop = Some k" and "scannable C nr vm m oop"
  shows "\<exists>slots. set slots = reference_slots f C nr vm m oop k
    \<and> scan_object f C nr visit vm m oop s = Inr (fold visit slots (fst s), new_candidates C vm m nr oop (snd s))"
  by (rule scan_object_feeds[OF assms])

theorem scan_object_visits_reference_slots_witness:
  "\<exists>slots. set slots = {0x1018, 0x1020, 0x1028}
    \<and> scan_object word_align_up False False (\<lambda>a xs. xs @ [a]) demo_vm demo_mem 0x1000
        ([], \<lparr>weak_candidates = [], soft_candidates = [], phantom_candidates = []\<rparr>)
      = Inr (slots, \<lparr>weak_candidates = [0x1000], soft_candidates = [], phantom_candidates = []\<rparr>)"
proof -
  have klass: "oop_klass False demo_vm demo_mem 0x1000 = 0x2000" by (simp add: demo_reads)
  have k: "object_kind False demo_vm demo_mem 0x1000 = Some InstanceRef"
    by (simp add: object_kind_def klass) (simp add: demo_reads enumerator_def klass_ids_def)
  have t: "object_reference_type False demo_vm demo_mem 0x1000 = Some RefWeak"
    by (simp add: object_reference_type_def klass) (simp add: reference_type_def demo_reads enumerator_def reference_types_def)
  have maps: "nonstatic_oop_maps word_align_up demo_mem 0x2000 = [\<lparr>block_offset = 24, block_count = 2\<rparr>]"
    by (simp add: nonstatic_oop_maps_def nonstatic_oop_map_count_def start_of_itable_def start_of_vtable_def VTABLE_START_OFFSET_def
        HEADER_SIZE_def oop_map_at_def BYTES_IN_WORD_def LOG_BYTES_IN_WORD_def word_align_up_def demo_reads)
  have a: "slot_array False 0x1018 2 = [0x1018, 0x1020]" by (simp add: slot_array_def upt_rec)
  have "reference_slots word_align_up False False demo_vm demo_mem 0x1000 InstanceRef = {0x1018, 0x1020, 0x1028}"
    using a by (simp add: reference_slots_def mapped_slots_def klass maps t strong_referent_def discovered_address_def
        get_field_address_def) (auto simp: demo_vm_def)
  moreover have "scannable False False demo_vm demo_mem 0x1000" by (simp add: scannable_def k t)
  moreover have "fold (\<lambda>a xs. xs @ [a]) slots [] = slots" for slots :: "addr list"
    by (induction slots rule: rev_induct) simp_all
  ultimately show ?thesis
    using scan_object_visits_reference_slots[OF k, of False word_align_up "\<lambda>a xs. xs @ [a]"
      "([], \<lparr>weak_candidates = [], soft_candidates = [], phantom_candidates = []\<rparr>)"]
    by (simp add: new_candidates_def k t add_weak_candidate_def)
qed

text \<open>
  The scan is defined exactly on the objects it is meant for: it returns if and only if the class id is that of one of the six
  kinds of classes and, for a reference object while weak references are scanned, the class has a reference type other than
  \<^verbatim>\<open>None\<close>. In every other case it stops with the assertion on the class id (which it prints), the panic, or no defined
  behaviour, in this order.
\<close>
lemma scan_object_defined_iff:
  "(\<exists>r. scan_object f C nr visit vm m oop s = Inr r) = scannable C nr vm m oop
   \<and> (scan_object f C nr visit vm m oop s = Inl (Invalid_klass_id (klass_id m (oop_klass C vm m oop)))) =
       (object_kind C vm m oop = None)
   \<and> (scan_object f C nr visit vm m oop s = Inl Reference_type_is_None) =
       (object_kind C vm m oop = Some InstanceRef \<and> \<not> nr \<and> object_reference_type C vm m oop = Some RefNone)"
proof (cases "object_kind C vm m oop = Some InstanceRef")
  case True
  then show ?thesis unfolding scan_object_cases
    by (auto simp: scannable_def object_reference_type_def instance_ref_klass_iterate_def should_scan_weak_refs_def Let_def
        split: option.splits ReferenceType.splits)
next
  case False
  then show ?thesis unfolding scan_object_cases by (auto simp: scannable_def split: option.splits KlassID.splits)
qed

text \<open>
  C32. The scan of an array of references stays inside the array: if the class has the layout helper of an array of
  references, the slots visited by the scan, those that iterate \<^verbatim>\<open>ArrayOopDesc::slice\<close>, and the elements of the array are the
  same list; each slot lies behind the header and ends no later than the size that \<^verbatim>\<open>OopDesc::size\<close> computes from the layout
  helper, and that size exceeds the last slot by less than a word.
\<close>
theorem obj_array_scan_within_object:
  fixes C vm m oop f oop_size
  defines "n \<equiv> unat (scast (array_length C m oop) :: size_t)"
    and "bytes \<equiv> unat (object_size oop_size C vm m oop)"
    and "header \<equiv> (if C then 16 else 24 :: nat)"
    and "slots \<equiv> slot_array C (array_base f C oop T_OBJECT) (unat (scast (array_length C m oop) :: size_t))"
  assumes "aligns_up f" and "object_kind C vm m oop = Some ObjArray"
    and "obj_array_layout_helper C (layout_helper m (oop_klass C vm m oop))"
    and "unat oop + 32 + n * 2 ^ LOG_BYTES_IN_SLOT C < 2 ^ 64"
  shows "scan_object f C nr visit vm m oop s = Inr (fold visit slots (fst s), snd s)
    \<and> slots_of_range C (array_slice f C m oop T_OBJECT) = Some slots
    \<and> (\<forall>a\<in>set slots. unat oop + header \<le> unat a \<and> unat a + 2 ^ LOG_BYTES_IN_SLOT C \<le> unat oop + bytes)
    \<and> bytes < header + n * 2 ^ LOG_BYTES_IN_SLOT C + 8"
proof -
  have base: "unat (array_base f C oop T_OBJECT) = unat oop + header"
    using assms(8) unfolding array_base_T_OBJECT[OF assms(5)] header_def by (cases C) (simp_all add: unat_word_ariths)
  then have fits: "unat (array_base f C oop T_OBJECT) + n * 2 ^ LOG_BYTES_IN_SLOT C < 2 ^ 64"
    using assms(8) unfolding header_def by (simp split: if_splits)
  have slots: "slots = array_data f C (BYTES_IN_SLOT C) m oop T_OBJECT"
    unfolding slots_def array_data_slot_array ..
  have "bytes = align_up (header + n * 2 ^ LOG_BYTES_IN_SLOT C) 8"
    unfolding bytes_def header_def n_def by (rule object_size_array) (use assms(7,8) in \<open>simp_all add: n_def\<close>)
  then have bytes: "header + n * 2 ^ LOG_BYTES_IN_SLOT C \<le> bytes" "bytes < header + n * 2 ^ LOG_BYTES_IN_SLOT C + 8"
    using align_up_bounds[of 8] by simp_all
  have "unat oop + header \<le> unat a \<and> unat a + 2 ^ LOG_BYTES_IN_SLOT C \<le> unat oop + bytes" if "a \<in> set slots" for a
    using slot_array_bounds[OF fits, of a] that bytes(1) base by (simp add: slots_def n_def)
  moreover have "slots_of_range C (array_slice f C m oop T_OBJECT) = Some slots"
    unfolding slots by (rule array_slice_data) (use fits in \<open>simp add: n_def\<close>)
  moreover have "scan_object f C nr visit vm m oop s = Inr (fold visit slots (fst s), snd s)"
    unfolding scan_object_cases assms(6) slots by simp
  ultimately show ?thesis using bytes(2) by simp
qed

theorem obj_array_scan_within_object_witness:
  "unat (object_size (\<lambda>_ _. 0) False demo_vm demo_mem 0x3000) < 24 + 3 * 8 + 8
   \<and> slots_of_range False (array_slice word_align_up False demo_mem 0x3000 T_OBJECT) = Some [0x3018, 0x3020, 0x3028]"
proof -
  have k: "object_kind False demo_vm demo_mem 0x3000 = Some ObjArray"
    by (simp add: object_kind_def demo_array) (simp add: demo_reads enumerator_def klass_ids_def)
  have lh: "obj_array_layout_helper False (layout_helper demo_mem (oop_klass False demo_vm demo_mem 0x3000))"
    by (simp add: demo_array obj_array_layout_helper_def layout_helper_eval)
  have b: "array_base word_align_up False 0x3000 T_OBJECT = 0x3018"
    by (simp add: array_base_T_OBJECT[OF word_align_up_aligns])
  have a: "slot_array False 0x3018 3 = [0x3018, 0x3020, 0x3028]" by (simp add: slot_array_def upt_rec)
  show ?thesis
    using obj_array_scan_within_object[OF word_align_up_aligns k lh, where oop_size = "\<lambda>_ _. 0" and nr = False
        and visit = "\<lambda>a (x :: unit). x"]
    by (simp add: demo_array b a LOG_BYTES_IN_SLOT_def)
qed

end
