(* ===== verification/Object_Model.thy ===== *)
theory Object_Model
  imports Object_Scanning Roots_Closure
begin

text \<open>
  Moving objects and reading references through the VM interface: \<^verbatim>\<open>mmtk/src/object_model.rs\<close>,
  \<^verbatim>\<open>mmtk/src/reference_glue.rs\<close>, and the upcall \<^verbatim>\<open>mmtk_scan_object\<close> with its closure
  (\<^verbatim>\<open>openjdk/mmtkUpcalls.cpp\<close>, \<^verbatim>\<open>openjdk/mmtkRootsClosure.hpp\<close>).

  The copy allocator (\<^verbatim>\<open>alloc_copy\<close>, \<^verbatim>\<open>post_copy\<close>) and \<^verbatim>\<open>fill_alignment_gap\<close> belong to mmtk-core and are parameters; of the latter
  the code relies on that it writes to the gap only (\<open>fills_gap\<close>).
\<close>

section \<open>Copying\<close>

text \<open>The bytes written by \<^verbatim>\<open>ptr::copy_nonoverlapping\<close>; on overlapping blocks its behaviour is undefined.\<close>

definition overlapping :: "addr \<Rightarrow> addr \<Rightarrow> nat \<Rightarrow> bool" where
  "overlapping src dst n \<longleftrightarrow> unat (src - dst) < n \<or> unat (dst - src) < n"

definition copy_nonoverlapping :: "mem \<Rightarrow> addr \<Rightarrow> addr \<Rightarrow> nat \<Rightarrow> mem" where
  "copy_nonoverlapping m src dst n = (\<lambda>a. if unat (a - dst) < n then m (src + (a - dst)) else m a)"

definition get_current_size :: "(mem \<Rightarrow> addr \<Rightarrow> 32 word) \<Rightarrow> bool \<Rightarrow> vm_layout \<Rightarrow> mem \<Rightarrow> addr \<Rightarrow> size_t" where
  "get_current_size oop_size COMPRESSED vm m obj = object_size oop_size COMPRESSED vm m obj"

text \<open>\<open>None\<close> is a copy with undefined behaviour.\<close>

definition object_copy ::
    "(addr \<Rightarrow> size_t \<Rightarrow> size_t \<Rightarrow> size_t \<Rightarrow> 'sem \<Rightarrow> 'ctx \<Rightarrow> addr \<times> 'ctx) \<Rightarrow> (addr \<Rightarrow> size_t \<Rightarrow> 'sem \<Rightarrow> 'ctx \<Rightarrow> 'ctx)
       \<Rightarrow> (mem \<Rightarrow> addr \<Rightarrow> 32 word) \<Rightarrow> bool \<Rightarrow> vm_layout \<Rightarrow> mem \<Rightarrow> addr \<Rightarrow> 'sem \<Rightarrow> 'ctx \<Rightarrow> (addr \<times> mem \<times> 'ctx) option" where
  "object_copy alloc_copy post_copy oop_size COMPRESSED vm m from sem copy_context =
     (let bytes = object_size oop_size COMPRESSED vm m from;
          (dst, copy_context1) = alloc_copy from bytes 8 0 sem copy_context
      in if overlapping from dst (unat bytes) then None
         else Some (dst, copy_nonoverlapping m from dst (unat bytes), post_copy dst bytes sem copy_context1))"

text \<open>The loop of \<^verbatim>\<open>copy_to\<close>, one byte after the other at ascending addresses.\<close>

definition copy_ascending :: "mem \<Rightarrow> addr \<Rightarrow> addr \<Rightarrow> nat \<Rightarrow> mem" where
  "copy_ascending m src dst n = fold (\<lambda>i m1. m1(dst + of_nat i := m1 (src + of_nat i))) [0..<n] m"

definition ref_to_object_start :: "addr \<Rightarrow> addr" where
  "ref_to_object_start obj = obj"

definition ref_to_header :: "addr \<Rightarrow> addr" where
  "ref_to_header obj = obj"

definition copy_to ::
    "(mem \<Rightarrow> addr \<Rightarrow> addr \<Rightarrow> mem) \<Rightarrow> (mem \<Rightarrow> addr \<Rightarrow> 32 word) \<Rightarrow> bool \<Rightarrow> vm_layout \<Rightarrow> mem \<Rightarrow> addr \<Rightarrow> addr \<Rightarrow> addr \<Rightarrow> mem \<times> addr" where
  "copy_to fill_alignment_gap oop_size COMPRESSED vm m from to region =
     (let need_copy = (from \<noteq> to);
          bytes = object_size oop_size COMPRESSED vm m from;
          m1 = (if need_copy then copy_ascending m from to (unat bytes) else m);
          start = ref_to_object_start to;
          m2 = (if region \<noteq> NULL then fill_alignment_gap m1 region start else m1)
      in (m2, start + bytes))"

definition get_reference_when_copied_to :: "addr \<Rightarrow> addr \<Rightarrow> addr" where
  "get_reference_when_copied_to from to = to"

definition get_size_when_copied :: "(mem \<Rightarrow> addr \<Rightarrow> 32 word) \<Rightarrow> bool \<Rightarrow> vm_layout \<Rightarrow> mem \<Rightarrow> addr \<Rightarrow> size_t" where
  "get_size_when_copied oop_size COMPRESSED vm m obj = get_current_size oop_size COMPRESSED vm m obj"

definition get_align_when_copied :: "addr \<Rightarrow> size_t" where
  "get_align_when_copied obj = 8"

definition get_align_offset_when_copied :: "addr \<Rightarrow> size_t" where
  "get_align_offset_when_copied obj = 0"

definition is_object_sane :: "bool \<Rightarrow> vm_layout \<Rightarrow> mem \<Rightarrow> addr \<Rightarrow> bool" where
  "is_object_sane COMPRESSED vm m obj \<longleftrightarrow>
     (let id = klass_id m (oop_klass COMPRESSED vm m obj) in 0 \<le> sint id \<and> sint id < 6)"

section \<open>Referents\<close>

definition set_referent :: "bool \<Rightarrow> compressed_oops \<Rightarrow> vm_layout \<Rightarrow> mem \<Rightarrow> addr \<Rightarrow> addr \<Rightarrow> mem" where
  "set_referent COMPRESSED c vm m reff referent = slot_store COMPRESSED c m (referent_address vm reff) referent"

definition get_referent :: "(addr \<Rightarrow> addr option) \<Rightarrow> bool \<Rightarrow> compressed_oops \<Rightarrow> vm_layout \<Rightarrow> mem \<Rightarrow> addr \<Rightarrow> addr option" where
  "get_referent from_raw_address COMPRESSED c vm m obj =
     slot_load from_raw_address COMPRESSED c m (referent_address vm obj)"

definition clear_referent :: "bool \<Rightarrow> vm_layout \<Rightarrow> mem \<Rightarrow> addr \<Rightarrow> mem" where
  "clear_referent COMPRESSED vm m new_reference = store_null COMPRESSED m (referent_address vm new_reference)"

section \<open>The scanning upcall\<close>

text \<open>
  \<^verbatim>\<open>MMTkScanObjectClosure::do_oop_work\<close> tags the address of an uncompressed field in a local variable and returns: it has the
  closure \<open>trace\<close> but does not call it. The list is what HotSpot's \<^verbatim>\<open>oop_iterate\<close> feeds the closure: the address of each field and
  whether it is narrow.
\<close>

definition scan_object_do_oop_work ::
    "bool \<Rightarrow> (addr \<Rightarrow> 'v \<Rightarrow> 'v) \<Rightarrow> addr \<Rightarrow> bool \<Rightarrow> 'v \<Rightarrow> 'v result" where
  "scan_object_do_oop_work UseCompressedOops trace p narrow v =
     (if UseCompressedOops \<and> \<not> narrow then
        if p AND push_bit 63 1 = 0 then (let p1 = p OR push_bit 63 1 in Inr v)
        else Inl (Guarantee_failed ''test'')
      else Inr v)"

fun mmtk_scan_object :: "bool \<Rightarrow> (addr \<Rightarrow> 'v \<Rightarrow> 'v) \<Rightarrow> (addr \<times> bool) list \<Rightarrow> 'v \<Rightarrow> 'v result" where
  "mmtk_scan_object UseCompressedOops trace [] v = Inr v"
| "mmtk_scan_object UseCompressedOops trace ((p, narrow) # rest) v =
     (case scan_object_do_oop_work UseCompressedOops trace p narrow v of
        Inl e \<Rightarrow> Inl e
      | Inr v1 \<Rightarrow> mmtk_scan_object UseCompressedOops trace rest v1)"

section \<open>What is assumed of mmtk-core\<close>

definition fills_gap :: "(mem \<Rightarrow> addr \<Rightarrow> addr \<Rightarrow> mem) \<Rightarrow> bool" where
  "fills_gap fill \<longleftrightarrow> (\<forall>m region start a. region \<le> start \<and> \<not> (region \<le> a \<and> a < start) \<longrightarrow> fill m region start a = m a)"

section \<open>Moves\<close>

text \<open>Blocks that an ascending loop copies correctly: both fit in memory, and the copy goes down or does not overlap.\<close>

definition slides :: "addr \<Rightarrow> addr \<Rightarrow> nat \<Rightarrow> bool" where
  "slides src dst n \<longleftrightarrow> unat src + n < 2 ^ 64 \<and> unat dst + n < 2 ^ 64 \<and> (dst \<le> src \<or> unat src + n \<le> unat dst)"

definition disjoint_blocks :: "addr \<Rightarrow> addr \<Rightarrow> nat \<Rightarrow> bool" where
  "disjoint_blocks src dst n \<longleftrightarrow> \<not> overlapping src dst n \<and> n < 2 ^ 64"

text \<open>The two steps of \<^verbatim>\<open>copy_to\<close> that write memory.\<close>

definition move_and_fill :: "(mem \<Rightarrow> addr \<Rightarrow> addr \<Rightarrow> mem) \<Rightarrow> addr \<Rightarrow> mem \<Rightarrow> addr \<Rightarrow> addr \<Rightarrow> nat \<Rightarrow> mem" where
  "move_and_fill fill region m src dst n =
     (let m1 = (if src \<noteq> dst then copy_ascending m src dst n else m) in if region \<noteq> NULL then fill m1 region dst else m1)"

definition slides_behind :: "(mem \<Rightarrow> addr \<Rightarrow> addr \<Rightarrow> mem) \<Rightarrow> addr \<Rightarrow> addr \<Rightarrow> addr \<Rightarrow> nat \<Rightarrow> bool" where
  "slides_behind fill region src dst n \<longleftrightarrow> slides src dst n \<and> fills_gap fill \<and> region \<le> dst"

text \<open>
  The contract of a move: the destination holds what the source held. That the object keeps its class and its array
  length follows from the contract alone; that it keeps its size follows if nothing but the destination is written.
\<close>

locale object_mover =
  fixes allowed :: "addr \<Rightarrow> addr \<Rightarrow> nat \<Rightarrow> bool"
    and move :: "mem \<Rightarrow> addr \<Rightarrow> addr \<Rightarrow> nat \<Rightarrow> mem"
  assumes moved: "allowed src dst n \<Longrightarrow> i < n \<Longrightarrow> move m src dst n (dst + of_nat i) = m (src + of_nat i)"
begin

lemma load32_moved:
  assumes "allowed src dst n" and "k + 4 \<le> n"
  shows "load32 (move m src dst n) (dst + of_nat k) = load32 m (src + of_nat k)"
proof -
  have "move m src dst n (dst + of_nat k + of_nat i) = m (src + of_nat k + of_nat i)" if "i < 4" for i
    using moved[OF assms(1), of "k + i"] that assms(2) by (simp add: add.assoc)
  from this[of 0] this[of 1] this[of 2] this[of 3] show ?thesis by (simp add: load32_def)
qed

lemma load64_moved:
  assumes "allowed src dst n" and "k + 8 \<le> n"
  shows "load64 (move m src dst n) (dst + of_nat k) = load64 m (src + of_nat k)"
  using load32_moved[OF assms(1), of k m] load32_moved[OF assms(1), of "k + 4" m] assms(2)
  by (simp add: load64_def add.assoc)

lemma klass_moved:
  assumes "allowed src dst n" and "16 \<le> n"
  shows "oop_klass C vm (move m src dst n) dst = oop_klass C vm m src"
  using load32_moved[OF assms(1), of 8 m] load64_moved[OF assms(1), of 8 m] assms(2)
  by (simp add: oop_klass_def field_addr_def)

lemma length_moved:
  assumes "allowed src dst n" and "20 \<le> n"
  shows "array_length C (move m src dst n) dst = array_length C m src"
  using load32_moved[OF assms(1), of 12 m] load32_moved[OF assms(1), of 16 m] assms(2)
  by (simp add: array_length_def length_offset_eq)

end

locale framed_mover = object_mover +
  assumes frame: "allowed src dst n \<Longrightarrow> n \<le> unat (a - dst) \<Longrightarrow> move m src dst n a = m a"
begin

lemma layout_helper_kept:
  assumes "allowed src dst n" and "\<And>i. i \<in> {8, 9, 10, 11} \<Longrightarrow> n \<le> unat (klass + i - dst)"
  shows "layout_helper (move m src dst n) klass = layout_helper m klass"
  using assms(2)[of 8] assms(2)[of 9] assms(2)[of 10] assms(2)[of 11] frame[OF assms(1)]
  by (simp add: layout_helper_def field_addr_def load32_def add.assoc)

lemma size_moved:
  assumes "allowed src dst n" and "20 \<le> n"
    and "\<And>i. i \<in> {8, 9, 10, 11} \<Longrightarrow> n \<le> unat (oop_klass C vm m src + i - dst)"
    and "layout_helper m (oop_klass C vm m src) \<noteq> 0"
    and "\<not> layout_helper_needs_slow_path (layout_helper m (oop_klass C vm m src))
      \<or> sint (layout_helper m (oop_klass C vm m src)) < 0"
  shows "object_size oop_size C vm (move m src dst n) dst = object_size oop_size C vm m src"
proof -
  have "16 \<le> n" using assms(2) by simp
  note k = klass_moved[OF assms(1) this, of C vm m]
  note h = layout_helper_kept[OF assms(1,3), of m, simplified]
  have "sint (layout_helper m (oop_klass C vm m src)) \<noteq> 0" using assms(4) by (simp add: signed_eq_0_iff)
  then show ?thesis
    unfolding object_size_def Let_def k h length_moved[OF assms(1,2)] using assms(5)
    by (auto simp: LH_NEUTRAL_VALUE_def)
qed

end

lemma copy_ascending_Suc:
  "copy_ascending m src dst (Suc n)
     = (copy_ascending m src dst n)(dst + of_nat n := copy_ascending m src dst n (src + of_nat n))"
  by (simp add: copy_ascending_def)

text \<open>Where the loop stands after \<open>k\<close> bytes: they are in place, and all other bytes are as they were.\<close>

lemma copy_ascending_progress:
  assumes "slides src dst n" and "k \<le> n"
  shows "(\<forall>i<k. copy_ascending m src dst k (dst + of_nat i) = m (src + of_nat i))
    \<and> (\<forall>a. k \<le> unat (a - dst) \<longrightarrow> copy_ascending m src dst k a = m a)"
  using assms(2)
proof (induction k)
  case 0
  then show ?case by (simp add: copy_ascending_def)
next
  case (Suc k)
  let ?mk = "copy_ascending m src dst k"
  have fits: "unat src + n < 2 ^ 64" "unat dst + n < 2 ^ 64" "dst \<le> src \<or> unat src + n \<le> unat dst" and k: "k < n"
    using assms(1) Suc.prems by (simp_all add: slides_def)
  have inj: "of_nat i \<noteq> (of_nat k :: addr)" if "i < k" for i
    using that k fits by (auto simp: word_unat_eq_iff unsigned_of_nat take_bit_nat_eq_self)
  have "k \<le> unat (src + of_nat k - dst)"
  proof -
    have sk: "unat (src + of_nat k) = unat src + k"
      using k fits by (simp add: unat_word_ariths unsigned_of_nat take_bit_nat_eq_self)
    show ?thesis
    proof (cases "dst \<le> src + of_nat k")
      case True
      then have "unat (src + of_nat k - dst) = unat src + k - unat dst" using sk by (simp add: unat_sub)
      moreover have "unat dst \<le> unat src" using fits(3) True sk k by (auto simp: word_le_nat_alt)
      ultimately show ?thesis by simp
    next
      case False
      then have "unat (src + of_nat k - dst) = unat src + k + 2 ^ 64 - unat dst"
        using sk unat_sub_if'[of "src + of_nat k" dst] by (simp add: word_le_nat_alt)
      then show ?thesis using fits by linarith
    qed
  qed
  then have "?mk (src + of_nat k) = m (src + of_nat k)" using Suc by simp
  moreover have "a \<noteq> dst + of_nat k" if "Suc k \<le> unat (a - dst)" for a
    using that k fits by (auto simp: unsigned_of_nat take_bit_nat_eq_self)
  ultimately show ?case using Suc inj by (auto simp: copy_ascending_Suc less_Suc_eq)
qed

interpretation ascending: framed_mover slides copy_ascending
proof
  fix src dst n i m a
  assume s: "slides src dst n"
  note p = copy_ascending_progress[OF s order.refl, of m]
  show "i < n \<Longrightarrow> copy_ascending m src dst n (dst + of_nat i) = m (src + of_nat i)" using p by simp
  show "n \<le> unat (a - dst) \<Longrightarrow> copy_ascending m src dst n a = m a" using p by simp
qed

definition below_memory_size :: "addr \<Rightarrow> addr \<Rightarrow> nat \<Rightarrow> bool" where
  "below_memory_size src dst n \<longleftrightarrow> n < 2 ^ 64"

interpretation raw_copy: framed_mover below_memory_size ptr_copy
  by unfold_locales (simp_all add: below_memory_size_def ptr_copy_def unsigned_of_nat take_bit_nat_eq_self)

text \<open>Copying a range of compressed slots, overlapping or not, makes every target slot hold what its source slot held.\<close>

lemma slot_range_copy_slots:
  assumes "i < unat count" and "unat count * 4 < 2 ^ 64"
  shows "load32 (slot_range_copy core_copy True m (fst (array_copy_ranges True src dst count)) (snd (array_copy_ranges True src dst count)))
      (dst + of_nat (4 * i)) = load32 m (src + of_nat (4 * i))"
proof -
  have b: "unat (push_bit 2 count) = unat count * 4" using push_bit_count[of count 2] assms(2) by simp
  then have "unat (drop_bit 2 (push_bit 2 count)) = unat count" by (simp add: unat_drop_bit_64)
  then have "slot_range_copy core_copy True m (fst (array_copy_ranges True src dst count)) (snd (array_copy_ranges True src dst count))
      = ptr_copy m src dst (4 * unat count)"
    by (simp add: slot_range_copy_def array_copy_ranges_def range_from_def range_bytes_def LOG_BYTES_IN_SLOT_def Let_def)
  then show ?thesis
    using raw_copy.load32_moved[of src dst "4 * unat count" "4 * i" m] assms by (simp add: below_memory_size_def)
qed

interpretation block_copy: framed_mover disjoint_blocks copy_nonoverlapping
proof
  fix src dst n i m a
  assume "disjoint_blocks src dst n"
  then have n: "n < 2 ^ 64" by (simp add: disjoint_blocks_def)
  show "copy_nonoverlapping m src dst n (dst + of_nat i) = m (src + of_nat i)" if "i < n"
    using that n by (simp add: copy_nonoverlapping_def unsigned_of_nat take_bit_nat_eq_self)
  show "n \<le> unat (a - dst) \<Longrightarrow> copy_nonoverlapping m src dst n a = m a"
    by (simp add: copy_nonoverlapping_def)
qed

lemma move_and_fill_unchanged:
  assumes "fills_gap fill" and "region \<le> dst" and "region = NULL \<or> a < region \<or> dst \<le> a"
  shows "move_and_fill fill region m src dst n a = (if src \<noteq> dst then copy_ascending m src dst n a else m a)"
  using assms unfolding fills_gap_def move_and_fill_def Let_def by (auto simp: not_le not_less)

interpretation sliding: object_mover "slides_behind fill region" "move_and_fill fill region" for fill region
proof
  fix src dst n i m
  assume a: "slides_behind fill region src dst n" and i: "i < n"
  then have fits: "unat dst + n < 2 ^ 64" by (simp add: slides_behind_def slides_def)
  have "unat (dst + of_nat i) = unat dst + i"
    using fits i by (simp add: unat_word_ariths unsigned_of_nat take_bit_nat_eq_self)
  then have "dst \<le> dst + of_nat i" by (simp add: word_le_nat_alt)
  then have "move_and_fill fill region m src dst n (dst + of_nat i)
      = (if src \<noteq> dst then copy_ascending m src dst n (dst + of_nat i) else m (dst + of_nat i))"
    using a by (intro move_and_fill_unchanged) (simp_all add: slides_behind_def)
  then show "move_and_fill fill region m src dst n (dst + of_nat i) = m (src + of_nat i)"
    using ascending.moved[of src dst n i m] a i by (simp add: slides_behind_def)
qed

lemma copy_to_move_and_fill:
  "copy_to fill oop_size C vm m from to region = (move_and_fill fill region m from to (unat (object_size oop_size C vm m from)),
     to + object_size oop_size C vm m from)"
  by (simp add: copy_to_def move_and_fill_def ref_to_object_start_def Let_def)

section \<open>Properties\<close>

text \<open>
  C18. \<^verbatim>\<open>copy_to\<close> moves an object. If the object slides to lower addresses, even onto itself, or to a place that it does not overlap, every
  byte of it arrives although the loop copies within one memory, the object keeps its class, the returned address is the end
  of the object, and the only other bytes that change are those of the alignment gap in front of it.
\<close>
theorem copy_to_moves_object:
  assumes "fills_gap fill" and "region \<le> to" and "slides from to (unat (object_size oop_size C vm m from))"
    and "copy_to fill oop_size C vm m from to region = (m1, e)"
  shows "e = to + object_size oop_size C vm m from
    \<and> (\<forall>i < unat (object_size oop_size C vm m from). m1 (to + of_nat i) = m (from + of_nat i))
    \<and> (16 \<le> unat (object_size oop_size C vm m from) \<longrightarrow> oop_klass C vm m1 to = oop_klass C vm m from)
    \<and> (\<forall>a. unat (object_size oop_size C vm m from) \<le> unat (a - to) \<and> (region = NULL \<or> a < region \<or> to \<le> a) \<longrightarrow> m1 a = m a)"
proof -
  let ?n = "unat (object_size oop_size C vm m from)"
  have m1: "m1 = move_and_fill fill region m from to ?n" "e = to + object_size oop_size C vm m from"
    using assms(4) by (simp_all add: copy_to_move_and_fill)
  have ok: "slides_behind fill region from to ?n" using assms(1-3) by (simp add: slides_behind_def)
  have "m1 a = m a" if "?n \<le> unat (a - to)" "region = NULL \<or> a < region \<or> to \<le> a" for a
    using move_and_fill_unchanged[OF assms(1,2) that(2)] ascending.frame[OF assms(3) that(1)] by (simp add: m1)
  then show ?thesis using sliding.moved[OF ok] sliding.klass_moved[OF ok, of C vm m] by (simp add: m1)
qed

text \<open>The array of theory \<open>Object_Scanning\<close> slides 24 bytes down, over itself.\<close>

lemma demo_array_size: "object_size (\<lambda>_ _. 0) False demo_vm demo_mem 0x3000 = 48"
  by (simp add: object_size_def demo_array Let_def LH_NEUTRAL_VALUE_def layout_helper_eval)

definition demo_fill :: "mem \<Rightarrow> addr \<Rightarrow> addr \<Rightarrow> mem" where
  "demo_fill m region start = (\<lambda>a. if region \<le> a \<and> a < start then 0xAB else m a)"

theorem copy_to_moves_object_witness:
  "snd (copy_to demo_fill (\<lambda>_ _. 0) False demo_vm demo_mem 0x3000 0x2FE8 0x2FE0) = 0x3018
   \<and> fst (copy_to demo_fill (\<lambda>_ _. 0) False demo_vm demo_mem 0x3000 0x2FE8 0x2FE0) 0x2FF8 = 3"
proof -
  let ?r = "copy_to demo_fill (\<lambda>_ _. 0) False demo_vm demo_mem 0x3000 0x2FE8 0x2FE0"
  have f: "fills_gap demo_fill" by (auto simp: fills_gap_def demo_fill_def)
  have s: "slides 0x3000 0x2FE8 (unat (object_size (\<lambda>_ _. 0) False demo_vm demo_mem 0x3000))"
    by (simp add: slides_def demo_array_size)
  have r: "snd ?r = 0x3018 \<and> (\<forall>i < 48. fst ?r (0x2FE8 + of_nat i) = demo_mem (0x3000 + of_nat i))"
    using copy_to_moves_object[OF f _ s, of "0x2FE0" "fst ?r" "snd ?r"] by (simp add: demo_array_size)
  then have "fst ?r (0x2FE8 + of_nat 16) = demo_mem (0x3000 + of_nat 16)" by (elim conjE allE[of _ 16] impE) simp_all
  moreover have "demo_mem 0x3010 = 3" by (simp add: demo_mem_def)
  ultimately show ?thesis using r by simp
qed

text \<open>
  \<^verbatim>\<open>copy\<close> makes a copy that is as large as the original: if the allocator of mmtk-core returns a block that does not
  overlap the object, the copy is defined, holds the object's bytes and class, \<^verbatim>\<open>get_current_size\<close> reports the same size for it
  (for every object whose class records its size, arrays included, as long as the class itself is not overwritten), nothing
  else is written, and \<^verbatim>\<open>post_copy\<close> is told the copy and that size.
\<close>
lemma object_copy_same_size:
  fixes m :: mem and obj :: addr and oop_size C vm
  defines "bytes \<equiv> object_size oop_size C vm m obj" and "klass \<equiv> oop_klass C vm m obj"
  assumes "alloc_copy obj bytes 8 0 sem ctx = (dst, ctx1)" and "disjoint_blocks obj dst (unat bytes)"
    and "20 \<le> unat bytes" and "\<forall>i\<in>{8, 9, 10, 11}. unat bytes \<le> unat (klass + i - dst)"
    and "sint (layout_helper m klass) < 0 \<or> layout_helper m klass \<noteq> 0 \<and> \<not> layout_helper_needs_slow_path (layout_helper m klass)"
  shows "\<exists>m1. object_copy alloc_copy post_copy oop_size C vm m obj sem ctx = Some (dst, m1, post_copy dst bytes sem ctx1)
    \<and> get_current_size oop_size C vm m1 dst = bytes \<and> oop_klass C vm m1 dst = klass
    \<and> (\<forall>i < unat bytes. m1 (dst + of_nat i) = m (obj + of_nat i))
    \<and> (\<forall>a. unat bytes \<le> unat (a - dst) \<longrightarrow> m1 a = m a)"
proof -
  let ?m1 = "copy_nonoverlapping m obj dst (unat bytes)"
  have "object_copy alloc_copy post_copy oop_size C vm m obj sem ctx = Some (dst, ?m1, post_copy dst bytes sem ctx1)"
    using assms(3,4) by (simp add: object_copy_def Let_def bytes_def disjoint_blocks_def)
  moreover have "object_size oop_size C vm ?m1 dst = bytes"
    unfolding bytes_def by (rule block_copy.size_moved) (use assms in \<open>auto simp: bytes_def klass_def\<close>)
  moreover have "oop_klass C vm ?m1 dst = klass"
    unfolding klass_def by (rule block_copy.klass_moved) (use assms(4,5) in simp_all)
  ultimately show ?thesis
    using block_copy.moved[OF assms(4)] block_copy.frame[OF assms(4)]
    by (intro exI[of _ ?m1]) (simp add: get_current_size_def)
qed

lemma object_copy_same_size_instance:
  "\<exists>m1. object_copy (\<lambda>_ _ _ _ _ c. (0x5000, c)) (\<lambda>_ n _ c. c + n) (\<lambda>_ _. 0) False demo_vm demo_mem 0x3000 () 100
      = Some (0x5000, m1, 148) \<and> get_current_size (\<lambda>_ _. 0) False demo_vm m1 0x5000 = 48"
proof -
  have d: "disjoint_blocks 0x3000 0x5000 48" by (simp add: disjoint_blocks_def overlapping_def)
  show ?thesis
    using object_copy_same_size[where alloc_copy = "\<lambda>_ _ _ _ _ c. (0x5000, c)" and post_copy = "\<lambda>_ n _ c. c + n"
        and oop_size = "\<lambda>_ _. 0" and C = False and vm = demo_vm and m = demo_mem and obj = "0x3000" and sem = "()" and ctx = "100"]
      d by (simp add: demo_array_size demo_array) blast
qed

text \<open>
  The referent of a reference object can be set, read and cleared, for every slot width and wherever the referent field is:
  \<^verbatim>\<open>get_referent\<close> returns what \<^verbatim>\<open>set_referent\<close> stored if the compressed encoding represents it, and nothing after \<^verbatim>\<open>clear_referent\<close>;
  neither writes outside the field, which is four bytes wide if pointers are compressed and eight if not.
\<close>
lemma referent_roundtrip:
  assumes "null_is_none from_raw_address" and "referent \<noteq> NULL" and "user_addr (referent_address vm reff)"
    and "C \<longrightarrow> decompress c (compress c referent) = Some referent"
  shows "get_referent from_raw_address C c vm (set_referent C c vm m reff referent) reff = Some referent
    \<and> get_referent from_raw_address C c vm (clear_referent C vm m reff) reff = None
    \<and> (\<forall>a. 2 ^ LOG_BYTES_IN_SLOT C \<le> unat (a - referent_address vm reff)
          \<longrightarrow> set_referent C c vm m reff referent a = m a \<and> clear_referent C vm m reff a = m a)"
proof -
  let ?slot = "referent_address vm reff"
  have f: "store32 m ?slot v a = m a" if "4 \<le> unat (a - ?slot)" for v a
    by (rule store32_frame) (use that in auto)
  have tag: "is_compressed ?slot" "untagged_address ?slot = ?slot"
    using assms(3) by (simp_all add: is_compressed_user_addr untagged_user_addr)
  have "set_referent C c vm m reff referent a = m a \<and> clear_referent C vm m reff a = m a"
    if "2 ^ LOG_BYTES_IN_SLOT C \<le> unat (a - ?slot)" for a
    using that f[of a] store64_frame[of a ?slot m]
    by (cases C) (simp_all add: set_referent_def clear_referent_def slot_store_def store_null_def tag LOG_BYTES_IN_SLOT_def)
  moreover have "C \<and> is_compressed ?slot \<longrightarrow> decompress c (compress c referent) = Some referent" using assms(4) by blast
  note slot_store_load[OF assms(1,2) this, of m]
  ultimately show ?thesis
    by (simp add: get_referent_def set_referent_def clear_referent_def)
qed

lemma referent_roundtrip_instance:
  "get_referent (\<lambda>a. if a = NULL then None else Some a) True \<lparr>BASE = 0, SHIFT = 3\<rparr> demo_vm
     (set_referent True \<lparr>BASE = 0, SHIFT = 3\<rparr> demo_vm demo_mem 0x1000 0x40000010) 0x1000 = Some 0x40000010"
proof -
  have n: "null_is_none (\<lambda>a. if a = NULL then None else Some a)" by (simp add: null_is_none_def)
  have "referent_address demo_vm 0x1000 = 0x1010"
    by (simp add: referent_address_def get_field_address_def demo_vm_def)
  then have u: "user_addr (referent_address demo_vm 0x1000)" by (simp add: user_addr_def)
  have "decompress \<lparr>BASE = 0, SHIFT = 3\<rparr> (compress \<lparr>BASE = 0, SHIFT = 3\<rparr> 0x40000010) = Some 0x40000010"
    by (simp add: compress_def decompress_def)
  then show ?thesis using referent_roundtrip[OF n _ u, of "0x40000010" True] by simp
qed

text \<open>The scanning upcall reports no field: the closure of the caller is as it was, whatever fields the object has.\<close>

lemma mmtk_scan_object_reports_nothing: "mmtk_scan_object UseCompressedOops trace fs v = Inr v1 \<Longrightarrow> v1 = v"
  by (induction UseCompressedOops trace fs v rule: mmtk_scan_object.induct)
    (auto simp: scan_object_do_oop_work_def Let_def split: if_splits)

text \<open>An object is sane exactly if its class id is that of a kind of class, which is what the scan asserts.\<close>

lemma is_object_sane_iff: "is_object_sane C vm m oop \<longleftrightarrow> object_kind C vm m oop \<noteq> None"
  by (simp add: is_object_sane_def Let_def klass_id_in_range object_kind_None)

end
