(* ===== verification/Foreign_Interface.thy ===== *)
theory Foreign_Interface
  imports Prelude
begin

text \<open>
  The two directions of the foreign-function interface between the C++ and the Rust part of the binding.

  \<^item> Upcalls: C++ fills the table \<^verbatim>\<open>mmtk_upcalls\<close> (\<^verbatim>\<open>openjdk/mmtkUpcalls.cpp\<close>) of the type \<^verbatim>\<open>OpenJDK_Upcalls\<close> (\<^verbatim>\<open>openjdk/mmtk.h\<close>) by
    position; Rust reads it through its own declaration of the type (\<^verbatim>\<open>mmtk/src/lib.rs\<close>) by name.
  \<^item> Downcalls: C++ calls the functions that \<^verbatim>\<open>openjdk/mmtk.h\<close> declares; \<^verbatim>\<open>mmtk/src/api.rs\<close> defines them. The linker matches names only.

  Neither compiler sees the other's declarations, so what the two sides agree on is a property of the sources. A declaration is
  a name, the types of the parameters and the type of the result, the types reduced to what the calling
  convention of x86-64 sees of them. The representation of a type of mmtk-core is a parameter; \<open>core_representation\<close> is what the
  comments of the header and of mmtk-core document.
\<close>

section \<open>Types and declarations\<close>

datatype c_type = C_void | C_ptr | C_size_t | C_int | C_bool | C_MutatorClosure | C_SlotsClosure
  | C_MMTkAllocationError | C_AllocatorSelector

datatype core_type = Address | ObjectReference | NullableObjectReference | OpaquePointer | VMThread | VMMutatorThread
  | VMWorkerThread | AllocationSemantics | AllocationError | AllocatorSelector

datatype rust_type = R_unit | R_ptr | R_usize | R_i32 | R_bool | R_MutatorClosure | R_SlotsClosure | R_core core_type

type_synonym c_signature = "string \<times> c_type list \<times> c_type"
type_synonym rust_signature = "string \<times> rust_type list \<times> rust_type"

text \<open>How a value is passed: not at all, as an integer or pointer of some bytes, or as a struct with fields of some bytes.\<close>

datatype passing = Nothing | Integer nat | Aggregate "nat list"

fun c_passing :: "c_type \<Rightarrow> passing" where
  "c_passing C_void = Nothing"
| "c_passing C_ptr = Integer 8"
| "c_passing C_size_t = Integer 8"
| "c_passing C_int = Integer 4"
| "c_passing C_bool = Integer 1"
| "c_passing C_MutatorClosure = Aggregate [8, 8]"
| "c_passing C_SlotsClosure = Aggregate [8, 8]"
| "c_passing C_MMTkAllocationError = Integer 4"
| "c_passing C_AllocatorSelector = Aggregate [1, 1]"

fun rust_passing :: "(core_type \<Rightarrow> passing) \<Rightarrow> rust_type \<Rightarrow> passing" where
  "rust_passing core R_unit = Nothing"
| "rust_passing core R_ptr = Integer 8"
| "rust_passing core R_usize = Integer 8"
| "rust_passing core R_i32 = Integer 4"
| "rust_passing core R_bool = Integer 1"
| "rust_passing core R_MutatorClosure = Aggregate [8, 8]"
| "rust_passing core R_SlotsClosure = Aggregate [8, 8]"
| "rust_passing core (R_core t) = core t"

definition core_representation :: "(core_type \<Rightarrow> passing) \<Rightarrow> bool" where
  "core_representation core \<longleftrightarrow> list_all (\<lambda>t. core t = Integer 8)
       [Address, ObjectReference, NullableObjectReference, OpaquePointer, VMThread, VMMutatorThread, VMWorkerThread]
     \<and> core AllocationSemantics = Integer 4 \<and> core AllocationError = Integer 4 \<and> core AllocatorSelector = Aggregate [1, 1]"

text \<open>A call through a C declaration reaches a Rust function with that signature intact, and the other way round.\<close>

definition compatible :: "(core_type \<Rightarrow> passing) \<Rightarrow> c_type list \<times> c_type \<Rightarrow> rust_type list \<times> rust_type \<Rightarrow> bool" where
  "compatible core c r \<longleftrightarrow> map c_passing (fst c) = map (rust_passing core) (fst r)
     \<and> c_passing (snd c) = rust_passing core (snd r)"

section \<open>The table of upcalls\<close>

text \<open>The fields of the table as \<^verbatim>\<open>mmtk.h\<close> declares them.\<close>

definition OpenJDK_Upcalls :: "c_signature list" where
  "OpenJDK_Upcalls =
    [(''stop_all_mutators'', [C_ptr, C_MutatorClosure], C_void),
     (''resume_mutators'', [C_ptr], C_void),
     (''spawn_gc_thread'', [C_ptr, C_int, C_ptr], C_void),
     (''block_for_gc'', [], C_void),
     (''out_of_memory'', [C_ptr, C_MMTkAllocationError], C_void),
     (''get_mutators'', [C_MutatorClosure], C_void),
     (''scan_object'', [C_ptr, C_ptr, C_ptr], C_void),
     (''dump_object'', [C_ptr], C_void),
     (''get_object_size'', [C_ptr], C_size_t),
     (''get_mmtk_mutator'', [C_ptr], C_ptr),
     (''is_mutator'', [C_ptr], C_bool),
     (''harness_begin'', [], C_void),
     (''harness_end'', [], C_void),
     (''compute_klass_mem_layout_checksum'', [], C_size_t),
     (''offset_of_static_fields'', [], C_int),
     (''static_oop_field_count_offset'', [], C_int),
     (''referent_offset'', [], C_int),
     (''discovered_offset'', [], C_int),
     (''dump_object_string'', [C_ptr], C_ptr),
     (''scan_roots_in_all_mutator_threads'', [C_SlotsClosure], C_void),
     (''scan_roots_in_mutator_thread'', [C_SlotsClosure, C_ptr], C_void),
     (''scan_universe_roots'', [C_SlotsClosure], C_void),
     (''scan_jni_handle_roots'', [C_SlotsClosure], C_void),
     (''scan_object_synchronizer_roots'', [C_SlotsClosure], C_void),
     (''scan_management_roots'', [C_SlotsClosure], C_void),
     (''scan_jvmti_export_roots'', [C_SlotsClosure], C_void),
     (''scan_aot_loader_roots'', [C_SlotsClosure], C_void),
     (''scan_system_dictionary_roots'', [C_SlotsClosure], C_void),
     (''scan_code_cache_roots'', [C_SlotsClosure], C_void),
     (''scan_string_table_roots'', [C_SlotsClosure], C_void),
     (''scan_class_loader_data_graph_roots'', [C_SlotsClosure], C_void),
     (''scan_weak_processor_roots'', [C_SlotsClosure], C_void),
     (''scan_vm_thread_roots'', [C_SlotsClosure], C_void),
     (''number_of_mutators'', [], C_size_t),
     (''schedule_finalizer'', [], C_void),
     (''prepare_for_roots_re_scanning'', [], C_void),
     (''enqueue_references'', [C_ptr, C_size_t], C_void)]"

text \<open>The initializer of the table: the functions in its order, with their own signatures.\<close>

definition mmtk_upcalls :: "c_signature list" where
  "mmtk_upcalls =
    [(''mmtk_stop_all_mutators'', [C_ptr, C_MutatorClosure], C_void),
     (''mmtk_resume_mutators'', [C_ptr], C_void),
     (''mmtk_spawn_gc_thread'', [C_ptr, C_int, C_ptr], C_void),
     (''mmtk_block_for_gc'', [], C_void),
     (''mmtk_out_of_memory'', [C_ptr, C_MMTkAllocationError], C_void),
     (''mmtk_get_mutators'', [C_MutatorClosure], C_void),
     (''mmtk_scan_object'', [C_ptr, C_ptr, C_ptr], C_void),
     (''mmtk_dump_object'', [C_ptr], C_void),
     (''mmtk_get_object_size'', [C_ptr], C_size_t),
     (''mmtk_get_mmtk_mutator'', [C_ptr], C_ptr),
     (''mmtk_is_mutator'', [C_ptr], C_bool),
     (''mmtk_harness_begin'', [], C_void),
     (''mmtk_harness_end'', [], C_void),
     (''compute_klass_mem_layout_checksum'', [], C_size_t),
     (''offset_of_static_fields'', [], C_int),
     (''static_oop_field_count_offset'', [], C_int),
     (''referent_offset'', [], C_int),
     (''discovered_offset'', [], C_int),
     (''dump_object_string'', [C_ptr], C_ptr),
     (''mmtk_scan_roots_in_all_mutator_threads'', [C_SlotsClosure], C_void),
     (''mmtk_scan_roots_in_mutator_thread'', [C_SlotsClosure, C_ptr], C_void),
     (''mmtk_scan_universe_roots'', [C_SlotsClosure], C_void),
     (''mmtk_scan_jni_handle_roots'', [C_SlotsClosure], C_void),
     (''mmtk_scan_object_synchronizer_roots'', [C_SlotsClosure], C_void),
     (''mmtk_scan_management_roots'', [C_SlotsClosure], C_void),
     (''mmtk_scan_jvmti_export_roots'', [C_SlotsClosure], C_void),
     (''mmtk_scan_aot_loader_roots'', [C_SlotsClosure], C_void),
     (''mmtk_scan_system_dictionary_roots'', [C_SlotsClosure], C_void),
     (''mmtk_scan_code_cache_roots'', [C_SlotsClosure], C_void),
     (''mmtk_scan_string_table_roots'', [C_SlotsClosure], C_void),
     (''mmtk_scan_class_loader_data_graph_roots'', [C_SlotsClosure], C_void),
     (''mmtk_scan_weak_processor_roots'', [C_SlotsClosure], C_void),
     (''mmtk_scan_vm_thread_roots'', [C_SlotsClosure], C_void),
     (''mmtk_number_of_mutators'', [], C_size_t),
     (''mmtk_schedule_finalizer'', [], C_void),
     (''mmtk_prepare_for_roots_re_scanning'', [], C_void),
     (''mmtk_enqueue_references'', [C_ptr, C_size_t], C_void)]"

text \<open>The fields of the table as Rust declares them.\<close>

definition OpenJDK_Upcalls_rust :: "rust_signature list" where
  "OpenJDK_Upcalls_rust =
    [(''stop_all_mutators'', [R_core VMWorkerThread, R_MutatorClosure], R_unit),
     (''resume_mutators'', [R_core VMWorkerThread], R_unit),
     (''spawn_gc_thread'', [R_core VMThread, R_i32, R_ptr], R_unit),
     (''block_for_gc'', [], R_unit),
     (''out_of_memory'', [R_core VMThread, R_core AllocationError], R_unit),
     (''get_mutators'', [R_MutatorClosure], R_unit),
     (''scan_object'', [R_ptr, R_core ObjectReference, R_core OpaquePointer], R_unit),
     (''dump_object'', [R_core ObjectReference], R_unit),
     (''get_object_size'', [R_core ObjectReference], R_usize),
     (''get_mmtk_mutator'', [R_core VMMutatorThread], R_ptr),
     (''is_mutator'', [R_core VMThread], R_bool),
     (''harness_begin'', [], R_unit),
     (''harness_end'', [], R_unit),
     (''compute_klass_mem_layout_checksum'', [], R_usize),
     (''offset_of_static_fields'', [], R_i32),
     (''static_oop_field_count_offset'', [], R_i32),
     (''referent_offset'', [], R_i32),
     (''discovered_offset'', [], R_i32),
     (''dump_object_string'', [R_core ObjectReference], R_ptr),
     (''scan_roots_in_all_mutator_threads'', [R_SlotsClosure], R_unit),
     (''scan_roots_in_mutator_thread'', [R_SlotsClosure, R_core VMMutatorThread], R_unit),
     (''scan_universe_roots'', [R_SlotsClosure], R_unit),
     (''scan_jni_handle_roots'', [R_SlotsClosure], R_unit),
     (''scan_object_synchronizer_roots'', [R_SlotsClosure], R_unit),
     (''scan_management_roots'', [R_SlotsClosure], R_unit),
     (''scan_jvmti_export_roots'', [R_SlotsClosure], R_unit),
     (''scan_aot_loader_roots'', [R_SlotsClosure], R_unit),
     (''scan_system_dictionary_roots'', [R_SlotsClosure], R_unit),
     (''scan_code_cache_roots'', [R_SlotsClosure], R_unit),
     (''scan_string_table_roots'', [R_SlotsClosure], R_unit),
     (''scan_class_loader_data_graph_roots'', [R_SlotsClosure], R_unit),
     (''scan_weak_processor_roots'', [R_SlotsClosure], R_unit),
     (''scan_vm_thread_roots'', [R_SlotsClosure], R_unit),
     (''number_of_mutators'', [], R_usize),
     (''schedule_finalizer'', [], R_unit),
     (''prepare_for_roots_re_scanning'', [], R_unit),
     (''enqueue_references'', [R_ptr, R_usize], R_unit)]"

text \<open>
  The function that Rust reaches through a field: it takes the field's position in its own declaration, and the function that
  stands at this position of the initializer.
\<close>

fun position :: "string \<Rightarrow> (string \<times> 'a) list \<Rightarrow> nat option" where
  "position f [] = None"
| "position f ((g, s) # fs) = (if f = g then Some 0 else map_option Suc (position f fs))"

definition upcall_target :: "string \<Rightarrow> c_signature option" where
  "upcall_target f = (case position f OpenJDK_Upcalls_rust of
     None \<Rightarrow> None
   | Some i \<Rightarrow> if i < length mmtk_upcalls then Some (mmtk_upcalls ! i) else None)"

section \<open>Declared and defined functions\<close>

text \<open>The functions that \<^verbatim>\<open>mmtk.h\<close> declares, in its order: before and after the table of upcalls.\<close>

definition mmtk_h_general :: "c_signature list" where
  "mmtk_h_general =
    [(''get_mmtk_version'', [], C_ptr),
     (''bind_mutator'', [C_ptr], C_ptr),
     (''destroy_mutator'', [C_ptr], C_void),
     (''flush_mutator'', [C_ptr], C_void),
     (''alloc'', [C_ptr, C_size_t, C_size_t, C_size_t, C_int], C_ptr),
     (''alloc_slow_bump_monotone_immortal'', [C_ptr, C_size_t, C_size_t, C_size_t], C_ptr),
     (''alloc_slow_bump_monotone_copy'', [C_ptr, C_size_t, C_size_t, C_size_t], C_ptr),
     (''alloc_slow_largeobject'', [C_ptr, C_size_t, C_size_t, C_size_t], C_ptr),
     (''post_alloc'', [C_ptr, C_ptr, C_size_t, C_int], C_void),
     (''mmtk_load_reference'', [C_ptr, C_ptr], C_void),
     (''mmtk_object_reference_write_pre'', [C_ptr, C_ptr, C_ptr, C_ptr], C_void),
     (''mmtk_object_reference_write_post'', [C_ptr, C_ptr, C_ptr, C_ptr], C_void),
     (''mmtk_object_reference_write_slow'', [C_ptr, C_ptr, C_ptr, C_ptr], C_void),
     (''mmtk_array_copy_pre'', [C_ptr, C_ptr, C_ptr, C_size_t], C_void),
     (''mmtk_array_copy_post'', [C_ptr, C_ptr, C_ptr, C_size_t], C_void),
     (''mmtk_object_probable_write'', [C_ptr, C_ptr], C_void),
     (''release_buffer'', [C_ptr, C_size_t, C_size_t], C_void),
     (''is_in_mmtk_spaces'', [C_ptr], C_bool),
     (''is_mapped_address'', [C_ptr], C_bool),
     (''get_allocator_mapping'', [C_int], C_AllocatorSelector),
     (''get_max_non_los_default_alloc_bytes'', [], C_size_t),
     (''add_finalizer'', [C_ptr], C_void),
     (''get_finalized_object'', [], C_ptr),
     (''mmtk_active_barrier'', [], C_ptr),
     (''initialize_collection'', [C_ptr], C_void),
     (''gc_init'', [C_size_t], C_void),
     (''will_never_move'', [C_ptr], C_bool),
     (''process'', [C_ptr, C_ptr], C_bool),
     (''process_bulk'', [C_ptr], C_bool),
     (''scan_region'', [], C_void),
     (''handle_user_collection_request'', [C_ptr], C_void),
     (''start_control_collector'', [C_ptr, C_ptr], C_void),
     (''start_worker'', [C_ptr, C_ptr], C_void),
     (''mmtk_add_nmethod_oop'', [C_ptr], C_size_t),
     (''mmtk_register_nmethod'', [C_ptr], C_size_t),
     (''mmtk_unregister_nmethod'', [C_ptr], C_size_t),
     (''free_bytes'', [], C_size_t),
     (''total_bytes'', [], C_size_t)]"

definition mmtk_h_openjdk :: "c_signature list" where
  "mmtk_h_openjdk =
    [(''openjdk_gc_init'', [C_ptr], C_void),
     (''openjdk_is_gc_initialized'', [], C_bool),
     (''mmtk_set_heap_size'', [C_size_t, C_size_t], C_bool),
     (''mmtk_enable_compressed_oops'', [], C_bool),
     (''mmtk_narrow_oop_base'', [], C_ptr),
     (''mmtk_narrow_oop_shift'', [], C_size_t),
     (''mmtk_set_compressed_klass_base_and_shift'', [C_ptr, C_size_t], C_size_t),
     (''used_bytes'', [], C_size_t),
     (''starting_heap_address'', [], C_ptr),
     (''last_heap_address'', [], C_ptr),
     (''iterator'', [], C_void),
     (''openjdk_max_capacity'', [], C_size_t),
     (''_noaccess_prefix'', [], C_size_t),
     (''_alignment'', [], C_size_t),
     (''executable'', [], C_bool),
     (''add_weak_candidate'', [C_ptr, C_ptr], C_void),
     (''add_soft_candidate'', [C_ptr, C_ptr], C_void),
     (''add_phantom_candidate'', [C_ptr, C_ptr], C_void),
     (''mmtk_harness_begin_impl'', [], C_void),
     (''mmtk_harness_end_impl'', [], C_void),
     (''mmtk_builder_read_env_var_settings'', [], C_void),
     (''mmtk_builder_set_threads'', [C_size_t], C_void),
     (''mmtk_builder_set_transparent_hugepages'', [C_bool], C_void)]"

definition mmtk_h :: "c_signature list" where
  "mmtk_h = mmtk_h_general @ mmtk_h_openjdk"

text \<open>The functions that \<^verbatim>\<open>api.rs\<close> defines, in its order.\<close>

definition api_rs :: "rust_signature list" where
  "api_rs =
    [(''get_mmtk_version'', [], R_ptr),
     (''mmtk_active_barrier'', [], R_ptr),
     (''release_buffer'', [R_ptr, R_usize, R_usize], R_unit),
     (''openjdk_gc_init'', [R_ptr], R_unit),
     (''openjdk_is_gc_initialized'', [], R_bool),
     (''mmtk_set_heap_size'', [R_usize, R_usize], R_bool),
     (''bind_mutator'', [R_core VMMutatorThread], R_ptr),
     (''destroy_mutator'', [R_ptr], R_unit),
     (''flush_mutator'', [R_ptr], R_unit),
     (''alloc'', [R_ptr, R_usize, R_usize, R_usize, R_core AllocationSemantics], R_core Address),
     (''get_allocator_mapping'', [R_core AllocationSemantics], R_core AllocatorSelector),
     (''get_max_non_los_default_alloc_bytes'', [], R_usize),
     (''post_alloc'', [R_ptr, R_core ObjectReference, R_usize, R_core AllocationSemantics], R_unit),
     (''will_never_move'', [R_core ObjectReference], R_bool),
     (''start_worker'', [R_core VMWorkerThread, R_ptr], R_unit),
     (''initialize_collection'', [R_core VMThread], R_unit),
     (''used_bytes'', [], R_usize),
     (''free_bytes'', [], R_usize),
     (''total_bytes'', [], R_usize),
     (''handle_user_collection_request'', [R_core VMMutatorThread], R_unit),
     (''mmtk_enable_compressed_oops'', [], R_unit),
     (''mmtk_set_compressed_klass_base_and_shift'', [R_core Address, R_usize], R_unit),
     (''is_in_mmtk_spaces'', [R_core ObjectReference], R_bool),
     (''is_mapped_address'', [R_core Address], R_bool),
     (''add_weak_candidate'', [R_core ObjectReference], R_unit),
     (''add_soft_candidate'', [R_core ObjectReference], R_unit),
     (''add_phantom_candidate'', [R_core ObjectReference], R_unit),
     (''harness_begin'', [R_usize], R_unit),
     (''mmtk_harness_begin_impl'', [], R_unit),
     (''harness_end'', [R_usize], R_unit),
     (''mmtk_harness_end_impl'', [], R_unit),
     (''process'', [R_ptr, R_ptr], R_bool),
     (''mmtk_builder_read_env_var_settings'', [], R_unit),
     (''mmtk_builder_set_threads'', [R_usize], R_unit),
     (''mmtk_builder_set_transparent_hugepages'', [R_bool], R_unit),
     (''process_bulk'', [R_ptr], R_bool),
     (''mmtk_narrow_oop_base'', [], R_core Address),
     (''mmtk_narrow_oop_shift'', [], R_usize),
     (''starting_heap_address'', [], R_core Address),
     (''last_heap_address'', [], R_core Address),
     (''openjdk_max_capacity'', [], R_usize),
     (''executable'', [], R_bool),
     (''mmtk_load_reference'', [R_ptr, R_core ObjectReference], R_unit),
     (''mmtk_object_reference_write_pre'', [R_ptr, R_core ObjectReference, R_core Address, R_core NullableObjectReference], R_unit),
     (''mmtk_object_reference_write_post'', [R_ptr, R_core ObjectReference, R_core Address, R_core NullableObjectReference], R_unit),
     (''mmtk_object_reference_write_slow'', [R_ptr, R_core ObjectReference, R_core Address, R_core NullableObjectReference], R_unit),
     (''mmtk_array_copy_pre'', [R_ptr, R_core Address, R_core Address, R_usize], R_unit),
     (''mmtk_array_copy_post'', [R_ptr, R_core Address, R_core Address, R_usize], R_unit),
     (''mmtk_object_probable_write'', [R_ptr, R_core ObjectReference], R_unit),
     (''add_finalizer'', [R_core ObjectReference], R_unit),
     (''get_finalized_object'', [], R_core NullableObjectReference),
     (''mmtk_add_nmethod_oop'', [R_core Address], R_unit),
     (''mmtk_register_nmethod'', [R_core Address], R_unit),
     (''mmtk_unregister_nmethod'', [R_core Address], R_unit)]"

definition undefined_functions :: "string list" where
  "undefined_functions = filter (\<lambda>f. map_of api_rs f = None) (map fst mmtk_h)"

definition mismatched_functions :: "(core_type \<Rightarrow> passing) \<Rightarrow> string list" where
  "mismatched_functions core = map fst (filter (\<lambda>(f, c). case map_of api_rs f of
     None \<Rightarrow> False | Some r \<Rightarrow> \<not> compatible core c r) mmtk_h)"

text \<open>The representation that the documentation gives.\<close>

definition documented_core :: "core_type \<Rightarrow> passing" where
  "documented_core t = (if t = AllocatorSelector then Aggregate [1, 1]
     else if t = AllocationSemantics \<or> t = AllocationError then Integer 4 else Integer 8)"

section \<open>Lemmas\<close>

lemma documented_core_representation: "core_representation documented_core"
  by (simp add: core_representation_def documented_core_def)

lemma core_representation_unique: "core_representation core \<Longrightarrow> core = documented_core"
proof
  fix t assume "core_representation core"
  then show "core t = documented_core t" by (cases t) (simp_all add: core_representation_def documented_core_def)
qed

lemma position_nth: "distinct (map fst fs) \<Longrightarrow> i < length fs \<Longrightarrow> position (fst (fs ! i)) fs = Some i"
proof (induction fs arbitrary: i)
  case (Cons x fs)
  then show ?case by (cases i; cases x) (force simp: in_set_conv_nth)+
qed simp

lemma upcall_fields:
  "map fst OpenJDK_Upcalls = map fst OpenJDK_Upcalls_rust" "map snd OpenJDK_Upcalls = map snd mmtk_upcalls"
  "distinct (map fst OpenJDK_Upcalls_rust)" "length OpenJDK_Upcalls_rust = length mmtk_upcalls"
     apply (simp add: OpenJDK_Upcalls_def OpenJDK_Upcalls_rust_def)
    apply (simp add: OpenJDK_Upcalls_def mmtk_upcalls_def)
   apply (simp add: OpenJDK_Upcalls_rust_def)
  apply (simp add: OpenJDK_Upcalls_rust_def mmtk_upcalls_def)
  done

lemma upcall_target_nth:
  "i < length OpenJDK_Upcalls_rust \<Longrightarrow> upcall_target (fst (OpenJDK_Upcalls_rust ! i)) = Some (mmtk_upcalls ! i)"
  by (simp add: upcall_target_def position_nth upcall_fields)

lemma upcall_declared_nth:
  assumes "i < length OpenJDK_Upcalls_rust"
  shows "map_of OpenJDK_Upcalls (fst (OpenJDK_Upcalls_rust ! i)) = Some (snd (mmtk_upcalls ! i))"
proof -
  have l: "i < length OpenJDK_Upcalls" using assms upcall_fields(1) by (metis length_map)
  have "fst (OpenJDK_Upcalls ! i) = fst (OpenJDK_Upcalls_rust ! i)" "snd (OpenJDK_Upcalls ! i) = snd (mmtk_upcalls ! i)"
    using l assms upcall_fields by (metis nth_map)+
  then show ?thesis using l upcall_fields(1,3) by (metis map_of_eq_Some_iff nth_mem prod.collapse)
qed

section \<open>Properties\<close>

text \<open>
  C19. Every upcall reaches the function it names: for each field of the table as Rust declares it, the function that the C++
  initializer puts at the field's position is the one with the field's name (some have the prefix \<^verbatim>\<open>mmtk_\<close>), has the types the
  header declares for the field, and is called by Rust with exactly these.
\<close>
theorem upcalls_reach_their_functions:
  assumes "core_representation core"
  shows "list_all (\<lambda>(f, r). case upcall_target f of
      None \<Rightarrow> False
    | Some (g, c) \<Rightarrow> (g = f \<or> g = ''mmtk_'' @ f) \<and> map_of OpenJDK_Upcalls f = Some c \<and> compatible core c r) OpenJDK_Upcalls_rust"
proof -
  have "list_all2 (\<lambda>(f, r) (g, c). (g = f \<or> g = ''mmtk_'' @ f) \<and> compatible core c r) OpenJDK_Upcalls_rust mmtk_upcalls"
    using assms by (simp add: OpenJDK_Upcalls_rust_def mmtk_upcalls_def compatible_def core_representation_def)
  then have n: "(\<lambda>(f, r) (g, c). (g = f \<or> g = ''mmtk_'' @ f) \<and> compatible core c r) (OpenJDK_Upcalls_rust ! i) (mmtk_upcalls ! i)"
    if "i < length OpenJDK_Upcalls_rust" for i
    using that by (rule list_all2_nthD)
  show ?thesis unfolding list_all_length
  proof (intro allI impI)
    fix i assume i: "i < length OpenJDK_Upcalls_rust"
    obtain f r g c where "OpenJDK_Upcalls_rust ! i = (f, r)" "mmtk_upcalls ! i = (g, c)" by (metis prod.exhaust)
    with n[OF i] upcall_target_nth[OF i] upcall_declared_nth[OF i]
    show "case OpenJDK_Upcalls_rust ! i of (f, r) \<Rightarrow> case upcall_target f of
        None \<Rightarrow> False
      | Some (g, c) \<Rightarrow> (g = f \<or> g = ''mmtk_'' @ f) \<and> map_of OpenJDK_Upcalls f = Some c \<and> compatible core c r"
      by simp
  qed
qed

theorem upcalls_reach_their_functions_witness:
  "list_all (\<lambda>(f, r). case upcall_target f of
      None \<Rightarrow> False
    | Some (g, c) \<Rightarrow> (g = f \<or> g = ''mmtk_'' @ f) \<and> map_of OpenJDK_Upcalls f = Some c \<and> compatible documented_core c r) OpenJDK_Upcalls_rust"
  by (rule upcalls_reach_their_functions[OF documented_core_representation])

text \<open>
  Which declarations of \<^verbatim>\<open>mmtk.h\<close> can be called. Nine of the 61 declared functions are not defined by the Rust side. Of those that
  are, all but eight agree with their definition in the number and representation of parameters and result: the three
  functions that add reference candidates are declared with two parameters and take one, and five functions are declared with a
  result that they do not return, so that the caller would read an undefined value.
\<close>
lemma header_declarations_checked:
  assumes "core_representation core"
  shows "undefined_functions = [''alloc_slow_bump_monotone_immortal'', ''alloc_slow_bump_monotone_copy'', ''alloc_slow_largeobject'',
      ''gc_init'', ''scan_region'', ''start_control_collector'', ''iterator'', ''_noaccess_prefix'', ''_alignment'']
    \<and> mismatched_functions core = [''mmtk_add_nmethod_oop'', ''mmtk_register_nmethod'', ''mmtk_unregister_nmethod'',
      ''mmtk_enable_compressed_oops'', ''mmtk_set_compressed_klass_base_and_shift'',
      ''add_weak_candidate'', ''add_soft_candidate'', ''add_phantom_candidate'']
    \<and> length mmtk_h = 61"
proof -
  have "undefined_functions = [''alloc_slow_bump_monotone_immortal'', ''alloc_slow_bump_monotone_copy'', ''alloc_slow_largeobject'',
      ''gc_init'', ''scan_region'', ''start_control_collector'', ''iterator'', ''_noaccess_prefix'', ''_alignment'']"
    by code_simp
  moreover have "mismatched_functions core = [''mmtk_add_nmethod_oop'', ''mmtk_register_nmethod'', ''mmtk_unregister_nmethod'',
      ''mmtk_enable_compressed_oops'', ''mmtk_set_compressed_klass_base_and_shift'',
      ''add_weak_candidate'', ''add_soft_candidate'', ''add_phantom_candidate'']"
    unfolding core_representation_unique[OF assms] by code_simp
  moreover have "length mmtk_h = 61" by code_simp
  ultimately show ?thesis by blast
qed

lemma header_declarations_checked_instance:
  "''add_weak_candidate'' \<in> set (mismatched_functions documented_core)"
  using header_declarations_checked[OF documented_core_representation] by simp

end
