(* ===== verification/Node_Graph.thy ===== *)
theory Node_Graph
  imports Prelude "HOL-Library.State_Monad"
begin

text \<open>
  The node graph of C2 on which \<^verbatim>\<open>MMTkBarrierSetC2::expand_allocate\<close> works. A node has an opcode and a
  list of inputs, some of them absent; the position of an input says what it is (control, memory, address, ...). The graph is
  changed by creating nodes, setting inputs and redirecting uses. HotSpot keeps with each node the array of its uses; here the uses are
  read off the inputs. \<^verbatim>\<open>transform_later\<close> puts a node on the work list of the optimizer and leaves the graph as it is.

  The nodes have a meaning: control nodes say whether they are reached, a region which of its paths is taken, a phi has
  the value of its input on that path, memory nodes are memory states. \<open>eval\<close> computes the value of a node from those of its inputs,
  up to a given depth; \<open>evaluates\<close> abstracts from the depth.
\<close>

section \<open>Graphs\<close>

type_synonym node_id = nat

datatype BoolTest = BT_ge | BT_ne

datatype opcode =
    Op_Method nat
  | Op_Allocate | Op_Initialize | Op_MergeMem
  | Op_ConI "32 word" | Op_ConL "64 word" | Op_ThreadLocal
  | Op_AddP | Op_AddL | Op_AndL | Op_OrI | Op_URShiftL | Op_LShiftI | Op_ConvL2I | Op_CastP2X | Op_CastX2P
  | Op_CmpI | Op_CmpL | Op_CmpP | Op_Bool BoolTest | Op_CMoveI
  | Op_LoadP | Op_LoadUB | Op_StoreP | Op_StoreB
  | Op_If | Op_IfTrue | Op_IfFalse | Op_Region | Op_Phi
  | Op_Proj nat | Op_MemBarStoreStore | Op_CallLeaf string | Op_CallStaticJava
  | Op_Catch | Op_CatchProj
  | Op_initialize_object

record node =
  opc :: opcode
  ins :: "node_id option list"

record graph =
  nodes :: "node_id \<Rightarrow> node option"
  next_id :: nat

definition inputs :: "graph \<Rightarrow> node_id \<Rightarrow> node_id option list" where
  "inputs g n = (case nodes g n of None \<Rightarrow> [] | Some nd \<Rightarrow> ins nd)"

definition input :: "graph \<Rightarrow> node_id \<Rightarrow> nat \<Rightarrow> node_id option" where
  "input g n i = (if i < length (inputs g n) then inputs g n ! i else None)"

text \<open>One entry for each input that is the node, as in HotSpot's array of uses.\<close>

definition out_edges :: "graph \<Rightarrow> node_id \<Rightarrow> node_id list" where
  "out_edges g n = concat (map (\<lambda>u. replicate (count_list (inputs g u) (Some n)) u) [0..<next_id g])"

definition outcnt :: "graph \<Rightarrow> node_id \<Rightarrow> nat" where
  "outcnt g n = length (out_edges g n)"

section \<open>Changing a graph\<close>

definition add_node :: "opcode \<Rightarrow> node_id option list \<Rightarrow> graph \<Rightarrow> graph" where
  "add_node c xs g = g\<lparr>nodes := (nodes g)(next_id g \<mapsto> \<lparr>opc = c, ins = xs\<rparr>), next_id := Suc (next_id g)\<rparr>"

definition new_node :: "opcode \<Rightarrow> node_id option list \<Rightarrow> (graph, node_id) state" where
  "new_node c xs = State (\<lambda>g. (next_id g, add_node c xs g))"

text \<open>A region is its own input 0, its paths are unset at first; \<open>new RegionNode(3)\<close> has two.\<close>

definition new_region :: "nat \<Rightarrow> (graph, node_id) state" where
  "new_region k = State (\<lambda>g. run_state (new_node Op_Region (Some (next_id g) # replicate (k - 1) None)) g)"

definition new_phi :: "node_id \<Rightarrow> (graph, node_id) state" where
  "new_phi r = State (\<lambda>g. run_state (new_node Op_Phi (Some r # replicate (length (inputs g r) - 1) None)) g)"

definition map_node :: "node_id \<Rightarrow> (node \<Rightarrow> node) \<Rightarrow> graph \<Rightarrow> graph" where
  "map_node n f g = g\<lparr>nodes := (nodes g)(n := map_option f (nodes g n))\<rparr>"

definition set_req :: "node_id \<Rightarrow> nat \<Rightarrow> node_id option \<Rightarrow> graph \<Rightarrow> graph" where
  "set_req n i x = map_node n (\<lambda>nd. nd\<lparr>ins := (ins nd)[i := x]\<rparr>)"

definition init_req :: "node_id \<Rightarrow> nat \<Rightarrow> node_id option \<Rightarrow> (graph, unit) state" where
  "init_req n i x = State (\<lambda>g. ((), set_req n i x g))"

definition subst_input :: "node_id \<Rightarrow> node_id \<Rightarrow> node_id option \<Rightarrow> node_id option" where
  "subst_input old new x = (if x = Some old then Some new else x)"

definition subst_node :: "node_id \<Rightarrow> node_id \<Rightarrow> node \<Rightarrow> node" where
  "subst_node old new nd = nd\<lparr>ins := map (subst_input old new) (ins nd)\<rparr>"

text \<open>\<^verbatim>\<open>PhaseMacroExpand::replace_input\<close>: the number of inputs that were replaced, and the graph.\<close>

definition replace_input :: "node_id \<Rightarrow> node_id \<Rightarrow> node_id \<Rightarrow> graph \<Rightarrow> nat \<times> graph" where
  "replace_input u old new g = (count_list (inputs g u) (Some old), map_node u (subst_node old new) g)"

definition subst_uses :: "node_id \<Rightarrow> node_id \<Rightarrow> graph \<Rightarrow> graph" where
  "subst_uses old new g = g\<lparr>nodes := (\<lambda>n. map_option (subst_node old new) (nodes g n))\<rparr>"

definition remove_dead_node :: "node_id \<Rightarrow> graph \<Rightarrow> graph" where
  "remove_dead_node n g = g\<lparr>nodes := (nodes g)(n := None)\<rparr>"

text \<open>\<^verbatim>\<open>PhaseIterGVN::replace_node\<close>: all uses are redirected and the old node is removed.\<close>

definition replace_node :: "node_id \<Rightarrow> node_id \<Rightarrow> graph \<Rightarrow> graph" where
  "replace_node old new g = remove_dead_node old (subst_uses old new g)"

text \<open>\<^verbatim>\<open>Node::clone\<close>: a new node with the opcode and the inputs of the old one.\<close>

definition clone_node :: "node_id \<Rightarrow> (graph, node_id) state" where
  "clone_node n = State (\<lambda>g. case nodes g n of
     None \<Rightarrow> run_state (new_node (Op_Method 0) []) g
   | Some nd \<Rightarrow> run_state (new_node (opc nd) (ins nd)) g)"

section \<open>The meaning of nodes\<close>

datatype val =
    V32 "32 word" | V64 "64 word" | VMem mem
  | VCmp int
  | VCtl bool
  | VIf bool bool
  | VPath "nat option"
  | VCall bool "(addr \<times> mem) option"
  | VBar bool mem

text \<open>
  What the graph is run in: the values of nodes of the surrounding method, the current thread, the effect of the slow call
  (which may end in an exception), of the initialization of an object and of a leaf call on memory.
\<close>

record run_env =
  given :: "node_id \<Rightarrow> val option"
  thread_ptr :: addr
  slow_call :: "mem \<Rightarrow> (addr \<times> mem) option"
  object_init :: "addr \<Rightarrow> mem \<Rightarrow> mem"
  leaf_effect :: "string \<Rightarrow> addr \<Rightarrow> mem \<Rightarrow> mem"

definition arg :: "val option list \<Rightarrow> nat \<Rightarrow> val option" where
  "arg vs i = (if i < length vs then vs ! i else None)"

fun as64 :: "val \<Rightarrow> 64 word option" where "as64 (V64 w) = Some w" | "as64 _ = None"
fun as32 :: "val \<Rightarrow> 32 word option" where "as32 (V32 w) = Some w" | "as32 _ = None"
fun as_mem :: "val \<Rightarrow> mem option" where "as_mem (VMem m) = Some m" | "as_mem _ = None"
fun as_cmp :: "val \<Rightarrow> int option" where "as_cmp (VCmp i) = Some i" | "as_cmp _ = None"
fun as_ctl :: "val \<Rightarrow> bool option" where
  "as_ctl (VCtl b) = Some b" | "as_ctl (VPath p) = Some (p \<noteq> None)" | "as_ctl _ = None"

abbreviation arg64 :: "val option list \<Rightarrow> nat \<Rightarrow> 64 word option" where "arg64 vs i \<equiv> Option.bind (arg vs i) as64"
abbreviation arg32 :: "val option list \<Rightarrow> nat \<Rightarrow> 32 word option" where "arg32 vs i \<equiv> Option.bind (arg vs i) as32"
abbreviation argm :: "val option list \<Rightarrow> nat \<Rightarrow> mem option" where "argm vs i \<equiv> Option.bind (arg vs i) as_mem"
abbreviation argc :: "val option list \<Rightarrow> nat \<Rightarrow> bool option" where "argc vs i \<equiv> Option.bind (arg vs i) as_ctl"

definition compare_words :: "('a::len word \<Rightarrow> int) \<Rightarrow> 'a word \<Rightarrow> 'a word \<Rightarrow> val" where
  "compare_words f x y = VCmp (sgn (f x - f y))"

text \<open>A projection of a call or of a memory barrier.\<close>

fun proj_value :: "nat \<Rightarrow> val \<Rightarrow> val option" where
  "proj_value k (VCall c r) =
     (if k = 0 then Some (VCall c r)
      else case r of None \<Rightarrow> None
        | Some (ob, m) \<Rightarrow> (if k = 2 then Some (VMem m) else if k = 5 then Some (V64 ob) else None))"
| "proj_value k (VBar c m) = (if k = 0 then Some (VCtl c) else if k = 2 then Some (VMem m) else None)"
| "proj_value k _ = None"

definition first_path :: "bool list \<Rightarrow> nat option" where
  "first_path bs = map_option Suc (List.find (\<lambda>i. bs ! i) [0..<length bs])"

fun op_value :: "run_env \<Rightarrow> opcode \<Rightarrow> val option list \<Rightarrow> val option" where
  "op_value E (Op_Method k) vs = None"
| "op_value E Op_Allocate vs = None"
| "op_value E Op_Initialize vs = None"
| "op_value E Op_MergeMem vs = None"
| "op_value E (Op_ConI w) vs = Some (V32 w)"
| "op_value E (Op_ConL w) vs = Some (V64 w)"
| "op_value E Op_ThreadLocal vs = Some (V64 (thread_ptr E))"
| "op_value E Op_AddP vs = do { x \<leftarrow> arg64 vs 2; y \<leftarrow> arg64 vs 3; Some (V64 (x + y)) }"
| "op_value E Op_AddL vs = do { x \<leftarrow> arg64 vs 1; y \<leftarrow> arg64 vs 2; Some (V64 (x + y)) }"
| "op_value E Op_AndL vs = do { x \<leftarrow> arg64 vs 1; y \<leftarrow> arg64 vs 2; Some (V64 (x AND y)) }"
| "op_value E Op_OrI vs = do { x \<leftarrow> arg32 vs 1; y \<leftarrow> arg32 vs 2; Some (V32 (x OR y)) }"
| "op_value E Op_URShiftL vs = do { x \<leftarrow> arg64 vs 1; y \<leftarrow> arg32 vs 2; Some (V64 (drop_bit (unat (y AND 63)) x)) }"
| "op_value E Op_LShiftI vs = do { x \<leftarrow> arg32 vs 1; y \<leftarrow> arg32 vs 2; Some (V32 (push_bit (unat (y AND 31)) x)) }"
| "op_value E Op_ConvL2I vs = do { x \<leftarrow> arg64 vs 1; Some (V32 (ucast x)) }"
| "op_value E Op_CastP2X vs = do { x \<leftarrow> arg64 vs 1; Some (V64 x) }"
| "op_value E Op_CastX2P vs = do { x \<leftarrow> arg64 vs 1; Some (V64 x) }"
| "op_value E Op_CmpI vs = do { x \<leftarrow> arg32 vs 1; y \<leftarrow> arg32 vs 2; Some (compare_words sint x y) }"
| "op_value E Op_CmpL vs = do { x \<leftarrow> arg64 vs 1; y \<leftarrow> arg64 vs 2; Some (compare_words sint x y) }"
| "op_value E Op_CmpP vs = do { x \<leftarrow> arg64 vs 1; y \<leftarrow> arg64 vs 2; Some (compare_words uint x y) }"
| "op_value E (Op_Bool t) vs = do { c \<leftarrow> Option.bind (arg vs 1) as_cmp;
     Some (V32 (of_bool (case t of BT_ge \<Rightarrow> 0 \<le> c | BT_ne \<Rightarrow> c \<noteq> 0))) }"
| "op_value E Op_CMoveI vs = do { b \<leftarrow> arg32 vs 1; x \<leftarrow> arg32 vs 2; y \<leftarrow> arg32 vs 3; Some (V32 (if b = 0 then x else y)) }"
| "op_value E Op_LoadP vs = do { m \<leftarrow> argm vs 1; a \<leftarrow> arg64 vs 2; Some (V64 (load64 m a)) }"
| "op_value E Op_LoadUB vs = do { m \<leftarrow> argm vs 1; a \<leftarrow> arg64 vs 2; Some (V32 (ucast (m a))) }"
| "op_value E Op_StoreP vs = do { m \<leftarrow> argm vs 1; a \<leftarrow> arg64 vs 2; x \<leftarrow> arg64 vs 3; Some (VMem (store64 m a x)) }"
| "op_value E Op_StoreB vs = do { m \<leftarrow> argm vs 1; a \<leftarrow> arg64 vs 2; x \<leftarrow> arg32 vs 3; Some (VMem (m(a := ucast x))) }"
| "op_value E Op_If vs = do { c \<leftarrow> argc vs 0; b \<leftarrow> arg32 vs 1; Some (VIf c (b \<noteq> 0)) }"
| "op_value E Op_IfTrue vs = do { v \<leftarrow> arg vs 0; (case v of VIf c b \<Rightarrow> Some (VCtl (c \<and> b)) | _ \<Rightarrow> None) }"
| "op_value E Op_IfFalse vs = do { v \<leftarrow> arg vs 0; (case v of VIf c b \<Rightarrow> Some (VCtl (c \<and> \<not> b)) | _ \<Rightarrow> None) }"
| "op_value E Op_Region vs =
     (let cs = map (\<lambda>v. Option.bind v as_ctl) (tl vs)
      in if None \<in> set cs then None else Some (VPath (first_path (map the cs))))"
| "op_value E Op_Phi vs = do { v \<leftarrow> arg vs 0; (case v of VPath (Some i) \<Rightarrow> arg vs i | _ \<Rightarrow> None) }"
| "op_value E (Op_Proj k) vs = Option.bind (arg vs 0) (proj_value k)"
| "op_value E Op_MemBarStoreStore vs = do { c \<leftarrow> argc vs 0; m \<leftarrow> argm vs 2; Some (VBar c m) }"
| "op_value E (Op_CallLeaf nm) vs =
     do { c \<leftarrow> argc vs 0; m \<leftarrow> argm vs 2; x \<leftarrow> arg64 vs 6; Some (VBar c (leaf_effect E nm x m)) }"
| "op_value E Op_CallStaticJava vs = do { c \<leftarrow> argc vs 0; m \<leftarrow> argm vs 2; Some (VCall c (slow_call E m)) }"
| "op_value E Op_Catch vs = do { v \<leftarrow> arg vs 0; (case v of VCall c r \<Rightarrow> Some v | _ \<Rightarrow> None) }"
| "op_value E Op_CatchProj vs = do { v \<leftarrow> arg vs 0; (case v of VCall c r \<Rightarrow> Some (VCtl (c \<and> r \<noteq> None)) | _ \<Rightarrow> None) }"
| "op_value E Op_initialize_object vs = do { m \<leftarrow> argm vs 1; x \<leftarrow> arg64 vs 2; Some (VMem (object_init E x m)) }"

fun eval :: "nat \<Rightarrow> graph \<Rightarrow> run_env \<Rightarrow> node_id \<Rightarrow> val option" where
  "eval 0 g E n = None"
| "eval (Suc k) g E n = (case given E n of
     Some v \<Rightarrow> Some v
   | None \<Rightarrow> (case nodes g n of
       None \<Rightarrow> None
     | Some nd \<Rightarrow> op_value E (opc nd) (map (\<lambda>i. Option.bind i (eval k g E)) (ins nd))))"

definition evaluates :: "graph \<Rightarrow> run_env \<Rightarrow> node_id \<Rightarrow> val \<Rightarrow> bool" where
  "evaluates g E n v \<longleftrightarrow> (\<exists>k. eval k g E n = Some v)"

section \<open>Evaluation\<close>

text \<open>Inputs that become defined do not change a value that was defined without them.\<close>

definition more_defined :: "'a option \<Rightarrow> 'a option \<Rightarrow> bool" where
  "more_defined x y \<longleftrightarrow> (\<forall>v. x = Some v \<longrightarrow> y = Some v)"

lemma more_defined_simps [simp]:
  "more_defined None y" "more_defined (Some v) y \<longleftrightarrow> y = Some v" "more_defined x x"
  by (auto simp: more_defined_def)

lemma more_defined_bind:
  "more_defined x y \<Longrightarrow> (\<And>v. more_defined (f v) (g v)) \<Longrightarrow> more_defined (Option.bind x f) (Option.bind y g)"
  by (cases x) auto

lemma arg_mono: "list_all2 more_defined vs ws \<Longrightarrow> more_defined (arg vs i) (arg ws i)"
  by (auto simp: arg_def list_all2_conv_all_nth)

lemma region_mono:
  assumes "list_all2 more_defined vs ws" and "None \<notin> set (map (\<lambda>v. Option.bind v as_ctl) vs)"
  shows "map (\<lambda>v. Option.bind v as_ctl) ws = map (\<lambda>v. Option.bind v as_ctl) vs"
  using assms by (induction rule: list_all2_induct) (auto simp: more_defined_def split: option.splits bind_splits)

lemma op_value_mono:
  assumes "list_all2 more_defined vs ws"
  shows "more_defined (op_value E c vs) (op_value E c ws)"
proof (cases "c = Op_Region")
  case True
  have "list_all2 more_defined (tl vs) (tl ws)" using assms by (cases vs; cases ws) auto
  note r = region_mono[OF this]
  show ?thesis
  proof (cases "None \<in> set (map (\<lambda>v. Option.bind v as_ctl) (tl vs))")
    case False
    note eq = r[OF False]
    show ?thesis by (simp only: True op_value.simps Let_def eq False if_False more_defined_simps)
  qed (simp only: True op_value.simps Let_def if_True more_defined_simps)
next
  case False
  note m = arg_mono[OF assms] more_defined_bind
  show ?thesis
    using False
    by (cases c) (auto intro!: m split: val.splits option.splits simp del: more_defined_simps(1,2) simp: more_defined_simps(3))
qed

lemma eval_mono: "k \<le> l \<Longrightarrow> more_defined (eval k g E n) (eval l g E n)"
proof (induction k arbitrary: l n)
  case (Suc k)
  then obtain l' where l: "l = Suc l'" "k \<le> l'" by (cases l) auto
  have "list_all2 more_defined (map (\<lambda>i. Option.bind i (eval k g E)) xs) (map (\<lambda>i. Option.bind i (eval l' g E)) xs)" for xs
    by (auto simp: list_all2_conv_all_nth intro!: more_defined_bind Suc.IH l(2))
  then show ?case by (auto simp: l(1) split: option.split intro: op_value_mono)
qed simp

lemma evaluates_det: "evaluates g E n v \<Longrightarrow> evaluates g E n w \<Longrightarrow> v = w"
proof -
  assume "evaluates g E n v" "evaluates g E n w"
  then obtain k l where "eval k g E n = Some v" "eval l g E n = Some w" by (auto simp: evaluates_def)
  then show "v = w"
    using eval_mono[of k "max k l" g E n] eval_mono[of l "max k l" g E n] by (auto simp: more_defined_def)
qed

lemma evaluates_given: "given E n = Some v \<Longrightarrow> evaluates g E n v"
  unfolding evaluates_def by (rule exI[of _ "Suc 0"]) simp

text \<open>A value for an input that is a value of that input, or no value.\<close>

definition input_value :: "graph \<Rightarrow> run_env \<Rightarrow> node_id option \<Rightarrow> val option \<Rightarrow> bool" where
  "input_value g E x v \<longleftrightarrow> (\<forall>w. v = Some w \<longrightarrow> (\<exists>n. x = Some n \<and> evaluates g E n w))"

lemma input_value_simps [simp]:
  "input_value g E x None" "input_value g E (Some n) (Some w) \<longleftrightarrow> evaluates g E n w" "\<not> input_value g E None (Some w)"
  by (auto simp: input_value_def)

lemma input_values_depth:
  assumes "list_all2 (input_value g E) xs vs"
  shows "\<exists>k. list_all2 more_defined vs (map (\<lambda>i. Option.bind i (eval k g E)) xs)"
  using assms
proof (induction rule: list_all2_induct)
  case (Cons x xs v vs)
  then obtain k where k: "list_all2 more_defined vs (map (\<lambda>i. Option.bind i (eval k g E)) xs)" by auto
  obtain l where l: "more_defined v (Option.bind x (eval l g E))"
    using Cons.hyps(1) by (cases v) (auto simp: input_value_def evaluates_def)
  let ?m = "max k l"
  have mono: "more_defined a (Option.bind x (eval j g E)) \<Longrightarrow> j \<le> ?m \<Longrightarrow> more_defined a (Option.bind x (eval ?m g E))" for a x j
    by (cases x) (auto simp: more_defined_def dest: eval_mono[of j ?m g E, unfolded more_defined_def, rule_format])
  have "list_all2 more_defined vs (map (\<lambda>i. Option.bind i (eval ?m g E)) xs)"
    using k by (auto simp: list_all2_conv_all_nth intro: mono[where j = k])
  then have "list_all2 more_defined (v # vs) (map (\<lambda>i. Option.bind i (eval ?m g E)) (x # xs))"
    using mono[OF l] by simp
  then show ?case by blast
qed simp

lemma evaluatesI:
  assumes "nodes g n = Some \<lparr>opc = c, ins = xs\<rparr>" and "given E n = None"
    and "list_all2 (input_value g E) xs vs" and "op_value E c vs = Some v"
  shows "evaluates g E n v"
proof -
  obtain k where "list_all2 more_defined vs (map (\<lambda>i. Option.bind i (eval k g E)) xs)"
    using input_values_depth[OF assms(3)] by blast
  from op_value_mono[OF this, of E c] have "eval (Suc k) g E n = Some v"
    using assms by simp
  then show ?thesis unfolding evaluates_def by blast
qed

section \<open>Redirecting uses\<close>

text \<open>
  The loops of \<^verbatim>\<open>expand_allocate\<close> that redirect the uses of a projection: \<^verbatim>\<open>imax\<close> is the number of uses that are left, and
  since the iterator is moved back after every replacement, each round takes the first of them. Reading beyond the uses has no result.
\<close>

partial_function (option) replace_outs :: "node_id \<Rightarrow> node_id \<Rightarrow> nat \<Rightarrow> graph \<Rightarrow> graph option" where
  "replace_outs old new imax g =
     (if imax = 0 then Some g
      else case out_edges g old of
        [] \<Rightarrow> None
      | u # _ \<Rightarrow> (let (replaced, g1) = replace_input u old new g in replace_outs old new (imax - replaced) g1))"

lemma inputs_subst_uses: "inputs (subst_uses old new g) n = map (subst_input old new) (inputs g n)"
  by (auto simp: inputs_def subst_uses_def subst_node_def split: option.splits)

lemma subst_input_idem: "old \<noteq> new \<Longrightarrow> subst_input old new (subst_input old new x) = subst_input old new x"
  by (simp add: subst_input_def)

lemma out_edges_set: "u \<in> set (out_edges g n) \<longleftrightarrow> u < next_id g \<and> Some n \<in> set (inputs g u)"
  by (auto simp: out_edges_def count_list_0_iff)

lemma outcnt_sum: "outcnt g n = (\<Sum>u<next_id g. count_list (inputs g u) (Some n))"
  by (simp add: outcnt_def out_edges_def length_concat o_def sum_list_triv interv_sum_list_conv_sum_set_nat atLeast0LessThan)

definition nodes_bounded :: "graph \<Rightarrow> bool" where
  "nodes_bounded g \<longleftrightarrow> (\<forall>n. next_id g \<le> n \<longrightarrow> nodes g n = None)"

lemma subst_node_idem: "old \<noteq> new \<Longrightarrow> subst_node old new (subst_node old new nd) = subst_node old new nd"
  by (simp add: subst_node_def subst_input_idem)

lemma subst_uses_map_node:
  "old \<noteq> new \<Longrightarrow> subst_uses old new (map_node u (subst_node old new) g) = subst_uses old new g"
  by (auto simp: subst_uses_def map_node_def option.map_comp o_def subst_node_idem fun_eq_iff)

lemma subst_uses_none:
  assumes "outcnt g old = 0" and "nodes_bounded g"
  shows "subst_uses old new g = g"
proof -
  have "map_option (subst_node old new) (nodes g n) = nodes g n" for n
  proof (cases "nodes g n")
    case (Some nd)
    then have "n < next_id g" using assms(2) by (auto simp: nodes_bounded_def not_le[symmetric])
    then have "Some old \<notin> set (ins nd)"
      using assms(1) out_edges_set[of n g old] Some by (auto simp: outcnt_def inputs_def)
    then have "subst_node old new nd = nd"
      by (auto simp: subst_node_def subst_input_def intro!: node.equality map_idI)
    with Some show ?thesis by simp
  qed simp
  then show ?thesis by (simp add: subst_uses_def)
qed

lemma outcnt_replace_input:
  assumes "old \<noteq> new" and "u < next_id g"
  shows "outcnt (map_node u (subst_node old new) g) old = outcnt g old - count_list (inputs g u) (Some old)"
proof -
  let ?h = "map_node u (subst_node old new) g"
  have h: "inputs ?h n = (if n = u then map (subst_input old new) (inputs g u) else inputs g n)" for n
    by (auto simp: inputs_def map_node_def subst_node_def split: option.splits)
  have nid: "next_id ?h = next_id g" by (simp add: map_node_def)
  have "count_list (map (subst_input old new) xs) (Some old) = 0" for xs
    using assms(1) by (induction xs) (auto simp: subst_input_def)
  then have "outcnt ?h old = (\<Sum>v\<in>{..<next_id g} - {u}. count_list (inputs g v) (Some old))"
    using assms(2) by (simp add: outcnt_sum h nid sum.remove[of _ u])
  then show ?thesis
    using assms(2) by (simp add: outcnt_sum sum.remove[of "{..<next_id g}" u])
qed

text \<open>The loops end, and all uses are redirected.\<close>

lemma replace_outs_returns:
  assumes "old \<noteq> new" and "nodes_bounded g"
  shows "replace_outs old new (outcnt g old) g = Some (subst_uses old new g)"
  using assms(2)
proof (induction "outcnt g old" arbitrary: g rule: less_induct)
  case less
  show ?case
  proof (cases "outcnt g old = 0")
    case True
    then show ?thesis using subst_uses_none[OF True less.prems] by (simp add: replace_outs.simps)
  next
    case False
    then obtain u us where u: "out_edges g old = u # us" by (cases "out_edges g old") (auto simp: outcnt_def)
    let ?h = "map_node u (subst_node old new) g" and ?k = "count_list (inputs g u) (Some old)"
    have bound: "u < next_id g" "0 < ?k"
      using out_edges_set[of u g old] u by (auto simp: count_list_0_iff intro!: gr0I)
    have step: "outcnt ?h old = outcnt g old - ?k" by (rule outcnt_replace_input[OF assms(1) bound(1)])
    have "nodes_bounded ?h" using less.prems bound(1) by (auto simp: nodes_bounded_def map_node_def)
    from less.hyps[OF _ this] have "replace_outs old new (outcnt g old - ?k) ?h = Some (subst_uses old new ?h)"
      using step False bound(2) by simp
    then show ?thesis
      using False u by (subst replace_outs.simps) (simp add: replace_input_def subst_uses_map_node[OF assms(1)])
  qed
qed

lemma outcnt_subst_uses:
  assumes "old \<noteq> new"
  shows "outcnt (subst_uses old new g) old = 0"
proof -
  have "count_list (map (subst_input old new) xs) (Some old) = 0" for xs
    using assms by (induction xs) (auto simp: subst_input_def)
  then show ?thesis by (simp add: outcnt_sum inputs_subst_uses)
qed

section \<open>Tracking nodes through changes\<close>

lemma add_node_simps [simp]:
  "next_id (add_node c xs g) = Suc (next_id g)"
  "nodes (add_node c xs g) n = (if n = next_id g then Some \<lparr>opc = c, ins = xs\<rparr> else nodes g n)"
  by (simp_all add: add_node_def)

lemma run_new_node [simp]: "run_state (new_node c xs) g = (next_id g, add_node c xs g)"
  by (simp add: new_node_def)

lemma run_new_region [simp]:
  "run_state (new_region k) g = (next_id g, add_node Op_Region (Some (next_id g) # replicate (k - 1) None) g)"
  by (simp add: new_region_def)

lemma run_new_phi [simp]:
  "run_state (new_phi r) g = (next_id g, add_node Op_Phi (Some r # replicate (length (inputs g r) - 1) None) g)"
  by (simp add: new_phi_def)

lemma run_init_req [simp]: "run_state (init_req n i x) g = ((), set_req n i x g)"
  by (simp add: init_req_def)

lemma set_req_simps [simp]:
  "next_id (set_req n i x g) = next_id g"
  "nodes (set_req n i x g) m = (if m = n then map_option (\<lambda>nd. nd\<lparr>ins := (ins nd)[i := x]\<rparr>) (nodes g n) else nodes g m)"
  by (simp_all add: set_req_def map_node_def)

text \<open>
  The existing nodes of \<open>K\<close> have no node of \<open>R\<close> as input. A change that only redirects uses of \<open>R\<close>, removes nodes of \<open>R\<close> outside
  of \<open>K\<close> and adds nodes leaves the nodes of \<open>K\<close> as they are, and removes no others.
\<close>

definition tracks :: "node_id set \<Rightarrow> node_id set \<Rightarrow> graph \<Rightarrow> bool" where
  "tracks K R g \<longleftrightarrow> nodes_bounded g \<and>
     (\<forall>n\<in>K. \<forall>nd. nodes g n = Some nd \<longrightarrow> (\<forall>r\<in>R. Some r \<notin> set (ins nd)))"

text \<open>Input \<open>i\<close> of \<open>n\<close> is \<open>x\<close>, unless the node was removed.\<close>

definition holds_edge :: "graph \<Rightarrow> node_id \<Rightarrow> nat \<Rightarrow> node_id \<Rightarrow> bool" where
  "holds_edge g n i x \<longleftrightarrow> (\<forall>nd. nodes g n = Some nd \<longrightarrow> i < length (ins nd) \<and> ins nd ! i = Some x)"

definition keeps :: "node_id set \<Rightarrow> graph \<Rightarrow> graph \<Rightarrow> bool" where
  "keeps R g h \<longleftrightarrow> (\<forall>n. n \<notin> R \<longrightarrow> nodes g n \<noteq> None \<longrightarrow> nodes h n \<noteq> None)"

lemma keeps_simps [simp]:
  "keeps R g g" "keeps R g (add_node c xs g)" "keeps R g h \<Longrightarrow> keeps R g (set_req n i x h)" "keeps R g (subst_uses old new g)"
  "old \<in> R \<Longrightarrow> keeps R g (remove_dead_node old g)"
  by (auto simp: keeps_def subst_uses_def remove_dead_node_def)

lemma keeps_trans: "keeps R g h \<Longrightarrow> keeps R h k \<Longrightarrow> keeps R g k"
  by (simp add: keeps_def)

lemma keeps_mono: "keeps R g h \<Longrightarrow> R \<subseteq> S \<Longrightarrow> keeps S g h"
  by (auto simp: keeps_def)

definition tracked_step :: "node_id set \<Rightarrow> node_id set \<Rightarrow> graph \<Rightarrow> graph \<Rightarrow> bool" where
  "tracked_step K R g h \<longleftrightarrow> (tracks K R g \<longrightarrow>
     tracks K R h \<and> next_id g \<le> next_id h \<and> (\<forall>n\<in>K. n < next_id g \<longrightarrow> nodes h n = nodes g n)
     \<and> (\<forall>n<next_id g. \<forall>i x. x \<notin> R \<longrightarrow> holds_edge g n i x \<longrightarrow> holds_edge h n i x)
     \<and> keeps R g h)"

lemma holds_edge_simps:
  "n < next_id g \<Longrightarrow> holds_edge g n i x \<Longrightarrow> holds_edge (add_node c xs g) n i x"
  "n \<noteq> m \<Longrightarrow> holds_edge g n i x \<Longrightarrow> holds_edge (set_req m j y g) n i x"
  "x \<noteq> old \<Longrightarrow> holds_edge g n i x \<Longrightarrow> holds_edge (subst_uses old new g) n i x"
  "holds_edge g n i old \<Longrightarrow> holds_edge (subst_uses old new g) n i new"
  "holds_edge g n i x \<Longrightarrow> holds_edge (remove_dead_node m g) n i x"
  by (auto simp: holds_edge_def subst_uses_def subst_node_def subst_input_def remove_dead_node_def)

text \<open>An input that is not in \<open>R\<close>.\<close>

definition avoids :: "node_id set \<Rightarrow> node_id option \<Rightarrow> bool" where
  "avoids R x \<longleftrightarrow> (\<forall>m. x = Some m \<longrightarrow> m \<notin> R)"

lemma avoids_simps [simp]: "avoids R None" "avoids R (Some m) \<longleftrightarrow> m \<notin> R"
  by (auto simp: avoids_def)

lemma avoids_replicate [simp]: "list_all (avoids R) (replicate k None)"
  by (simp add: list_all_iff)

lemma tracked_refl [simp]: "tracked_step K R g g"
  by (simp add: tracked_step_def)

lemma tracked_trans: "tracked_step K R g h \<Longrightarrow> tracked_step K R h k \<Longrightarrow> tracked_step K R g k"
  by (auto simp: tracked_step_def intro: keeps_trans)

lemma tracked_add [simp]:
  assumes "tracked_step K R g h" and "list_all (avoids R) xs"
  shows "tracked_step K R g (add_node c xs h)"
proof (rule tracked_trans[OF assms(1)])
  show "tracked_step K R h (add_node c xs h)"
    using assms(2)
    by (auto simp: tracked_step_def tracks_def nodes_bounded_def less_Suc_eq avoids_def list_all_iff intro: holds_edge_simps(1))
qed

lemma tracked_set [simp]:
  assumes "tracked_step K R g h" and "next_id g \<le> n" and "avoids R x"
  shows "tracked_step K R g (set_req n i x h)"
proof -
  have upd: "\<forall>r\<in>R. Some r \<notin> set (ys[i := x])" if "\<forall>r\<in>R. Some r \<notin> set ys" for ys
    using that assms(3) set_update_subset_insert[of ys i x] by (auto simp: avoids_def)
  have "tracks K R (set_req n i x h)" if "tracks K R h"
    using that upd by (auto simp: tracks_def nodes_bounded_def)
  then show ?thesis using assms(1,2) by (auto simp: tracked_step_def intro!: holds_edge_simps(2))
qed

lemma subst_node_avoid: "Some old \<notin> set (ins nd) \<Longrightarrow> subst_node old new nd = nd"
  by (auto simp: subst_node_def subst_input_def intro!: node.equality map_idI)

lemma tracked_subst:
  assumes "tracked_step K R g h" and "old \<in> R"
  shows "tracked_step K R g (subst_uses old new h)"
proof (rule tracked_trans[OF assms(1)])
  have same: "nodes (subst_uses old new h) n = nodes h n" if "tracks K R h" "n \<in> K" for n
    using that assms(2) by (cases "nodes h n") (auto simp: tracks_def subst_uses_def subst_node_avoid)
  have "nodes_bounded (subst_uses old new h)" "next_id (subst_uses old new h) = next_id h" if "nodes_bounded h"
    using that by (auto simp: nodes_bounded_def subst_uses_def)
  then show "tracked_step K R h (subst_uses old new h)"
    using same assms(2) by (auto simp: tracked_step_def tracks_def intro!: holds_edge_simps(3))
qed

lemma redirect_next_id [simp]:
  "next_id (subst_uses old new g) = next_id g" "next_id (remove_dead_node n g) = next_id g" "next_id (replace_node old new g) = next_id g"
  by (simp_all add: replace_node_def remove_dead_node_def subst_uses_def)

lemma tracked_remove:
  assumes "tracked_step K R g h" and "old \<notin> K" and "old \<in> R"
  shows "tracked_step K R g (remove_dead_node old h)"
  by (rule tracked_trans[OF assms(1)])
    (use assms(2,3) in \<open>auto simp: tracked_step_def tracks_def nodes_bounded_def holds_edge_def keeps_def remove_dead_node_def\<close>)

lemma tracked_replace [simp]:
  "tracked_step K R g h \<Longrightarrow> old \<in> R \<Longrightarrow> old \<notin> K \<Longrightarrow> tracked_step K R g (replace_node old new h)"
  unfolding replace_node_def by (rule tracked_remove[OF tracked_subst])

section \<open>Evaluating single nodes\<close>

definition is_node :: "graph \<Rightarrow> run_env \<Rightarrow> node_id \<Rightarrow> opcode \<Rightarrow> node_id option list \<Rightarrow> bool" where
  "is_node g E n c xs \<longleftrightarrow> nodes g n = Some \<lparr>opc = c, ins = xs\<rparr> \<and> given E n = None"

lemma ev_node:
  assumes "is_node g E n c xs" and "list_all2 (input_value g E) xs vs" and "op_value E c vs = Some v"
  shows "evaluates g E n v"
  using assms evaluatesI by (auto simp: is_node_def)

lemma ev_leaf:
  "is_node g E n (Op_ConI w) [] \<Longrightarrow> evaluates g E n (V32 w)"
  "is_node g E n (Op_ConL l) [] \<Longrightarrow> evaluates g E n (V64 l)"
  "is_node g E n Op_ThreadLocal [] \<Longrightarrow> evaluates g E n (V64 (thread_ptr E))"
  by (erule ev_node[where vs = "[]"]; simp)+

lemma ev_unary:
  assumes "evaluates g E a (V64 x)"
  shows "is_node g E n Op_ConvL2I [c, Some a] \<Longrightarrow> evaluates g E n (V32 (ucast x))"
    and "is_node g E n Op_CastP2X [c, Some a] \<Longrightarrow> evaluates g E n (V64 x)"
    and "is_node g E n Op_CastX2P [c, Some a] \<Longrightarrow> evaluates g E n (V64 x)"
  by (erule ev_node[where vs = "[None, Some (V64 x)]"]; simp add: arg_def assms)+

lemma ev_binary64:
  assumes "evaluates g E a (V64 x)" and "evaluates g E b (V64 y)"
  shows "is_node g E n Op_AddL [c, Some a, Some b] \<Longrightarrow> evaluates g E n (V64 (x + y))"
    and "is_node g E n Op_AndL [c, Some a, Some b] \<Longrightarrow> evaluates g E n (V64 (x AND y))"
    and "is_node g E n Op_CmpL [c, Some a, Some b] \<Longrightarrow> evaluates g E n (compare_words sint x y)"
    and "is_node g E n Op_CmpP [c, Some a, Some b] \<Longrightarrow> evaluates g E n (compare_words uint x y)"
  by (erule ev_node[where vs = "[None, Some (V64 x), Some (V64 y)]"]; simp add: arg_def assms)+

lemma ev_AddP:
  assumes "evaluates g E a (V64 x)" and "evaluates g E b (V64 y)" and "is_node g E n Op_AddP [c, d, Some a, Some b]"
  shows "evaluates g E n (V64 (x + y))"
  by (rule ev_node[OF assms(3), where vs = "[None, None, Some (V64 x), Some (V64 y)]"]) (simp_all add: arg_def assms)

lemma ev_URShiftL:
  assumes "evaluates g E a (V64 x)" and "evaluates g E b (V32 y)" and "is_node g E n Op_URShiftL [c, Some a, Some b]"
  shows "evaluates g E n (V64 (drop_bit (unat (y AND 63)) x))"
  by (rule ev_node[OF assms(3), where vs = "[None, Some (V64 x), Some (V32 y)]"]) (simp_all add: arg_def assms)

lemma ev_binary32:
  assumes "evaluates g E a (V32 x)" and "evaluates g E b (V32 y)"
  shows "is_node g E n Op_OrI [c, Some a, Some b] \<Longrightarrow> evaluates g E n (V32 (x OR y))"
    and "is_node g E n Op_LShiftI [c, Some a, Some b] \<Longrightarrow> evaluates g E n (V32 (push_bit (unat (y AND 31)) x))"
    and "is_node g E n Op_CmpI [c, Some a, Some b] \<Longrightarrow> evaluates g E n (compare_words sint x y)"
  by (erule ev_node[where vs = "[None, Some (V32 x), Some (V32 y)]"]; simp add: arg_def assms)+

lemma ev_Bool:
  assumes "evaluates g E a (compare_words f x y)" and "is_node g E n (Op_Bool t) [c, Some a]"
  shows "evaluates g E n (V32 (of_bool (case t of BT_ge \<Rightarrow> f y \<le> f x | BT_ne \<Rightarrow> f x \<noteq> f y)))"
  by (rule ev_node[OF assms(2), where vs = "[None, Some (compare_words f x y)]"])
    (use assms(1) in \<open>auto simp: arg_def compare_words_def sgn_if split: BoolTest.splits\<close>)

lemma ev_CMoveI:
  assumes "evaluates g E b (V32 w)" and "evaluates g E p (V32 x)" and "evaluates g E q (V32 y)"
    and "is_node g E n Op_CMoveI [c, Some b, Some p, Some q]"
  shows "evaluates g E n (V32 (if w = 0 then x else y))"
  by (rule ev_node[OF assms(4), where vs = "[None, Some (V32 w), Some (V32 x), Some (V32 y)]"]) (simp_all add: arg_def assms(1-3))

lemma ev_load:
  assumes "input_value g E m (Some (VMem mm))" and "evaluates g E a (V64 x)"
  shows "is_node g E n Op_LoadP [c, m, Some a] \<Longrightarrow> evaluates g E n (V64 (load64 mm x))"
    and "is_node g E n Op_LoadUB [c, m, Some a] \<Longrightarrow> evaluates g E n (V32 (ucast (mm x)))"
  by (erule ev_node[where vs = "[None, Some (VMem mm), Some (V64 x)]"]; simp add: arg_def assms)+

lemma ev_StoreP:
  assumes "input_value g E m (Some (VMem mm))" and "evaluates g E a (V64 x)" and "evaluates g E b (V64 y)"
    and "is_node g E n Op_StoreP [c, m, Some a, Some b]"
  shows "evaluates g E n (VMem (store64 mm x y))"
  by (rule ev_node[OF assms(4), where vs = "[None, Some (VMem mm), Some (V64 x), Some (V64 y)]"]) (simp_all add: arg_def assms(1-3))

lemma ev_StoreB:
  assumes "input_value g E m (Some (VMem mm))" and "evaluates g E a (V64 x)" and "evaluates g E b (V32 y)"
    and "is_node g E n Op_StoreB [c, m, Some a, Some b]"
  shows "evaluates g E n (VMem (mm(x := ucast y)))"
  by (rule ev_node[OF assms(4), where vs = "[None, Some (VMem mm), Some (V64 x), Some (V32 y)]"]) (simp_all add: arg_def assms(1-3))

text \<open>The node is reached, or not.\<close>

definition ctl_value :: "graph \<Rightarrow> run_env \<Rightarrow> node_id option \<Rightarrow> bool \<Rightarrow> bool" where
  "ctl_value g E x b \<longleftrightarrow> (\<exists>v. input_value g E x (Some v) \<and> as_ctl v = Some b)"

lemma ctl_value_simps [simp]:
  "evaluates g E n (VCtl b) \<Longrightarrow> ctl_value g E (Some n) b"
  by (force simp: ctl_value_def)

lemma ev_If:
  assumes "ctl_value g E c r" and "evaluates g E b (V32 w)" and "is_node g E n Op_If [c, Some b]"
  shows "evaluates g E n (VIf r (w \<noteq> 0))"
proof -
  obtain v where "input_value g E c (Some v)" "as_ctl v = Some r" using assms(1) by (auto simp: ctl_value_def)
  then show ?thesis
    by (intro ev_node[OF assms(3), where vs = "[Some v, Some (V32 w)]"]) (simp_all add: arg_def assms(2))
qed

lemma ev_branch:
  assumes "evaluates g E i (VIf r b)"
  shows "is_node g E n Op_IfTrue [Some i] \<Longrightarrow> evaluates g E n (VCtl (r \<and> b))"
    and "is_node g E n Op_IfFalse [Some i] \<Longrightarrow> evaluates g E n (VCtl (r \<and> \<not> b))"
  by (erule ev_node[where vs = "[Some (VIf r b)]"]; simp add: arg_def assms)+

lemma ev_Region2:
  assumes "ctl_value g E (Some a) x" and "ctl_value g E (Some b) y" and "is_node g E n Op_Region [Some n, Some a, Some b]"
  shows "evaluates g E n (VPath (if x then Some 1 else if y then Some 2 else None))"
proof -
  obtain v w where "evaluates g E a v" "as_ctl v = Some x" "evaluates g E b w" "as_ctl w = Some y"
    using assms(1,2) by (auto simp: ctl_value_def)
  then show ?thesis
    by (intro ev_node[OF assms(3), where vs = "[None, Some v, Some w]"]) (simp_all add: first_path_def upt_rec numeral_2_eq_2)
qed

lemma ev_Phi2:
  assumes "evaluates g E r (VPath (Some i))" and "is_node g E n Op_Phi [Some r, a, b]"
    and "i = 1 \<and> input_value g E a (Some v) \<or> i = 2 \<and> input_value g E b (Some v)"
  shows "evaluates g E n v"
proof -
  have "list_all2 (input_value g E) [Some r, a, b] [Some (VPath (Some i)), if i = 1 then Some v else None, if i = 2 then Some v else None]"
    using assms(1,3) by auto
  from ev_node[OF assms(2) this] show ?thesis using assms(3) by (auto simp: arg_def)
qed

lemma ev_Proj:
  assumes "evaluates g E a w" and "proj_value k w = Some v" and "is_node g E n (Op_Proj k) [Some a]"
  shows "evaluates g E n v"
  by (rule ev_node[OF assms(3), where vs = "[Some w]"]) (simp_all add: arg_def assms(1,2))

lemma ev_MemBar:
  assumes "ctl_value g E c r" and "evaluates g E m (VMem mm)" and "is_node g E n Op_MemBarStoreStore [c, x, Some m, y, z]"
  shows "evaluates g E n (VBar r mm)"
proof -
  obtain v where "input_value g E c (Some v)" "as_ctl v = Some r" using assms(1) by (auto simp: ctl_value_def)
  then show ?thesis
    by (intro ev_node[OF assms(3), where vs = "[Some v, None, Some (VMem mm), None, None]"]) (simp_all add: arg_def assms(2))
qed

lemma ev_CallLeaf:
  assumes "ctl_value g E c r" and "evaluates g E m (VMem mm)" and "evaluates g E ob (V64 w)"
    and "is_node g E n (Op_CallLeaf nm) [c, x, Some m, y, z, t, Some ob]"
  shows "evaluates g E n (VBar r (leaf_effect E nm w mm))"
proof -
  obtain v where "input_value g E c (Some v)" "as_ctl v = Some r" using assms(1) by (auto simp: ctl_value_def)
  then show ?thesis
    by (intro ev_node[OF assms(4), where vs = "[Some v, None, Some (VMem mm), None, None, None, Some (V64 w)]"])
      (simp_all add: arg_def assms(2,3))
qed

lemma ev_CallStaticJava:
  assumes "ctl_value g E c r" and "input_value g E m (Some (VMem mm))" and "is_node g E n Op_CallStaticJava (c # x # m # xs)"
  shows "evaluates g E n (VCall r (slow_call E mm))"
proof -
  obtain v where "input_value g E c (Some v)" "as_ctl v = Some r" using assms(1) by (auto simp: ctl_value_def)
  moreover have "list_all2 (input_value g E) xs (replicate (length xs) None)" by (induction xs) auto
  ultimately show ?thesis
    using assms(2) by (intro ev_node[OF assms(3), where vs = "[Some v, None, Some (VMem mm)] @ replicate (length xs) None"])
      (simp_all add: arg_def)
qed

lemma ev_catch:
  assumes "evaluates g E p (VCall r q)" and "is_node g E c Op_Catch (Some p # xs)" and "is_node g E n Op_CatchProj [Some c]"
  shows "evaluates g E n (VCtl (r \<and> q \<noteq> None))"
proof -
  have "list_all2 (input_value g E) xs (replicate (length xs) None)" by (induction xs) auto
  then have "evaluates g E c (VCall r q)"
    using assms(1) by (intro ev_node[OF assms(2), where vs = "[Some (VCall r q)] @ replicate (length xs) None"]) (simp_all add: arg_def)
  then show ?thesis
    by (intro ev_node[OF assms(3), where vs = "[Some (VCall r q)]"]) (simp_all add: arg_def)
qed

lemma ev_initialize_object:
  assumes "evaluates g E m (VMem mm)" and "evaluates g E ob (V64 w)" and "is_node g E n Op_initialize_object [c, Some m, Some ob, x, y, z]"
  shows "evaluates g E n (VMem (object_init E w mm))"
  by (rule ev_node[OF assms(3), where vs = "[None, Some (VMem mm), Some (V64 w), None, None, None]"]) (simp_all add: arg_def assms(1,2))

text \<open>\<open>h\<close> has the nodes from \<open>lo\<close> on that exist in \<open>g1\<close>, as they are there.\<close>

definition stage_in :: "node_id \<Rightarrow> graph \<Rightarrow> graph \<Rightarrow> run_env \<Rightarrow> bool" where
  "stage_in lo g1 h E \<longleftrightarrow> (\<forall>n. lo \<le> n \<and> n < next_id g1 \<longrightarrow> nodes h n = nodes g1 n \<and> given E n = None)"

lemma stage_node:
  "stage_in lo g1 h E \<Longrightarrow> lo \<le> n \<Longrightarrow> n < next_id g1 \<Longrightarrow> nodes g1 n = Some \<lparr>opc = c, ins = xs\<rparr> \<Longrightarrow> is_node h E n c xs"
  by (auto simp: stage_in_def is_node_def)

definition extends :: "graph \<Rightarrow> graph \<Rightarrow> bool" where
  "extends g h \<longleftrightarrow> next_id g \<le> next_id h \<and> (\<forall>n<next_id g. nodes h n = nodes g n)"

lemma extends_trans: "extends g h \<Longrightarrow> extends h k \<Longrightarrow> extends g k"
  by (auto simp: extends_def)

lemma tracked_extends: "tracked_step UNIV {} g h \<Longrightarrow> nodes_bounded g \<Longrightarrow> extends g h \<and> nodes_bounded h"
  by (auto simp: tracked_step_def tracks_def extends_def)

lemma avoids_empty [simp]: "avoids {} x"
  by (simp add: avoids_def)

end
