(* ===== verification/Expand_Allocate.thy ===== *)
theory Expand_Allocate
  imports Node_Graph Allocation
begin

text \<open>
  \<^verbatim>\<open>MMTkBarrierSetC2::expand_allocate\<close> as a whole: C2 replaces an allocation node by the test for large objects, the fast path on
  the thread's allocation area, the slow call, and the region and the phis that merge the two, and it redirects the uses of the
  projections of the allocation node to them. What the code asks HotSpot about the allocation is a record;
  the projections that \<^verbatim>\<open>extract_call_projections\<close> finds are a parameter, and so is what \<^verbatim>\<open>memory_at\<close> returns for the slice of raw
  memory. The nodes that \<^verbatim>\<open>initialize_object\<close> builds are one node.
\<close>

section \<open>Sites and projections\<close>

record expand_site =
  initial_test_con :: int
  alloc_size_con :: int
  dtrace_alloc_probes :: bool
  dtrace_extended_probes :: bool
  memory_at_raw :: "node_id \<Rightarrow> node_id"
  top_node :: node_id
  alloc_initialization :: "node_id option"
  is_complete_with_arraycopy :: bool
  does_not_escape_thread :: bool
  is_allocation_MemBar_redundant :: bool
  alloc_length :: "node_id option"

record call_projections =
  fallthroughcatchproj :: "node_id option"
  memproj_fallthrough :: "node_id option"
  memproj_catchall :: "node_id option"
  ioproj_fallthrough :: "node_id option"
  ioproj_catchall :: "node_id option"
  resproj :: "node_id option"

text \<open>The positions of inputs: \<^verbatim>\<open>TypeFunc\<close>, \<^verbatim>\<open>AllocateNode\<close> and \<^verbatim>\<open>InitializeNode\<close>.\<close>

abbreviation (input) "TF_Control \<equiv> (0 :: nat)"
abbreviation (input) "TF_I_O \<equiv> (1 :: nat)"
abbreviation (input) "TF_Memory \<equiv> (2 :: nat)"
abbreviation (input) "TF_FramePtr \<equiv> (3 :: nat)"
abbreviation (input) "TF_ReturnAdr \<equiv> (4 :: nat)"
abbreviation (input) "AllocSize \<equiv> (5 :: nat)"
abbreviation (input) "KlassNode \<equiv> (6 :: nat)"
abbreviation (input) "InitialTest \<equiv> (7 :: nat)"
abbreviation (input) "ParmLimit \<equiv> (9 :: nat)"
abbreviation (input) "RawStores \<equiv> (6 :: nat)"

abbreviation (input) "slow_result_path \<equiv> (1 :: nat)"
abbreviation (input) "fast_result_path \<equiv> (2 :: nat)"
abbreviation (input) "too_big_or_final_path \<equiv> (1 :: nat)"
abbreviation (input) "need_gc_path \<equiv> (2 :: nat)"

section \<open>The tests\<close>

text \<open>\<^verbatim>\<open>BoolNode::make_predicate\<close>: a node that is true if the value is not zero.\<close>

definition is_Bool :: "graph \<Rightarrow> node_id \<Rightarrow> bool" where
  "is_Bool g n = (case nodes g n of None \<Rightarrow> False | Some nd \<Rightarrow> (case opc nd of Op_Bool t \<Rightarrow> True | _ \<Rightarrow> False))"

definition make_predicate :: "node_id \<Rightarrow> (graph, node_id) state" where
  "make_predicate n = do {
     g \<leftarrow> State_Monad.get;
     (if is_Bool g n then State_Monad.return n
      else do {
        zero \<leftarrow> new_node (Op_ConI 0) [];
        cmp \<leftarrow> new_node Op_CmpI [None, Some n, Some zero];
        new_node (Op_Bool BT_ne) [None, Some cmp] }) }"

definition size_check_nodes :: "size_t \<Rightarrow> node_id option \<Rightarrow> node_id option \<Rightarrow> (graph, node_id) state" where
  "size_check_nodes lim size_in_bytes initial_slow_test = do {
     max_non_los_bytes_node \<leftarrow> new_node (Op_ConL lim) [];
     mmtk_size_cmp \<leftarrow> new_node Op_CmpL [None, size_in_bytes, Some max_non_los_bytes_node];
     mmtk_size_bool \<leftarrow> new_node (Op_Bool BT_ge) [None, Some mmtk_size_cmp];
     (case initial_slow_test of
        None \<Rightarrow> make_predicate mmtk_size_bool
      | Some test \<Rightarrow> do {
          zero \<leftarrow> new_node (Op_ConI 0) [];
          one \<leftarrow> new_node (Op_ConI 1) [];
          mmtk_size_cmov \<leftarrow> new_node Op_CMoveI [None, Some mmtk_size_bool, Some zero, Some one];
          new_slow_test \<leftarrow> new_node Op_OrI [None, Some mmtk_size_cmov, Some test];
          make_predicate new_slow_test }) }"

definition initial_slow_test_nodes ::
    "alloc_env \<Rightarrow> expand_site \<Rightarrow> node_id option \<Rightarrow> node_id option \<Rightarrow> (graph, bool \<times> node_id option) state" where
  "initial_slow_test_nodes E site size_in_bytes test = do {
     let tv = initial_test_con site;
     let const_size = alloc_size_con site;
     let lim = max_non_los_default_alloc_bytes E - extra_header E;
     let always0 = (0 \<le> tv \<and> tv = 1);
     let test0 = (if 0 \<le> tv then None else test);
     (always1, test1) \<leftarrow>
       (if 0 \<le> const_size then
          State_Monad.return (if lim < (of_int const_size :: size_t) then (True, None) else (always0, test0))
        else do { t \<leftarrow> size_check_nodes lim size_in_bytes test0; State_Monad.return (always0, Some t) });
     State_Monad.return
       (if dtrace_alloc_probes site \<or> \<not> mmtk_enable_allocation_fastpath E \<or> no_fastpath_tag E
        then (True, None) else (always1, test1)) }"

text \<open>The branch to the slow path; the results are the region of the slow path, if one is needed, and the control behind the test.\<close>

definition toobig_nodes :: "node_id option \<Rightarrow> node_id option \<Rightarrow> (graph, node_id option \<times> node_id option) state" where
  "toobig_nodes ctrl initial_slow_test =
     (case initial_slow_test of
        None \<Rightarrow> State_Monad.return (None, ctrl)
      | Some test \<Rightarrow> do {
          slow_region \<leftarrow> new_region 3;
          toobig_iff \<leftarrow> new_node Op_If [ctrl, Some test];
          toobig_true \<leftarrow> new_node Op_IfTrue [Some toobig_iff];
          init_req slow_region too_big_or_final_path (Some toobig_true);
          toobig_false \<leftarrow> new_node Op_IfFalse [Some toobig_iff];
          State_Monad.return (Some slow_region, Some toobig_false) })"

section \<open>The fast path\<close>

text \<open>The addresses of cursor and limit in the thread, and the limit.\<close>

definition eden_end_nodes ::
    "MMTkAllocatorOffsets \<Rightarrow> node_id \<Rightarrow> node_id option \<Rightarrow> node_id option \<Rightarrow> (graph, node_id \<times> node_id) state" where
  "eden_end_nodes ofs tp ctrl rmem = do {
     thread \<leftarrow> new_node Op_ThreadLocal [];
     top_offset \<leftarrow> new_node (Op_ConL (of_nat (tlab_top_offset ofs))) [];
     eden_top_adr \<leftarrow> new_node Op_AddP [None, Some tp, Some thread, Some top_offset];
     end_offset \<leftarrow> new_node (Op_ConL (of_nat (tlab_end_offset ofs))) [];
     eden_end_adr \<leftarrow> new_node Op_AddP [None, Some tp, Some thread, Some end_offset];
     eden_end \<leftarrow> new_node Op_LoadP [ctrl, rmem, Some eden_end_adr];
     State_Monad.return (eden_top_adr, eden_end) }"

definition old_eden_top_node ::
    "alloc_env \<Rightarrow> node_id \<Rightarrow> node_id option \<Rightarrow> node_id option \<Rightarrow> node_id \<Rightarrow> (graph, node_id) state" where
  "old_eden_top_node E tp ctrl rmem eden_top_adr =
     (if tag (default_selector E) = TAG_MARK_COMPACT then do {
        offset \<leftarrow> new_node (Op_ConL (extra_header E)) [];
        node \<leftarrow> new_node Op_LoadP [ctrl, rmem, Some eden_top_adr];
        new_node Op_AddP [None, Some tp, Some node, Some offset] }
      else new_node Op_LoadP [ctrl, rmem, Some eden_top_adr])"

text \<open>The comparison with the limit and the two branches.\<close>

definition needgc_nodes ::
    "node_id \<Rightarrow> node_id option \<Rightarrow> node_id \<Rightarrow> node_id \<Rightarrow> node_id option
       \<Rightarrow> (graph, node_id \<times> node_id \<times> node_id) state" where
  "needgc_nodes tp contended_region old_eden_top eden_end size_in_bytes = do {
     new_eden_top \<leftarrow> new_node Op_AddP [None, Some tp, Some old_eden_top, size_in_bytes];
     needgc_cmp \<leftarrow> new_node Op_CmpP [None, Some new_eden_top, Some eden_end];
     needgc_bol \<leftarrow> new_node (Op_Bool BT_ge) [None, Some needgc_cmp];
     needgc_iff \<leftarrow> new_node Op_If [contended_region, Some needgc_bol];
     needgc_true \<leftarrow> new_node Op_IfTrue [Some needgc_iff];
     needgc_false \<leftarrow> new_node Op_IfFalse [Some needgc_iff];
     State_Monad.return (new_eden_top, needgc_true, needgc_false) }"

definition vo_bit_nodes :: "alloc_env \<Rightarrow> node_id \<Rightarrow> node_id \<Rightarrow> node_id \<Rightarrow> (graph, node_id) state" where
  "vo_bit_nodes E fast_oop_ctrl fast_oop_rawmem fast_oop =
     (if MMTK_ENABLE_VO_BIT E \<or> tag (default_selector E) = TAG_MARK_COMPACT then do {
        obj_addr \<leftarrow> new_node Op_CastP2X [Some fast_oop_ctrl, Some fast_oop];
        addr_shift \<leftarrow> new_node (Op_ConI 6) [];
        meta_offset \<leftarrow> new_node Op_URShiftL [None, Some obj_addr, Some addr_shift];
        meta_base \<leftarrow> new_node (Op_ConL (VO_BIT_BASE_ADDRESS E)) [];
        meta_addr \<leftarrow> new_node Op_AddL [None, Some meta_base, Some meta_offset];
        meta_addr_p \<leftarrow> new_node Op_CastX2P [None, Some meta_addr];
        meta_val \<leftarrow> new_node Op_LoadUB [Some fast_oop_ctrl, Some fast_oop_rawmem, Some meta_addr_p];
        meta_val_shift \<leftarrow> new_node (Op_ConI 3) [];
        shifted_addr \<leftarrow> new_node Op_URShiftL [None, Some obj_addr, Some meta_val_shift];
        meta_val_mask \<leftarrow> new_node (Op_ConL 0b111) [];
        shifted_masked_addr \<leftarrow> new_node Op_AndL [None, Some shifted_addr, Some meta_val_mask];
        const_one \<leftarrow> new_node (Op_ConI 1) [];
        shifted_masked_addr_i \<leftarrow> new_node Op_ConvL2I [None, Some shifted_masked_addr];
        set_bit \<leftarrow> new_node Op_LShiftI [None, Some const_one, Some shifted_masked_addr_i];
        new_meta_val \<leftarrow> new_node Op_OrI [None, Some meta_val, Some set_bit];
        new_node Op_StoreB [Some fast_oop_ctrl, Some fast_oop_rawmem, Some meta_addr_p, Some new_meta_val] }
      else State_Monad.return fast_oop_rawmem)"

text \<open>\<^verbatim>\<open>proj_out_or_null\<close>: the use of a node that is the given projection of it.\<close>

definition proj_out_or_null :: "graph \<Rightarrow> node_id \<Rightarrow> nat \<Rightarrow> node_id option" where
  "proj_out_or_null g n k = List.find (\<lambda>u. map_option opc (nodes g u) = Some (Op_Proj k)) (out_edges g n)"

definition modify_graph :: "(graph \<Rightarrow> graph) \<Rightarrow> (graph, unit) state" where
  "modify_graph f = State (\<lambda>g. ((), f g))"

definition new_membar :: "(graph, node_id) state" where
  "new_membar = new_node Op_MemBarStoreStore [None, None, None, None, None]"

text \<open>The memory barrier between the initialization of the object and its publication.\<close>

definition membar_after :: "node_id \<Rightarrow> node_id \<Rightarrow> (graph, node_id \<times> node_id) state" where
  "membar_after fast_oop_ctrl fast_oop_rawmem = do {
     mb \<leftarrow> new_membar;
     init_req mb TF_Memory (Some fast_oop_rawmem);
     init_req mb TF_Control (Some fast_oop_ctrl);
     ctrl \<leftarrow> new_node (Op_Proj TF_Control) [Some mb];
     mem \<leftarrow> new_node (Op_Proj TF_Memory) [Some mb];
     State_Monad.return (ctrl, mem) }"

definition membar_nodes :: "expand_site \<Rightarrow> node_id \<Rightarrow> node_id \<Rightarrow> (graph, node_id \<times> node_id) state" where
  "membar_nodes site fast_oop_ctrl fast_oop_rawmem =
     (if \<not> does_not_escape_thread site \<and> \<not> is_allocation_MemBar_redundant site
         \<and> (alloc_initialization site = None \<or> \<not> is_complete_with_arraycopy site) then do {
        g \<leftarrow> State_Monad.get;
        (case alloc_initialization site of
           Some init \<Rightarrow>
             (if length (inputs g init) < RawStores then membar_after fast_oop_ctrl fast_oop_rawmem
              else do {
                let init_ctrl = proj_out_or_null g init TF_Control;
                let init_mem = proj_out_or_null g init TF_Memory;
                mb \<leftarrow> new_membar;
                ctrl0 \<leftarrow> new_node (Op_Proj TF_Control) [Some init];
                mem0 \<leftarrow> new_node (Op_Proj TF_Memory) [Some init];
                init_req mb TF_Memory (Some mem0);
                init_req mb TF_Control (Some ctrl0);
                ctrl \<leftarrow> new_node (Op_Proj TF_Control) [Some mb];
                mem \<leftarrow> new_node (Op_Proj TF_Memory) [Some mb];
                modify_graph (case init_ctrl of None \<Rightarrow> id | Some n \<Rightarrow> replace_node n ctrl);
                modify_graph (case init_mem of None \<Rightarrow> id | Some n \<Rightarrow> replace_node n mem);
                State_Monad.return (fast_oop_ctrl, fast_oop_rawmem) })
         | None \<Rightarrow> membar_after fast_oop_ctrl fast_oop_rawmem) }
      else State_Monad.return (fast_oop_ctrl, fast_oop_rawmem))"

definition dtrace_nodes ::
    "expand_site \<Rightarrow> node_id option \<Rightarrow> node_id option \<Rightarrow> node_id \<Rightarrow> node_id \<Rightarrow> node_id \<Rightarrow> (graph, node_id \<times> node_id) state" where
  "dtrace_nodes site frame_ptr return_adr fast_oop fast_oop_ctrl fast_oop_rawmem =
     (if dtrace_extended_probes site then do {
        call \<leftarrow> new_node (Op_CallLeaf ''dtrace_object_alloc'') (replicate 7 None);
        thread \<leftarrow> new_node Op_ThreadLocal [];
        init_req call 5 (Some thread);
        init_req call 6 (Some fast_oop);
        init_req call TF_Control (Some fast_oop_ctrl);
        init_req call TF_I_O (Some (top_node site));
        init_req call TF_Memory (Some fast_oop_rawmem);
        init_req call TF_ReturnAdr return_adr;
        init_req call TF_FramePtr frame_ptr;
        ctrl \<leftarrow> new_node (Op_Proj TF_Control) [Some call];
        mem \<leftarrow> new_node (Op_Proj TF_Memory) [Some call];
        State_Monad.return (ctrl, mem) }
      else State_Monad.return (fast_oop_ctrl, fast_oop_rawmem))"

text \<open>The merge point of slow and fast path: region, raw memory, raw oop and I/O.\<close>

record merge_nodes =
  result_region :: node_id
  result_phi_rawmem :: node_id
  result_phi_rawoop :: node_id
  result_phi_i_o :: node_id

definition new_merge :: "(graph, merge_nodes) state" where
  "new_merge = do {
     region \<leftarrow> new_region 3;
     rawmem \<leftarrow> new_phi region;
     rawoop \<leftarrow> new_phi region;
     i_o \<leftarrow> new_phi region;
     State_Monad.return \<lparr>result_region = region, result_phi_rawmem = rawmem, result_phi_rawoop = rawoop, result_phi_i_o = i_o\<rparr> }"

text \<open>\<open>A\<close> is the allocation node, whose inputs give control, memory, size and class.\<close>

definition raw_memory :: "expand_site \<Rightarrow> graph \<Rightarrow> node_id option \<Rightarrow> node_id option" where
  "raw_memory site g x = (case x of
     None \<Rightarrow> None
   | Some m \<Rightarrow> Some (if map_option opc (nodes g m) = Some Op_MergeMem then memory_at_raw site m else m))"

definition fast_path_nodes ::
    "alloc_env \<Rightarrow> expand_site \<Rightarrow> MMTkAllocatorOffsets \<Rightarrow> node \<Rightarrow> node_id option \<Rightarrow> node_id option \<Rightarrow> node_id option
       \<Rightarrow> (graph, node_id option \<times> merge_nodes) state" where
  "fast_path_nodes E site ofs A slow_region0 toobig_false rmem = do {
     let tp = top_node site;
     let ctrl = ins A ! TF_Control;
     let i_o = ins A ! TF_I_O;
     let size_in_bytes = ins A ! AllocSize;
     (eden_top_adr, eden_end) \<leftarrow> eden_end_nodes ofs tp ctrl rmem;
     M \<leftarrow> new_merge;
     old_eden_top \<leftarrow> old_eden_top_node E tp ctrl rmem eden_top_adr;
     (new_eden_top, needgc_true, needgc_false) \<leftarrow> needgc_nodes tp toobig_false old_eden_top eden_end size_in_bytes;
     slow_region \<leftarrow> (case slow_region0 of
         Some r \<Rightarrow> do { init_req r need_gc_path (Some needgc_true); State_Monad.return r }
       | None \<Rightarrow> State_Monad.return needgc_true);
     init_req (result_phi_i_o M) slow_result_path i_o;
     store_eden_top \<leftarrow> new_node Op_StoreP [Some needgc_false, rmem, Some eden_top_adr, Some new_eden_top];
     rawmem1 \<leftarrow> vo_bit_nodes E needgc_false store_eden_top old_eden_top;
     rawmem2 \<leftarrow> new_node Op_initialize_object
       [Some needgc_false, Some rawmem1, Some old_eden_top, ins A ! KlassNode, alloc_length site, size_in_bytes];
     (ctrl3, rawmem3) \<leftarrow> membar_nodes site needgc_false rawmem2;
     (ctrl4, rawmem4) \<leftarrow> dtrace_nodes site (ins A ! TF_FramePtr) (ins A ! TF_ReturnAdr) old_eden_top ctrl3 rawmem3;
     init_req (result_region M) fast_result_path (Some ctrl4);
     init_req (result_phi_rawoop M) fast_result_path (Some old_eden_top);
     init_req (result_phi_i_o M) fast_result_path i_o;
     init_req (result_phi_rawmem M) fast_result_path (Some rawmem4);
     State_Monad.return (Some slow_region, M) }"

section \<open>The slow call\<close>

text \<open>The debug information that is copied to the call are the inputs behind the parameters of the allocation node.\<close>

definition slow_call_node :: "expand_site \<Rightarrow> node \<Rightarrow> node_id option \<Rightarrow> (graph, node_id) state" where
  "slow_call_node site A slow_region =
     new_node Op_CallStaticJava
       ([slow_region, Some (top_node site), ins A ! TF_Memory, ins A ! TF_FramePtr, ins A ! TF_ReturnAdr, ins A ! KlassNode]
        @ (case alloc_length site of None \<Rightarrow> [] | Some l \<Rightarrow> [Some l])
        @ drop ParmLimit (ins A))"

section \<open>Redirecting the projections\<close>

text \<open>Uses of the projection of the normal path get the result of the merge.\<close>

definition redirect_fallthrough :: "node_id option \<Rightarrow> node_id \<Rightarrow> graph \<Rightarrow> graph option" where
  "redirect_fallthrough proj res g =
     (case proj of None \<Rightarrow> Some g | Some p \<Rightarrow> replace_outs p res (outcnt g p) g)"

text \<open>
  Uses of the projection of the exceptional path get the projection of the normal path, which is created if it does not exist, and
  the projection is removed. The results are the projection of the normal path and the graph.
\<close>

definition merge_catchall ::
    "node_id \<Rightarrow> nat \<Rightarrow> node_id option \<Rightarrow> node_id option \<Rightarrow> graph \<Rightarrow> (node_id option \<times> graph) result option" where
  "merge_catchall call k fallthrough catchall g =
     (case catchall of
        None \<Rightarrow> Some (Inr (fallthrough, g))
      | Some c \<Rightarrow>
          (let (p, g1) = (case fallthrough of Some p \<Rightarrow> (p, g) | None \<Rightarrow> run_state (new_node (Op_Proj k) [Some call]) g)
           in case replace_outs c p (outcnt g1 c) g1 of
                None \<Rightarrow> None
              | Some g2 \<Rightarrow> if outcnt g2 c \<noteq> 0 then Some (Inl (Assert_failed ''all uses must be deleted''))
                            else Some (Inr (Some p, remove_dead_node c g2))))"

definition bind_outcome :: "'a result option \<Rightarrow> ('a \<Rightarrow> 'b result option) \<Rightarrow> 'b result option" where
  "bind_outcome x f = (case x of None \<Rightarrow> None | Some (Inl e) \<Rightarrow> Some (Inl e) | Some (Inr a) \<Rightarrow> f a)"

text \<open>The steps that both kinds of expansion share, for the given results in memory (if any) and I/O.\<close>

definition redirect_projections ::
    "call_projections \<Rightarrow> node_id \<Rightarrow> node_id option \<Rightarrow> node_id \<Rightarrow> graph \<Rightarrow> (node_id option \<times> graph) result option" where
  "redirect_projections P call rawmem i_o g =
     (case (case rawmem of None \<Rightarrow> Some g | Some r \<Rightarrow> redirect_fallthrough (memproj_fallthrough P) r g) of
        None \<Rightarrow> None
      | Some g1 \<Rightarrow>
          bind_outcome (merge_catchall call TF_Memory (memproj_fallthrough P) (memproj_catchall P) g1) (\<lambda>(memproj, g2).
          (case redirect_fallthrough (ioproj_fallthrough P) i_o g2 of
             None \<Rightarrow> None
           | Some g3 \<Rightarrow>
               bind_outcome (merge_catchall call TF_I_O (ioproj_fallthrough P) (ioproj_catchall P) g3) (\<lambda>(_, g4).
                 Some (Inr (memproj, g4))))))"

text \<open>The end of an expansion with a fast path: control and result of the call are cloned for the slow path of the merge.\<close>

definition finish_merge :: "expand_site \<Rightarrow> call_projections \<Rightarrow> merge_nodes \<Rightarrow> node_id option \<Rightarrow> graph \<Rightarrow> graph" where
  "finish_merge site P M memproj g = snd (run_state (do {
     ctrl \<leftarrow> (case fallthroughcatchproj P of
         Some p \<Rightarrow> do { c \<leftarrow> clone_node p; modify_graph (replace_node p (result_region M)); State_Monad.return c }
       | None \<Rightarrow> State_Monad.return (top_node site));
     slow_result \<leftarrow> (case resproj P of
         None \<Rightarrow> State_Monad.return (top_node site)
       | Some p \<Rightarrow> do { c \<leftarrow> clone_node p; modify_graph (replace_node p (result_phi_rawoop M)); State_Monad.return c });
     init_req (result_region M) slow_result_path (Some ctrl);
     init_req (result_phi_rawoop M) slow_result_path (Some slow_result);
     init_req (result_phi_rawmem M) slow_result_path memproj }) g)"

text \<open>The end of an expansion without one: the input for I/O is unhooked unless the call is its only use.\<close>

definition finish_slow :: "expand_site \<Rightarrow> node_id \<Rightarrow> node_id \<Rightarrow> graph \<Rightarrow> graph result" where
  "finish_slow site call i_o g =
     (if 1 < outcnt g i_o then Inr (set_req call TF_I_O (Some (top_node site)) g)
      else if out_edges g i_o = [call] then Inr g
      else Inl (Assert_failed ''unique_ctrl_out''))"

text \<open>
  The whole expansion. \<open>extract\<close> is \<^verbatim>\<open>extract_call_projections\<close>. No result means that a loop does not end.
\<close>

definition expand_allocate ::
    "(graph \<Rightarrow> node_id \<Rightarrow> call_projections) \<Rightarrow> alloc_env \<Rightarrow> expand_site \<Rightarrow> node_id \<Rightarrow> node \<Rightarrow> graph \<Rightarrow> graph result option" where
  "expand_allocate extract E site alloc A g =
     (if ins A ! TF_Control = None then Some (Inl (Assert_failed ''must have control''))
      else if max_non_los_default_alloc_bytes E = 0
      then Some (Inl (Assert_failed ''max_non_los_default_alloc_bytes has not been initialized''))
      else
        (let ((always_slow, test), g1) = run_state (initial_slow_test_nodes E site (ins A ! AllocSize) (ins A ! InitialTest)) g
         in if test \<noteq> None \<and> always_slow then Some (Inl (Assert_failed ''arguments must be consistent''))
         else if always_slow then
           (let i_o = the (ins A ! TF_I_O);
                (call, g2) = run_state (slow_call_node site A (ins A ! TF_Control)) g1;
                g3 = replace_node alloc call (set_req call TF_I_O (Some i_o) g2)
            in bind_outcome (redirect_projections (extract g3 call) call None i_o g3)
                 (\<lambda>(_, g4). Some (finish_slow site call i_o g4)))
         else
           (case get_tlab_top_and_end_offsets (third_party_heap_mutator_offset E) (default_selector E) of
              Inl e \<Rightarrow> Some (Inl e)
            | Inr ofs \<Rightarrow>
                (let ((slow_region0, toobig_false), g2) = run_state (toobig_nodes (ins A ! TF_Control) test) g1;
                     ((slow_region, M), g3) =
                       run_state (fast_path_nodes E site ofs A slow_region0 toobig_false (raw_memory site g (ins A ! TF_Memory))) g2;
                     (call, g4) = run_state (slow_call_node site A slow_region) g3;
                     g5 = replace_node alloc call g4;
                     P = extract g5 call
                 in bind_outcome (redirect_projections P call (Some (result_phi_rawmem M)) (result_phi_i_o M) g5)
                      (\<lambda>(memproj, g6). Some (Inr (finish_merge site P M memproj g6)))))))"

section \<open>Tracking the stages\<close>

text \<open>Nodes that are created later than \<open>g\<close> are not in \<open>R\<close>; the given inputs are not either.\<close>

definition fresh :: "graph \<Rightarrow> node_id set \<Rightarrow> bool" where
  "fresh g R \<longleftrightarrow> (\<forall>r\<in>R. r < next_id g)"

lemma fresh_simps [simp]:
  "fresh g R \<Longrightarrow> next_id g \<notin> R" "fresh g R \<Longrightarrow> next_id g \<le> n \<Longrightarrow> n \<notin> R"
  by (auto simp: fresh_def)

lemma fresh_mono: "fresh g R \<Longrightarrow> next_id g \<le> next_id h \<Longrightarrow> fresh h R"
  by (auto simp: fresh_def)

lemma stage_size_check:
  "run_state (size_check_nodes lim sz test) g = (t, g1) \<Longrightarrow> fresh g R \<Longrightarrow> avoids R sz \<Longrightarrow> avoids R test
    \<Longrightarrow> tracked_step K R g g1 \<and> next_id g \<le> next_id g1 \<and> next_id g \<le> t"
  by (auto simp: size_check_nodes_def make_predicate_def is_Bool_def split: option.splits)

lemma initial_test_run:
  "run_state (initial_slow_test_nodes E site sz test) g =
     (let lim = max_non_los_default_alloc_bytes E - extra_header E;
          test0 = (if 0 \<le> initial_test_con site then None else test);
          always0 = (initial_test_con site = 1);
          slow = (dtrace_alloc_probes site \<or> \<not> mmtk_enable_allocation_fastpath E \<or> no_fastpath_tag E)
      in if 0 \<le> alloc_size_con site
         then (if slow \<or> lim < of_int (alloc_size_con site) then (True, None) else (always0, test0), g)
         else (let (t, g1) = run_state (size_check_nodes lim sz test0) g
               in (if slow then (True, None) else (always0, Some t), g1)))"
  by (auto simp: initial_slow_test_nodes_def Let_def split: prod.splits)

lemma stage_initial_test:
  assumes "run_state (initial_slow_test_nodes E site sz test) g = ((a, t), g1)" and "fresh g R" and "avoids R sz" and "avoids R test"
  shows "tracked_step K R g g1 \<and> next_id g \<le> next_id g1 \<and> avoids R t"
proof -
  have "avoids R (if 0 \<le> initial_test_con site then None else test)" using assms(4) by simp
  from stage_size_check[OF _ assms(2,3) this] assms(1,2,4) show ?thesis
    by (auto simp: initial_test_run Let_def split: prod.splits if_splits)
qed

lemma stage_toobig:
  "run_state (toobig_nodes c test) g = ((sr, tf), g1) \<Longrightarrow> fresh g R \<Longrightarrow> avoids R c \<Longrightarrow> avoids R test
    \<Longrightarrow> tracked_step K R g g1 \<and> next_id g \<le> next_id g1 \<and> avoids R tf \<and> (\<forall>r. sr = Some r \<longrightarrow> next_id g \<le> r \<and> r < next_id g1)"
  by (auto simp: toobig_nodes_def split: option.splits)

lemma stage_eden_end:
  "run_state (eden_end_nodes ofs tp c m) g = ((ta, lim), g1) \<Longrightarrow> fresh g R \<Longrightarrow> avoids R c \<Longrightarrow> avoids R m \<Longrightarrow> tp \<notin> R
    \<Longrightarrow> tracked_step K R g g1 \<and> next_id g \<le> next_id g1 \<and> next_id g \<le> ta \<and> next_id g \<le> lim"
  by (auto simp: eden_end_nodes_def)

lemma stage_new_merge:
  assumes "run_state new_merge g = (M, g1)" and "fresh g R"
  shows "tracked_step K R g g1"
    and "M = \<lparr>result_region = next_id g, result_phi_rawmem = next_id g + 1, result_phi_rawoop = next_id g + 2, result_phi_i_o = next_id g + 3\<rparr>"
    and "next_id g1 = next_id g + 4"
    and "nodes g1 (next_id g) = Some \<lparr>opc = Op_Region, ins = [Some (next_id g), None, None]\<rparr>"
    and "k \<in> {1, 2, 3} \<Longrightarrow> nodes g1 (next_id g + k) = Some \<lparr>opc = Op_Phi, ins = [Some (next_id g), None, None]\<rparr>"
  using assms by (auto simp: new_merge_def numeral_eq_Suc inputs_def)

lemma stage_old_top:
  "run_state (old_eden_top_node E tp c m a) g = (ot, g1) \<Longrightarrow> fresh g R \<Longrightarrow> avoids R c \<Longrightarrow> avoids R m \<Longrightarrow> tp \<notin> R \<Longrightarrow> a \<notin> R
    \<Longrightarrow> tracked_step K R g g1 \<and> next_id g \<le> next_id g1 \<and> next_id g \<le> ot"
  by (auto simp: old_eden_top_node_def split: if_splits)

lemma stage_needgc:
  "run_state (needgc_nodes tp c ot e sz) g = ((nt, gt, gf), g1) \<Longrightarrow> fresh g R \<Longrightarrow> tp \<notin> R \<Longrightarrow> avoids R c \<Longrightarrow> ot \<notin> R \<Longrightarrow> e \<notin> R \<Longrightarrow> avoids R sz
    \<Longrightarrow> tracked_step K R g g1 \<and> next_id g \<le> next_id g1 \<and> next_id g \<le> nt \<and> next_id g \<le> gt \<and> next_id g \<le> gf"
  by (auto simp: needgc_nodes_def)

lemma stage_vo_bit:
  "run_state (vo_bit_nodes E c m ob) g = (m1, g1) \<Longrightarrow> fresh g R \<Longrightarrow> c \<notin> R \<Longrightarrow> m \<notin> R \<Longrightarrow> ob \<notin> R
    \<Longrightarrow> tracked_step K R g g1 \<and> next_id g \<le> next_id g1 \<and> m1 \<notin> R"
  by (auto simp: vo_bit_nodes_def split: if_splits)

lemma stage_membar:
  assumes "run_state (membar_nodes site c m) g = ((c1, m1), g1)" and "fresh g R" and "c \<notin> R" and "m \<notin> R"
    and init: "\<And>init k p. alloc_initialization site = Some init \<Longrightarrow> init \<notin> R \<and> (proj_out_or_null g init k = Some p \<longrightarrow> p \<in> R - K)"
  shows "tracked_step K R g g1 \<and> next_id g \<le> next_id g1 \<and> c1 \<notin> R \<and> m1 \<notin> R"
proof -
  have i: "\<And>x. alloc_initialization site = Some x \<Longrightarrow> x \<notin> R"
    "\<And>x k p. alloc_initialization site = Some x \<Longrightarrow> proj_out_or_null g x k = Some p \<Longrightarrow> p \<in> R \<and> p \<notin> K"
    using init by blast+
  show ?thesis
    using assms(1-4) i
    by (auto simp: membar_nodes_def membar_after_def new_membar_def modify_graph_def Let_def split: if_splits option.splits)
qed

lemma stage_dtrace:
  "run_state (dtrace_nodes site fp ra ob c m) g = ((c1, m1), g1) \<Longrightarrow> fresh g R \<Longrightarrow> top_node site \<notin> R \<Longrightarrow> avoids R fp \<Longrightarrow> avoids R ra
    \<Longrightarrow> ob \<notin> R \<Longrightarrow> c \<notin> R \<Longrightarrow> m \<notin> R \<Longrightarrow> tracked_step K R g g1 \<and> next_id g \<le> next_id g1 \<and> c1 \<notin> R \<and> m1 \<notin> R"
  by (auto simp: dtrace_nodes_def numeral_eq_Suc split: if_splits)

section \<open>The values of the stages\<close>

lemma make_predicate_eval:
  assumes "run_state (make_predicate n) g = (t, g1)" and "stage_in (next_id g) g1 h R" and "evaluates h R n (V32 w)"
    and "\<not> is_Bool g n"
  shows "evaluates h R t (V32 (of_bool (w \<noteq> 0)))"
proof -
  let ?N = "next_id g"
  have g1: "g1 = add_node (Op_Bool BT_ne) [None, Some (Suc ?N)] (add_node Op_CmpI [None, Some n, Some ?N] (add_node (Op_ConI 0) [] g))"
    and t: "t = Suc (Suc ?N)"
    using assms(1,4) by (auto simp: make_predicate_def)
  have n: "is_node h R ?N (Op_ConI 0) []" "is_node h R (Suc ?N) Op_CmpI [None, Some n, Some ?N]"
      "is_node h R t (Op_Bool BT_ne) [None, Some (Suc ?N)]"
    by (rule stage_node[OF assms(2)]; simp add: g1 t)+
  from ev_Bool[OF ev_binary32(3)[OF assms(3) ev_leaf(1)[OF n(1)] n(2)] n(3)]
  show ?thesis by (cases "w = 0") (simp_all add: signed_eq_0_iff)
qed

lemma size_check_eval:
  assumes "run_state (size_check_nodes lim (Some sz) test) g = (t, g1)" and st: "stage_in (next_id g) g1 h R"
    and sz: "evaluates h R sz (V64 s)" and test: "\<And>x. test = Some x \<Longrightarrow> evaluates h R x (V32 w)"
  shows "evaluates h R t (V32 (of_bool (c2_test_holds (if test = None then Size_test lim else Or_test lim) w s)))"
proof -
  let ?N = "next_id g"
  let ?g = "add_node (Op_Bool BT_ge) [None, Some (Suc ?N)] (add_node Op_CmpL [None, Some sz, Some ?N] (add_node (Op_ConL lim) [] g))"
  have le: "next_id ?g \<le> next_id g1" "n < next_id ?g \<Longrightarrow> nodes g1 n = nodes ?g n" for n
    using assms(1) by (auto simp: size_check_nodes_def make_predicate_def is_Bool_def split: option.splits)
  have n: "is_node h R ?N (Op_ConL lim) []" "is_node h R (Suc ?N) Op_CmpL [None, Some sz, Some ?N]"
      "is_node h R (Suc (Suc ?N)) (Op_Bool BT_ge) [None, Some (Suc ?N)]"
    using le by (auto intro!: stage_node[OF st])
  from ev_Bool[OF ev_binary64(3)[OF sz ev_leaf(2)[OF n(1)] n(2)] n(3)]
  have bol: "evaluates h R (Suc (Suc ?N)) (V32 (of_bool (sint lim \<le> sint s)))" by simp
  show ?thesis
  proof (cases test)
    case None
    then have "t = Suc (Suc ?N)" using assms(1) by (simp add: size_check_nodes_def make_predicate_def is_Bool_def)
    with bol None show ?thesis by simp
  next
    case (Some x)
    let ?g2 = "add_node Op_OrI [None, Some (?N + 5), Some x] (add_node Op_CMoveI [None, Some (?N + 2), Some (?N + 3), Some (?N + 4)]
        (add_node (Op_ConI 1) [] (add_node (Op_ConI 0) [] ?g)))"
    have run: "run_state (make_predicate (?N + 6)) ?g2 = (t, g1)" "\<not> is_Bool ?g2 (?N + 6)"
      using assms(1) Some by (auto simp: size_check_nodes_def numeral_eq_Suc is_Bool_def)
    have le2: "next_id ?g2 \<le> next_id g1" "n < next_id ?g2 \<Longrightarrow> nodes g1 n = nodes ?g2 n" for n
      using run by (auto simp: make_predicate_def)
    then have st2: "stage_in (next_id ?g2) g1 h R" using st by (auto simp: stage_in_def)
    have n2: "is_node h R (?N + 3) (Op_ConI 0) []" "is_node h R (?N + 4) (Op_ConI 1) []"
        "is_node h R (?N + 5) Op_CMoveI [None, Some (?N + 2), Some (?N + 3), Some (?N + 4)]"
        "is_node h R (?N + 6) Op_OrI [None, Some (?N + 5), Some x]"
      using le2 by (auto intro!: stage_node[OF st] simp: numeral_eq_Suc)
    have bol2: "evaluates h R (?N + 2) (V32 (of_bool (sint lim \<le> sint s)))" using bol by (simp add: numeral_2_eq_2)
    from ev_binary32(1)[OF ev_CMoveI[OF bol2 ev_leaf(1)[OF n2(1)] ev_leaf(1)[OF n2(2)] n2(3)] test[OF Some] n2(4)]
    have "evaluates h R (?N + 6) (V32 ((if sint lim \<le> sint s then 1 else 0) OR w))"
      by (simp split: if_splits)
    from make_predicate_eval[OF run(1) st2 this run(2)] Some show ?thesis by simp
  qed
qed

lemma vo_bit_eval:
  assumes "run_state (vo_bit_nodes E c m ob) g = (m1, g1)" and st: "stage_in (next_id g) g1 h R"
    and mem: "evaluates h R m (VMem mm)" and ob: "evaluates h R ob (V64 a)"
  shows "evaluates h R m1 (VMem (if MMTK_ENABLE_VO_BIT E \<or> tag (default_selector E) = TAG_MARK_COMPACT
     then c2_set_vo_bit (VO_BIT_BASE_ADDRESS E) mm a else mm))"
proof (cases "MMTK_ENABLE_VO_BIT E \<or> tag (default_selector E) = TAG_MARK_COMPACT")
  case True
  let ?N = "next_id g"
  have n: "is_node h R ?N Op_CastP2X [Some c, Some ob]" "is_node h R (?N + 1) (Op_ConI 6) []"
      "is_node h R (?N + 2) Op_URShiftL [None, Some ?N, Some (?N + 1)]" "is_node h R (?N + 3) (Op_ConL (VO_BIT_BASE_ADDRESS E)) []"
      "is_node h R (?N + 4) Op_AddL [None, Some (?N + 3), Some (?N + 2)]" "is_node h R (?N + 5) Op_CastX2P [None, Some (?N + 4)]"
      "is_node h R (?N + 6) Op_LoadUB [Some c, Some m, Some (?N + 5)]" "is_node h R (?N + 7) (Op_ConI 3) []"
      "is_node h R (?N + 8) Op_URShiftL [None, Some ?N, Some (?N + 7)]" "is_node h R (?N + 9) (Op_ConL 7) []"
      "is_node h R (?N + 10) Op_AndL [None, Some (?N + 8), Some (?N + 9)]" "is_node h R (?N + 11) (Op_ConI 1) []"
      "is_node h R (?N + 12) Op_ConvL2I [None, Some (?N + 10)]" "is_node h R (?N + 13) Op_LShiftI [None, Some (?N + 11), Some (?N + 12)]"
      "is_node h R (?N + 14) Op_OrI [None, Some (?N + 6), Some (?N + 13)]"
      "is_node h R (?N + 15) Op_StoreB [Some c, Some m, Some (?N + 5), Some (?N + 14)]"
    using assms(1) True by (auto intro!: stage_node[OF st] simp: vo_bit_nodes_def numeral_eq_Suc)
  have m1: "m1 = ?N + 15" using assms(1) True by (auto simp: vo_bit_nodes_def)
  note adr = ev_unary(2)[OF ob n(1)]
  note meta = ev_unary(3)[OF ev_binary64(1)[OF ev_leaf(2)[OF n(4)] ev_URShiftL[OF adr ev_leaf(1)[OF n(2)] n(3)] n(5)] n(6)]
  have mem': "input_value h R (Some m) (Some (VMem mm))" using mem by simp
  note val = ev_load(2)[OF mem' meta n(7)]
  note idx = ev_unary(1)[OF ev_binary64(2)[OF ev_URShiftL[OF adr ev_leaf(1)[OF n(8)] n(9)] ev_leaf(2)[OF n(10)] n(11)] n(13)]
  from ev_StoreB[OF mem' meta ev_binary32(1)[OF val ev_binary32(2)[OF ev_leaf(1)[OF n(12)] idx n(14)] n(15)] n(16)] m1 True
  show ?thesis by (simp add: c2_set_vo_bit_def Let_def)
next
  case False
  then show ?thesis using assms(1) mem by (auto simp: vo_bit_nodes_def)
qed

lemma toobig_eval:
  assumes "run_state (toobig_nodes c (Some test)) g = ((sr, tf), g1)" and st: "stage_in (Suc (next_id g)) g1 h R"
    and c: "ctl_value h R c r" and test: "evaluates h R test (V32 w)"
  shows "sr = Some (next_id g)" and "\<exists>n. tf = Some n \<and> evaluates h R n (VCtl (r \<and> w = 0))"
    and "\<exists>t. nodes g1 (next_id g) = Some \<lparr>opc = Op_Region, ins = [sr, Some t, None]\<rparr> \<and> evaluates h R t (VCtl (r \<and> w \<noteq> 0))"
proof -
  let ?N = "next_id g"
  have n: "is_node h R (?N + 1) Op_If [c, Some test]" "is_node h R (?N + 2) Op_IfTrue [Some (?N + 1)]"
      "is_node h R (?N + 3) Op_IfFalse [Some (?N + 1)]"
    using assms(1) by (auto intro!: stage_node[OF st] simp: toobig_nodes_def numeral_eq_Suc)
  note i = ev_If[OF c test n(1)]
  show "sr = Some ?N" "\<exists>n. tf = Some n \<and> evaluates h R n (VCtl (r \<and> w = 0))"
    using assms(1) ev_branch(2)[OF i n(3)] by (auto simp: toobig_nodes_def numeral_eq_Suc)
  show "\<exists>t. nodes g1 ?N = Some \<lparr>opc = Op_Region, ins = [sr, Some t, None]\<rparr> \<and> evaluates h R t (VCtl (r \<and> w \<noteq> 0))"
    using assms(1) ev_branch(1)[OF i n(2)] by (auto simp: toobig_nodes_def numeral_eq_Suc)
qed

lemma eden_end_eval:
  assumes "run_state (eden_end_nodes ofs tp c m) g = ((ta, lim), g1)" and st: "stage_in (next_id g) g1 h R"
    and m: "input_value h R m (Some (VMem mm))"
  shows "evaluates h R ta (V64 (thread_ptr R + of_nat (tlab_top_offset ofs)))"
    and "evaluates h R lim (V64 (load64 mm (thread_ptr R + of_nat (tlab_end_offset ofs))))"
proof -
  let ?N = "next_id g"
  have n: "is_node h R ?N Op_ThreadLocal []" "is_node h R (?N + 1) (Op_ConL (of_nat (tlab_top_offset ofs))) []"
      "is_node h R (?N + 2) Op_AddP [None, Some tp, Some ?N, Some (?N + 1)]" "is_node h R (?N + 3) (Op_ConL (of_nat (tlab_end_offset ofs))) []"
      "is_node h R (?N + 4) Op_AddP [None, Some tp, Some ?N, Some (?N + 3)]" "is_node h R (?N + 5) Op_LoadP [c, m, Some (?N + 4)]"
    using assms(1) by (auto intro!: stage_node[OF st] simp: eden_end_nodes_def numeral_eq_Suc)
  have "ta = ?N + 2" "lim = ?N + 5" using assms(1) by (auto simp: eden_end_nodes_def)
  with ev_AddP[OF ev_leaf(3)[OF n(1)] ev_leaf(2)[OF n(2)] n(3)]
    ev_load(1)[OF m ev_AddP[OF ev_leaf(3)[OF n(1)] ev_leaf(2)[OF n(4)] n(5)] n(6)]
  show "evaluates h R ta (V64 (thread_ptr R + of_nat (tlab_top_offset ofs)))"
    "evaluates h R lim (V64 (load64 mm (thread_ptr R + of_nat (tlab_end_offset ofs))))" by simp_all
qed

lemma old_top_eval:
  assumes "run_state (old_eden_top_node E tp c m a) g = (ot, g1)" and st: "stage_in (next_id g) g1 h R"
    and m: "input_value h R m (Some (VMem mm))" and a: "evaluates h R a (V64 w)"
  shows "evaluates h R ot (V64 (load64 mm w + extra_header E))"
proof (cases "tag (default_selector E) = TAG_MARK_COMPACT")
  case True
  let ?N = "next_id g"
  have n: "is_node h R ?N (Op_ConL (extra_header E)) []" "is_node h R (?N + 1) Op_LoadP [c, m, Some a]"
      "is_node h R (?N + 2) Op_AddP [None, Some tp, Some (?N + 1), Some ?N]" "ot = ?N + 2"
    using assms(1) True by (auto intro!: stage_node[OF st] simp: old_eden_top_node_def numeral_eq_Suc)
  from ev_AddP[OF ev_load(1)[OF m a n(2)] ev_leaf(2)[OF n(1)] n(3)] n(4) show ?thesis by simp
next
  case False
  then have "is_node h R (next_id g) Op_LoadP [c, m, Some a]" "ot = next_id g"
    using assms(1) by (auto intro!: stage_node[OF st] simp: old_eden_top_node_def)
  with ev_load(1)[OF m a] False show ?thesis by (simp add: extra_header_def)
qed

lemma needgc_eval:
  assumes "run_state (needgc_nodes tp c ot e (Some sz)) g = ((nt, gt, gf), g1)" and st: "stage_in (next_id g) g1 h R"
    and "ctl_value h R c r" and "evaluates h R ot (V64 x)" and "evaluates h R e (V64 y)" and "evaluates h R sz (V64 s)"
  shows "evaluates h R nt (V64 (x + s))" and "evaluates h R gt (VCtl (r \<and> y \<le> x + s))"
    and "evaluates h R gf (VCtl (r \<and> \<not> y \<le> x + s))"
proof -
  let ?N = "next_id g"
  have n: "is_node h R ?N Op_AddP [None, Some tp, Some ot, Some sz]" "is_node h R (?N + 1) Op_CmpP [None, Some ?N, Some e]"
      "is_node h R (?N + 2) (Op_Bool BT_ge) [None, Some (?N + 1)]" "is_node h R (?N + 3) Op_If [c, Some (?N + 2)]"
      "is_node h R (?N + 4) Op_IfTrue [Some (?N + 3)]" "is_node h R (?N + 5) Op_IfFalse [Some (?N + 3)]"
    using assms(1) by (auto intro!: stage_node[OF st] simp: needgc_nodes_def numeral_eq_Suc)
  have ids: "nt = ?N" "gt = ?N + 4" "gf = ?N + 5" using assms(1) by (auto simp: needgc_nodes_def)
  note new_top = ev_AddP[OF assms(4,6) n(1)]
  note i = ev_If[OF assms(3) ev_Bool[OF ev_binary64(4)[OF new_top assms(5) n(2)] n(3)] n(4)]
  show "evaluates h R nt (V64 (x + s))" using new_top ids by simp
  show "evaluates h R gt (VCtl (r \<and> y \<le> x + s))" "evaluates h R gf (VCtl (r \<and> \<not> y \<le> x + s))"
    using ev_branch[OF i] n(5,6) ids by (simp_all add: word_le_def)
qed

lemma membar_eval:
  assumes "run_state (membar_nodes site c m) g = ((c1, m1), g1)" and st: "stage_in (next_id g) g1 h R"
    and "evaluates h R c (VCtl r)" and "evaluates h R m (VMem mm)"
  shows "evaluates h R c1 (VCtl r)" and "evaluates h R m1 (VMem mm)"
proof -
  have after: "evaluates h R c1 (VCtl r) \<and> evaluates h R m1 (VMem mm)" if run: "run_state (membar_after c m) g = ((c1, m1), g1)"
  proof -
    let ?N = "next_id g"
    have n: "is_node h R ?N Op_MemBarStoreStore [Some c, None, Some m, None, None]" "is_node h R (?N + 1) (Op_Proj 0) [Some ?N]"
        "is_node h R (?N + 2) (Op_Proj 2) [Some ?N]" "c1 = ?N + 1" "m1 = ?N + 2"
      using run by (auto intro!: stage_node[OF st] simp: membar_after_def new_membar_def numeral_eq_Suc)
    have "evaluates h R ?N (VBar r mm)" by (rule ev_MemBar[OF ctl_value_simps[OF assms(3)] assms(4) n(1)])
    from ev_Proj[OF this _ n(2)] ev_Proj[OF this _ n(3)] n(4,5) show ?thesis by simp
  qed
  then show "evaluates h R c1 (VCtl r)" "evaluates h R m1 (VMem mm)"
    using assms by (auto simp: membar_nodes_def modify_graph_def new_membar_def Let_def split: if_splits option.splits)
qed

lemma dtrace_eval:
  assumes "run_state (dtrace_nodes site fp ra ob c m) g = ((c1, m1), g1)" and st: "stage_in (next_id g) g1 h R"
    and "evaluates h R c (VCtl r)" and "evaluates h R m (VMem mm)" and "evaluates h R ob (V64 w)"
  shows "evaluates h R c1 (VCtl r)"
    and "evaluates h R m1 (VMem (if dtrace_extended_probes site then leaf_effect R ''dtrace_object_alloc'' w mm else mm))"
proof -
  have "evaluates h R c1 (VCtl r) \<and> evaluates h R m1 (VMem (leaf_effect R ''dtrace_object_alloc'' w mm))"
    if "dtrace_extended_probes site"
  proof -
    let ?N = "next_id g"
    have n: "is_node h R ?N (Op_CallLeaf ''dtrace_object_alloc'') [Some c, Some (top_node site), Some m, fp, ra, Some (Suc ?N), Some ob]"
        "is_node h R (?N + 2) (Op_Proj 0) [Some ?N]" "is_node h R (?N + 3) (Op_Proj 2) [Some ?N]" "c1 = ?N + 2" "m1 = ?N + 3"
      using assms(1) that by (auto intro!: stage_node[OF st] simp: dtrace_nodes_def numeral_eq_Suc)
    note call = ev_CallLeaf[OF ctl_value_simps[OF assms(3)] assms(4,5) n(1)]
    from ev_Proj[OF call _ n(2)] ev_Proj[OF call _ n(3)] n(4,5) show ?thesis by simp
  qed
  then show "evaluates h R c1 (VCtl r)"
    "evaluates h R m1 (VMem (if dtrace_extended_probes site then leaf_effect R ''dtrace_object_alloc'' w mm else mm))"
    using assms by (auto simp: dtrace_nodes_def split: if_splits)
qed

section \<open>The fast path as a sequence of stages\<close>

lemma fast_path_run:
  assumes "run_state (fast_path_nodes E site ofs A sr0 tf rmem) g = ((sr, M), h)"
  obtains ta lim ga gb ot gc nt gt gf gd ge m1 gg c3 m3 gi c4 m4 gj where
    "run_state (eden_end_nodes ofs (top_node site) (ins A ! 0) rmem) g = ((ta, lim), ga)"
    "run_state new_merge ga = (M, gb)"
    "run_state (old_eden_top_node E (top_node site) (ins A ! 0) rmem ta) gb = (ot, gc)"
    "run_state (needgc_nodes (top_node site) tf ot lim (ins A ! 5)) gc = ((nt, gt, gf), gd)"
    "sr = Some (case sr0 of None \<Rightarrow> gt | Some r \<Rightarrow> r)"
    "ge = set_req (result_phi_i_o M) 1 (ins A ! 1) (case sr0 of None \<Rightarrow> gd | Some r \<Rightarrow> set_req r 2 (Some gt) gd)"
    "run_state (vo_bit_nodes E gf (next_id ge) ot) (add_node Op_StoreP [Some gf, rmem, Some ta, Some nt] ge) = (m1, gg)"
    "run_state (membar_nodes site gf (next_id gg))
       (add_node Op_initialize_object [Some gf, Some m1, Some ot, ins A ! 6, alloc_length site, ins A ! 5] gg) = ((c3, m3), gi)"
    "run_state (dtrace_nodes site (ins A ! 3) (ins A ! 4) ot c3 m3) gi = ((c4, m4), gj)"
    "h = set_req (result_phi_rawmem M) 2 (Some m4) (set_req (result_phi_i_o M) 2 (ins A ! 1)
       (set_req (result_phi_rawoop M) 2 (Some ot) (set_req (result_region M) 2 (Some c4) gj)))"
proof -
  obtain ta lim ga where s1: "run_state (eden_end_nodes ofs (top_node site) (ins A ! 0) rmem) g = ((ta, lim), ga)"
    by (metis prod.exhaust)
  obtain M' gb where s2: "run_state new_merge ga = (M', gb)" by (metis prod.exhaust)
  obtain ot gc where s3: "run_state (old_eden_top_node E (top_node site) (ins A ! 0) rmem ta) gb = (ot, gc)" by (metis prod.exhaust)
  obtain nt gt gf gd where s4: "run_state (needgc_nodes (top_node site) tf ot lim (ins A ! 5)) gc = ((nt, gt, gf), gd)"
    by (metis prod.exhaust)
  let ?ge = "set_req (result_phi_i_o M') 1 (ins A ! 1) (case sr0 of None \<Rightarrow> gd | Some r \<Rightarrow> set_req r 2 (Some gt) gd)"
  obtain m1 gg where s5: "run_state (vo_bit_nodes E gf (next_id ?ge) ot)
      (add_node Op_StoreP [Some gf, rmem, Some ta, Some nt] ?ge) = (m1, gg)" by (metis prod.exhaust)
  obtain c3 m3 gi where s6: "run_state (membar_nodes site gf (next_id gg))
      (add_node Op_initialize_object [Some gf, Some m1, Some ot, ins A ! 6, alloc_length site, ins A ! 5] gg) = ((c3, m3), gi)"
    by (metis prod.exhaust)
  obtain c4 m4 gj where s7: "run_state (dtrace_nodes site (ins A ! 3) (ins A ! 4) ot c3 m3) gi = ((c4, m4), gj)"
    by (metis prod.exhaust)
  have "M' = M \<and> sr = Some (case sr0 of None \<Rightarrow> gt | Some r \<Rightarrow> r) \<and>
      h = set_req (result_phi_rawmem M) 2 (Some m4) (set_req (result_phi_i_o M) 2 (ins A ! 1)
       (set_req (result_phi_rawoop M) 2 (Some ot) (set_req (result_region M) 2 (Some c4) gj)))"
    using assms s5 by (cases sr0) (auto simp: fast_path_nodes_def Let_def s1 s2 s3 s4 s6 s7)
  with s1 s2 s3 s4 s5 s6 s7 show thesis by (intro that) auto
qed

section \<open>The nodes of an expansion\<close>

definition expand_inputs :: "expand_site \<Rightarrow> graph \<Rightarrow> node \<Rightarrow> node_id option list" where
  "expand_inputs site g A = ins A @ [Some (top_node site), alloc_length site, raw_memory site g (ins A ! TF_Memory)]"

lemma avoids_input: "list_all (avoids R) (expand_inputs site g A) \<Longrightarrow> i < length (ins A) \<Longrightarrow> avoids R (ins A ! i)"
  by (auto simp: expand_inputs_def list_all_iff)

lemma avoids_others:
  "list_all (avoids R) (expand_inputs site g A) \<Longrightarrow>
     top_node site \<notin> R \<and> avoids R (alloc_length site) \<and> avoids R (raw_memory site g (ins A ! 2)) \<and> list_all (avoids R) (drop 9 (ins A))"
  by (auto simp: expand_inputs_def list_all_iff dest: in_set_dropD)

text \<open>From the tests to the initialization of the object.\<close>

lemma pre_membar:
  assumes t: "run_state (initial_slow_test_nodes E site (ins A ! 5) (ins A ! 7)) g = ((a, test), g1)"
    and b: "run_state (toobig_nodes (ins A ! 0) test) g1 = ((sr0, tf), g2)"
    and s1: "run_state (eden_end_nodes ofs (top_node site) (ins A ! 0) (raw_memory site g (ins A ! 2))) g2 = ((ta, lim), ga)"
    and s2: "run_state new_merge ga = (M, gb)"
    and s3: "run_state (old_eden_top_node E (top_node site) (ins A ! 0) (raw_memory site g (ins A ! 2)) ta) gb = (ot, gc)"
    and s4: "run_state (needgc_nodes (top_node site) tf ot lim (ins A ! 5)) gc = ((nt, gt, gf), gd)"
    and ge: "ge = set_req (result_phi_i_o M) 1 (ins A ! 1) (case sr0 of None \<Rightarrow> gd | Some r \<Rightarrow> set_req r 2 (Some gt) gd)"
    and s5: "run_state (vo_bit_nodes E gf (next_id ge) ot)
       (add_node Op_StoreP [Some gf, raw_memory site g (ins A ! 2), Some ta, Some nt] ge) = (m1, gg)"
    and fresh: "fresh g R" and av: "list_all (avoids R) (expand_inputs site g A)" and len: "9 \<le> length (ins A)"
  shows "tracked_step K R g gg" and "next_id g \<le> next_id gg" and "{m1, ot, gf, gt, nt, ta} \<inter> R = {}"
proof -
  have a: "avoids R (ins A ! i)" if "i < 9" for i using avoids_input[OF av] that len by simp
  note o = avoids_others[OF av]
  have t1: "tracked_step K R g g1 \<and> next_id g \<le> next_id g1 \<and> avoids R test" using stage_initial_test[OF t fresh a a, of K] by simp
  then have f1: "fresh g1 R" by (auto intro: fresh_mono[OF fresh])
  with t1 have b1: "tracked_step K R g1 g2 \<and> next_id g1 \<le> next_id g2 \<and> avoids R tf
      \<and> (\<forall>r. sr0 = Some r \<longrightarrow> next_id g1 \<le> r \<and> r < next_id g2)"
    by (intro stage_toobig[OF b _ a]) auto
  then have f2: "fresh g2 R" by (auto intro: fresh_mono[OF f1])
  note e1 = stage_eden_end[OF s1 f2 a, of K]
  then have e1: "tracked_step K R g2 ga \<and> next_id g2 \<le> next_id ga \<and> next_id g2 \<le> ta \<and> next_id g2 \<le> lim" using o by simp
  then have fa: "fresh ga R" by (auto intro: fresh_mono[OF f2])
  note m = stage_new_merge[OF s2 fa]
  then have fb: "fresh gb R" by (auto intro: fresh_mono[OF fa])
  have ids1: "ta \<notin> R" "lim \<notin> R" using e1 f2 by auto
  note q1 = stage_old_top[OF s3 fb a, of K]
  then have q1: "tracked_step K R gb gc \<and> next_id gb \<le> next_id gc \<and> next_id gb \<le> ot" using o ids1 by simp
  then have fc: "fresh gc R" and ot: "ot \<notin> R" using fb by (auto intro: fresh_mono[OF fb])
  have n1: "tracked_step K R gc gd \<and> next_id gc \<le> next_id gd \<and> next_id gc \<le> nt \<and> next_id gc \<le> gt \<and> next_id gc \<le> gf"
    using o b1 ot ids1 by (intro stage_needgc[OF s4 fc]) (auto intro: a)
  then have fd: "fresh gd R" and ids2: "nt \<notin> R" "gt \<notin> R" "gf \<notin> R" using fc by (auto intro: fresh_mono[OF fc])
  have gd: "tracked_step K R g gd"
    using t1 b1 e1 m(1)[of K] q1 n1 by (metis tracked_trans)
  have le: "next_id g \<le> next_id ga" "next_id ga \<le> next_id gd" using t1 b1 e1 m(3) q1 n1 by auto
  have "tracked_step K R g ge" "next_id ge = next_id gd"
    using gd b1 t1 ids2 le m(2) a[of 1] by (auto simp: ge split: option.splits)
  then have st: "tracked_step K R g (add_node Op_StoreP [Some gf, raw_memory site g (ins A ! 2), Some ta, Some nt] ge)"
    using o ids1 ids2 by simp
  have fe: "fresh ge R" "next_id ge \<notin> R" using fd \<open>next_id ge = _\<close> by (auto simp: fresh_def)
  then have v1: "tracked_step K R (add_node Op_StoreP [Some gf, raw_memory site g (ins A ! 2), Some ta, Some nt] ge) gg
      \<and> Suc (next_id ge) \<le> next_id gg \<and> m1 \<notin> R"
    using stage_vo_bit[OF s5 fresh_mono[OF fe(1)], of K] ids2 ot by simp
  from tracked_trans[OF st] v1 show "tracked_step K R g gg" by blast
  show "next_id g \<le> next_id gg" using v1 le \<open>next_id ge = _\<close> by simp
  show "{m1, ot, gf, gt, nt, ta} \<inter> R = {}" using v1 ot ids1 ids2 by auto
qed

text \<open>The decision is that of \<open>expand_allocate_tests\<close>, and the test node computes the test.\<close>

lemma initial_test_eval:
  assumes "run_state (initial_slow_test_nodes E site (Some sz) it) g = ((a, t), g1)" and st: "stage_in (next_id g) g1 h R"
    and "evaluates h R sz (V64 s)" and it: "\<And>x. it = Some x \<Longrightarrow> evaluates h R x (V32 w)"
    and "initial_test_con site < 0 \<longrightarrow> it \<noteq> None"
    and "expand_allocate_tests E (dtrace_alloc_probes site) (initial_test_con site) (alloc_size_con site) = Inr (a', tst)"
  shows "a' = a" and "t = None \<longleftrightarrow> tst = None"
    and "t = Some n \<Longrightarrow> tst = Some c \<Longrightarrow> \<exists>v. evaluates h R n (V32 v) \<and> (v \<noteq> 0 \<longleftrightarrow> c2_test_holds c w s)"
proof -
  let ?lim = "max_non_los_default_alloc_bytes E - extra_header E"
  let ?it = "if 0 \<le> initial_test_con site then None else it"
  have check: "\<exists>v. evaluates h R n (V32 v) \<and> (v \<noteq> 0 \<longleftrightarrow> c2_test_holds (if ?it = None then Size_test ?lim else Or_test ?lim) w s)"
    if "run_state (size_check_nodes ?lim (Some sz) ?it) g = (n, g1)" for n
    using size_check_eval[OF that st assms(3), of w] it by (auto split: if_splits)
  show "a' = a" "t = None \<longleftrightarrow> tst = None"
    using assms(1,5,6) by (auto simp: initial_test_run expand_allocate_tests_def Let_def split: if_splits prod.splits option.splits)
  show "\<exists>v. evaluates h R n (V32 v) \<and> (v \<noteq> 0 \<longleftrightarrow> c2_test_holds c w s)" if "t = Some n" "tst = Some c"
    using assms(1,5,6) that check it
    by (auto simp: initial_test_run expand_allocate_tests_def Let_def split: if_splits prod.splits option.splits)
qed

lemma fresh_empty [simp]: "fresh g {}"
  by (simp add: fresh_def)

lemma pre_membar_extends:
  assumes t: "run_state (initial_slow_test_nodes E site sz it) g = ((a, test), g1)"
    and b: "run_state (toobig_nodes c test) g1 = ((sr0, tf), g2)"
    and s1: "run_state (eden_end_nodes ofs tp c rmem) g2 = ((ta, lim), ga)"
    and s2: "run_state new_merge ga = (M, gb)"
    and s3: "run_state (old_eden_top_node E tp c rmem ta) gb = (ot, gc)"
    and s4: "run_state (needgc_nodes tp tf ot lim sz) gc = ((nt, gt, gf), gd)"
    and bounded: "nodes_bounded g"
  shows "extends g g1" and "extends g1 g2" and "extends g2 ga" and "extends ga gb" and "extends gb gc" and "extends gc gd"
    and "nodes_bounded gd"
proof -
  have e1: "extends g g1 \<and> nodes_bounded g1" using tracked_extends[of g g1] stage_initial_test[OF t, of "{}" UNIV] bounded by simp
  have e2: "extends g1 g2 \<and> nodes_bounded g2" using tracked_extends[of g1 g2] stage_toobig[OF b, of "{}" UNIV] e1 by simp
  have e3: "extends g2 ga \<and> nodes_bounded ga" using tracked_extends[of g2 ga] stage_eden_end[OF s1, of "{}" UNIV] e2 by simp
  have e4: "extends ga gb \<and> nodes_bounded gb" using tracked_extends[of ga gb] stage_new_merge(1)[OF s2, of "{}" UNIV] e3 by simp
  have e5: "extends gb gc \<and> nodes_bounded gc" using tracked_extends[of gb gc] stage_old_top[OF s3, of "{}" UNIV] e4 by simp
  have e6: "extends gc gd \<and> nodes_bounded gd" using tracked_extends[of gc gd] stage_needgc[OF s4, of "{}" UNIV] e5 by simp
  show "extends g g1" "extends g1 g2" "extends g2 ga" "extends ga gb" "extends gb gc" "extends gc gd" "nodes_bounded gd"
    using e1 e2 e3 e4 e5 e6 by simp_all
qed

text \<open>
  The values behind the test and the comparison with the limit, in any graph that has the nodes of the expansion, apart from the
  regions and phis that are completed later.
\<close>

lemma pre_membar_eval:
  assumes t: "run_state (initial_slow_test_nodes E site (Some sz) it) g = ((a, test), g1)"
    and b: "run_state (toobig_nodes c test) g1 = ((sr0, tf), g2)"
    and s1: "run_state (eden_end_nodes ofs tp c rmem) g2 = ((ta, lim), ga)"
    and s2: "run_state new_merge ga = (M, gb)"
    and s3: "run_state (old_eden_top_node E tp c rmem ta) gb = (ot, gc)"
    and s4: "run_state (needgc_nodes tp tf ot lim (Some sz)) gc = ((nt, gt, gf), gd)"
    and bounded: "nodes_bounded g"
    and H: "\<And>n. next_id g \<le> n \<Longrightarrow> n < next_id gd \<Longrightarrow> sr0 \<noteq> Some n \<Longrightarrow> n \<notin> {next_id ga..next_id ga + 3}
        \<Longrightarrow> nodes H n = nodes gd n \<and> given R n = None"
    and c: "ctl_value H R c True" and m: "input_value H R rmem (Some (VMem mm))" and sz: "evaluates H R sz (V64 s)"
    and it: "\<And>x. it = Some x \<Longrightarrow> evaluates H R x (V32 w)" "initial_test_con site < 0 \<longrightarrow> it \<noteq> None"
    and tst: "expand_allocate_tests E (dtrace_alloc_probes site) (initial_test_con site) (alloc_size_con site) = Inr (a', tst)"
    and big: "big \<longleftrightarrow> (case tst of None \<Rightarrow> False | Some k \<Rightarrow> c2_test_holds k w s)"
    and x: "x = load64 mm (thread_ptr R + of_nat (tlab_top_offset ofs)) + extra_header E"
    and y: "y = load64 mm (thread_ptr R + of_nat (tlab_end_offset ofs))"
  shows "evaluates H R ta (V64 (thread_ptr R + of_nat (tlab_top_offset ofs)))" and "evaluates H R ot (V64 x)"
    and "evaluates H R nt (V64 (x + s))" and "evaluates H R gt (VCtl (\<not> big \<and> y \<le> x + s))"
    and "evaluates H R gf (VCtl (\<not> big \<and> \<not> y \<le> x + s))"
    and "sr0 = None \<Longrightarrow> \<not> big"
    and "sr0 = Some r \<Longrightarrow> r = next_id g1 \<and> (\<exists>q. nodes g2 r = Some \<lparr>opc = Op_Region, ins = [Some r, Some q, None]\<rparr> \<and> evaluates H R q (VCtl big))"
proof -
  note ex = pre_membar_extends[OF t b s1 s2 s3 s4 bounded]
  have sr: "sr0 = Some n \<Longrightarrow> n = next_id g1" for n using b by (auto simp: toobig_nodes_def split: option.splits)
  have m4: "next_id gb = next_id ga + 4" using stage_new_merge(3)[OF s2, of "{}"] by simp
  have stage: "stage_in lo X H R" if "next_id g \<le> lo" "extends X gd" "next_id X \<le> next_id g1 \<or> next_id g1 < lo"
      "next_id X \<le> next_id ga \<or> next_id ga + 3 < lo" for lo X
  proof (unfold stage_in_def, intro allI impI, elim conjE)
    fix n assume n: "lo \<le> n" "n < next_id X"
    then have "sr0 \<noteq> Some n" "n \<notin> {next_id ga..next_id ga + 3}" using that(3,4) sr[of n] by auto
    with H[of n] n that show "nodes H n = nodes X n \<and> given R n = None" by (simp add: extends_def)
  qed
  have le: "next_id g \<le> next_id g1" "next_id g1 \<le> next_id g2" "next_id g2 \<le> next_id ga" "next_id ga \<le> next_id gb"
      "next_id gb \<le> next_id gc" "next_id gc \<le> next_id gd" using ex by (auto simp: extends_def)
  note x6 = ex(6) note x5 = extends_trans[OF ex(5) x6] note x4 = extends_trans[OF ex(4) x5]
  note x3 = extends_trans[OF ex(3) x4] note x2 = extends_trans[OF ex(2) x3]
  have st1: "stage_in (next_id g) g1 H R" by (rule stage) (use le x2 in auto)
  have it_none: "test = None \<longleftrightarrow> tst = None" by (rule initial_test_eval(2)[OF t st1 sz it tst])
  have it_some: "\<exists>v. evaluates H R n (V32 v) \<and> (v \<noteq> 0 \<longleftrightarrow> c2_test_holds k w s)" if "test = Some n" "tst = Some k" for n k
    by (rule initial_test_eval(3)[OF t st1 sz it tst that])
  have tf: "ctl_value H R tf (\<not> big)" and none: "sr0 = None \<Longrightarrow> \<not> big"
    and some: "sr0 = Some r \<Longrightarrow> r = next_id g1 \<and> (\<exists>q. nodes g2 r = Some \<lparr>opc = Op_Region, ins = [Some r, Some q, None]\<rparr> \<and> evaluates H R q (VCtl big))" for r
  proof -
    have "ctl_value H R tf (\<not> big) \<and> (sr0 = None \<longrightarrow> \<not> big) \<and>
      (sr0 = Some r \<longrightarrow> r = next_id g1 \<and> (\<exists>q. nodes g2 r = Some \<lparr>opc = Op_Region, ins = [Some r, Some q, None]\<rparr> \<and> evaluates H R q (VCtl big)))" for r
    proof (cases test)
      case None
      then show ?thesis using b c big it_none by (auto simp: toobig_nodes_def)
    next
      case (Some q)
      then obtain k where k: "tst = Some k" using it_none by auto
      obtain v where v: "evaluates H R q (V32 v)" "v \<noteq> 0 \<longleftrightarrow> big" using it_some[OF Some k] big k by auto
      have st2: "stage_in (Suc (next_id g1)) g2 H R" by (rule stage) (use le x3 in auto)
      from toobig_eval[OF b[unfolded Some] st2 c v(1)] v(2) show ?thesis by auto
    qed
    then show "ctl_value H R tf (\<not> big)" "sr0 = None \<Longrightarrow> \<not> big" "sr0 = Some r \<Longrightarrow> r = next_id g1 \<and>
      (\<exists>q. nodes g2 r = Some \<lparr>opc = Op_Region, ins = [Some r, Some q, None]\<rparr> \<and> evaluates H R q (VCtl big))" for r by blast+
  qed
  have g2: "sr0 = None \<or> next_id g1 < next_id g2" using b by (auto simp: toobig_nodes_def split: option.splits)
  have lo: "stage_in lo X H R" if "next_id g2 \<le> lo" "extends X gd" "next_id X \<le> next_id ga \<or> next_id ga + 3 < lo" for lo X
  proof (unfold stage_in_def, intro allI impI, elim conjE)
    fix n assume n: "lo \<le> n" "n < next_id X"
    then have "sr0 \<noteq> Some n" "n \<notin> {next_id ga..next_id ga + 3}" using that(1,3) g2 sr[of n] by auto
    with H[of n] n that le show "nodes H n = nodes X n \<and> given R n = None" by (simp add: extends_def)
  qed
  have st3: "stage_in (next_id g2) ga H R" by (rule lo) (use x4 in auto)
  have st5: "stage_in (next_id gb) gc H R" by (rule lo) (use x6 le m4 in auto)
  have st6: "stage_in (next_id gc) gd H R" by (rule lo) (use le m4 in \<open>auto simp: extends_def\<close>)
  note e = eden_end_eval[OF s1 st3 m]
  have ot: "evaluates H R ot (V64 x)" using old_top_eval[OF s3 st5 m e(1)] x by simp
  note n = needgc_eval[OF s4 st6 tf ot e(2)[folded y] sz]
  show "evaluates H R ta (V64 (thread_ptr R + of_nat (tlab_top_offset ofs)))" "evaluates H R ot (V64 x)"
    "evaluates H R nt (V64 (x + s))" "evaluates H R gt (VCtl (\<not> big \<and> y \<le> x + s))" "evaluates H R gf (VCtl (\<not> big \<and> \<not> y \<le> x + s))"
    "sr0 = None \<Longrightarrow> \<not> big" "sr0 = Some r \<Longrightarrow> r = next_id g1 \<and> (\<exists>q. nodes g2 r = Some \<lparr>opc = Op_Region, ins = [Some r, Some q, None]\<rparr> \<and> evaluates H R q (VCtl big))"
    using e(1) ot n none some by auto
qed

text \<open>The expansion does not use the initialization node before the memory barrier, so its projections are those of the original graph.\<close>

lemma proj_out_same:
  assumes old: "\<And>n. n < next_id g \<Longrightarrow> nodes h n = nodes g n" and le: "next_id g \<le> next_id h"
    and new: "tracks {next_id g..} {x} h"
  shows "proj_out_or_null h x k = proj_out_or_null g x k"
proof -
  let ?e = "\<lambda>f u. replicate (count_list (inputs f u) (Some x)) u"
  have new0: "count_list (inputs h u) (Some x) = 0" if "next_id g \<le> u" for u
    using new that by (auto simp: tracks_def inputs_def count_list_0_iff split: option.split)
  have "[0..<next_id h] = [0..<next_id g] @ [next_id g..<next_id h]" using le upt_add_eq_append[of 0 "next_id g" "next_id h - next_id g"] by simp
  moreover have "concat (map (?e h) [next_id g..<next_id h]) = []" using new0 by simp
  moreover have "map (?e h) [0..<next_id g] = map (?e g) [0..<next_id g]" using old by (simp add: inputs_def)
  ultimately have "out_edges h x = out_edges g x" unfolding out_edges_def by (simp only: map_append concat_append append_Nil2)
  moreover have "u \<in> set (out_edges g x) \<Longrightarrow> nodes h u = nodes g u" for u
    using old by (simp add: out_edges_set)
  ultimately show ?thesis by (auto simp: proj_out_or_null_def intro: find_cong)
qed

text \<open>What the initialization node has to satisfy: it is not an input of the allocation, and its projections are among the nodes that are replaced.\<close>

definition init_ok :: "expand_site \<Rightarrow> graph \<Rightarrow> node \<Rightarrow> node_id set \<Rightarrow> bool" where
  "init_ok site g A R \<longleftrightarrow> (case alloc_initialization site of None \<Rightarrow> True
     | Some x \<Rightarrow> x < next_id g \<and> x \<notin> R \<and> list_all (avoids {x}) (expand_inputs site g A)
         \<and> (\<forall>k p. proj_out_or_null g x k = Some p \<longrightarrow> p \<in> R))"

lemma fast_path_build:
  assumes t: "run_state (initial_slow_test_nodes E site (ins A ! 5) (ins A ! 7)) g = ((a, test), g1)"
    and b: "run_state (toobig_nodes (ins A ! 0) test) g1 = ((sr0, tf), g2)"
    and s1: "run_state (eden_end_nodes ofs (top_node site) (ins A ! 0) (raw_memory site g (ins A ! 2))) g2 = ((ta, lim), ga)"
    and s2: "run_state new_merge ga = (M, gb)"
    and s3: "run_state (old_eden_top_node E (top_node site) (ins A ! 0) (raw_memory site g (ins A ! 2)) ta) gb = (ot, gc)"
    and s4: "run_state (needgc_nodes (top_node site) tf ot lim (ins A ! 5)) gc = ((nt, gt, gf), gd)"
    and ge: "ge = set_req (result_phi_i_o M) 1 (ins A ! 1) (case sr0 of None \<Rightarrow> gd | Some r \<Rightarrow> set_req r 2 (Some gt) gd)"
    and s5: "run_state (vo_bit_nodes E gf (next_id ge) ot)
       (add_node Op_StoreP [Some gf, raw_memory site g (ins A ! 2), Some ta, Some nt] ge) = (m1, gg)"
    and s6: "run_state (membar_nodes site gf (next_id gg))
       (add_node Op_initialize_object [Some gf, Some m1, Some ot, ins A ! 6, alloc_length site, ins A ! 5] gg) = ((c3, m3), gi)"
    and s7: "run_state (dtrace_nodes site (ins A ! 3) (ins A ! 4) ot c3 m3) gi = ((c4, m4), gj)"
    and bounded: "nodes_bounded g"
    and fresh: "fresh g R" and av: "list_all (avoids R) (expand_inputs site g A)" and len: "9 \<le> length (ins A)"
    and init: "init_ok site g A R" and K: "\<And>x k p. alloc_initialization site = Some x \<Longrightarrow> proj_out_or_null g x k = Some p \<Longrightarrow> p \<notin> K"
  shows "tracked_step K R g gg" and "tracked_step K R (add_node Op_initialize_object
      [Some gf, Some m1, Some ot, ins A ! 6, alloc_length site, ins A ! 5] gg) gi"
    and "tracked_step K R gi gj" and "tracked_step K R g gj" and "next_id g \<le> next_id gj" and "{c4, m4, ot, gt} \<inter> R = {}"
    and "next_id gg < next_id gi" and "next_id gi \<le> next_id gj"
proof -
  let ?gh = "add_node Op_initialize_object [Some gf, Some m1, Some ot, ins A ! 6, alloc_length site, ins A ! 5] gg"
  have a: "avoids R (ins A ! i)" if "i < 9" for i using avoids_input[OF av] that len by simp
  note o = avoids_others[OF av]
  note p = pre_membar[OF t b s1 s2 s3 s4 ge s5]
  have pR: "tracked_step K R g gg" "next_id g \<le> next_id gg" "{m1, ot, gf, gt, nt, ta} \<inter> R = {}"
    by (rule p[OF fresh av len])+
  have gh: "tracked_step K R g ?gh" using pR o a[of 5] a[of 6] by (simp add: disjoint_iff)
  have same: "proj_out_or_null ?gh x k = proj_out_or_null g x k" if x: "alloc_initialization site = Some x" for x k
  proof (rule proj_out_same)
    have X: "x < next_id g" "list_all (avoids {x}) (expand_inputs site g A)" using init x by (auto simp: init_ok_def)
    have "tracked_step {..<next_id g} {} g gg" by (rule p) (auto simp: len list_all_iff)
    then show "nodes ?gh n = nodes g n" if "n < next_id g" for n
      using bounded that pR(2) by (simp add: tracked_step_def tracks_def)
    show "next_id g \<le> next_id ?gh" using pR(2) by simp
    have fx: "fresh g {x}" using X(1) by (simp add: fresh_def)
    have px: "tracked_step {next_id g..} {x} g gg" "{m1, ot, gf, gt, nt, ta} \<inter> {x} = {}" by (rule p[OF fx X(2) len])+
    have "tracked_step {next_id g..} {x} g ?gh"
      using px avoids_others[OF X(2)] avoids_input[OF X(2), of 5] avoids_input[OF X(2), of 6] len by simp
    moreover have "tracks {next_id g..} {x} g" using bounded by (auto simp: tracks_def nodes_bounded_def)
    ultimately show "tracks {next_id g..} {x} ?gh" by (simp add: tracked_step_def)
  qed
  have fh: "fresh ?gh R" "fresh gg R" using fresh pR(2) by (auto intro: fresh_mono)
  have mb: "tracked_step K R ?gh gi \<and> next_id ?gh \<le> next_id gi \<and> c3 \<notin> R \<and> m3 \<notin> R"
  proof (rule stage_membar[OF s6 fh(1)])
    show "gf \<notin> R" "next_id gg \<notin> R" using pR(3) fh(2) by auto
    show "x \<notin> R \<and> (proj_out_or_null ?gh x k = Some q \<longrightarrow> q \<in> R - K)" if "alloc_initialization site = Some x" for x k q
      using init that same[OF that] K[OF that] by (auto simp: init_ok_def)
  qed
  have dt: "tracked_step K R gi gj \<and> next_id gi \<le> next_id gj \<and> c4 \<notin> R \<and> m4 \<notin> R"
    using o pR(3) mb by (intro stage_dtrace[OF s7 fresh_mono[OF fh(1)]]) (auto intro: a)
  show "tracked_step K R g gg" "tracked_step K R ?gh gi" "tracked_step K R gi gj" using pR mb dt by auto
  show "tracked_step K R g gj" using tracked_trans[OF gh] tracked_trans mb dt by blast
  show "next_id g \<le> next_id gj" "{c4, m4, ot, gt} \<inter> R = {}" "next_id gg < next_id gi" "next_id gi \<le> next_id gj"
    using pR mb dt by auto
qed

text \<open>What the fast path leaves in memory: cursor, valid-object bit, the initialized object, and the effect of the probe.\<close>

definition fast_path_memory :: "alloc_env \<Rightarrow> expand_site \<Rightarrow> run_env \<Rightarrow> addr \<Rightarrow> mem \<Rightarrow> mem" where
  "fast_path_memory E site R ob m =
     (let m1 = object_init R ob m
      in if dtrace_extended_probes site then leaf_effect R ''dtrace_object_alloc'' ob m1 else m1)"

text \<open>The merge point before the slow path is plugged in.\<close>

definition half_merged :: "graph \<Rightarrow> merge_nodes \<Rightarrow> node_id option \<Rightarrow> node_id \<Rightarrow> node_id \<Rightarrow> node_id \<Rightarrow> bool" where
  "half_merged g M i_o c ob m \<longleftrightarrow>
     nodes g (result_region M) = Some \<lparr>opc = Op_Region, ins = [Some (result_region M), None, Some c]\<rparr>
     \<and> nodes g (result_phi_rawoop M) = Some \<lparr>opc = Op_Phi, ins = [Some (result_region M), None, Some ob]\<rparr>
     \<and> nodes g (result_phi_rawmem M) = Some \<lparr>opc = Op_Phi, ins = [Some (result_region M), None, Some m]\<rparr>
     \<and> nodes g (result_phi_i_o M) = Some \<lparr>opc = Op_Phi, ins = [Some (result_region M), i_o, i_o]\<rparr>
     \<and> distinct [result_region M, result_phi_rawoop M, result_phi_rawmem M, result_phi_i_o M]"

abbreviation merge_ids :: "merge_nodes \<Rightarrow> node_id set" where
  "merge_ids M \<equiv> {result_region M, result_phi_rawoop M, result_phi_rawmem M, result_phi_i_o M}"

lemma fast_path_nodes_built:
  assumes t: "run_state (initial_slow_test_nodes E site (ins A ! 5) (ins A ! 7)) g = ((a, test), g1)"
    and b: "run_state (toobig_nodes (ins A ! 0) test) g1 = ((sr0, tf), g2)"
    and f: "run_state (fast_path_nodes E site ofs A sr0 tf (raw_memory site g (ins A ! 2))) g2 = ((sr, M), g3)"
    and bounded: "nodes_bounded g"
    and fresh: "fresh g R" and av: "list_all (avoids R) (expand_inputs site g A)" and len: "9 \<le> length (ins A)"
    and init: "init_ok site g A R" and K: "\<And>x k p. alloc_initialization site = Some x \<Longrightarrow> proj_out_or_null g x k = Some p \<Longrightarrow> p \<notin> K"
  shows "tracked_step K R g g3" and "avoids R sr" and "\<forall>n\<in>merge_ids M. next_id g \<le> n \<and> n < next_id g3" and "next_id g \<le> next_id g3"
proof -
  from f obtain ta lim ga gb ot gc nt gt gf gd ge m1 gg c3 m3 gi c4 m4 gj where
    s: "run_state (eden_end_nodes ofs (top_node site) (ins A ! 0) (raw_memory site g (ins A ! 2))) g2 = ((ta, lim), ga)"
    "run_state new_merge ga = (M, gb)"
    "run_state (old_eden_top_node E (top_node site) (ins A ! 0) (raw_memory site g (ins A ! 2)) ta) gb = (ot, gc)"
    "run_state (needgc_nodes (top_node site) tf ot lim (ins A ! 5)) gc = ((nt, gt, gf), gd)"
    and sr: "sr = Some (case sr0 of None \<Rightarrow> gt | Some r \<Rightarrow> r)"
    and r: "ge = set_req (result_phi_i_o M) 1 (ins A ! 1) (case sr0 of None \<Rightarrow> gd | Some r \<Rightarrow> set_req r 2 (Some gt) gd)"
    "run_state (vo_bit_nodes E gf (next_id ge) ot) (add_node Op_StoreP [Some gf, raw_memory site g (ins A ! 2), Some ta, Some nt] ge) = (m1, gg)"
    "run_state (membar_nodes site gf (next_id gg))
       (add_node Op_initialize_object [Some gf, Some m1, Some ot, ins A ! 6, alloc_length site, ins A ! 5] gg) = ((c3, m3), gi)"
    "run_state (dtrace_nodes site (ins A ! 3) (ins A ! 4) ot c3 m3) gi = ((c4, m4), gj)"
    and g3: "g3 = set_req (result_phi_rawmem M) 2 (Some m4) (set_req (result_phi_i_o M) 2 (ins A ! 1)
       (set_req (result_phi_rawoop M) 2 (Some ot) (set_req (result_region M) 2 (Some c4) gj)))"
    by (rule fast_path_run)
  note x = fast_path_build[OF t b s r bounded]
  have e: "tracked_step K R g gj" "next_id g \<le> next_id gj" "{c4, m4, ot, gt} \<inter> R = {}" "next_id gg < next_id gi" "next_id gi \<le> next_id gj"
    by (rule x[OF fresh av len init K], assumption+)+
  note ex = pre_membar_extends[OF t b s bounded]
  have "next_id ge \<le> next_id gg" using stage_vo_bit[OF r(2), of "{}" UNIV] by simp
  moreover have "next_id ge = next_id gd" by (simp add: r(1) split: option.split)
  moreover have "next_id gb = next_id ga + 4" "M = \<lparr>result_region = next_id ga, result_phi_rawmem = next_id ga + 1,
      result_phi_rawoop = next_id ga + 2, result_phi_i_o = next_id ga + 3\<rparr>"
    using stage_new_merge(2,3)[OF s(2), of "{}"] by simp_all
  moreover have "next_id g \<le> next_id ga" "next_id gb \<le> next_id gd" using ex by (auto simp: extends_def)
  ultimately show ids: "\<forall>n\<in>merge_ids M. next_id g \<le> n \<and> n < next_id g3" using e(4,5) by (auto simp: g3)
  show "next_id g \<le> next_id g3" using e(2) by (simp add: g3)
  have "avoids R (ins A ! 1)" using avoids_input[OF av] len by simp
  then show "tracked_step K R g g3" using e(1,3) ids by (simp add: g3)
  have "sr0 = Some q \<Longrightarrow> next_id g \<le> q" for q using stage_toobig[OF b, of "{}" UNIV] ex(1) by (auto simp: extends_def)
  then show "avoids R sr" using e(3) fresh by (auto simp: sr split: option.splits)
qed

text \<open>New nodes stay as they are from the first store to the end of the fast path.\<close>

lemma fast_path_frames:
  assumes ge: "nodes_bounded ge" "next_id g \<le> next_id ge"
    and s5: "run_state (vo_bit_nodes E gf (next_id ge) ot) (add_node Op_StoreP xs ge) = (m1, gg)"
    and gh: "gh = add_node Op_initialize_object ys gg" and tr: "tracks {next_id g..} R gh"
    and s6: "tracked_step {next_id g..} R gh gi" and s7: "tracked_step {next_id g..} R gi gj"
    and le: "next_id gh \<le> next_id gi" "next_id gi \<le> next_id gj"
  shows "X \<in> {ge, add_node Op_StoreP xs ge, gg, gh, gi} \<Longrightarrow> next_id g \<le> n \<Longrightarrow> n < next_id X \<Longrightarrow> nodes gj n = nodes X n"
    and "next_id ge < next_id gg"
proof -
  have b: "nodes_bounded (add_node Op_StoreP xs ge)" using ge(1) by (auto simp: nodes_bounded_def)
  then have e: "extends (add_node Op_StoreP xs ge) gg" using tracked_extends stage_vo_bit[OF s5, of "{}" UNIV] by simp
  have t2: "tracks {next_id g..} R gi" using tr s6 by (simp add: tracked_step_def)
  have 1: "nodes gi n = nodes gh n" if "next_id g \<le> n" "n < next_id gh" for n using tr s6 that by (simp add: tracked_step_def)
  have 2: "nodes gj n = nodes gi n" if "next_id g \<le> n" "n < next_id gi" for n using t2 s7 that by (simp add: tracked_step_def)
  have 3: "nodes gj n = nodes gg n" if "next_id g \<le> n" "n < next_id gg" for n using 1[of n] 2[of n] that le by (simp add: gh)
  show "next_id ge < next_id gg" using e by (simp add: extends_def)
  have 4: "nodes gg n = nodes (add_node Op_StoreP xs ge) n" if "n < Suc (next_id ge)" for n using e that by (simp add: extends_def)
  show "nodes gj n = nodes X n" if "X \<in> {ge, add_node Op_StoreP xs ge, gg, gh, gi}" "next_id g \<le> n" "n < next_id X"
    using that 1[of n] 2[of n] 3[of n] 4[of n] \<open>next_id ge < next_id gg\<close> le by (auto simp: gh split: if_splits)
qed

lemma fast_path_eval:
  assumes t: "run_state (initial_slow_test_nodes E site (ins A ! 5) (ins A ! 7)) g = ((a, test), g1)"
    and b: "run_state (toobig_nodes (ins A ! 0) test) g1 = ((sr0, tf), g2)"
    and f: "run_state (fast_path_nodes E site ofs A sr0 tf (raw_memory site g (ins A ! 2))) g2 = ((sr, M), g3)"
    and bounded: "nodes_bounded g"
    and fresh: "fresh g R" and av: "list_all (avoids R) (expand_inputs site g A)" and len: "9 \<le> length (ins A)"
    and init: "init_ok site g A R"
    and H: "\<And>n. next_id g \<le> n \<Longrightarrow> n < next_id g3 \<Longrightarrow> n \<notin> merge_ids M \<Longrightarrow> nodes H n = nodes g3 n"
    and given: "\<And>n. next_id g \<le> n \<Longrightarrow> given RE n = None"
    and c: "ctl_value H RE (ins A ! 0) True" and m: "input_value H RE (raw_memory site g (ins A ! 2)) (Some (VMem mm))"
    and sz: "ins A ! 5 = Some sz" "evaluates H RE sz (V64 s)"
    and it: "\<And>x. ins A ! 7 = Some x \<Longrightarrow> evaluates H RE x (V32 w)" "initial_test_con site < 0 \<longrightarrow> ins A ! 7 \<noteq> None"
    and tst: "expand_allocate_tests E (dtrace_alloc_probes site) (initial_test_con site) (alloc_size_con site) = Inr (a', tst)"
    and big: "big \<longleftrightarrow> (case tst of None \<Rightarrow> False | Some k \<Rightarrow> c2_test_holds k w s)"
    and adr: "adr = thread_ptr RE + of_nat (tlab_top_offset ofs)"
    and x: "x = load64 mm adr + extra_header E" and y: "y = load64 mm (thread_ptr RE + of_nat (tlab_end_offset ofs))"
    and fast: "fast \<longleftrightarrow> \<not> big \<and> \<not> y \<le> x + s"
  shows "\<exists>c4 ot m4 srn. sr = Some srn \<and> half_merged g3 M (ins A ! 1) c4 ot m4 \<and> evaluates H RE c4 (VCtl fast) \<and> evaluates H RE ot (V64 x)
     \<and> evaluates H RE m4 (VMem (fast_path_memory E site RE x
          (if MMTK_ENABLE_VO_BIT E \<or> tag (default_selector E) = TAG_MARK_COMPACT
           then c2_set_vo_bit (VO_BIT_BASE_ADDRESS E) (store64 mm adr (x + s)) x else store64 mm adr (x + s))))
     \<and> ctl_value H RE (Some srn) (\<not> fast)"
proof -
  from f obtain ta lim ga gb ot gc nt gt gf gd ge m1 gg c3 m3 gi c4 m4 gj where
    s: "run_state (eden_end_nodes ofs (top_node site) (ins A ! 0) (raw_memory site g (ins A ! 2))) g2 = ((ta, lim), ga)"
    "run_state new_merge ga = (M, gb)"
    "run_state (old_eden_top_node E (top_node site) (ins A ! 0) (raw_memory site g (ins A ! 2)) ta) gb = (ot, gc)"
    "run_state (needgc_nodes (top_node site) tf ot lim (ins A ! 5)) gc = ((nt, gt, gf), gd)"
    and sr: "sr = Some (case sr0 of None \<Rightarrow> gt | Some r \<Rightarrow> r)"
    and r: "ge = set_req (result_phi_i_o M) 1 (ins A ! 1) (case sr0 of None \<Rightarrow> gd | Some r \<Rightarrow> set_req r 2 (Some gt) gd)"
    "run_state (vo_bit_nodes E gf (next_id ge) ot) (add_node Op_StoreP [Some gf, raw_memory site g (ins A ! 2), Some ta, Some nt] ge) = (m1, gg)"
    "run_state (membar_nodes site gf (next_id gg))
       (add_node Op_initialize_object [Some gf, Some m1, Some ot, ins A ! 6, alloc_length site, ins A ! 5] gg) = ((c3, m3), gi)"
    "run_state (dtrace_nodes site (ins A ! 3) (ins A ! 4) ot c3 m3) gi = ((c4, m4), gj)"
    and g3: "g3 = set_req (result_phi_rawmem M) 2 (Some m4) (set_req (result_phi_i_o M) 2 (ins A ! 1)
       (set_req (result_phi_rawoop M) 2 (Some ot) (set_req (result_region M) 2 (Some c4) gj)))"
    by (rule fast_path_run)
  let ?gs = "add_node Op_StoreP [Some gf, raw_memory site g (ins A ! 2), Some ta, Some nt] ge"
  let ?gh = "add_node Op_initialize_object [Some gf, Some m1, Some ot, ins A ! 6, alloc_length site, ins A ! 5] gg"
  have K: "p \<notin> {next_id g..}" if "alloc_initialization site = Some q" "proj_out_or_null g q k = Some p" for q k p
  proof -
    have "p \<in> R" using init that by (auto simp: init_ok_def)
    then show ?thesis using fresh by (auto simp: fresh_def)
  qed
  note bl = fast_path_build[OF t b s r bounded fresh av len init K]
  have bl: "tracked_step {next_id g..} R g gg" "tracked_step {next_id g..} R ?gh gi" "tracked_step {next_id g..} R gi gj"
      "{c4, m4, ot, gt} \<inter> R = {}" "next_id gg < next_id gi" "next_id gi \<le> next_id gj"
    by (rule bl(1,2,3,6,7,8), assumption+)+
  note ex = pre_membar_extends[OF t b s bounded]
  have le: "next_id g \<le> next_id g1" "next_id g1 \<le> next_id g2" "next_id g2 \<le> next_id ga" "next_id gb \<le> next_id gc" "next_id gc \<le> next_id gd"
    using ex by (auto simp: extends_def)
  have M: "M = \<lparr>result_region = next_id ga, result_phi_rawmem = next_id ga + 1, result_phi_rawoop = next_id ga + 2, result_phi_i_o = next_id ga + 3\<rparr>"
    "next_id gb = next_id ga + 4" using stage_new_merge(2,3)[OF s(2), of "{}"] by simp_all
  have ge: "next_id ge = next_id gd" "nodes_bounded ge"
    using ex(7) by (auto simp: r(1) nodes_bounded_def split: option.split)
  have "tracked_step {next_id g..} R g ?gh"
    using bl(1) avoids_others[OF av] avoids_input[OF av, of 5] avoids_input[OF av, of 6] len pre_membar(3)[OF t b s r(1,2) fresh av len] by simp
  moreover have "tracks {next_id g..} R g" using bounded by (auto simp: tracks_def nodes_bounded_def)
  ultimately have tr: "tracks {next_id g..} R ?gh" by (simp add: tracked_step_def)
  have leg: "next_id g \<le> next_id ge" using le M ge by simp
  have lei: "next_id ?gh \<le> next_id gi" using bl(5) by simp
  note fr = fast_path_frames[OF ge(2) leg r(2) refl tr bl(2,3) lei bl(6)]
  have Hj: "nodes H n = nodes gj n" if "next_id g \<le> n" "n < next_id gj" "n \<notin> merge_ids M" for n
    using H[of n] that by (simp add: g3)
  have legj: "next_id gd < next_id gg" "next_id gg < next_id gj" using fr(2) ge(1) bl(5,6) by auto
  have Hd: "nodes H n = nodes gd n \<and> given RE n = None"
    if "next_id g \<le> n" "n < next_id gd" "sr0 \<noteq> Some n" "n \<notin> {next_id ga..next_id ga + 3}" for n
    using Hj[of n] fr(1)[of ge n] that legj given[of n] ge(1) by (auto simp: M(1) r(1) split: option.splits)
  note s4' = s(4)[unfolded sz(1)] note t' = t[unfolded sz(1)]
  note pe = pre_membar_eval[OF t' b s(1-3) s4' bounded Hd c m sz(2) it tst big x[unfolded adr] y]
  have ev: "evaluates H RE ta (V64 adr)" "evaluates H RE ot (V64 x)" "evaluates H RE nt (V64 (x + s))"
      "evaluates H RE gt (VCtl (\<not> big \<and> y \<le> x + s))" "evaluates H RE gf (VCtl fast)"
    using pe(1-5) by (simp_all add: adr fast)
  have sub: "stage_in lo X H RE" if "X \<in> {?gs, gg, ?gh, gi}" "next_id ge \<le> lo" "next_id X \<le> next_id gj" for lo X
    using that Hj fr(1)[of X] given leg M ge(1) le by (auto simp: stage_in_def)
  have mem1: "evaluates H RE (next_id ge) (VMem (store64 mm adr (x + s)))"
    by (rule ev_StoreP[OF m ev(1,3)], rule stage_node[OF sub[of ?gs "next_id ge"]]) (use legj ge(1) in auto)
  have vo: "stage_in (next_id ?gs) gg H RE" by (rule sub) (use legj in auto)
  note mem2 = vo_bit_eval[OF r(2) vo mem1 ev(2)]
  have mem3: "evaluates H RE (next_id gg) (VMem (object_init RE x (if MMTK_ENABLE_VO_BIT E \<or> tag (default_selector E) = TAG_MARK_COMPACT
      then c2_set_vo_bit (VO_BIT_BASE_ADDRESS E) (store64 mm adr (x + s)) x else store64 mm adr (x + s))))"
    by (rule ev_initialize_object[OF mem2 ev(2)], rule stage_node[OF sub[of ?gh "next_id gg"]]) (use legj ge(1) bl(5,6) in auto)
  have mb: "stage_in (next_id ?gh) gi H RE" by (rule sub) (use legj ge(1) bl(6) in auto)
  note ev3 = membar_eval[OF r(3) mb ev(5) mem3]
  have dt: "stage_in (next_id gi) gj H RE"
    using Hj given leg M(1) ge(1) legj bl(5) le M(2) by (auto simp: stage_in_def)
  note ev4 = dtrace_eval[OF r(4) dt ev3 ev(2)]
  have merge: "half_merged g3 M (ins A ! 1) c4 ot m4"
  proof -
    have "nodes gd (next_id ga + k) = nodes gb (next_id ga + k)" if "k < 4" for k
      using extends_trans[OF ex(5,6)] that M(2) by (auto simp: extends_def)
    note d = this[of 0] this[of 1] this[of 2] this[of 3] stage_new_merge(4)[OF s(2), of "{}"]
      stage_new_merge(5)[OF s(2), of "{}" 1] stage_new_merge(5)[OF s(2), of "{}" 2] stage_new_merge(5)[OF s(2), of "{}" 3]
    have "nodes gj n = nodes ge n" if "n \<in> merge_ids M" for n using fr(1)[of ge n] that le M ge(1) by auto
    moreover have "sr0 = Some q \<Longrightarrow> q < next_id ga" for q using stage_toobig[OF b, of "{}" UNIV] le by auto
    then have "nodes ge n = (if n = next_id ga + 3 then map_option (\<lambda>nd. nd\<lparr>ins := (ins nd)[1 := ins A ! 1]\<rparr>) (nodes gd n) else nodes gd n)"
      if "n \<in> merge_ids M" for n using that by (auto simp: r(1) M(1) split: option.split)
    ultimately show ?thesis using d by (simp add: half_merged_def g3 M(1))
  qed
  have slow: "ctl_value H RE sr (\<not> fast)"
  proof (cases sr0)
    case None
    then show ?thesis using ev(4) pe(6) by (auto simp: sr fast)
  next
    case (Some q)
    obtain p where p: "q = next_id g1" "nodes g2 q = Some \<lparr>opc = Op_Region, ins = [Some q, Some p, None]\<rparr>" "evaluates H RE p (VCtl big)"
      using pe(7) Some by blast
    have q: "q < next_id g2" using stage_toobig[OF b, of "{}" UNIV] Some by auto
    have "nodes gd q = nodes g2 q" using q extends_trans[OF extends_trans[OF ex(3,4)] extends_trans[OF ex(5,6)]] by (simp add: extends_def)
    then have "nodes ge q = Some \<lparr>opc = Op_Region, ins = [Some q, Some p, Some gt]\<rparr>"
      using p(2) q le by (simp add: r(1) Some M(1))
    moreover have "nodes H q = nodes ge q" using Hj[of q] fr(1)[of ge q] q le p(1) M ge(1) legj by auto
    ultimately have "is_node H RE q Op_Region [Some q, Some p, Some gt]" using given[of q] p(1) le by (simp add: is_node_def)
    from ev_Region2[OF ctl_value_simps[OF p(3)] ctl_value_simps[OF ev(4)] this] show ?thesis
      by (auto simp: sr Some fast ctl_value_def input_value_def split: if_splits)
  qed
  obtain srn where srn: "sr = Some srn" using sr by simp
  have "ctl_value H RE (Some srn) (\<not> fast)" using slow srn by simp
  with merge ev4 ev(2) srn show ?thesis unfolding fast_path_memory_def Let_def
    by (intro exI[of _ c4] exI[of _ ot] exI[of _ m4] exI[of _ srn] conjI) assumption+
qed

end
