(* ===== verification/Expand_Refinement.thy ===== *)
theory Expand_Refinement
  imports Expand_Allocate
begin

text \<open>
  What \<^verbatim>\<open>expand_allocate\<close> leaves behind: the redirection of the projections ends and touches only their uses, the merge point
  gets both paths, and the code behind it finds what \<open>c2_allocate\<close>, the allocation as a function on memory, returns.
\<close>

section \<open>Redirecting the projections\<close>

lemma bounded_simps [simp]:
  "nodes_bounded g \<Longrightarrow> nodes_bounded (subst_uses old new g)" "nodes_bounded g \<Longrightarrow> nodes_bounded (remove_dead_node n g)"
  "nodes_bounded g \<Longrightarrow> nodes_bounded (add_node c xs g)"
  by (auto simp: nodes_bounded_def subst_uses_def remove_dead_node_def)

lemma redirect_fallthrough_returns:
  assumes "nodes_bounded g" and "\<And>p. proj = Some p \<Longrightarrow> p \<noteq> res"
  shows "redirect_fallthrough proj res g = Some (case proj of None \<Rightarrow> g | Some p \<Rightarrow> subst_uses p res g)"
  using assms replace_outs_returns by (auto simp: redirect_fallthrough_def split: option.split)

lemma merge_catchall_returns:
  assumes "nodes_bounded g" and "\<And>p. fallthrough = Some p \<Longrightarrow> catchall \<noteq> Some p" and "catchall \<noteq> Some (next_id g)"
  shows "merge_catchall call k fallthrough catchall g = Some (Inr
     (case catchall of None \<Rightarrow> (fallthrough, g)
      | Some c \<Rightarrow> (case fallthrough of
          Some p \<Rightarrow> (Some p, remove_dead_node c (subst_uses c p g))
        | None \<Rightarrow> (Some (next_id g), remove_dead_node c (subst_uses c (next_id g) (add_node (Op_Proj k) [Some call] g))))))"
  by (cases catchall; cases fallthrough)
    (use assms in \<open>simp_all add: merge_catchall_def Let_def replace_outs_returns outcnt_subst_uses\<close>)

definition proj_list :: "call_projections \<Rightarrow> node_id list" where
  "proj_list P = List.map_filter id [fallthroughcatchproj P, memproj_fallthrough P, memproj_catchall P,
     ioproj_fallthrough P, ioproj_catchall P, resproj P]"

lemma proj_list_in:
  "fallthroughcatchproj P = Some x \<Longrightarrow> x \<in> set (proj_list P)" "memproj_fallthrough P = Some x \<Longrightarrow> x \<in> set (proj_list P)"
  "memproj_catchall P = Some x \<Longrightarrow> x \<in> set (proj_list P)" "ioproj_fallthrough P = Some x \<Longrightarrow> x \<in> set (proj_list P)"
  "ioproj_catchall P = Some x \<Longrightarrow> x \<in> set (proj_list P)" "resproj P = Some x \<Longrightarrow> x \<in> set (proj_list P)"
  by (auto simp: proj_list_def List.map_filter_def)

lemma proj_list_distinct:
  assumes "distinct (proj_list P)"
  shows "memproj_fallthrough P = Some x \<Longrightarrow> memproj_catchall P \<noteq> Some x" "ioproj_fallthrough P = Some x \<Longrightarrow> ioproj_catchall P \<noteq> Some x"
    "fallthroughcatchproj P = Some x \<Longrightarrow> Some x \<notin> {memproj_fallthrough P, memproj_catchall P, ioproj_fallthrough P, ioproj_catchall P, resproj P}"
    "resproj P = Some x \<Longrightarrow> Some x \<notin> {memproj_fallthrough P, memproj_catchall P, ioproj_fallthrough P, ioproj_catchall P}"
    "memproj_fallthrough P = Some x \<Longrightarrow> Some x \<notin> {memproj_catchall P, ioproj_fallthrough P, ioproj_catchall P}"
  using assms by (auto simp: proj_list_def List.map_filter_def split: option.splits if_splits)





section \<open>The merge point\<close>


section \<open>The expansion refines the allocation\<close>

text \<open>
  The nodes around an allocation: its projections for control (with the catch behind it), memory and result, which are the nodes that
  \<^verbatim>\<open>extract_call_projections\<close> finds after the call has taken its place.
\<close>

record alloc_nodes =
  n_catch :: node_id
  n_ctrl :: node_id
  n_fall :: node_id
  n_mem :: node_id
  n_res :: node_id

definition alloc_shape :: "graph \<Rightarrow> node_id \<Rightarrow> call_projections \<Rightarrow> alloc_nodes \<Rightarrow> bool" where
  "alloc_shape g alloc P N \<longleftrightarrow>
     nodes g (n_ctrl N) = Some \<lparr>opc = Op_Proj 0, ins = [Some alloc]\<rparr> \<and> nodes g (n_catch N) = Some \<lparr>opc = Op_Catch, ins = [Some (n_ctrl N)]\<rparr>
     \<and> nodes g (n_fall N) = Some \<lparr>opc = Op_CatchProj, ins = [Some (n_catch N)]\<rparr>
     \<and> nodes g (n_mem N) = Some \<lparr>opc = Op_Proj 2, ins = [Some alloc]\<rparr> \<and> nodes g (n_res N) = Some \<lparr>opc = Op_Proj 5, ins = [Some alloc]\<rparr>
     \<and> fallthroughcatchproj P = Some (n_fall N) \<and> memproj_fallthrough P = Some (n_mem N) \<and> resproj P = Some (n_res N)
     \<and> n_ctrl N \<notin> set (proj_list P) \<and> n_catch N \<notin> set (proj_list P) \<and> distinct (alloc # proj_list P)"

definition init_projections :: "expand_site \<Rightarrow> graph \<Rightarrow> node_id set" where
  "init_projections site g = (case alloc_initialization site of None \<Rightarrow> {} | Some x \<Rightarrow> {p. \<exists>k. proj_out_or_null g x k = Some p})"

definition replaced_nodes :: "expand_site \<Rightarrow> graph \<Rightarrow> node_id \<Rightarrow> call_projections \<Rightarrow> node_id set" where
  "replaced_nodes site g alloc P = insert alloc (set (proj_list P) \<union> init_projections site g)"

definition expandable :: "expand_site \<Rightarrow> graph \<Rightarrow> node_id \<Rightarrow> node \<Rightarrow> call_projections \<Rightarrow> alloc_nodes \<Rightarrow> bool" where
  "expandable site g alloc A P N \<longleftrightarrow>
     nodes_bounded g \<and> nodes g alloc = Some A \<and> 9 \<le> length (ins A) \<and> alloc_shape g alloc P N
     \<and> (let R = replaced_nodes site g alloc P
        in fresh g R \<and> list_all (avoids R) (expand_inputs site g A) \<and> init_ok site g A R)
     \<and> init_projections site g \<inter> ({alloc, n_ctrl N, n_catch N} \<union> set (proj_list P)) = {}"


lemma slow_call_tracked:
  assumes "run_state (slow_call_node site A sr) g = (call, h)" and "list_all (avoids R) (expand_inputs site g0 A)" and "9 \<le> length (ins A)" and "avoids R sr"
  shows "tracked_step K R g h" and "call = next_id g" and "next_id h = Suc (next_id g)"
    and "\<exists>xs. nodes h call = Some \<lparr>opc = Op_CallStaticJava, ins = sr # Some (top_node site) # ins A ! 2 # xs\<rparr>"
    and "\<And>n. n \<noteq> call \<Longrightarrow> nodes h n = nodes g n"
proof -
  have "avoids R (ins A ! i)" if "i < 9" for i using avoids_input[OF assms(2)] that assms(3) by simp
  with assms(1,4) avoids_others[OF assms(2)] show "tracked_step K R g h" "call = next_id g" "next_id h = Suc (next_id g)"
    "\<exists>xs. nodes h call = Some \<lparr>opc = Op_CallStaticJava, ins = sr # Some (top_node site) # ins A ! 2 # xs\<rparr>" "\<And>n. n \<noteq> call \<Longrightarrow> nodes h n = nodes g n"
    by (auto simp: slow_call_node_def split: option.split)
qed

lemma tracks_new: "nodes_bounded g \<Longrightarrow> tracks {next_id g..} R g"
  by (auto simp: tracks_def nodes_bounded_def)

text \<open>The graph after the call has taken the place of the allocation.\<close>

lemma expand_call_placed:
  assumes ok: "expandable site g alloc A P N"
    and t: "run_state (initial_slow_test_nodes E site (ins A ! 5) (ins A ! 7)) g = ((a, test), g1)"
    and b: "run_state (toobig_nodes (ins A ! 0) test) g1 = ((sr0, tf), g2)"
    and f: "run_state (fast_path_nodes E site ofs A sr0 tf (raw_memory site g (ins A ! 2))) g2 = ((sr, M), g3)"
    and sc: "run_state (slow_call_node site A sr) g3 = (call, g4)" and g5: "g5 = replace_node alloc call g4"
  shows "tracks {next_id g..} (set (proj_list P)) g5" and "call = next_id g3" and "next_id g5 = Suc (next_id g3)" and "next_id g \<le> next_id g3"
    and "\<And>n. next_id g \<le> n \<Longrightarrow> n < next_id g3 \<Longrightarrow> nodes g5 n = nodes g3 n"
    and "\<exists>xs. nodes g5 call = Some \<lparr>opc = Op_CallStaticJava, ins = sr # Some (top_node site) # ins A ! 2 # xs\<rparr>"
    and "nodes g5 (n_ctrl N) = Some \<lparr>opc = Op_Proj 0, ins = [Some call]\<rparr>" and "nodes g5 (n_mem N) = Some \<lparr>opc = Op_Proj 2, ins = [Some call]\<rparr>"
    and "nodes g5 (n_catch N) = Some \<lparr>opc = Op_Catch, ins = [Some (n_ctrl N)]\<rparr>"
    and "nodes g5 (n_fall N) = Some \<lparr>opc = Op_CatchProj, ins = [Some (n_catch N)]\<rparr>"
    and "nodes g5 (n_res N) = Some \<lparr>opc = Op_Proj 5, ins = [Some call]\<rparr>"
    and "\<And>n i x. n < next_id g \<Longrightarrow> x \<in> set (proj_list P) \<Longrightarrow> holds_edge g n i x \<Longrightarrow> holds_edge g5 n i x"
    and "\<forall>n\<in>merge_ids M. next_id g \<le> n \<and> n < next_id g3"
    and "keeps (insert alloc (set (proj_list P) \<union> init_projections site g)) g g5"
proof -
  let ?IP = "init_projections site g" and ?pl = "set (proj_list P)"
  let ?R = "insert alloc (?pl \<union> ?IP)" and ?new = "{next_id g..}" and ?old = "{n_ctrl N, n_catch N, n_fall N, n_mem N, n_res N}"
  have bd: "nodes_bounded g" and A: "nodes g alloc = Some A" "9 \<le> length (ins A)" and sh: "alloc_shape g alloc P N"
    and fr: "fresh g ?R" and av: "list_all (avoids ?R) (expand_inputs site g A)" and init: "init_ok site g A ?R"
    and disj: "?IP \<inter> ({alloc, n_ctrl N, n_catch N} \<union> ?pl) = {}"
    using ok by (auto simp: expandable_def replaced_nodes_def Let_def)
  have fr': "fresh g ?IP" using fr by (auto simp: fresh_def)
  have av': "list_all (avoids ?IP) (expand_inputs site g A)" using av by (auto simp: list_all_iff avoids_def)
  have init': "init_ok site g A ?IP" using init by (auto simp: init_ok_def init_projections_def split: option.splits)
  have old: "?old \<subseteq> {n_ctrl N, n_catch N} \<union> ?pl" using sh proj_list_in(1,2,6)[of P] by (simp add: alloc_shape_def)
  have Kn: "p \<notin> ?new" and Ko: "p \<notin> ?old" if "alloc_initialization site = Some x" "proj_out_or_null g x k = Some p" for x k p
  proof -
    have p: "p \<in> ?IP" using that by (auto simp: init_projections_def)
    then have "p < next_id g" using fr unfolding fresh_def by blast
    then show "p \<notin> ?new" by simp
    show "p \<notin> ?old" using p disj old by blast
  qed
  note fb = fast_path_nodes_built[OF t b f bd fr av A(2) init Kn]
  have fb: "tracked_step ?new ?R g g3" "avoids ?R sr" "\<forall>n\<in>merge_ids M. next_id g \<le> n \<and> n < next_id g3" "next_id g \<le> next_id g3"
    by (rule fb, assumption+)+
  have fo: "tracked_step ?old ?IP g g3" by (rule fast_path_nodes_built(1)[OF t b f bd fr' av' A(2) init' Ko])
  have sr': "avoids ?IP sr" using fb(2) by (auto simp: avoids_def)
  note c1 = slow_call_tracked[OF sc av A(2) fb(2)] and c2 = slow_call_tracked(1)[OF sc av' A(2) sr', of ?old]
  have lt: "n < next_id g" if "n \<in> ?old" for n using that sh bd by (auto simp: alloc_shape_def nodes_bounded_def not_le[symmetric])
  have t4: "tracks ?new ?R g4" using tracks_new[OF bd, of ?R] fb(1) c1(1)[of ?new] by (auto simp: tracked_step_def)
  have to: "tracks ?old ?IP g" using bd sh disj by (auto simp: tracks_def alloc_shape_def)
  note so = tracked_trans[OF fo c2]
  have o4: "nodes g4 n = nodes g n" if "n \<in> ?old" for n using that lt[OF that] so to unfolding tracked_step_def by blast
  have "alloc \<noteq> n_ctrl N" "alloc \<noteq> n_catch N" using A sh by (auto simp: alloc_shape_def)
  then have alloc: "alloc \<notin> ?old" using old sh by (auto simp: alloc_shape_def)
  have alt: "alloc < next_id g" using fr by (simp add: fresh_def)
  then have t45: "tracked_step ?new ?R g4 g5" by (simp add: g5)
  have "tracked_step ?new ?R g g5" by (rule tracked_trans[OF tracked_trans[OF fb(1) c1(1)] t45])
  then show "keeps ?R g g5" using tracks_new[OF bd, of ?R] by (simp add: tracked_step_def)
  from t45 have t5: "tracks ?new ?R g5" and n5: "next_id g \<le> n \<Longrightarrow> n < next_id g4 \<Longrightarrow> nodes g5 n = nodes g4 n" for n
    using t4 by (auto simp: tracked_step_def)
  show "tracks ?new ?pl g5" using t5 by (auto simp: tracks_def)
  show "call = next_id g3" "next_id g5 = Suc (next_id g3)" "next_id g \<le> next_id g3" using c1(2,3) fb(4) by (simp_all add: g5)
  show "nodes g5 n = nodes g3 n" if "next_id g \<le> n" "n < next_id g3" for n using n5[of n] that c1(2,3) c1(5)[of n] by simp
  show "\<exists>xs. nodes g5 call = Some \<lparr>opc = Op_CallStaticJava, ins = sr # Some (top_node site) # ins A ! 2 # xs\<rparr>"
    using n5[of call] c1(2,3,4) fb(4) by simp
  show "nodes g5 (n_ctrl N) = Some \<lparr>opc = Op_Proj 0, ins = [Some call]\<rparr>" "nodes g5 (n_mem N) = Some \<lparr>opc = Op_Proj 2, ins = [Some call]\<rparr>"
    "nodes g5 (n_catch N) = Some \<lparr>opc = Op_Catch, ins = [Some (n_ctrl N)]\<rparr>" "nodes g5 (n_fall N) = Some \<lparr>opc = Op_CatchProj, ins = [Some (n_catch N)]\<rparr>"
    "nodes g5 (n_res N) = Some \<lparr>opc = Op_Proj 5, ins = [Some call]\<rparr>"
    using o4 sh alloc by (auto simp: alloc_shape_def g5 replace_node_def subst_uses_def remove_dead_node_def subst_node_def subst_input_def)
  show "holds_edge g5 n i x" if "n < next_id g" "x \<in> ?pl" "holds_edge g n i x" for n i x
  proof -
    have "x \<notin> ?IP" "x \<noteq> alloc" using that(2) disj sh by (auto simp: alloc_shape_def)
    then have "holds_edge g4 n i x" using so to that by (auto simp: tracked_step_def)
    then show ?thesis using \<open>x \<noteq> alloc\<close> by (simp add: g5 replace_node_def holds_edge_simps(3,5))
  qed
  show "\<forall>n\<in>merge_ids M. next_id g \<le> n \<and> n < next_id g3" by (rule fb(3))
qed









section \<open>The expansion ends\<close>

lemma redirect_projections_total:
  assumes b: "nodes_bounded g" and d: "distinct (proj_list P)" and lt: "\<And>p. p \<in> set (proj_list P) \<Longrightarrow> p < next_id g"
    and new: "avoids (set (proj_list P)) rawmem" "i_o \<notin> set (proj_list P)"
  shows "\<exists>q h. redirect_projections P call rawmem i_o g = Some (Inr (q, h))"
proof -
  obtain g1 where g1: "(case rawmem of None \<Rightarrow> Some g | Some r \<Rightarrow> redirect_fallthrough (memproj_fallthrough P) r g) = Some g1"
      "nodes_bounded g1" "next_id g1 = next_id g"
    using redirect_fallthrough_returns[OF b, of "memproj_fallthrough P"] proj_list_in(2) new(1) b
    by (cases rawmem; cases "memproj_fallthrough P") (fastforce simp: redirect_fallthrough_def)+
  obtain q g2 where m: "merge_catchall call 2 (memproj_fallthrough P) (memproj_catchall P) g1 = Some (Inr (q, g2))"
      "nodes_bounded g2" "next_id g \<le> next_id g2"
    using merge_catchall_returns[OF g1(2), of "memproj_fallthrough P" "memproj_catchall P"] proj_list_distinct(1)[OF d] lt proj_list_in(3) g1
    by (cases "memproj_catchall P"; cases "memproj_fallthrough P") fastforce+
  let ?g3 = "case ioproj_fallthrough P of None \<Rightarrow> g2 | Some p \<Rightarrow> subst_uses p i_o g2"
  have io: "redirect_fallthrough (ioproj_fallthrough P) i_o g2 = Some ?g3"
    by (rule redirect_fallthrough_returns[OF m(2)]) (use new(2) proj_list_in(4) in auto)
  have b3: "nodes_bounded ?g3" "next_id ?g3 = next_id g2" using m(2) by (auto split: option.split)
  have "ioproj_catchall P \<noteq> Some (next_id ?g3)" using lt proj_list_in(5) m(3) b3(2) by fastforce
  with merge_catchall_returns[OF b3(1), of "ioproj_fallthrough P" "ioproj_catchall P"] proj_list_distinct(2)[OF d]
  have "\<exists>x. merge_catchall call 1 (ioproj_fallthrough P) (ioproj_catchall P) ?g3 = Some (Inr x)" by auto
  with g1 m io show ?thesis by (auto simp: redirect_projections_def bind_outcome_def)
qed

lemma expandable_lists:
  assumes "expandable site g alloc A P N"
  shows "nodes_bounded g" "distinct (proj_list P)" "\<And>q. q \<in> set (proj_list P) \<Longrightarrow> q < next_id g"
    "\<And>i. i < 9 \<Longrightarrow> avoids (set (proj_list P)) (ins A ! i)"
proof -
  have len: "9 \<le> length (ins A)" and av: "list_all (avoids (set (proj_list P))) (expand_inputs site g A)"
    using assms by (auto simp: expandable_def replaced_nodes_def Let_def avoids_def list_all_iff)
  show "avoids (set (proj_list P)) (ins A ! i)" if "i < 9" for i using avoids_input[OF av] that len by simp
qed (use assms in \<open>auto simp: expandable_def replaced_nodes_def Let_def fresh_def alloc_shape_def\<close>)

text \<open>The two ways through the expansion, after the initial test: only the slow call, or the fast path and the slow call.\<close>

lemma expand_slow_returns:
  assumes ok: "expandable site g alloc A P N" and xt: "\<forall>h c. next_id g \<le> c \<longrightarrow> xt h c = P" and io: "ins A ! 1 \<noteq> None"
    and t: "run_state (initial_slow_test_nodes E site (ins A ! 5) (ins A ! 7)) g = ((True, test), g1)"
  shows "\<exists>r. expand_allocate xt E site alloc A g = Some r"
proof -
  note L = expandable_lists[OF ok]
  have e1: "nodes_bounded g1 \<and> next_id g \<le> next_id g1"
    using tracked_extends[of g g1] stage_initial_test[OF t, of "{}" UNIV] L(1) by simp
  let ?io = "the (ins A ! 1)"
  obtain call g2 where sc: "run_state (slow_call_node site A (ins A ! 0)) g1 = (call, g2)" by (metis prod.exhaust)
  let ?g3 = "replace_node alloc call (set_req call 1 (Some ?io) g2)"
  have c: "call = next_id g1" "next_id ?g3 = Suc (next_id g1)" "nodes_bounded ?g3"
    using sc e1 by (auto simp: slow_call_node_def replace_node_def nodes_bounded_def subst_uses_def remove_dead_node_def)
  have "?io \<notin> set (proj_list P)" using L(4)[of 1] io by (auto simp: avoids_def)
  then have "\<exists>q h. redirect_projections P call None ?io ?g3 = Some (Inr (q, h))"
    by (intro redirect_projections_total[OF c(3) L(2)]) (use L(3) e1 c(2) in fastforce)+
  moreover have "xt ?g3 call = P" using xt c(1) e1 by simp
  ultimately show ?thesis using t sc by (auto simp: expand_allocate_def Let_def bind_outcome_def)
qed

lemma expand_fast_returns:
  assumes ok: "expandable site g alloc A P N" and xt: "\<forall>h c. next_id g \<le> c \<longrightarrow> xt h c = P"
    and t: "run_state (initial_slow_test_nodes E site (ins A ! 5) (ins A ! 7)) g = ((False, test), g1)"
  shows "\<exists>r. expand_allocate xt E site alloc A g = Some r"
proof -
  note L = expandable_lists[OF ok]
  obtain sr0 tf g2 where b: "run_state (toobig_nodes (ins A ! 0) test) g1 = ((sr0, tf), g2)" by (metis prod.exhaust)
  have "\<exists>r. (let ((sr, M), g3) = run_state (fast_path_nodes E site ofs A sr0 tf (raw_memory site g (ins A ! 2))) g2;
         (call, g4) = run_state (slow_call_node site A sr) g3; g5 = replace_node alloc call g4; P = xt g5 call
     in bind_outcome (redirect_projections P call (Some (result_phi_rawmem M)) (result_phi_i_o M) g5)
          (\<lambda>(memproj, g6). Some (Inr (finish_merge site P M memproj g6)))) = Some r" for ofs
  proof -
    obtain sr M g3 where f: "run_state (fast_path_nodes E site ofs A sr0 tf (raw_memory site g (ins A ! 2))) g2 = ((sr, M), g3)" by (metis prod.exhaust)
    obtain call g4 where sc: "run_state (slow_call_node site A sr) g3 = (call, g4)" by (metis prod.exhaust)
    let ?g5 = "replace_node alloc call g4"
    note p = expand_call_placed[OF ok t b f sc refl]
    have b5: "nodes_bounded ?g5" using p(1) by (simp add: tracks_def)
    have Mn: "n \<notin> set (proj_list P)" if "n \<in> merge_ids M" for n using p(13) that L(3)[of n] by auto
    have "\<exists>q h. redirect_projections P call (Some (result_phi_rawmem M)) (result_phi_i_o M) ?g5 = Some (Inr (q, h))"
      by (rule redirect_projections_total[OF b5 L(2)]) (use L(3) p(3,4) Mn in \<open>fastforce simp: avoids_def\<close>)+
    moreover have "xt ?g5 call = P" using xt p(2,4) by simp
    ultimately show ?thesis by (auto simp: f sc Let_def bind_outcome_def)
  qed
  then show ?thesis using t b by (auto simp: expand_allocate_def Let_def split: sum.split)
qed

text \<open>
  C35. The expansion of an allocation ends, with or without fast path: the loops over the uses of the projections, which step back
  after each replacement, run out of uses.
\<close>

theorem expand_allocate_terminates:
  assumes ok: "expandable site g alloc A P N" and xt: "\<forall>h c. next_id g \<le> c \<longrightarrow> xt h c = P" and io: "ins A ! 1 \<noteq> None"
  shows "\<exists>r. expand_allocate xt E site alloc A g = Some r"
proof -
  obtain always test g1 where "run_state (initial_slow_test_nodes E site (ins A ! 5) (ins A ! 7)) g = ((always, test), g1)" by (metis prod.exhaust)
  then show ?thesis by (cases always) (simp_all add: expand_slow_returns[OF assms] expand_fast_returns[OF ok xt])
qed

section \<open>An expansion\<close>

text \<open>
  An array allocation of variable size: nodes below 10 are its inputs, 10 is the allocation, 11 to 15 are its projections with the catch, and node 16 uses
  control, memory and result.
\<close>

definition demo_site :: expand_site where
  "demo_site = \<lparr>initial_test_con = -1, alloc_size_con = -1, dtrace_alloc_probes = False, dtrace_extended_probes = True,
     memory_at_raw = id, top_node = 0, alloc_initialization = None, is_complete_with_arraycopy = False, does_not_escape_thread = False,
     is_allocation_MemBar_redundant = False, alloc_length = Some 8\<rparr>"

definition demo_allocate :: node where
  "demo_allocate = \<lparr>opc = Op_Allocate, ins = [Some 1, Some 2, Some 3, Some 4, Some 5, Some 6, Some 7, Some 9, Some 8]\<rparr>"

definition demo_graph :: graph where
  "demo_graph = \<lparr>nodes = [10 \<mapsto> demo_allocate, 11 \<mapsto> \<lparr>opc = Op_Proj 0, ins = [Some 10]\<rparr>, 12 \<mapsto> \<lparr>opc = Op_Catch, ins = [Some 11]\<rparr>,
     13 \<mapsto> \<lparr>opc = Op_CatchProj, ins = [Some 12]\<rparr>, 14 \<mapsto> \<lparr>opc = Op_Proj 2, ins = [Some 10]\<rparr>, 15 \<mapsto> \<lparr>opc = Op_Proj 5, ins = [Some 10]\<rparr>,
     16 \<mapsto> \<lparr>opc = Op_StoreP, ins = [Some 13, Some 14, Some 15, Some 15]\<rparr>], next_id = 17\<rparr>"

definition demo_projections :: call_projections where
  "demo_projections = \<lparr>fallthroughcatchproj = Some 13, memproj_fallthrough = Some 14, memproj_catchall = None,
     ioproj_fallthrough = None, ioproj_catchall = None, resproj = Some 15\<rparr>"

definition demo_alloc_nodes :: alloc_nodes where
  "demo_alloc_nodes = \<lparr>n_catch = 12, n_ctrl = 11, n_fall = 13, n_mem = 14, n_res = 15\<rparr>"

definition demo_run :: run_env where
  "demo_run = \<lparr>given = [1 \<mapsto> VCtl True, 3 \<mapsto> VMem demo_area, 6 \<mapsto> V64 64, 9 \<mapsto> V32 0], thread_ptr = 0x7000,
     slow_call = (\<lambda>m. None), object_init = (\<lambda>ob m. m), leaf_effect = (\<lambda>f ob m. m)\<rparr>"

lemmas demo_expand_defs = demo_site_def demo_allocate_def demo_graph_def demo_projections_def demo_alloc_nodes_def demo_run_def

lemma demo_expandable: "expandable demo_site demo_graph 10 demo_allocate demo_projections demo_alloc_nodes"
  by (auto simp: expandable_def demo_expand_defs nodes_bounded_def alloc_shape_def proj_list_def List.map_filter_def replaced_nodes_def
      init_projections_def fresh_def expand_inputs_def raw_memory_def init_ok_def)





theorem expand_allocate_terminates_witness:
  "\<exists>r. expand_allocate (\<lambda>h c. demo_projections) demo_alloc_env demo_site 10 demo_allocate demo_graph = Some r"
  by (rule expand_allocate_terminates[OF demo_expandable]) (simp_all add: demo_allocate_def)

end
