(* ===== verification/Barrier_Classes.thy ===== *)
theory Barrier_Classes
  imports Barrier_C1 Barrier_C2
begin

text \<open>
  The class hierarchy of the barriers: which class each of the twelve parts of the three barriers is, which virtual methods the
  classes declare, and which function a virtual call reaches. A barrier's slow path in C1 code goes through two virtual calls, made at
  different times: at start-up the assembler generates the code of the runtime stubs into the code blobs of the C1 part, and when a stub is emitted
  the assembler emits the call of a blob. HotSpot's own base classes are not modelled: a method that only they declare has no class here.
\<close>

section \<open>Classes\<close>

datatype barrier_class =
    MMTkBarrierSetRuntime | MMTkNoBarrierSetRuntime | MMTkObjectBarrierSetRuntime | MMTkSATBBarrierSetRuntime
  | MMTkBarrierSetAssembler | MMTkNoBarrierSetAssembler | MMTkObjectBarrierSetAssembler | MMTkSATBBarrierSetAssembler
  | MMTkBarrierSetC1 | MMTkNoBarrierSetC1 | MMTkObjectBarrierSetC1 | MMTkSATBBarrierSetC1
  | MMTkBarrierSetC2 | MMTkNoBarrierSetC2 | MMTkObjectBarrierSetC2 | MMTkSATBBarrierSetC2

datatype virtual_method =
    V_is_slow_path_call | V_object_reference_write_pre | V_object_reference_write_post
  | V_object_reference_array_copy_pre | V_object_reference_array_copy_post | V_load_reference | V_object_probable_write
  | V_can_remove_barrier | V_generate_c1_pre_write_barrier_runtime_stub | V_generate_c1_post_write_barrier_runtime_stub
  | V_generate_c1_ref_load_barrier_runtime_stub | V_eden_allocate | V_store_at | V_load_at
  | V_generate_c1_pre_write_barrier_stub | V_generate_c1_post_write_barrier_stub | V_arraycopy_prologue | V_arraycopy_epilogue
  | V_store_at_resolved | V_atomic_cmpxchg_at_resolved | V_atomic_xchg_at_resolved | V_load_at_resolved | V_resolve_address
  | V_generate_c1_runtime_stubs | V_atomic_cmpxchg_val_at_resolved | V_atomic_cmpxchg_bool_at_resolved
  | V_clone | V_array_copy_requires_gc_barriers | V_is_gc_barrier_node

fun superclass :: "barrier_class \<Rightarrow> barrier_class option" where
  "superclass MMTkNoBarrierSetRuntime = Some MMTkBarrierSetRuntime"
| "superclass MMTkObjectBarrierSetRuntime = Some MMTkBarrierSetRuntime"
| "superclass MMTkSATBBarrierSetRuntime = Some MMTkBarrierSetRuntime"
| "superclass MMTkNoBarrierSetAssembler = Some MMTkBarrierSetAssembler"
| "superclass MMTkObjectBarrierSetAssembler = Some MMTkBarrierSetAssembler"
| "superclass MMTkSATBBarrierSetAssembler = Some MMTkBarrierSetAssembler"
| "superclass MMTkNoBarrierSetC1 = Some MMTkBarrierSetC1"
| "superclass MMTkObjectBarrierSetC1 = Some MMTkBarrierSetC1"
| "superclass MMTkSATBBarrierSetC1 = Some MMTkBarrierSetC1"
| "superclass MMTkNoBarrierSetC2 = Some MMTkBarrierSetC2"
| "superclass MMTkObjectBarrierSetC2 = Some MMTkBarrierSetC2"
| "superclass MMTkSATBBarrierSetC2 = Some MMTkBarrierSetC2"
| "superclass _ = None"

definition MMTkBarrierSetRuntime_methods :: "virtual_method list" where
  "MMTkBarrierSetRuntime_methods = [V_is_slow_path_call, V_object_reference_write_pre, V_object_reference_write_post,
     V_object_reference_array_copy_pre, V_object_reference_array_copy_post, V_load_reference, V_object_probable_write]"

definition MMTkBarrierSetAssembler_methods :: "virtual_method list" where
  "MMTkBarrierSetAssembler_methods = [V_object_reference_write_pre, V_object_reference_write_post, V_can_remove_barrier,
     V_generate_c1_pre_write_barrier_runtime_stub, V_generate_c1_post_write_barrier_runtime_stub,
     V_generate_c1_ref_load_barrier_runtime_stub, V_eden_allocate, V_store_at,
     V_generate_c1_pre_write_barrier_stub, V_generate_c1_post_write_barrier_stub]"

definition MMTkBarrierSetC1_methods :: "virtual_method list" where
  "MMTkBarrierSetC1_methods = [V_object_reference_write_pre, V_object_reference_write_post, V_store_at_resolved,
     V_atomic_cmpxchg_at_resolved, V_atomic_xchg_at_resolved, V_resolve_address, V_generate_c1_runtime_stubs]"

definition MMTkBarrierSetC2_methods :: "virtual_method list" where
  "MMTkBarrierSetC2_methods = [V_can_remove_barrier, V_object_reference_write_pre, V_object_reference_write_post, V_store_at_resolved,
     V_atomic_cmpxchg_val_at_resolved, V_atomic_cmpxchg_bool_at_resolved, V_atomic_xchg_at_resolved, V_clone,
     V_array_copy_requires_gc_barriers, V_is_gc_barrier_node]"

definition MMTkObjectBarrierSetRuntime_methods :: "virtual_method list" where
  "MMTkObjectBarrierSetRuntime_methods = [V_object_reference_write_post, V_object_reference_array_copy_post, V_object_probable_write]"

definition MMTkObjectBarrierSetAssembler_methods :: "virtual_method list" where
  "MMTkObjectBarrierSetAssembler_methods = [V_object_reference_write_post, V_generate_c1_post_write_barrier_runtime_stub,
     V_generate_c1_post_write_barrier_stub, V_arraycopy_prologue, V_arraycopy_epilogue]"

definition MMTkObjectBarrierSetC1_methods :: "virtual_method list" where
  "MMTkObjectBarrierSetC1_methods = [V_object_reference_write_post, V_resolve_address]"

definition MMTkObjectBarrierSetC2_methods :: "virtual_method list" where
  "MMTkObjectBarrierSetC2_methods = [V_object_reference_write_post]"

definition MMTkSATBBarrierSetRuntime_methods :: "virtual_method list" where
  "MMTkSATBBarrierSetRuntime_methods = [V_object_reference_write_pre, V_object_reference_array_copy_pre, V_object_probable_write, V_load_reference]"

definition MMTkSATBBarrierSetAssembler_methods :: "virtual_method list" where
  "MMTkSATBBarrierSetAssembler_methods = [V_object_reference_write_pre, V_generate_c1_pre_write_barrier_runtime_stub,
     V_generate_c1_pre_write_barrier_stub, V_arraycopy_prologue, V_load_at]"

definition MMTkSATBBarrierSetC1_methods :: "virtual_method list" where
  "MMTkSATBBarrierSetC1_methods = [V_object_reference_write_pre, V_load_at_resolved, V_resolve_address]"

definition MMTkSATBBarrierSetC2_methods :: "virtual_method list" where
  "MMTkSATBBarrierSetC2_methods = [V_object_reference_write_pre, V_array_copy_requires_gc_barriers, V_load_at_resolved]"

fun declared_methods :: "barrier_class \<Rightarrow> virtual_method list" where
  "declared_methods MMTkBarrierSetRuntime = MMTkBarrierSetRuntime_methods"
| "declared_methods MMTkBarrierSetAssembler = MMTkBarrierSetAssembler_methods"
| "declared_methods MMTkBarrierSetC1 = MMTkBarrierSetC1_methods"
| "declared_methods MMTkBarrierSetC2 = MMTkBarrierSetC2_methods"
| "declared_methods MMTkObjectBarrierSetRuntime = MMTkObjectBarrierSetRuntime_methods"
| "declared_methods MMTkObjectBarrierSetAssembler = MMTkObjectBarrierSetAssembler_methods"
| "declared_methods MMTkObjectBarrierSetC1 = MMTkObjectBarrierSetC1_methods"
| "declared_methods MMTkObjectBarrierSetC2 = MMTkObjectBarrierSetC2_methods"
| "declared_methods MMTkSATBBarrierSetRuntime = MMTkSATBBarrierSetRuntime_methods"
| "declared_methods MMTkSATBBarrierSetAssembler = MMTkSATBBarrierSetAssembler_methods"
| "declared_methods MMTkSATBBarrierSetC1 = MMTkSATBBarrierSetC1_methods"
| "declared_methods MMTkSATBBarrierSetC2 = MMTkSATBBarrierSetC2_methods"
| "declared_methods _ = []"

text \<open>The final overrider of a method: the nearest class on the way up that declares it; \<open>None\<close> is HotSpot's base class.\<close>

fun class_depth :: "barrier_class \<Rightarrow> nat" where
  "class_depth C = (case superclass C of None \<Rightarrow> 0 | Some D \<Rightarrow> 1)"

function final_overrider :: "barrier_class \<Rightarrow> virtual_method \<Rightarrow> barrier_class option" where
  "final_overrider C m =
     (if m \<in> set (declared_methods C) then Some C
      else case superclass C of None \<Rightarrow> None | Some D \<Rightarrow> final_overrider D m)"
  by pat_completeness auto

lemma superclass_top: "superclass C = Some D \<Longrightarrow> superclass D = None"
  by (cases C) auto

termination final_overrider
  by (relation "measure (\<lambda>(C, m). class_depth C)") (auto dest: superclass_top)

declare final_overrider.simps [simp del]

text \<open>\<^verbatim>\<open>MMTkBarrierImpl\<close>: the classes that a barrier creates.\<close>

record MMTkBarrierImpl =
  Runtime :: barrier_class
  Assembler :: barrier_class
  C1 :: barrier_class
  C2 :: barrier_class

fun barrier_impl :: "barrier_kind \<Rightarrow> MMTkBarrierImpl" where
  "barrier_impl MMTkNoBarrier = \<lparr>Runtime = MMTkNoBarrierSetRuntime, Assembler = MMTkNoBarrierSetAssembler,
     C1 = MMTkNoBarrierSetC1, C2 = MMTkNoBarrierSetC2\<rparr>"
| "barrier_impl MMTkObjectBarrier = \<lparr>Runtime = MMTkObjectBarrierSetRuntime, Assembler = MMTkObjectBarrierSetAssembler,
     C1 = MMTkObjectBarrierSetC1, C2 = MMTkObjectBarrierSetC2\<rparr>"
| "barrier_impl MMTkSATBBarrier = \<lparr>Runtime = MMTkSATBBarrierSetRuntime, Assembler = MMTkSATBBarrierSetAssembler,
     C1 = MMTkSATBBarrierSetC1, C2 = MMTkSATBBarrierSetC2\<rparr>"

definition create_runtime :: "barrier_kind \<Rightarrow> barrier_class" where "create_runtime k = Runtime (barrier_impl k)"
definition create_assembler :: "barrier_kind \<Rightarrow> barrier_class" where "create_assembler k = Assembler (barrier_impl k)"
definition create_c1 :: "barrier_kind \<Rightarrow> barrier_class" where "create_c1 k = C1 (barrier_impl k)"
definition create_c2 :: "barrier_kind \<Rightarrow> barrier_class" where "create_c2 k = C2 (barrier_impl k)"

lemmas class_tables = create_runtime_def create_assembler_def create_c1_def create_c2_def
  MMTkBarrierSetRuntime_methods_def MMTkBarrierSetAssembler_methods_def MMTkBarrierSetC1_methods_def MMTkBarrierSetC2_methods_def
  MMTkObjectBarrierSetRuntime_methods_def MMTkObjectBarrierSetAssembler_methods_def MMTkObjectBarrierSetC1_methods_def
  MMTkObjectBarrierSetC2_methods_def MMTkSATBBarrierSetRuntime_methods_def MMTkSATBBarrierSetAssembler_methods_def
  MMTkSATBBarrierSetC1_methods_def MMTkSATBBarrierSetC2_methods_def

section \<open>Virtual calls\<close>

text \<open>The body that a class gives to a method; the default ones of the base classes are empty.\<close>

fun runtime_write_pre_body :: "barrier_class option \<Rightarrow> core_effect \<Rightarrow> barrier_env \<Rightarrow> addr \<Rightarrow> addr \<Rightarrow> addr \<Rightarrow> vm_state \<Rightarrow> vm_state" where
  "runtime_write_pre_body (Some MMTkSATBBarrierSetRuntime) = SATBRuntime_object_reference_write_pre"
| "runtime_write_pre_body _ = (\<lambda>core env src slot target s. s)"

fun runtime_write_post_body :: "barrier_class option \<Rightarrow> core_effect \<Rightarrow> barrier_env \<Rightarrow> addr \<Rightarrow> addr \<Rightarrow> addr \<Rightarrow> vm_state \<Rightarrow> vm_state" where
  "runtime_write_post_body (Some MMTkObjectBarrierSetRuntime) = ObjectRuntime_object_reference_write_post"
| "runtime_write_post_body _ = (\<lambda>core env src slot target s. s)"

fun runtime_array_copy_pre_body :: "barrier_class option \<Rightarrow> core_effect \<Rightarrow> barrier_env \<Rightarrow> addr \<Rightarrow> addr \<Rightarrow> size_t \<Rightarrow> vm_state \<Rightarrow> vm_state" where
  "runtime_array_copy_pre_body (Some MMTkSATBBarrierSetRuntime) = SATBRuntime_object_reference_array_copy_pre"
| "runtime_array_copy_pre_body _ = (\<lambda>core env src dst count s. s)"

fun runtime_array_copy_post_body :: "barrier_class option \<Rightarrow> core_effect \<Rightarrow> barrier_env \<Rightarrow> addr \<Rightarrow> addr \<Rightarrow> size_t \<Rightarrow> vm_state \<Rightarrow> vm_state" where
  "runtime_array_copy_post_body (Some MMTkObjectBarrierSetRuntime) = ObjectRuntime_object_reference_array_copy_post"
| "runtime_array_copy_post_body _ = (\<lambda>core env src dst count s. s)"

fun runtime_load_reference_body :: "barrier_class option \<Rightarrow> core_effect \<Rightarrow> barrier_env \<Rightarrow> DecoratorSet \<Rightarrow> addr \<Rightarrow> vm_state \<Rightarrow> vm_state" where
  "runtime_load_reference_body (Some MMTkSATBBarrierSetRuntime) = SATBRuntime_load_reference"
| "runtime_load_reference_body _ = (\<lambda>core env decorators value s. s)"

fun runtime_probable_write_body :: "barrier_class option \<Rightarrow> core_effect \<Rightarrow> barrier_env \<Rightarrow> addr \<Rightarrow> vm_state \<Rightarrow> vm_state" where
  "runtime_probable_write_body (Some MMTkObjectBarrierSetRuntime) = ObjectRuntime_object_probable_write"
| "runtime_probable_write_body (Some MMTkSATBBarrierSetRuntime) = SATBRuntime_object_probable_write"
| "runtime_probable_write_body _ = (\<lambda>core env new_obj s. s)"

fun asm_write_pre_body :: "barrier_class option \<Rightarrow> abi \<Rightarrow> barrier_env \<Rightarrow> DecoratorSet \<Rightarrow> amode \<Rightarrow> reg option \<Rightarrow> reg \<Rightarrow> reg \<Rightarrow> instr list result" where
  "asm_write_pre_body (Some MMTkSATBBarrierSetAssembler) = SATBAsm_object_reference_write_pre"
| "asm_write_pre_body _ = (\<lambda>A env decorators dst val tmp1 tmp2. Inr [])"

fun asm_write_post_body ::
    "barrier_class option \<Rightarrow> abi \<Rightarrow> barrier_env \<Rightarrow> DecoratorSet \<Rightarrow> amode \<Rightarrow> reg option \<Rightarrow> reg \<Rightarrow> reg \<Rightarrow> bool \<Rightarrow> instr list result" where
  "asm_write_post_body (Some MMTkObjectBarrierSetAssembler) = ObjectAsm_object_reference_write_post"
| "asm_write_post_body _ = (\<lambda>A env decorators dst val tmp1 tmp2 c. Inr [])"

fun c1_write_pre_body ::
    "barrier_class option \<Rightarrow> barrier_env \<Rightarrow> DecoratorSet \<Rightarrow> LIR_Opr \<Rightarrow> LIR_Opr \<Rightarrow> LIR_Opr \<Rightarrow> nat \<Rightarrow> (lir_op list \<times> nat) result" where
  "c1_write_pre_body (Some MMTkSATBBarrierSetC1) = SATBC1_object_reference_write_pre"
| "c1_write_pre_body _ = (\<lambda>env decorators src slot new_val n. Inr ([], n))"

fun c1_write_post_body ::
    "barrier_class option \<Rightarrow> barrier_env \<Rightarrow> DecoratorSet \<Rightarrow> LIR_Opr \<Rightarrow> LIR_Opr \<Rightarrow> LIR_Opr \<Rightarrow> nat \<Rightarrow> lir_op list \<times> nat" where
  "c1_write_post_body (Some MMTkObjectBarrierSetC1) = ObjectC1_object_reference_write_post"
| "c1_write_post_body _ = (\<lambda>env decorators src slot new_val n. ([], n))"

fun c2_write_pre_body :: "barrier_class option \<Rightarrow> barrier_env \<Rightarrow> bool \<Rightarrow> c2_store_site \<Rightarrow> ideal list" where
  "c2_write_pre_body (Some MMTkSATBBarrierSetC2) = SATBC2_object_reference_write_pre"
| "c2_write_pre_body _ = (\<lambda>env afp site. [])"

fun c2_write_post_body :: "barrier_class option \<Rightarrow> barrier_env \<Rightarrow> bool \<Rightarrow> c2_store_site \<Rightarrow> ideal list" where
  "c2_write_post_body (Some MMTkObjectBarrierSetC2) = ObjectC2_object_reference_write_post"
| "c2_write_post_body _ = (\<lambda>env afp site. [])"

fun c2_array_copy_requires_body :: "barrier_class option \<Rightarrow> bool" where
  "c2_array_copy_requires_body (Some MMTkSATBBarrierSetC2) = False"
| "c2_array_copy_requires_body _ = True"

text \<open>
  The methods that HotSpot's classes declare: a barrier that does not override them runs HotSpot's code.
\<close>

definition Asm_load_at :: "barrier_kind \<Rightarrow> abi \<Rightarrow> barrier_env \<Rightarrow> instr list \<Rightarrow> DecoratorSet \<Rightarrow> BasicType \<Rightarrow> reg \<Rightarrow> instr list" where
  "Asm_load_at k A env hotspot_load decorators type dst =
     (if final_overrider (create_assembler k) V_load_at = Some MMTkSATBBarrierSetAssembler
      then SATBAsm_load_at A env hotspot_load decorators type dst else hotspot_load)"

definition Asm_arraycopy_prologue ::
    "barrier_kind \<Rightarrow> abi \<Rightarrow> instr list \<Rightarrow> bool \<Rightarrow> DecoratorSet \<Rightarrow> BasicType \<Rightarrow> reg \<Rightarrow> reg \<Rightarrow> reg \<Rightarrow> instr list" where
  "Asm_arraycopy_prologue k A hotspot UseCompressedOops decorators type src dst count =
     (case final_overrider (create_assembler k) V_arraycopy_prologue of
        Some MMTkObjectBarrierSetAssembler \<Rightarrow> ObjectAsm_arraycopy_prologue UseCompressedOops decorators type src dst count
      | Some MMTkSATBBarrierSetAssembler \<Rightarrow> SATBAsm_arraycopy_prologue A type src dst count
      | _ \<Rightarrow> hotspot)"

definition Asm_arraycopy_epilogue ::
    "barrier_kind \<Rightarrow> abi \<Rightarrow> instr list \<Rightarrow> bool \<Rightarrow> DecoratorSet \<Rightarrow> BasicType \<Rightarrow> reg \<Rightarrow> reg \<Rightarrow> reg \<Rightarrow> instr list" where
  "Asm_arraycopy_epilogue k A hotspot UseCompressedOops decorators type src dst count =
     (if final_overrider (create_assembler k) V_arraycopy_epilogue = Some MMTkObjectBarrierSetAssembler
      then ObjectAsm_arraycopy_epilogue A UseCompressedOops decorators type src dst count else hotspot)"

definition C1_resolve_address :: "barrier_kind \<Rightarrow> DecoratorSet \<Rightarrow> bool \<Rightarrow> bool \<Rightarrow> bool" where
  "C1_resolve_address k decorators is_oop resolve_in_register =
     (if final_overrider (create_c1 k) V_resolve_address \<in> {Some MMTkObjectBarrierSetC1, Some MMTkSATBBarrierSetC1}
      then C1_resolve_address_in_register decorators is_oop resolve_in_register else resolve_in_register)"

definition C1_load_at_resolved ::
    "barrier_kind \<Rightarrow> barrier_env \<Rightarrow> DecoratorSet \<Rightarrow> bool \<Rightarrow> (lir_state \<Rightarrow> bool) \<Rightarrow> (lir_state \<Rightarrow> lir_state) \<Rightarrow> LIR_Opr \<Rightarrow> nat
       \<Rightarrow> lir_op list" where
  "C1_load_at_resolved k env decorators is_oop referent_check load res n =
     (if final_overrider (create_c1 k) V_load_at_resolved = Some MMTkSATBBarrierSetC1
      then SATBC1_load_at_resolved env decorators is_oop referent_check load res n else [L_hotspot load])"

section \<open>The runtime stubs of C1\<close>

datatype blob_field = Uninitialized | Null_blob | Code_blob "instr list"

record c1_blobs =
  pre_barrier_c1_runtime_code_blob :: blob_field
  post_barrier_c1_runtime_code_blob :: blob_field
  ref_load_barrier_c1_runtime_code_blob :: blob_field

text \<open>The constructor leaves the third field uninitialized.\<close>

definition new_MMTkBarrierSetC1 :: c1_blobs where
  "new_MMTkBarrierSetC1 = \<lparr>pre_barrier_c1_runtime_code_blob = Null_blob, post_barrier_c1_runtime_code_blob = Null_blob,
     ref_load_barrier_c1_runtime_code_blob = Uninitialized\<rparr>"

fun pre_write_runtime_stub_body :: "barrier_class option \<Rightarrow> abi \<Rightarrow> barrier_env \<Rightarrow> instr list" where
  "pre_write_runtime_stub_body (Some MMTkSATBBarrierSetAssembler) = SATBAsm_generate_c1_pre_write_barrier_runtime_stub"
| "pre_write_runtime_stub_body _ = (\<lambda>A env. [])"

fun post_write_runtime_stub_body :: "barrier_class option \<Rightarrow> abi \<Rightarrow> barrier_env \<Rightarrow> instr list" where
  "post_write_runtime_stub_body (Some MMTkObjectBarrierSetAssembler) = ObjectAsm_generate_c1_post_write_barrier_runtime_stub"
| "post_write_runtime_stub_body _ = (\<lambda>A env. [])"

fun ref_load_runtime_stub_body :: "barrier_class option \<Rightarrow> abi \<Rightarrow> instr list" where
  "ref_load_runtime_stub_body (Some MMTkBarrierSetAssembler) = Asm_generate_c1_ref_load_barrier_runtime_stub"
| "ref_load_runtime_stub_body _ = (\<lambda>A. [])"

definition generate_c1_runtime_stubs :: "barrier_kind \<Rightarrow> abi \<Rightarrow> barrier_env \<Rightarrow> c1_blobs \<Rightarrow> c1_blobs" where
  "generate_c1_runtime_stubs k A env f =
     (let bs = create_assembler k
      in f\<lparr>pre_barrier_c1_runtime_code_blob :=
             Code_blob (pre_write_runtime_stub_body (final_overrider bs V_generate_c1_pre_write_barrier_runtime_stub) A env),
           post_barrier_c1_runtime_code_blob :=
             Code_blob (post_write_runtime_stub_body (final_overrider bs V_generate_c1_post_write_barrier_runtime_stub) A env),
           ref_load_barrier_c1_runtime_code_blob :=
             Code_blob (ref_load_runtime_stub_body (final_overrider bs V_generate_c1_ref_load_barrier_runtime_stub) A)\<rparr>)"

text \<open>A call of a blob runs its code, and needs one.\<close>

definition call_blob :: "blob_field \<Rightarrow> instr list result" where
  "call_blob b = (case b of Code_blob code \<Rightarrow> Inr code | Null_blob \<Rightarrow> Inl (Abort ''null code blob'')
     | Uninitialized \<Rightarrow> Inl (Abort ''uninitialized code blob''))"

definition with_blob :: "instr list \<Rightarrow> blob_field \<Rightarrow> instr list result" where
  "with_blob params b = (case call_blob b of Inl e \<Rightarrow> Inl e | Inr code \<Rightarrow> Inr (params @ code @ [Jmp L_continuation]))"

text \<open>\<^verbatim>\<open>emit_code\<close> of the three stubs: the assembler's virtual method, with the blob of the C1 part.\<close>

fun stub_emit_code :: "barrier_kind \<Rightarrow> c1_blobs \<Rightarrow> c1_backend \<Rightarrow> c1_stub \<Rightarrow> instr list result" where
  "stub_emit_code k f B (MMTkC1PreBarrierStub src slot new_val p sc) =
     (case final_overrider (create_assembler k) V_generate_c1_pre_write_barrier_stub of
        Some MMTkSATBBarrierSetAssembler \<Rightarrow>
          (let scratch = register_allocation B (case sc of None \<Rightarrow> 0 | Some v \<Rightarrow> v)
           in with_blob
             ((if p then [Hotspot (patched_load B), Lea scratch (lir_amode (register_allocation B) slot), Store_parameter scratch 1]
               else [Store_parameter (register_allocation B (vreg slot)) 1])
              @ [Store_parameter (register_allocation B (vreg src)) 0, Store_parameter (register_allocation B (vreg new_val)) 2])
             (pre_barrier_c1_runtime_code_blob f))
      | _ \<Rightarrow> Inr [])"
| "stub_emit_code k f B (MMTkC1PostBarrierStub src slot new_val) =
     (case final_overrider (create_assembler k) V_generate_c1_post_write_barrier_stub of
        Some MMTkObjectBarrierSetAssembler \<Rightarrow>
          with_blob [Store_parameter (register_allocation B (vreg src)) 0, Store_parameter (register_allocation B (vreg slot)) 1,
             Store_parameter (register_allocation B (vreg new_val)) 2] (post_barrier_c1_runtime_code_blob f)
      | _ \<Rightarrow> Inr [])"
| "stub_emit_code k f B (MMTkC1ReferenceLoadBarrierStub val) =
     (let val_reg = register_allocation B (vreg val)
      in with_blob [Cmp_imm val_reg 0, Jcc Equal L_continuation, Store_parameter val_reg 0] (ref_load_barrier_c1_runtime_code_blob f))"

text \<open>\<^verbatim>\<open>visit\<close>: what a stub tells the register allocator.\<close>

datatype stub_visit = Visit_slow_case bool | Visit_input LIR_Opr | Visit_temp nat

fun visit :: "bool \<Rightarrow> c1_stub \<Rightarrow> stub_visit list" where
  "visit info (MMTkC1PreBarrierStub src slot new_val p sc) =
     [Visit_slow_case info, Visit_input src, Visit_input slot, Visit_input new_val]
     @ (case sc of None \<Rightarrow> [] | Some v \<Rightarrow> [Visit_temp v])"
| "visit info (MMTkC1PostBarrierStub src slot new_val) =
     [Visit_slow_case False, Visit_input src, Visit_input slot, Visit_input new_val]"
| "visit info (MMTkC1ReferenceLoadBarrierStub val) = [Visit_slow_case info, Visit_input val]"

definition visited_inputs :: "stub_visit list \<Rightarrow> nat set" where
  "visited_inputs vs = (\<Union>v\<in>set vs. case v of Visit_input opr \<Rightarrow> opr_vregs opr | _ \<Rightarrow> {})"

fun stub_of :: "lir_op \<Rightarrow> c1_stub option" where
  "stub_of (L_branch_equal st) = Some st"
| "stub_of (L_jump st) = Some st"
| "stub_of _ = None"

definition slow_paths :: "lir_op list \<Rightarrow> c1_stub set" where
  "slow_paths ops = {st. \<exists>i\<in>set ops. stub_of i = Some st}"

section \<open>Dispatch\<close>

lemmas dispatch_simps = final_overrider.simps class_tables

text \<open>The overriders of the methods that stubs are generated with.\<close>

lemma stub_overriders [simp]:
  "final_overrider (create_assembler MMTkSATBBarrier) V_generate_c1_pre_write_barrier_runtime_stub = Some MMTkSATBBarrierSetAssembler"
  "final_overrider (create_assembler MMTkSATBBarrier) V_generate_c1_pre_write_barrier_stub = Some MMTkSATBBarrierSetAssembler"
  "final_overrider (create_assembler MMTkObjectBarrier) V_generate_c1_post_write_barrier_runtime_stub = Some MMTkObjectBarrierSetAssembler"
  "final_overrider (create_assembler MMTkObjectBarrier) V_generate_c1_post_write_barrier_stub = Some MMTkObjectBarrierSetAssembler"
  "final_overrider (create_assembler k) V_generate_c1_ref_load_barrier_runtime_stub = Some MMTkBarrierSetAssembler"
  by (simp_all add: dispatch_simps) (cases k; simp add: dispatch_simps)

text \<open>
  The calls of virtual methods that the models of runtime, assembler, C1 and C2 resolve by the kind of the barrier reach the functions that the
  class hierarchy prescribes.
\<close>

theorem virtual_dispatch_agrees:
  "runtime_write_pre_body (final_overrider (create_runtime k) V_object_reference_write_pre) = object_reference_write_pre k
   \<and> runtime_write_post_body (final_overrider (create_runtime k) V_object_reference_write_post) = object_reference_write_post k
   \<and> runtime_array_copy_pre_body (final_overrider (create_runtime k) V_object_reference_array_copy_pre) = object_reference_array_copy_pre k
   \<and> runtime_array_copy_post_body (final_overrider (create_runtime k) V_object_reference_array_copy_post) = object_reference_array_copy_post k
   \<and> runtime_load_reference_body (final_overrider (create_runtime k) V_load_reference) = load_reference k
   \<and> runtime_probable_write_body (final_overrider (create_runtime k) V_object_probable_write) = object_probable_write k
   \<and> asm_write_pre_body (final_overrider (create_assembler k) V_object_reference_write_pre) = Asm_object_reference_write_pre k
   \<and> asm_write_post_body (final_overrider (create_assembler k) V_object_reference_write_post) = Asm_object_reference_write_post k
   \<and> c1_write_pre_body (final_overrider (create_c1 k) V_object_reference_write_pre) = C1_object_reference_write_pre k
   \<and> c1_write_post_body (final_overrider (create_c1 k) V_object_reference_write_post) = C1_object_reference_write_post k
   \<and> c2_write_pre_body (final_overrider (create_c2 k) V_object_reference_write_pre) = C2_object_reference_write_pre k
   \<and> c2_write_post_body (final_overrider (create_c2 k) V_object_reference_write_post) = C2_object_reference_write_post k
   \<and> c2_array_copy_requires_body (final_overrider (create_c2 k) V_array_copy_requires_gc_barriers) = C2_array_copy_requires_gc_barriers k"
  by (cases k) (intro conjI ext; simp add: dispatch_simps)+

section \<open>Slow paths of C1 code\<close>

lemma with_blob_code [simp]: "with_blob params (Code_blob code) = Inr (params @ code @ [Jmp L_continuation])"
  by (simp add: with_blob_def call_blob_def)

lemma slow_paths_simps [simp]:
  "slow_paths [] = {}" "slow_paths (i # ops) = set_option (stub_of i) \<union> slow_paths ops" "slow_paths (xs @ ys) = slow_paths xs \<union> slow_paths ys"
  by (auto simp: slow_paths_def)

lemma to_register_slow_paths: "to_register n t opr = (ops, r, n') \<Longrightarrow> slow_paths ops = {} \<and> is_register r"
  by (auto simp: to_register_def split: if_splits)

lemma unlog_check_slow_paths [simp]: "slow_paths (c1_unlog_check env n a st) = {st}"
  by (simp add: c1_unlog_check_def Let_def)

lemma SATBC1_slot_shape:
  "SATBC1_slot np slot n = Inr (ops, slot', n') \<Longrightarrow> slow_paths ops = {} \<and> (np \<or> is_register slot')"
  by (auto simp: SATBC1_slot_def split: if_splits LIR_Opr.splits)

lemma SATBC1_pre_slow_paths:
  assumes "SATBC1_object_reference_write_pre env decorators src slot new_val n = Inr (ops, n')" and "st \<in> slow_paths ops"
  shows "\<exists>src' slot' new_val' p sc. st = MMTkC1PreBarrierStub src' slot' new_val' p sc \<and> is_register src' \<and> is_register new_val' \<and> (p \<or> is_register slot')"
  using assms
  by (auto simp: SATBC1_object_reference_write_pre_def Let_def split: if_splits sum.splits prod.splits
      dest!: to_register_slow_paths SATBC1_slot_shape)

lemma ObjectC1_post_slow_paths:
  assumes "st \<in> slow_paths (fst (ObjectC1_object_reference_write_post env decorators src slot new_val n))"
  shows "\<exists>src' slot' new_val'. st = MMTkC1PostBarrierStub src' slot' new_val' \<and> is_register src' \<and> is_register slot' \<and> is_register new_val'"
  using assms
  by (auto simp: ObjectC1_object_reference_write_post_def Let_def split: if_splits prod.splits dest!: to_register_slow_paths)

lemma visited_simps [simp]:
  "visited_inputs [] = {}" "visited_inputs (xs @ ys) = visited_inputs xs \<union> visited_inputs ys"
  "visited_inputs (v # vs) = (case v of Visit_input opr \<Rightarrow> opr_vregs opr | _ \<Rightarrow> {}) \<union> visited_inputs vs"
  by (auto simp: visited_inputs_def)

lemma addr_vregs_opr: "x \<in> set (addr_vregs opr) \<Longrightarrow> x \<in> opr_vregs opr"
  by (cases opr) (auto split: option.splits)

lemma register_vregs: "is_register opr \<Longrightarrow> opr_vregs opr = {vreg opr}" "is_register opr \<Longrightarrow> addr_vregs opr = []"
  by (cases opr; simp)+

lemma pre_stub_ready:
  assumes "st = MMTkC1PreBarrierStub src slot new_val p sc" and "is_register src" "is_register new_val" "p \<or> is_register slot"
  shows "stub_emit_code MMTkSATBBarrier (generate_c1_runtime_stubs MMTkSATBBarrier (m_abi (c1_machine B)) (m_env (c1_machine B)) f) B st = Inr (emit_code B st)"
    and "set (stub_vregs st) \<subseteq> visited_inputs (visit info st)"
    and "\<exists>e. stub_emit_code MMTkSATBBarrier new_MMTkBarrierSetC1 B st = Inl e"
  using assms
  by (auto simp: generate_c1_runtime_stubs_def SATBAsm_generate_c1_pre_write_barrier_stub_def register_vregs addr_vregs_opr
      with_blob_def call_blob_def new_MMTkBarrierSetC1_def Let_def)

lemma post_stub_ready:
  assumes "st = MMTkC1PostBarrierStub src slot new_val" and "is_register src" "is_register slot" "is_register new_val"
  shows "stub_emit_code MMTkObjectBarrier (generate_c1_runtime_stubs MMTkObjectBarrier (m_abi (c1_machine B)) (m_env (c1_machine B)) f) B st = Inr (emit_code B st)"
    and "set (stub_vregs st) \<subseteq> visited_inputs (visit info st)"
    and "\<exists>e. stub_emit_code MMTkObjectBarrier new_MMTkBarrierSetC1 B st = Inl e"
  using assms
  by (auto simp: generate_c1_runtime_stubs_def ObjectAsm_generate_c1_post_write_barrier_stub_def register_vregs
      with_blob_def call_blob_def new_MMTkBarrierSetC1_def)

lemma load_stub_ready:
  assumes "st = MMTkC1ReferenceLoadBarrierStub val" and "is_register val"
  shows "stub_emit_code k (generate_c1_runtime_stubs k (m_abi (c1_machine B)) (m_env (c1_machine B)) f) B st = Inr (emit_code B st)"
    and "set (stub_vregs st) \<subseteq> visited_inputs (visit info st)"
    and "\<exists>e. stub_emit_code k new_MMTkBarrierSetC1 B st = Inl e"
  using assms
  by (auto simp: generate_c1_runtime_stubs_def Asm_generate_c1_ref_load_barrier_stub_call_def register_vregs
      with_blob_def call_blob_def new_MMTkBarrierSetC1_def Let_def)

lemma C1_write_slow_paths:
  assumes "C1_write_at_resolved k env decorators is_oop raw_op base adr value n = Inr ops" and "st \<in> slow_paths ops"
  shows "k = MMTkSATBBarrier \<and> (\<exists>src slot new_val p sc. st = MMTkC1PreBarrierStub src slot new_val p sc \<and> is_register src \<and> is_register new_val \<and> (p \<or> is_register slot))
     \<or> k = MMTkObjectBarrier \<and> (\<exists>src slot new_val. st = MMTkC1PostBarrierStub src slot new_val \<and> is_register src \<and> is_register slot \<and> is_register new_val)"
proof (cases k)
  case MMTkSATBBarrier
  with assms show ?thesis
    by (auto simp: C1_write_at_resolved_def split: if_splits sum.splits dest!: SATBC1_pre_slow_paths)
next
  case MMTkObjectBarrier
  with assms show ?thesis
    by (auto simp: C1_write_at_resolved_def split: if_splits dest!: ObjectC1_post_slow_paths)
next
  case MMTkNoBarrier
  with assms show ?thesis by (auto simp: C1_write_at_resolved_def split: if_splits)
qed

text \<open>
  C17. Every slow path that C1 code of any barrier branches to is complete. Once the runtime stubs have been generated, the virtual calls made for it
  emit exactly the code that the slow path is executed with, with the runtime stub of its own barrier; all registers that the
  slow path reads are announced to the register allocator; and without the generated stubs it could not have been emitted.
\<close>

theorem c1_slow_paths_complete:
  assumes "C1_write_at_resolved k env decorators is_oop raw_op base adr value n = Inr ops \<and> st \<in> slow_paths ops
     \<or> st \<in> slow_paths (C1_load_at_resolved k env decorators is_oop referent_check load res n) \<and> is_register res"
  shows "stub_emit_code k (generate_c1_runtime_stubs k (m_abi (c1_machine B)) (m_env (c1_machine B)) f) B st = Inr (emit_code B st)
     \<and> set (stub_vregs st) \<subseteq> visited_inputs (visit info st)
     \<and> (\<exists>e. stub_emit_code k new_MMTkBarrierSetC1 B st = Inl e)"
  using assms
proof (elim disjE conjE)
  assume "C1_write_at_resolved k env decorators is_oop raw_op base adr value n = Inr ops" "st \<in> slow_paths ops"
  from C1_write_slow_paths[OF this] show ?thesis
    by (elim disjE conjE exE) (simp_all only: pre_stub_ready post_stub_ready simp_thms)
next
  assume res: "is_register res" and "st \<in> slow_paths (C1_load_at_resolved k env decorators is_oop referent_check load res n)"
  then have "st = MMTkC1ReferenceLoadBarrierStub res"
    by (auto simp: C1_load_at_resolved_def SATBC1_load_at_resolved_def Let_def split: if_splits)
  with load_stub_ready[OF this res] show ?thesis by blast
qed

theorem c1_slow_paths_complete_witness:
  "stub_emit_code MMTkSATBBarrier (generate_c1_runtime_stubs MMTkSATBBarrier sysv_abi demo_env new_MMTkBarrierSetC1) demo_c1
       (MMTkC1ReferenceLoadBarrierStub (LReg 3 T_OBJECT)) = Inr (emit_code demo_c1 (MMTkC1ReferenceLoadBarrierStub (LReg 3 T_OBJECT)))
     \<and> {3} \<subseteq> visited_inputs (visit True (MMTkC1ReferenceLoadBarrierStub (LReg 3 T_OBJECT)))"
proof -
  have m: "m_abi (c1_machine demo_c1) = sysv_abi" "m_env (c1_machine demo_c1) = demo_env" by (simp_all add: demo_c1_def demo_machine_def)
  have "MMTkC1ReferenceLoadBarrierStub (LReg 3 T_OBJECT)
      \<in> slow_paths (C1_load_at_resolved MMTkSATBBarrier demo_env {ON_WEAK_OOP_REF} True (\<lambda>s. True) (\<lambda>s. s) (LReg 3 T_OBJECT) 4)"
    by (simp add: C1_load_at_resolved_def SATBC1_load_at_resolved_def Let_def dispatch_simps)
  with c1_slow_paths_complete[of MMTkSATBBarrier demo_env "{ON_WEAK_OOP_REF}" True _ _ _ _ 4 _ "MMTkC1ReferenceLoadBarrierStub (LReg 3 T_OBJECT)"
      "\<lambda>s. True" "\<lambda>s. s" "LReg 3 T_OBJECT" demo_c1 new_MMTkBarrierSetC1 True]
  show ?thesis by (simp add: m)
qed

text \<open>
  The stub structs announce that by default a stub calls the runtime's barrier function with all three operands. The default of the
  virtual method that emits a stub is empty: for a barrier that does not override it, a stub has no code at all, not even the jump back.
\<close>

lemma default_stub_is_empty:
  "stub_emit_code MMTkNoBarrier f B (MMTkC1PreBarrierStub src slot new_val p sc) = Inr []
   \<and> stub_emit_code MMTkNoBarrier f B (MMTkC1PostBarrierStub src slot new_val) = Inr []
   \<and> stub_emit_code MMTkObjectBarrier f B (MMTkC1PreBarrierStub src slot new_val p sc) = Inr []
   \<and> stub_emit_code MMTkSATBBarrier f B (MMTkC1PostBarrierStub src slot new_val) = Inr []"
  by (simp add: dispatch_simps)

section \<open>The signatures of leaf calls\<close>

text \<open>
  \<^verbatim>\<open>MMTkIdealKit::func_type\<close> builds the type of a leaf call from its parameter types. HotSpot's \<^verbatim>\<open>TypeTuple::fields\<close> gives an array for
  the five standard inputs and the parameters, whose parameters the code fills in one by one.
\<close>

abbreviation (input) "TypeFunc_Parms \<equiv> (5 :: nat)"

record 'ty TypeFunc =
  domain :: "nat \<times> 'ty list"
  range_tuple :: "nat \<times> 'ty list"

fun build_type_func_helper :: "'ty list \<Rightarrow> nat \<Rightarrow> 'ty list \<Rightarrow> 'ty list" where
  "build_type_func_helper flds i [] = flds"
| "build_type_func_helper flds i (t # ts) = build_type_func_helper (flds[i := t]) (i + 1) ts"

definition func_type :: "(nat \<Rightarrow> 'ty list) \<Rightarrow> 'ty list \<Rightarrow> 'ty TypeFunc" where
  "func_type TypeTuple_fields types =
     (let num_types = length types;
          flds = build_type_func_helper (TypeTuple_fields num_types) TypeFunc_Parms types
      in \<lparr>domain = (TypeFunc_Parms + num_types, flds), range_tuple = (TypeFunc_Parms + 0, TypeTuple_fields 0)\<rparr>)"

lemma build_type_func_helper_eq:
  "i + length ts \<le> length fs \<Longrightarrow> build_type_func_helper fs i ts = take i fs @ ts @ drop (i + length ts) fs"
proof (induction ts arbitrary: fs i)
  case (Cons t ts)
  have "take (Suc i) (fs[i := t]) = take i fs @ [t]" using Cons.prems by (simp add: take_Suc_conv_app_nth)
  with Cons.IH[of "i + 1" "fs[i := t]"] Cons.prems show ?case by simp
qed simp

text \<open>The standard inputs are kept and the parameters are exactly the given types, in order.\<close>

lemma func_type_params:
  assumes "length (F (length types)) = TypeFunc_Parms + length types"
  shows "domain (func_type F types) = (TypeFunc_Parms + length types, take TypeFunc_Parms (F (length types)) @ types)"
  using assms by (simp add: func_type_def Let_def build_type_func_helper_eq)

end
