(* ===== verification/Root_Scan.thy ===== *)
theory Root_Scan
  imports Code_Cache
begin

text \<open>
  Two ways to enumerate the roots of the VM. A collection scans every mutator thread on its own and runs the packets of \<^verbatim>\<open>scan_vm_specific_roots\<close>;
  \<^verbatim>\<open>MMTkHeap::scan_roots\<close> visits everything with one thread and one closure, and is the reference definition. What HotSpot enumerates is a record of parameters, and
  \<open>vm_root_env_ok\<close> says what is documented about it.
\<close>

section \<open>Scanning with one closure\<close>

text \<open>
  \<open>threads_oops_do\<close> is \<^verbatim>\<open>Threads::possibly_parallel_oops_do\<close>, with a closure for code blobs or without; \<open>thread_oops\<close> is \<^verbatim>\<open>JavaThread::oops_do\<close>
  without one; \<open>blob_oops\<close> are the roots in a compiled method.
\<close>

record vm_root_env =
  kind_roots :: "root_kind \<Rightarrow> root list"
  java_threads :: "addr list"
  thread_oops :: "addr \<Rightarrow> root list"
  threads_oops_do :: "bool \<Rightarrow> root list"
  code_blobs :: "addr list"
  blob_oops :: "addr \<Rightarrow> root list"
  UseAOT :: bool

definition blobs_do :: "vm_root_env \<Rightarrow> root list" where
  "blobs_do V = concat (map (blob_oops V) (code_blobs V))"

text \<open>The roots in the order in which \<^verbatim>\<open>scan_roots\<close> visits them.\<close>

definition scan_roots :: "vm_root_env \<Rightarrow> root list" where
  "scan_roots V =
     kind_roots V Class_loader_data_graph_roots
     @ threads_oops_do V True
     @ kind_roots V Universe_roots
     @ kind_roots V JNI_handle_roots
     @ kind_roots V Object_synchronizer_roots
     @ kind_roots V Management_roots
     @ kind_roots V Jvmti_export_roots
     @ (if UseAOT V then kind_roots V AOT_loader_roots else [])
     @ kind_roots V System_dictionary_roots
     @ blobs_do V
     @ kind_roots V String_table_roots
     @ kind_roots V Weak_processor_roots"

definition scan_roots_in_all_mutator_threads :: "vm_root_env \<Rightarrow> root list" where
  "scan_roots_in_all_mutator_threads V = threads_oops_do V False"

section \<open>Scanning by threads and packets\<close>

definition mmtk_scan_roots_in_all_mutator_threads :: "bool \<Rightarrow> nat \<Rightarrow> mem \<Rightarrow> vm_root_env \<Rightarrow> factory \<Rightarrow> factory result" where
  "mmtk_scan_roots_in_all_mutator_threads co n m V f = scan_with_closure co n m (scan_roots_in_all_mutator_threads V) f"

definition mmtk_scan_roots_in_mutator_thread :: "bool \<Rightarrow> nat \<Rightarrow> mem \<Rightarrow> vm_root_env \<Rightarrow> addr \<Rightarrow> factory \<Rightarrow> factory result" where
  "mmtk_scan_roots_in_mutator_thread co n m V tls f = scan_with_closure co n m (thread_oops V tls) f"

fun scan_mutators :: "bool \<Rightarrow> nat \<Rightarrow> mem \<Rightarrow> vm_root_env \<Rightarrow> addr list \<Rightarrow> factory \<Rightarrow> factory result" where
  "scan_mutators co n m V [] f = Inr f"
| "scan_mutators co n m V (t # ts) f =
     (case mmtk_scan_roots_in_mutator_thread co n m V t f of Inl e \<Rightarrow> Inl e | Inr f1 \<Rightarrow> scan_mutators co n m V ts f1)"

text \<open>The roots of a whole collection.\<close>

definition collection_roots ::
    "(roots_map \<Rightarrow> addr list) \<Rightarrow> nat \<Rightarrow> bool \<Rightarrow> bool \<Rightarrow> mem \<Rightarrow> vm_root_env \<Rightarrow> root_packet list \<Rightarrow> code_cache \<Rightarrow> (code_cache \<times> factory) result" where
  "collection_roots order n co nursery_gc m V ps cc =
     (case scan_mutators co n m V (java_threads V) empty_factory of
        Inl e \<Rightarrow> Inl e
      | Inr f \<Rightarrow> do_packets order n co nursery_gc m (kind_roots V) ps (cc, f))"

section \<open>What HotSpot enumerates\<close>

text \<open>
  Threads are the Java threads and the VM thread; the code blobs of their frames are in the code cache; without ahead-of-time compilation there are
  no such roots; and the compiled methods that have slots are registered with them. A method that was registered again after it had become
  mature is in both maps; it is registered again when code patching has added slots to it, so the later entry has all slots of the earlier one.
\<close>

definition vm_root_env_ok :: "bool \<Rightarrow> vm_root_env \<Rightarrow> code_cache \<Rightarrow> bool" where
  "vm_root_env_ok co V cc \<longleftrightarrow>
     set (threads_oops_do V False) = (\<Union>t\<in>set (java_threads V). set (thread_oops V t)) \<union> set (kind_roots V VM_thread_roots)
     \<and> set (threads_oops_do V False) \<subseteq> set (threads_oops_do V True)
     \<and> set (threads_oops_do V True) \<subseteq> set (threads_oops_do V False) \<union> set (blobs_do V)
     \<and> (UseAOT V \<or> kind_roots V AOT_loader_roots = [])
     \<and> registered cc = (\<lambda>b. if b \<in> set (code_blobs V) \<and> blob_oops V b \<noteq> [] then Some (map (slot_of co) (blob_oops V b)) else None)
     \<and> (\<forall>b old new. MATURE_CODE_CACHE_ROOTS cc b = Some old \<and> NURSERY_CODE_CACHE_ROOTS cc b = Some new \<longrightarrow> set old \<subseteq> set new)"

definition all_taggable :: "bool \<Rightarrow> vm_root_env \<Rightarrow> bool" where
  "all_taggable co V \<longleftrightarrow> (\<forall>k. taggable co (kind_roots V k)) \<and> (\<forall>t\<in>set (java_threads V). taggable co (thread_oops V t))
     \<and> taggable co (blobs_do V)"

text \<open>All roots of the VM, as a set.\<close>

definition vm_roots :: "vm_root_env \<Rightarrow> root set" where
  "vm_roots V = (\<Union>k. set (kind_roots V k)) \<union> (\<Union>t\<in>set (java_threads V). set (thread_oops V t)) \<union> set (blobs_do V)"

section \<open>Lemmas\<close>

lemma set_root_slots: "set (root_slots co m rs) = slot_of co ` {(p, narrow)\<in>set rs. \<not> is_null_root m narrow p}"
  by (auto simp: root_slots_def)

lemma taggable_set: "taggable co rs \<longleftrightarrow> (\<forall>r\<in>set rs. co \<longrightarrow> user_addr (fst r))"
  by (auto simp: taggable_def split: prod.splits)

lemma scan_mutators_reports:
  assumes "0 < n" and "\<forall>t\<in>set ts. taggable co (thread_oops V t)" and "factory_ok n f"
  shows "\<exists>f1. scan_mutators co n m V ts f = Inr f1 \<and> factory_ok n f1
    \<and> set (concat (batches f1)) = set (concat (batches f)) \<union> (\<Union>t\<in>set ts. set (root_slots co m (thread_oops V t)))"
  using assms(2,3)
proof (induction ts arbitrary: f)
  case (Cons t ts)
  obtain f1 where f1: "scan_with_closure co n m (thread_oops V t) f = Inr f1" "factory_ok n f1"
      "concat (batches f1) = concat (batches f) @ root_slots co m (thread_oops V t)"
    using scan_with_closure_appends[OF assms(1) Cons.prems(2), of co "thread_oops V t" m] Cons.prems(1) by auto
  from f1(3) have "set (concat (batches f1)) = set (concat (batches f)) \<union> set (root_slots co m (thread_oops V t))" by simp
  then show ?case using Cons.IH[OF _ f1(2)] Cons.prems(1) f1(1)
    by (simp add: mmtk_scan_roots_in_mutator_thread_def Un_assoc)
qed simp

lemma reregistered_slots:
  assumes "\<forall>b old new. MATURE_CODE_CACHE_ROOTS cc b = Some old \<and> NURSERY_CODE_CACHE_ROOTS cc b = Some new \<longrightarrow> set old \<subseteq> set new"
  shows "code_cache_slots False cc = map_slots (registered cc)"
proof -
  let ?N = "NURSERY_CODE_CACHE_ROOTS cc" and ?M = "MATURE_CODE_CACHE_ROOTS cc"
  have "\<exists>ss\<in>ran (registered cc). x \<in> set ss" if "old \<in> ran ?M" "x \<in> set old" for x old
  proof -
    obtain b where b: "?M b = Some old" using \<open>old \<in> ran ?M\<close> by (auto simp: ran_def)
    then have "\<exists>ss. registered cc b = Some ss \<and> x \<in> set ss"
      using assms that(2) by (cases "?N b") (auto simp: registered_def map_add_def)
    then show ?thesis by (auto intro: ranI)
  qed
  moreover have "ran ?N \<subseteq> ran (registered cc)" "ran (registered cc) \<subseteq> ran ?N \<union> ran ?M"
    by (auto simp: registered_def ran_def map_add_Some_iff)
  ultimately show ?thesis by (fastforce simp: code_cache_slots_def map_slots_def)
qed

lemma registered_blob_slots:
  assumes "vm_root_env_ok co V cc"
  shows "code_cache_slots False cc = slot_of co ` set (blobs_do V)"
proof -
  have r: "registered cc = (\<lambda>b. if b \<in> set (code_blobs V) \<and> blob_oops V b \<noteq> [] then Some (map (slot_of co) (blob_oops V b)) else None)"
    using assms by (simp add: vm_root_env_ok_def)
  have s: "code_cache_slots False cc = map_slots (registered cc)"
    by (rule reregistered_slots) (use assms in \<open>simp add: vm_root_env_ok_def\<close>)
  have "ran (registered cc) = (\<lambda>b. map (slot_of co) (blob_oops V b)) ` {b\<in>set (code_blobs V). blob_oops V b \<noteq> []}"
    unfolding r by (auto simp: ran_def)
  then show ?thesis unfolding s by (force simp: map_slots_def blobs_do_def)
qed

lemma collection_roots_reports:
  assumes "0 < n" and "enumerates_keys order" and "code_cache_inv cc" and "vm_root_env_ok co V cc" and "all_taggable co V"
    and "distinct ps" and "set ps = set scan_vm_specific_roots"
  shows "\<exists>cc1 f1. collection_roots order n co False m V ps cc = Inr (cc1, f1) \<and> factory_ok n f1 \<and> registered cc1 = registered cc
    \<and> set (concat (batches f1)) = slot_of co ` ({(p, narrow)\<in>vm_roots V. \<not> is_null_root m narrow p} \<union> set (blobs_do V))"
proof -
  have e: "factory_ok n empty_factory" "batches empty_factory = []" by (simp_all add: factory_ok_def empty_factory_def)
  obtain f0 where f0: "scan_mutators co n m V (java_threads V) empty_factory = Inr f0" "factory_ok n f0"
      "set (concat (batches f0)) = (\<Union>t\<in>set (java_threads V). set (root_slots co m (thread_oops V t)))"
    using scan_mutators_reports[OF assms(1) _ e(1), of "java_threads V" co V m] assms(5) e(2) by (auto simp: all_taggable_def)
  obtain cc1 f1 where f1: "do_packets order n co False m (kind_roots V) ps (cc, f0) = Inr (cc1, f1)" "factory_ok n f1"
      "set (concat (batches f1)) = set (concat (batches f0)) \<union> (\<Union>p\<in>set ps. packet_slots co False m (kind_roots V) cc p)"
      "registered cc1 = registered cc"
    using do_packets_reports[OF assms(1,2) _ f0(2) assms(3,6)] assms(5) unfolding all_taggable_def by blast
  have "(\<Union>p\<in>set ps. packet_slots co False m (kind_roots V) cc p)
      = (\<Union>k. set (root_slots co m (kind_roots V k))) \<union> code_cache_slots False cc" (is "?l = ?r")
  proof
    show "?l \<subseteq> ?r" by (auto simp del: set_concat) (metis packet_slots.elims)
    have "Scan_kind k \<in> set ps" "ScanCodeCacheRoots \<in> set ps" for k
      unfolding assms(7) scan_vm_specific_roots_def by (cases k; simp)+
    then show "?r \<subseteq> ?l" by force
  qed
  with f1(3) f0(3) have "set (concat (batches f1))
      = slot_of co ` ({(p, narrow)\<in>vm_roots V. \<not> is_null_root m narrow p} \<union> set (blobs_do V))"
    unfolding registered_blob_slots[OF assms(4)] set_root_slots vm_roots_def by (simp only:) blast
  with f0(1) f1(1,2,4) show ?thesis by (simp add: collection_roots_def)
qed

lemma scan_roots_set:
  assumes "vm_root_env_ok co V cc"
  shows "set (scan_roots V) = vm_roots V"
proof -
  have threads: "set (threads_oops_do V True) \<union> set (blobs_do V)
      = (\<Union>t\<in>set (java_threads V). set (thread_oops V t)) \<union> set (kind_roots V VM_thread_roots) \<union> set (blobs_do V)"
    using assms unfolding vm_root_env_ok_def by blast
  have kinds: "(\<Union>k. set (kind_roots V k)) = set (kind_roots V Universe_roots) \<union> set (kind_roots V JNI_handle_roots)
      \<union> set (kind_roots V Object_synchronizer_roots) \<union> set (kind_roots V Management_roots) \<union> set (kind_roots V Jvmti_export_roots)
      \<union> set (kind_roots V AOT_loader_roots) \<union> set (kind_roots V System_dictionary_roots) \<union> set (kind_roots V String_table_roots)
      \<union> set (kind_roots V Class_loader_data_graph_roots) \<union> set (kind_roots V Weak_processor_roots) \<union> set (kind_roots V VM_thread_roots)"
    (is "?l = ?r")
  proof
    show "?l \<subseteq> ?r"
    proof
      fix x assume "x \<in> ?l"
      then obtain k where "x \<in> set (kind_roots V k)" by blast
      then show "x \<in> ?r" by (cases k) simp_all
    qed
  qed blast
  have aot: "set (if UseAOT V then kind_roots V AOT_loader_roots else []) = set (kind_roots V AOT_loader_roots)"
    using assms by (auto simp: vm_root_env_ok_def)
  have "set (scan_roots V) = (set (threads_oops_do V True) \<union> set (blobs_do V)) \<union> (set (kind_roots V Universe_roots)
      \<union> set (kind_roots V JNI_handle_roots) \<union> set (kind_roots V Object_synchronizer_roots) \<union> set (kind_roots V Management_roots)
      \<union> set (kind_roots V Jvmti_export_roots) \<union> set (kind_roots V AOT_loader_roots) \<union> set (kind_roots V System_dictionary_roots)
      \<union> set (kind_roots V String_table_roots) \<union> set (kind_roots V Class_loader_data_graph_roots) \<union> set (kind_roots V Weak_processor_roots))"
    unfolding scan_roots_def set_append aot by (simp only: Un_ac)
  also have "\<dots> = vm_roots V" unfolding threads vm_roots_def kinds by (simp only: Un_ac)
  finally show ?thesis .
qed

section \<open>Properties\<close>

text \<open>
  C12. The parallel scan of the roots agrees with the reference. In a collection of the whole heap, scanning each mutator thread and then running the packets in
  any order reports the slots that \<^verbatim>\<open>MMTkHeap::scan_roots\<close> reports with one thread, and beyond them only slots of compiled methods that hold null (the
  code cache is reported from the registered slots, without reading them).
\<close>

theorem root_scans_agree:
  assumes "0 < n" and "enumerates_keys order" and "code_cache_inv cc" and "vm_root_env_ok co V cc" and "all_taggable co V"
    and "distinct ps" and "set ps = set scan_vm_specific_roots"
  shows "\<exists>cc1 f1 f2. collection_roots order n co False m V ps cc = Inr (cc1, f1)
     \<and> scan_with_closure co n m (scan_roots V) empty_factory = Inr f2
     \<and> set (concat (batches f1)) = set (concat (batches f2)) \<union> slot_of co ` {(p, narrow)\<in>set (blobs_do V). is_null_root m narrow p}"
proof -
  obtain cc1 f1 where f1: "collection_roots order n co False m V ps cc = Inr (cc1, f1)"
      "set (concat (batches f1)) = slot_of co ` ({(p, narrow)\<in>vm_roots V. \<not> is_null_root m narrow p} \<union> set (blobs_do V))"
    using collection_roots_reports[OF assms] by blast
  have "taggable co (scan_roots V)"
    using assms(5) scan_roots_set[OF assms(4)] by (auto simp: taggable_set all_taggable_def vm_roots_def)
  then obtain f2 where f2: "scan_with_closure co n m (scan_roots V) empty_factory = Inr f2"
      "concat (batches f2) = root_slots co m (scan_roots V)"
    using scan_with_closure_appends[OF assms(1), of empty_factory co "scan_roots V" m] by (auto simp: factory_ok_def empty_factory_def)
  have "set (concat (batches f2)) = slot_of co ` {(p, narrow)\<in>vm_roots V. \<not> is_null_root m narrow p}"
    unfolding f2(2) set_root_slots scan_roots_set[OF assms(4)] ..
  moreover have "{(p, narrow)\<in>vm_roots V. \<not> is_null_root m narrow p} \<union> set (blobs_do V)
      = {(p, narrow)\<in>vm_roots V. \<not> is_null_root m narrow p} \<union> {(p, narrow)\<in>set (blobs_do V). is_null_root m narrow p}"
    by (auto simp: vm_roots_def)
  ultimately show ?thesis using f1 f2(1) by (simp add: image_Un)
qed

text \<open>One Java thread with the roots of \<open>demo_roots\<close> and one compiled method whose only slot holds null.\<close>

definition demo_root_env :: vm_root_env where
  "demo_root_env = \<lparr>kind_roots = (\<lambda>k. if k = Universe_roots then [(0x300, True)] else []), java_threads = [0x7000],
     thread_oops = (\<lambda>t. demo_roots), threads_oops_do = (\<lambda>b. demo_roots), code_blobs = [0x10], blob_oops = (\<lambda>b. [(0x200, True)]), UseAOT = False\<rparr>"

definition demo_code_cache :: code_cache where
  "demo_code_cache = empty_code_cache\<lparr>NURSERY_CODE_CACHE_ROOTS := [0x10 \<mapsto> [0x200]]\<rparr>"

lemma demo_root_env_ok:
  "vm_root_env_ok True demo_root_env demo_code_cache" "all_taggable True demo_root_env" "code_cache_inv demo_code_cache"
  "set scan_vm_specific_roots = set scan_vm_specific_roots" "distinct scan_vm_specific_roots"
  by (auto simp: vm_root_env_ok_def demo_root_env_def demo_code_cache_def empty_code_cache_def blobs_do_def registered_def slot_of_def
      all_taggable_def taggable_def demo_roots_def user_addr_def code_cache_inv_def scan_vm_specific_roots_def)

theorem root_scans_agree_witness:
  "\<exists>cc1 f1 f2. collection_roots key_order 2 True False demo_roots_mem demo_root_env scan_vm_specific_roots demo_code_cache = Inr (cc1, f1)
     \<and> scan_with_closure True 2 demo_roots_mem (scan_roots demo_root_env) empty_factory = Inr f2
     \<and> set (concat (batches f1)) = set (concat (batches f2)) \<union> {0x200}"
proof -
  have "is_null_root demo_roots_mem True 0x200"
    by (simp add: is_null_root_def demo_roots_mem_def load32_def store64_def store32_def)
  then have "{(p, narrow)\<in>set (blobs_do demo_root_env). is_null_root demo_roots_mem narrow p} = {(0x200, True)}"
    by (auto simp: blobs_do_def demo_root_env_def)
  then have "slot_of True ` {(p, narrow)\<in>set (blobs_do demo_root_env). is_null_root demo_roots_mem narrow p} = {0x200}"
    by (simp add: slot_of_def)
  then show ?thesis
    using root_scans_agree[OF _ enumerates_key_order demo_root_env_ok(3,1,2,5,4), of 2 demo_roots_mem] by simp
qed

end
