(* ===== verification/Heap_Trace.thy ===== *)
theory Heap_Trace
  imports Root_Scan Object_Scanning
begin

text \<open>
  What a collection finds. The collector of mmtk-core follows the slots that the binding reports as roots and the slots that the binding's scan of
  an object visits, loading each through the binding's slot type; nothing else leads it to an object. This theory composes the root scans, the slots and the object scan: the
  objects found are exactly the objects of the Java heap that are strongly reachable.
\<close>

section \<open>Following slots\<close>

definition objects_in :: "(addr \<Rightarrow> addr option) \<Rightarrow> bool \<Rightarrow> compressed_oops \<Rightarrow> mem \<Rightarrow> addr set \<Rightarrow> addr set" where
  "objects_in from_raw_address co c m slots = {ob. \<exists>a\<in>slots. slot_load from_raw_address co c m a = Some ob}"

definition no_candidates :: candidates where
  "no_candidates = \<lparr>weak_candidates = [], soft_candidates = [], phantom_candidates = []\<rparr>"

text \<open>One object leads to another if its scan succeeds and visits a slot that holds it.\<close>

definition scan_edges ::
    "(addr \<Rightarrow> addr option) \<Rightarrow> (size_t \<Rightarrow> size_t \<Rightarrow> size_t) \<Rightarrow> bool \<Rightarrow> bool \<Rightarrow> compressed_oops \<Rightarrow> vm_layout \<Rightarrow> mem \<Rightarrow> (addr \<times> addr) set" where
  "scan_edges from_raw_address f co nr c vm m =
     {(ob, ob'). \<exists>slots cs. scan_object f co nr (\<lambda>a xs. xs @ [a]) vm m ob ([], no_candidates) = Inr (slots, cs)
        \<and> ob' \<in> objects_in from_raw_address co c m (set slots)}"

definition traced ::
    "(addr \<Rightarrow> addr option) \<Rightarrow> (size_t \<Rightarrow> size_t \<Rightarrow> size_t) \<Rightarrow> bool \<Rightarrow> bool \<Rightarrow> compressed_oops \<Rightarrow> vm_layout \<Rightarrow> mem \<Rightarrow> addr set \<Rightarrow> addr set" where
  "traced from_raw_address f co nr c vm m slots =
     (scan_edges from_raw_address f co nr c vm m)\<^sup>* `` objects_in from_raw_address co c m slots"

section \<open>Live objects\<close>

text \<open>The object that a root or a field refers to, at its width.\<close>

definition root_object :: "compressed_oops \<Rightarrow> mem \<Rightarrow> root \<Rightarrow> addr option" where
  "root_object c m = (\<lambda>(p, narrow). if is_null_root m narrow p then None
     else if narrow then decompress c (load32 m p) else Some (load64 m p))"

definition refers :: "(size_t \<Rightarrow> size_t \<Rightarrow> size_t) \<Rightarrow> bool \<Rightarrow> bool \<Rightarrow> compressed_oops \<Rightarrow> vm_layout \<Rightarrow> mem \<Rightarrow> (addr \<times> addr) set" where
  "refers f co nr c vm m = {(ob, ob'). \<exists>k. object_kind co vm m ob = Some k
     \<and> (\<exists>a\<in>reference_slots f co nr vm m ob k. root_object c m (a, co) = Some ob')}"

definition live ::
    "(size_t \<Rightarrow> size_t \<Rightarrow> size_t) \<Rightarrow> bool \<Rightarrow> bool \<Rightarrow> compressed_oops \<Rightarrow> vm_layout \<Rightarrow> mem \<Rightarrow> vm_root_env \<Rightarrow> addr set" where
  "live f co nr c vm m V = (refers f co nr c vm m)\<^sup>* `` {ob. \<exists>r\<in>vm_roots V. root_object c m r = Some ob}"

text \<open>Every live object can be scanned, and with compressed pointers its fields lie in the lower half of the address space.\<close>

definition heap_ok ::
    "(size_t \<Rightarrow> size_t \<Rightarrow> size_t) \<Rightarrow> bool \<Rightarrow> bool \<Rightarrow> compressed_oops \<Rightarrow> vm_layout \<Rightarrow> mem \<Rightarrow> vm_root_env \<Rightarrow> bool" where
  "heap_ok f co nr c vm m V \<longleftrightarrow> (\<forall>ob\<in>live f co nr c vm m V. scannable co nr vm m ob
     \<and> (\<forall>k. object_kind co vm m ob = Some k \<longrightarrow> co \<longrightarrow> (\<forall>a\<in>reference_slots f co nr vm m ob k. user_addr a)))
     \<and> (\<forall>r\<in>vm_roots V. snd r \<longrightarrow> co)"

section \<open>Lemmas\<close>

lemma rtrancl_image_cong:
  assumes "\<And>x y. x \<in> R\<^sup>* `` S \<Longrightarrow> (x, y) \<in> R \<longleftrightarrow> (x, y) \<in> Q"
  shows "Q\<^sup>* `` S = R\<^sup>* `` S"
proof
  show "R\<^sup>* `` S \<subseteq> Q\<^sup>* `` S"
  proof
    fix y assume "y \<in> R\<^sup>* `` S"
    then obtain x where "x \<in> S" "(x, y) \<in> R\<^sup>*" by blast
    from this(2,1) show "y \<in> Q\<^sup>* `` S"
      by (induction rule: rtrancl_induct) (auto intro: assms[THEN iffD1] rtrancl_into_rtrancl)
  qed
  show "Q\<^sup>* `` S \<subseteq> R\<^sup>* `` S"
  proof
    fix y assume "y \<in> Q\<^sup>* `` S"
    then obtain x where "x \<in> S" "(x, y) \<in> Q\<^sup>*" by blast
    from this(2,1) show "y \<in> R\<^sup>* `` S"
      by (induction rule: rtrancl_induct) (auto dest: assms[THEN iffD2, rotated] intro: rtrancl_into_rtrancl)
  qed
qed

lemma fold_snoc: "fold (\<lambda>a xs. xs @ [a]) ys xs = xs @ ys"
  by (induction ys arbitrary: xs) simp_all

lemma slot_load_field:
  "null_is_none fr \<Longrightarrow> co \<longrightarrow> user_addr a \<Longrightarrow> slot_load fr co c m a = root_object c m (a, co)"
  using slot_load_root[of fr co a co c m] by (simp add: root_object_def slot_of_def)

lemma scan_edges_refers:
  assumes "null_is_none fr" and "scannable co nr vm m ob" and "object_kind co vm m ob = Some k"
    and "co \<longrightarrow> (\<forall>a\<in>reference_slots f co nr vm m ob k. user_addr a)"
  shows "(ob, ob') \<in> scan_edges fr f co nr c vm m \<longleftrightarrow> (ob, ob') \<in> refers f co nr c vm m"
proof -
  obtain slots where s: "set slots = reference_slots f co nr vm m ob k"
      "scan_object f co nr (\<lambda>a xs. xs @ [a]) vm m ob ([], no_candidates) = Inr (slots, new_candidates co vm m nr ob no_candidates)"
    using scan_object_feeds[OF assms(3,2), of f "\<lambda>a xs. xs @ [a]" "([], no_candidates)"] by (auto simp: fold_snoc)
  have "slot_load fr co c m a = root_object c m (a, co)" if "a \<in> set slots" for a
    using slot_load_field[OF assms(1)] assms(4) that s(1) by blast
  then show ?thesis using s assms(3) by (auto simp: scan_edges_def refers_def objects_in_def)
qed

lemma objects_in_reported_slots:
  assumes "null_is_none fr" and "all_taggable co V" and "\<forall>r\<in>vm_roots V. snd r \<longrightarrow> co"
  shows "objects_in fr co c m (slot_of co ` ({(p, narrow)\<in>vm_roots V. \<not> is_null_root m narrow p} \<union> set (blobs_do V)))
    = {ob. \<exists>r\<in>vm_roots V. root_object c m r = Some ob}" (is "?l = ?r")
proof
  have load: "slot_load fr co c m (slot_of co r) = root_object c m r" if "r \<in> vm_roots V" for r
  proof -
    have "co \<longrightarrow> user_addr (fst r)" using assms(2) that by (auto simp: all_taggable_def taggable_set vm_roots_def)
    moreover have "snd r \<longrightarrow> co" using assms(3) that by blast
    ultimately show ?thesis using slot_load_root[OF assms(1), of co "fst r" "snd r" c m] by (simp add: root_object_def split: prod.splits)
  qed
  have blobs: "set (blobs_do V) \<subseteq> vm_roots V" by (auto simp: vm_roots_def)
  have "slot_load fr co c m (slot_of co r) = root_object c m r" if "r \<in> set (blobs_do V)" for r
    using load that blobs by blast
  then show "?l \<subseteq> ?r" unfolding objects_in_def using load blobs by fastforce
  show "?r \<subseteq> ?l"
  proof
    fix ob assume "ob \<in> ?r"
    then obtain r where r: "r \<in> vm_roots V" "root_object c m r = Some ob" by blast
    then have "r \<in> {(p, narrow)\<in>vm_roots V. \<not> is_null_root m narrow p}" by (auto simp: root_object_def split: if_splits prod.splits)
    then show "ob \<in> ?l" unfolding objects_in_def
      using load[OF r(1)] r(2) by (intro CollectI bexI[where x = "slot_of co r"] imageI UnI1) simp_all
  qed
qed

section \<open>Properties\<close>

text \<open>
  C2. A full collection finds exactly the live objects. If HotSpot enumerates its roots as documented and the live objects are well formed, the scan of all
  mutators and root packets succeeds, and following the reported slots and the slots that scanning visits leads to an
  object if and only if the object is strongly reachable from the roots of the VM.
\<close>

theorem collection_traces_live_objects:
  assumes "0 < n" and "enumerates_keys order" and "code_cache_inv cc" and "vm_root_env_ok co V cc" and "all_taggable co V"
    and "distinct ps" and "set ps = set scan_vm_specific_roots" and "null_is_none from_raw_address" and "heap_ok f co nr c vm m V"
  shows "\<exists>cc1 f1. collection_roots order n co False m V ps cc = Inr (cc1, f1)
     \<and> traced from_raw_address f co nr c vm m (set (concat (batches f1))) = live f co nr c vm m V"
proof -
  obtain cc1 f1 where f1: "collection_roots order n co False m V ps cc = Inr (cc1, f1)"
      "set (concat (batches f1)) = slot_of co ` ({(p, narrow)\<in>vm_roots V. \<not> is_null_root m narrow p} \<union> set (blobs_do V))"
    using collection_roots_reports[OF assms(1-7)] by blast
  have roots: "objects_in from_raw_address co c m (set (concat (batches f1))) = {ob. \<exists>r\<in>vm_roots V. root_object c m r = Some ob}"
    unfolding f1(2) using assms(5,8,9) unfolding heap_ok_def by (intro objects_in_reported_slots) blast+
  have "(x, y) \<in> refers f co nr c vm m \<longleftrightarrow> (x, y) \<in> scan_edges from_raw_address f co nr c vm m" if "x \<in> live f co nr c vm m V" for x y
  proof -
    have sc: "scannable co nr vm m x" using assms(9) that by (simp add: heap_ok_def)
    then obtain k where k: "object_kind co vm m x = Some k" by (auto simp: scannable_def split: option.splits)
    then have "co \<longrightarrow> (\<forall>a\<in>reference_slots f co nr vm m x k. user_addr a)" using assms(9) that unfolding heap_ok_def by blast
    from scan_edges_refers[OF assms(8) sc k this] show ?thesis ..
  qed
  then have "traced from_raw_address f co nr c vm m (set (concat (batches f1))) = live f co nr c vm m V"
    unfolding traced_def roots live_def by (rule rtrancl_image_cong)
  with f1(1) show ?thesis by blast
qed

text \<open>
  The objects of the example of \<open>Object_Scanning\<close>: a root at \<open>0x9000\<close> holds the array, whose first element is the weak reference object.
\<close>

definition demo_trace_mem :: mem where
  "demo_trace_mem = demo_mem(0x9001 := 0x30, 0x3019 := 0x10)"

definition demo_trace_env :: vm_root_env where
  "demo_trace_env = \<lparr>kind_roots = (\<lambda>k. if k = Universe_roots then [(0x9000, False)] else []), java_threads = [], thread_oops = (\<lambda>t. []),
     threads_oops_do = (\<lambda>b. []), code_blobs = [], blob_oops = (\<lambda>b. []), UseAOT = True\<rparr>"

abbreviation demo_oops :: compressed_oops where "demo_oops \<equiv> \<lparr>BASE = 0, SHIFT = 0\<rparr>"

lemma demo_trace_array:
  "object_kind False demo_vm demo_trace_mem 0x3000 = Some ObjArray"
  "reference_slots word_align_up False False demo_vm demo_trace_mem 0x3000 ObjArray = {0x3018, 0x3020, 0x3028}"
proof -
  have "array_base word_align_up False 0x3000 T_OBJECT = 0x3018"
    using array_base_T_OBJECT[OF word_align_up_aligns] by simp
  moreover have "array_length False demo_trace_mem 0x3000 = 3"
    by (simp add: array_length_def length_offset_eq demo_trace_mem_def demo_reads)
  moreover have "slot_array False 0x3018 3 = [0x3018, 0x3020, 0x3028]" by (simp add: slot_array_def upt_rec)
  ultimately show "reference_slots word_align_up False False demo_vm demo_trace_mem 0x3000 ObjArray = {0x3018, 0x3020, 0x3028}"
    by (simp add: reference_slots_def)
  show "object_kind False demo_vm demo_trace_mem 0x3000 = Some ObjArray"
    by (simp add: object_kind_def demo_trace_mem_def demo_reads enumerator_def klass_ids_def)
qed

lemma demo_trace_reference:
  "object_kind False demo_vm demo_trace_mem 0x1000 = Some InstanceRef"
  "object_reference_type False demo_vm demo_trace_mem 0x1000 = Some RefWeak"
  "reference_slots word_align_up False False demo_vm demo_trace_mem 0x1000 InstanceRef = {0x1018, 0x1020, 0x1028}"
proof -
  have klass: "oop_klass False demo_vm demo_trace_mem 0x1000 = 0x2000" by (simp add: demo_trace_mem_def demo_reads)
  show "object_kind False demo_vm demo_trace_mem 0x1000 = Some InstanceRef"
    by (simp add: object_kind_def klass) (simp add: demo_trace_mem_def demo_reads enumerator_def klass_ids_def)
  show t: "object_reference_type False demo_vm demo_trace_mem 0x1000 = Some RefWeak"
    by (simp add: object_reference_type_def klass) (simp add: reference_type_def demo_trace_mem_def demo_reads enumerator_def reference_types_def)
  have maps: "nonstatic_oop_maps word_align_up demo_trace_mem 0x2000 = [\<lparr>block_offset = 24, block_count = 2\<rparr>]"
    by (simp add: nonstatic_oop_maps_def nonstatic_oop_map_count_def start_of_itable_def start_of_vtable_def VTABLE_START_OFFSET_def
        HEADER_SIZE_def oop_map_at_def BYTES_IN_WORD_def LOG_BYTES_IN_WORD_def word_align_up_def demo_trace_mem_def demo_reads)
  have a: "slot_array False 0x1018 2 = [0x1018, 0x1020]" by (simp add: slot_array_def upt_rec)
  show "reference_slots word_align_up False False demo_vm demo_trace_mem 0x1000 InstanceRef = {0x1018, 0x1020, 0x1028}"
    using a by (simp add: reference_slots_def mapped_slots_def klass maps t strong_referent_def discovered_address_def
        get_field_address_def) (auto simp: demo_vm_def)
qed

lemma demo_loads:
  "load64 demo_trace_mem 0x9000 = 0x3000" "load64 demo_trace_mem 0x3018 = 0x1000"
  "load64 demo_trace_mem 0x3020 = 0" "load64 demo_trace_mem 0x3028 = 0"
  "load64 demo_trace_mem 0x1018 = 0" "load64 demo_trace_mem 0x1020 = 0" "load64 demo_trace_mem 0x1028 = 0"
  by (simp_all add: load64_def load32_def demo_trace_mem_def demo_mem_def)

lemma demo_root_objects:
  "root_object demo_oops demo_trace_mem (0x9000, False) = Some 0x3000" "root_object demo_oops demo_trace_mem (0x3018, False) = Some 0x1000"
  "root_object demo_oops demo_trace_mem (0x3020, False) = None" "root_object demo_oops demo_trace_mem (0x3028, False) = None"
  "root_object demo_oops demo_trace_mem (0x1018, False) = None" "root_object demo_oops demo_trace_mem (0x1020, False) = None"
  "root_object demo_oops demo_trace_mem (0x1028, False) = None"
  by (simp_all add: root_object_def is_null_root_def demo_loads)

lemma demo_refers:
  "(0x3000, ob) \<in> refers word_align_up False False demo_oops demo_vm demo_trace_mem \<longleftrightarrow> ob = 0x1000"
  "(0x1000, ob) \<notin> refers word_align_up False False demo_oops demo_vm demo_trace_mem"
  by (auto simp: refers_def demo_root_objects demo_trace_array demo_trace_reference)

lemma demo_live: "live word_align_up False False demo_oops demo_vm demo_trace_mem demo_trace_env = {0x3000, 0x1000}"
proof -
  let ?R = "refers word_align_up False False demo_oops demo_vm demo_trace_mem"
  have "vm_roots demo_trace_env = {(0x9000, False)}" by (auto simp: vm_roots_def demo_trace_env_def blobs_do_def split: if_splits)
  then have r: "live word_align_up False False demo_oops demo_vm demo_trace_mem demo_trace_env = ?R\<^sup>* `` {0x3000}"
    using demo_root_objects(1) by (simp add: live_def)
  have "y \<in> {0x3000, 0x1000}" if "(0x3000, y) \<in> ?R\<^sup>*" for y
    using that by (induction rule: rtrancl_induct) (auto simp: demo_refers)
  moreover have "(0x3000, 0x1000) \<in> ?R\<^sup>*" using demo_refers(1) by blast
  ultimately show ?thesis unfolding r by blast
qed

theorem collection_traces_live_objects_witness:
  "\<exists>cc1 f1. collection_roots key_order 2 False False demo_trace_mem demo_trace_env scan_vm_specific_roots empty_code_cache = Inr (cc1, f1)
     \<and> traced (\<lambda>a. if a = NULL then None else Some a) word_align_up False False demo_oops demo_vm demo_trace_mem (set (concat (batches f1)))
       = {0x3000, 0x1000}"
proof -
  have env: "vm_root_env_ok False demo_trace_env empty_code_cache" "all_taggable False demo_trace_env" "code_cache_inv empty_code_cache"
    by (auto simp: vm_root_env_ok_def all_taggable_def taggable_def code_cache_inv_def demo_trace_env_def empty_code_cache_def blobs_do_def registered_def)
  have heap: "heap_ok word_align_up False False demo_oops demo_vm demo_trace_mem demo_trace_env"
    unfolding heap_ok_def demo_live
    by (auto simp: scannable_def demo_trace_array demo_trace_reference vm_roots_def demo_trace_env_def blobs_do_def split: if_splits)
  have roots: "distinct scan_vm_specific_roots" by (simp add: scan_vm_specific_roots_def)
  have null: "null_is_none (\<lambda>a. if a = NULL then None else Some a)" by (simp add: null_is_none_def)
  have two: "0 < (2 :: nat)" by simp
  show ?thesis
    using collection_traces_live_objects[OF two enumerates_key_order env(3,1,2) roots refl null heap] unfolding demo_live .
qed

end
