(* ===== verification/Heap_Services.thy ===== *)
theory Heap_Services
  imports Allocation Heap_Lifecycle
begin

text \<open>
  The entry points of the heap that pass a request on: object allocation (\<^verbatim>\<open>mem_allocate\<close> of \<^verbatim>\<open>openjdk/mmtkHeap.cpp\<close>), the accessors of the heap
  object, the harness calls of a benchmark (\<^verbatim>\<open>openjdk/mmtkUpcalls.cpp\<close> and \<^verbatim>\<open>mmtk/src/api.rs\<close>), the remaining operations of the mutator
  context (\<^verbatim>\<open>openjdk/mmtkMutator.cpp\<close>), the collector policy (\<^verbatim>\<open>openjdk/mmtkCollectorPolicy.hpp\<close>) and the functions of the
  namespace \<^verbatim>\<open>third_party_heap\<close>.

  mmtk-core, HotSpot's change of the thread state and the heap alignment that HotSpot computes are parameters.
\<close>

section \<open>Allocation\<close>

definition LogHeapWordSize :: nat where
  "LogHeapWordSize = 3"

text \<open>
  The mutator of the current thread is at \<open>mutator\<close>. The size is in words. The flag \<^verbatim>\<open>gc_overhead_limit_was_exceeded\<close> is an output
  that neither function sets.
\<close>

definition mem_allocate ::
    "'s alloc_fn \<Rightarrow> 's post_alloc_fn \<Rightarrow> alloc_env \<Rightarrow> addr \<Rightarrow> size_t \<Rightarrow> 's \<Rightarrow> (addr \<times> 's) result" where
  "mem_allocate core_alloc core_post_alloc E mutator size_words s =
     MMTkMutatorContext_alloc core_alloc core_post_alloc E mutator (push_bit LogHeapWordSize size_words) AllocatorDefault s"

definition mem_allocate_nonmove ::
    "'s alloc_fn \<Rightarrow> 's post_alloc_fn \<Rightarrow> alloc_env \<Rightarrow> addr \<Rightarrow> size_t \<Rightarrow> 's \<Rightarrow> (addr \<times> 's) result" where
  "mem_allocate_nonmove core_alloc core_post_alloc E mutator size_words s =
     MMTkMutatorContext_alloc core_alloc core_post_alloc E mutator (push_bit LogHeapWordSize size_words) AllocatorLos s"

section \<open>The mutator context\<close>

definition MMTkMutatorContext_flush :: "(addr \<Rightarrow> 's \<Rightarrow> 's) \<Rightarrow> addr \<Rightarrow> 's \<Rightarrow> 's" where
  "MMTkMutatorContext_flush flush_mutator this s = flush_mutator this s"

definition MMTkMutatorContext_destroy :: "(addr \<Rightarrow> 's \<Rightarrow> 's) \<Rightarrow> addr \<Rightarrow> 's \<Rightarrow> 's" where
  "MMTkMutatorContext_destroy destroy_mutator this s = destroy_mutator this s"

section \<open>Accessors and hooks of the heap\<close>

text \<open>The static pointer to the heap, which the constructor sets, and the pointers that the accessors return.\<close>

record heap_pointers =
  collector_policy_ptr :: addr
  mmtk_manager_ptr :: addr
  gc_lock_ptr :: addr
  companion_thread_ptr :: addr

definition heap_name :: string where
  "heap_name = ''MMTk''"

definition companion_thread :: "heap_pointers \<Rightarrow> addr" where
  "companion_thread h = companion_thread_ptr h"

definition gc_lock :: "heap_pointers \<Rightarrow> addr" where
  "gc_lock h = gc_lock_ptr h"

definition collector_policy :: "heap_pointers \<Rightarrow> addr" where
  "collector_policy h = collector_policy_ptr h"

definition memory_managers :: "heap_pointers \<Rightarrow> addr list" where
  "memory_managers h = [mmtk_manager_ptr h]"

text \<open>Iteration over objects prints a warning and calls the closure on no object.\<close>

definition object_iterate :: "(addr \<Rightarrow> 'c \<Rightarrow> 'c) \<Rightarrow> 'c \<times> string list \<Rightarrow> 'c \<times> string list" where
  "object_iterate do_object = (\<lambda>(cl, err). (cl, err @ [''WARNING: MMTkHeap::object_iterate is not implemented, yet.'']))"

definition safe_object_iterate :: "(addr \<Rightarrow> 'c \<Rightarrow> 'c) \<Rightarrow> 'c \<times> string list \<Rightarrow> 'c \<times> string list" where
  "safe_object_iterate do_object = (\<lambda>(cl, err). (cl, err @ [''WARNING: MMTkHeap::safe_object_iterate is not implemented, yet.'']))"

definition gc_threads_do :: "(addr \<Rightarrow> 'c \<Rightarrow> 'c) \<Rightarrow> 'c \<Rightarrow> 'c" where
  "gc_threads_do do_thread tc = tc"

definition mmtk_schedule_finalizer :: "mmtk_heap \<Rightarrow> mmtk_heap option" where
  "mmtk_schedule_finalizer s = schedule_finalizer s"

section \<open>Harness calls\<close>

text \<open>
  The scope object \<^verbatim>\<open>ThreadInVMfromNative\<close> moves the current thread into the VM and, when the function returns, back: \<open>enter\<close> and
  \<open>leave\<close>. mmtk-core gets the uninitialized thread, a null pointer.
\<close>

definition mmtk_harness_begin_impl :: "(addr \<Rightarrow> 's \<Rightarrow> 's) \<Rightarrow> 's \<Rightarrow> 's" where
  "mmtk_harness_begin_impl core_harness_begin s = core_harness_begin NULL s"

definition mmtk_harness_end_impl :: "('s \<Rightarrow> 's) \<Rightarrow> 's \<Rightarrow> 's" where
  "mmtk_harness_end_impl core_harness_end s = core_harness_end s"

definition mmtk_harness_begin ::
    "('s \<Rightarrow> bool) \<Rightarrow> ('s \<Rightarrow> 's) \<Rightarrow> ('s \<Rightarrow> 's) \<Rightarrow> (addr \<Rightarrow> 's \<Rightarrow> 's) \<Rightarrow> 's \<Rightarrow> 's result" where
  "mmtk_harness_begin is_Java_thread enter leave core_harness_begin s =
     (if is_Java_thread s then Inr (leave (mmtk_harness_begin_impl core_harness_begin (enter s)))
      else Inl (Assert_failed ''Only Java thread can enter vm''))"

definition mmtk_harness_end :: "('s \<Rightarrow> bool) \<Rightarrow> ('s \<Rightarrow> 's) \<Rightarrow> ('s \<Rightarrow> 's) \<Rightarrow> ('s \<Rightarrow> 's) \<Rightarrow> 's \<Rightarrow> 's result" where
  "mmtk_harness_end is_Java_thread enter leave core_harness_end s =
     (if is_Java_thread s then Inr (leave (mmtk_harness_end_impl core_harness_end (enter s)))
      else Inl (Assert_failed ''Only Java thread can leave vm''))"

text \<open>The functions that a benchmark calls; the argument is ignored and the work goes through the upcall.\<close>

definition harness_begin ::
    "('s \<Rightarrow> bool) \<Rightarrow> ('s \<Rightarrow> 's) \<Rightarrow> ('s \<Rightarrow> 's) \<Rightarrow> (addr \<Rightarrow> 's \<Rightarrow> 's) \<Rightarrow> size_t \<Rightarrow> 's \<Rightarrow> 's result" where
  "harness_begin is_Java_thread enter leave core_harness_begin ident s = mmtk_harness_begin is_Java_thread enter leave core_harness_begin s"

definition harness_end ::
    "('s \<Rightarrow> bool) \<Rightarrow> ('s \<Rightarrow> 's) \<Rightarrow> ('s \<Rightarrow> 's) \<Rightarrow> ('s \<Rightarrow> 's) \<Rightarrow> size_t \<Rightarrow> 's \<Rightarrow> 's result" where
  "harness_end is_Java_thread enter leave core_harness_end ident s = mmtk_harness_end is_Java_thread enter leave core_harness_end s"

section \<open>Collector policy and the namespace third\_party\_heap\<close>

record MMTkCollectorPolicy =
  space_alignment :: size_t
  heap_alignment :: size_t

definition initialize_alignments :: "MMTkCollectorPolicy \<Rightarrow> MMTkCollectorPolicy" where
  "initialize_alignments p = (let p1 = p\<lparr>space_alignment := push_bit 19 1\<rparr> in p1\<lparr>heap_alignment := space_alignment p1\<rparr>)"

definition conservative_max_heap_alignment :: "size_t \<Rightarrow> size_t" where
  "conservative_max_heap_alignment compute_heap_alignment = compute_heap_alignment"

definition new_gc_arguments :: addr where
  "new_gc_arguments = NULL"

definition register_finalizer :: "(addr \<Rightarrow> 's \<Rightarrow> 's) \<Rightarrow> addr \<Rightarrow> 's \<Rightarrow> 's" where
  "register_finalizer add_finalizer ob s = add_finalizer ob s"

section \<open>Lemmas\<close>

lemma push_bit_words:
  fixes w :: size_t
  assumes "unat w < 2 ^ 61"
  shows "unat (push_bit LogHeapWordSize w) = 8 * unat w"
proof -
  have "push_bit LogHeapWordSize w = 8 * w" by (simp add: LogHeapWordSize_def push_bit_eq_mult mult.commute)
  then show ?thesis using assms by (simp add: unat_word_ariths)
qed

text \<open>A size of 2^61 words or more wraps around: the request is for fewer bytes.\<close>

lemma mem_allocate_wraps:
  "mem_allocate a p E mutator (w + 0x2000000000000000) s = mem_allocate a p E mutator w s"
proof -
  have "push_bit LogHeapWordSize (w + 0x2000000000000000) = push_bit LogHeapWordSize w"
    unfolding LogHeapWordSize_def push_bit_eq_mult distrib_right by simp
  then show ?thesis by (simp add: mem_allocate_def)
qed

text \<open>
  The harness calls leave the thread in the state in which the benchmark called them, and mmtk-core runs in the VM, provided HotSpot's change of the state
  is what it documents.
\<close>

lemma harness_begin_in_vm:
  assumes "\<And>s. P (enter s)" and "\<And>s t. P s \<Longrightarrow> core NULL s = t \<Longrightarrow> P t" and "\<And>s. P s \<Longrightarrow> Q (leave s)"
    and "is_Java_thread s"
  shows "\<exists>t. harness_begin is_Java_thread enter leave core ident s = Inr (leave t) \<and> t = core NULL (enter s) \<and> P t \<and> Q (leave t)"
proof -
  have "P (core NULL (enter s))" using assms(1,2) by blast
  then show ?thesis using assms(3,4) by (simp add: harness_begin_def mmtk_harness_begin_def mmtk_harness_begin_impl_def)
qed

lemma harness_other_thread:
  assumes "\<not> is_Java_thread s"
  shows "harness_begin is_Java_thread enter leave core ident s = Inl (Assert_failed ''Only Java thread can enter vm'')"
    and "harness_end is_Java_thread enter leave core' ident s = Inl (Assert_failed ''Only Java thread can leave vm'')"
  using assms by (simp_all add: harness_begin_def harness_end_def mmtk_harness_begin_def mmtk_harness_end_def)

lemma aligned_policy: "heap_alignment (initialize_alignments p) = 0x80000 \<and> space_alignment (initialize_alignments p) = 0x80000"
  by (simp add: initialize_alignments_def)

section \<open>Properties\<close>

text \<open>
  The heap asks mmtk-core for the bytes of the object. If the object has fewer than 2^61 words and the limit of the default space is set, \<open>mem_allocate\<close> asks once
  for 8 bytes a word, aligned to a word, in the large-object space exactly if the bytes reach the limit, \<open>mem_allocate_nonmove\<close> always in the
  large-object space; a non-null result, and only that, is announced with the same size and space.
\<close>

lemma mem_allocate_asks_for_bytes:
  assumes "unat size_words < 2 ^ 61" and "alloc_env.max_non_los_default_alloc_bytes E \<noteq> 0"
  shows "\<exists>bytes. unat bytes = 8 * unat size_words
     \<and> mem_allocate core_alloc core_post_alloc E mutator size_words s =
         (let los = unat (alloc_env.max_non_los_default_alloc_bytes E) \<le> 8 * unat size_words;
              (ob, s1) = core_alloc mutator bytes 8 0 (if los then AllocatorLos else AllocatorDefault) s
          in Inr (ob, if ob = NULL then s1 else core_post_alloc mutator ob bytes (if los then AllocatorLos else AllocatorDefault) s1))
     \<and> mem_allocate_nonmove core_alloc core_post_alloc E mutator size_words s =
         (let (ob, s1) = core_alloc mutator bytes 8 0 AllocatorLos s
          in Inr (ob, if ob = NULL then s1 else core_post_alloc mutator ob bytes AllocatorLos s1))"
  using assms(2) push_bit_words[OF assms(1)]
  by (intro exI[of _ "push_bit LogHeapWordSize size_words"])
    (simp add: mem_allocate_def mem_allocate_nonmove_def MMTkMutatorContext_alloc_def word_le_nat_alt Let_def split: prod.splits)

lemma mem_allocate_asks_for_bytes_instance:
  "mem_allocate (\<lambda>m bytes align offset a st. (0x50000000, (a, bytes) # st)) (\<lambda>m ob bytes a st. (a, ob) # st) demo_alloc_env 0x7000 2 []
     = Inr (0x50000000, [(AllocatorDefault, 0x50000000), (AllocatorDefault, 16)])
   \<and> mem_allocate_nonmove (\<lambda>m bytes align offset a st. (0, (a, bytes) # st)) (\<lambda>m ob bytes a st. (a, ob) # st) demo_alloc_env 0x7000 2 []
     = Inr (0, [(AllocatorLos, 16)])"
proof -
  have E: "unat (2 :: size_t) < 2 ^ 61" "alloc_env.max_non_los_default_alloc_bytes demo_alloc_env \<noteq> 0"
      "\<not> unat (alloc_env.max_non_los_default_alloc_bytes demo_alloc_env) \<le> 16"
    by (simp_all add: demo_alloc_env_def)
  have b: "bytes = 16" if "unat bytes = 16" for bytes :: size_t
    using that by (simp add: word_unat_eq_iff)
  show ?thesis
    using mem_allocate_asks_for_bytes[OF E(1,2), of "\<lambda>m bytes align offset a st. (0x50000000, (a, bytes) # st)" "\<lambda>m ob bytes a st. (a, ob) # st" "0x7000" "[]"]
      mem_allocate_asks_for_bytes[OF E(1,2), of "\<lambda>m bytes align offset a st. (0, (a, bytes) # st)" "\<lambda>m ob bytes a st. (a, ob) # st" "0x7000" "[]"]
      E(3) by (auto simp: Let_def dest: b)
qed

end
