(* ===== verification/Spec2Isabelle.thy ===== *)
theory Spec2Isabelle
  imports Barrier_Runtime Barrier_Assembler Barrier_C1 Barrier_C2 Allocation
    Companion_Protocol Block_For_GC Finalizer Reference_Pending Slots Roots_Closure Code_Cache Heap_Config
    Stop_The_World VM_Upcalls Heap_Lifecycle Slot_Range Object_Layout Object_Scanning Object_Model Foreign_Interface
    GC_Init Expand_Refinement Barrier_Classes Root_Scan Heap_Trace Heap_Services
begin

text \<open>
  A verification development for the MMTk binding of OpenJDK 11 (\<^verbatim>\<open>src/openjdk\<close>, C++, and \<^verbatim>\<open>src/mmtk/src\<close>, Rust).

  \<^bold>\<open>The program.\<close> The binding makes HotSpot run on the garbage collectors of mmtk-core. HotSpot calls it for
  allocation, for accesses to references (through the runtime, the interpreter and the two compilers, each
  with its own barrier code) and at start-up; mmtk-core calls it (\<^verbatim>\<open>OpenJDK_Upcalls\<close>) to stop and resume the world, to
  enumerate roots, to hand over references and objects to be finalized. Neither HotSpot nor mmtk-core is part of the
  repository: what the code uses of them is a parameter of the definitions, and the theorems name what they rely on.

  \<^bold>\<open>The theories\<close>, each importing the ones it builds on:

  \<^item> \<open>Prelude\<close>: words, byte-addressed memory with 32- and 64-bit accesses, failures as values, reachable
    states. Locales \<open>safety_system\<close> (invariants of step relations), its extension \<open>simulation\<close> (a system seen as another
    one) and \<open>functional_refinement\<close> (operations that implement a specification).
  \<^item> \<open>Side_Metadata\<close>: the tables of one bit per heap word (unlog bits, valid-object bits). Locale
    \<open>unlog_test\<close>: the contract of a barrier fast path, interpreted for the runtime, the assembler, C1 and C2.
  \<^item> \<open>Barrier_Runtime\<close>: \<^verbatim>\<open>mmtkBarrierSet.{hpp,cpp}\<close> and the runtime classes of \<^verbatim>\<open>barriers/\<close>. The state is
    memory and the list of calls into mmtk-core, each with the memory at the time of the call. Shown: a
    reference store under the snapshot barrier reports the old state of an unlogged object before the store
    changes it; the object barrier remembers a written object once; the fast path only saves calls that would have had no effect; the selected
    barrier is used in all four parts of the barrier set.
  \<^item> \<open>X86_Machine\<close>: a small x86-64 machine (registers, flags, stack, memory, calls) and the lemmas for executing
    code with forward jumps; programs are finite and jumps go forward, so execution needs no fuel beyond the length of the
    program.
  \<^item> \<open>Barrier_Assembler\<close>: the generators of interpreter barriers (\<^verbatim>\<open>mmtkBarrierSetAssembler_x86\<close> and the assembler
    classes of \<^verbatim>\<open>barriers/\<close>), as functions to instruction lists. Shown: the emitted code has the effects of the
    runtime barriers on the machine, for stores (of null too, where \<^verbatim>\<open>rax\<close> is reported as the target), weak loads and array copies,
    whose epilogue reports what the prologue saved.
  \<^item> \<open>Barrier_C1\<close>, \<open>Barrier_C2\<close>: the same for the LIR and stubs of C1 and the ideal graph of C2, with the sites where C2
    omits barriers.
  \<^item> \<open>Barrier_Classes\<close>: the class hierarchy of the barriers: which function a virtual call reaches, by search through the superclasses. Shown: the
    definitions above, which choose by the kind of barrier, choose as C++ does; the slow paths of C1 are complete.
  \<^item> \<open>Mutator_Layout\<close>: the structs of \<^verbatim>\<open>mmtkMutator.hpp\<close> laid out by the C++ ABI; the offsets of the allocation
    area that compiled code uses are those of cursor and limit of the selected allocator.
  \<^item> \<open>Allocation\<close>: \<^verbatim>\<open>eden_allocate\<close> executed on the machine, the outcome of C2's \<^verbatim>\<open>expand_allocate\<close> and \<^verbatim>\<open>MMTkMutatorContext::alloc\<close>.
    Locale \<open>bump_allocator\<close>, interpreted for both fast paths. Shown: objects are disjoint and inside
    the area, oversized ones go to the large-object space, and where the paths disagree.
  \<^item> \<open>Node_Graph\<close>: C2's graph of nodes: creating nodes, setting inputs, replacing and removing nodes, the loop over the uses of a node
    (a partial function, shown to return), and the evaluation of nodes to words, memory and control, by fuel that any larger fuel agrees with.
  \<^item> \<open>Expand_Allocate\<close>, \<open>Expand_Refinement\<close>: all of \<^verbatim>\<open>expand_allocate\<close> on that graph. Shown: the expansion ends, redirects the uses
    of the allocation to the merge point and nothing else, and the nodes evaluate to what the allocation as a function gives.
  \<^item> \<open>Companion_Protocol\<close>: \<^verbatim>\<open>mmtkVMCompanionThread\<close> with the requests of \<^verbatim>\<open>mmtk_stop_all_mutators\<close> and
    \<^verbatim>\<open>mmtk_resume_mutators\<close>; a step relation over GC thread, companion thread and VM thread. Shown: assertions
    hold, the world is stopped while the collector believes so, no wake-up is lost, and a request is fulfilled within
    77 steps of any schedule (a bound on a rank function, not tuned).
  \<^item> \<open>Block_For_GC\<close>: \<^verbatim>\<open>mmtk_block_for_gc\<close> for any number of mutators and the 64-bit counter, up to its wrap-around.
  \<^item> \<open>Stop_The_World\<close>: the two protocols above composed; seen through either part the system is that protocol, and while the collector
    runs, no mutator does.
  \<^item> \<open>VM_Upcalls\<close>: collector threads, the enumeration of mutators on both sides, and the calls that a collection makes into HotSpot.
    Shown: threads are told apart in every reachable state; the opening and closing calls of any number of collections
    are bracketed, and all but five named calls are made while the world is stopped.
  \<^item> \<open>Finalizer\<close>: \<^verbatim>\<open>mmtkFinalizerThread\<close>; every object made ready is taken exactly once and the thread comes to rest; each is finalized as
    long as no \<^verbatim>\<open>finalize\<close> method leaves an exception pending, which the code never clears.
  \<^item> \<open>Reference_Pending\<close>: \<^verbatim>\<open>mmtk_enqueue_references\<close> and the stop-the-world operation's \<^verbatim>\<open>Heap_lock\<close>.
  \<^item> \<open>Slots\<close>: \<^verbatim>\<open>slots.rs\<close> and the heap layout of \<^verbatim>\<open>lib.rs\<close>: tagged slots and compressed pointers, their round
    trips and the page where they fail.
  \<^item> \<open>Slot_Range\<close>: ranges of slots, their iterator (a partial function, shown to return) and the ranges of array copies.
  \<^item> \<open>Object_Layout\<close>: \<^verbatim>\<open>abi.rs\<close>: the layouts of HotSpot's classes and objects, reading class, size, length and reference
    map from raw memory, and the check of the layouts at start-up, which is blind to \<^verbatim>\<open>InstanceKlass\<close>.
  \<^item> \<open>Object_Scanning\<close>: \<^verbatim>\<open>object_scanning.rs\<close>: for every visitor the scan is a walk over exactly the reference slots of the object; when
    it is defined; it stays within the object.
  \<^item> \<open>Object_Model\<close>: \<^verbatim>\<open>object_model.rs\<close>, \<^verbatim>\<open>reference_glue.rs\<close> and the scanning upcall. Locales \<open>object_mover\<close> and
    \<open>framed_mover\<close>: what a move keeps of an object, interpreted for the ascending loop of \<^verbatim>\<open>copy_to\<close>, the block copy of \<^verbatim>\<open>copy\<close>
    and the raw copy of slot ranges.
  \<^item> \<open>Foreign_Interface\<close>: the table of upcalls and the declared functions on both sides of the language boundary, compared by name
    and calling convention (signatures only).
  \<^item> \<open>Roots_Closure\<close>: \<^verbatim>\<open>mmtkRootsClosure.hpp\<close> and the Rust callback; buffers do not overflow or leak and every
    root is reported once, in a form that the Rust side reads back as the root.
  \<^item> \<open>Code_Cache\<close>: compiled methods as roots (\<^verbatim>\<open>mmtkHeap.cpp\<close>, \<^verbatim>\<open>api.rs\<close>, \<^verbatim>\<open>gc_work.rs\<close>) as an implementation of a
    registry, and the root packets of a collection.
  \<^item> \<open>Root_Scan\<close>: the roots of a whole collection (threads, then packets) report what the reference \<^verbatim>\<open>MMTkHeap::scan_roots\<close> reports with one closure.
  \<^item> \<open>Heap_Trace\<close>: roots, slots and object scanning composed: what a collection can reach through them is exactly the set of live objects.
  \<^item> \<open>Heap_Config\<close>: arguments, options and the initialization of \<^verbatim>\<open>MMTkHeap\<close>, which runs that of the Rust side (\<open>GC_Init\<close>), and
    \<^verbatim>\<open>mmtkMemoryPool\<close>. Shown: afterwards HotSpot and the Rust side have the same singleton, base and shift for compressed pointers.
  \<^item> \<open>Heap_Lifecycle\<close>: the heap object after its initialization: enabling collection (the finalizer thread exists before the first
    collection), requests, times and queries.
  \<^item> \<open>Heap_Services\<close>: the entry points that pass a request on: object allocation in bytes, the harness calls with their change of the thread state,
    accessors, the collector policy and the namespace \<^verbatim>\<open>third_party_heap\<close>.
  \<^item> \<open>GC_Init\<close>: the once-only initialization of the Rust side (\<^verbatim>\<open>slots.rs\<close>, \<^verbatim>\<open>api.rs\<close>, \<^verbatim>\<open>lib.rs\<close>): in any order of calls at most one of the
    two lazily created singletons exists, and after start-up every use finds it.

  \<^bold>\<open>Conventions.\<close> Definitions carry the names of the source, prefixed with the class where names repeat
  (\<open>ObjectRuntime_\<close>, \<open>SATBAsm_\<close>, ...). Machine integers are words of their width; \<^verbatim>\<open>guarantee\<close>, \<^verbatim>\<open>assert\<close> and aborts are left
  injections. In the step relations the code between two points where a thread can block is one function
  on the shared state; monitors may wake a thread without notification.

  \<^bold>\<open>Not modelled\<close>: type aliases, printing of objects and verification hooks, the upcalls that return an offset of HotSpot's classes, the forwarding
  functions of \<^verbatim>\<open>api.rs\<close> whose effect is mmtk-core's, the metadata specifications of \<^verbatim>\<open>vm_metadata\<close> (tables that only mmtk-core interprets), and the nodes
  that HotSpot's \<^verbatim>\<open>initialize_object\<close> builds (one node here). How mmtk-core schedules the trace is not modelled either: \<open>Heap_Trace\<close> says what
  following slots reaches, not in which order. Instruction selection, register allocation and memory ordering of concurrent hardware are
  outside the models.
\<close>

end
